(* ===== verification/Prelude.thy ===== *)
theory Prelude
  imports Main "HOL-Library.Word" "HOL-Library.State_Monad"
begin

text \<open>
  Shared ground of the development: the Go values every package uses (identifiers, instants,
  errors), the state monad in which the effectful code is written, and the two small logics the
  component proofs run on.

  \<^item> \<open>wp\<close> is the weakest precondition of a stateful computation; its simplification rules
    (collection \<open>wp_simps\<close>) push it through \<open>do\<close> blocks, error propagation, \<open>if\<close> and
    \<open>case\<close>.
  \<^item> \<open>state_io_rel\<close> of the library relates the state before to the state after; the collection
    \<open>io_intros\<close> proves it for a whole operation from its parts, for any reflexive and
    transitive relation.
\<close>

section \<open>Go values\<close>

text \<open>\<open>uuid.UUID\<close> is an array of 16 bytes: 128 bits, with \<open>uuid.Nil\<close> all zero.\<close>

type_synonym uuid = "128 word"

abbreviation uuid_Nil :: uuid where
  "uuid_Nil \<equiv> 0"

text \<open>A \<open>time.Time\<close> is its instant, in nanoseconds; a \<open>time.Duration\<close> counts nanoseconds.\<close>

type_synonym go_time = int
type_synonym go_duration = int

abbreviation Second :: go_duration where
  "Second \<equiv> 1000000000"

text \<open>
  The error values of the program: the sentinels of \<open>auth/errors.go\<close>, \<open>todo/service.go\<close> and
  \<open>http/decode.go\<close>, the driver's \<open>pgx.ErrNoRows\<close>, the failures of a database statement, and
  \<open>ErrText\<close> for the errors made by \<open>errors.New\<close> or \<open>fmt.Errorf\<close> that no code compares.
  \<open>NilDereference\<close> stands for the run-time panic of reading through a nil pointer.
\<close>

datatype db_error =
    NotNullViolation string
  | UniqueViolation string
  | ForeignKeyViolation string
  | ConnectionFailure

datatype go_error =
    ErrNoRows
  | DatabaseError db_error
  | ErrInvalidCredentials
  | ErrUserNotFound
  | ErrUserAlreadyExists
  | ErrApprovedEmailExists
  | ErrApprovedUserNotFound
  | ErrInvalidInput
  | ErrTodoNotFound
  | ErrTodoNotOwned
  | ErrInvalidTodoParams
  | ErrBodyTooLarge
  | NilDereference
  | ErrText string

text \<open>A Go \<open>interface{}\<close> value, as far as the program inspects one.\<close>

datatype any = AnyNil | AnyString string | AnyInt int | AnyList "any list" | AnyOther

section \<open>Stateful computations that may fail\<close>

text \<open>
  A Go function returning \<open>(T, error)\<close> yields \<open>Inl err\<close> or \<open>Inr value\<close>. \<open>tryE m f\<close> is the
  idiom \<open>v, err := m; if err != nil { return err }; f(v)\<close>.
\<close>

definition tryE :: "('s, 'e + 'a) state \<Rightarrow> ('a \<Rightarrow> ('s, 'e + 'b) state) \<Rightarrow> ('s, 'e + 'b) state" where
  "tryE m f = do {
     r \<leftarrow> m;
     case r of Inl e \<Rightarrow> State_Monad.return (Inl e) | Inr x \<Rightarrow> f x
   }"

text \<open>
  Go pointers are options, \<open>None\<close> being nil. Reading through a nil pointer panics; \<open>deref\<close> yields
  the panic as \<open>NilDereference\<close>, and the correctness theorems show it does not occur.
\<close>

definition deref :: "'a option \<Rightarrow> ('s, go_error + 'a) state" where
  "deref p = State_Monad.return (case p of None \<Rightarrow> Inl NilDereference | Some x \<Rightarrow> Inr x)"

text \<open>A call that cannot change the state.\<close>

definition pure_call :: "'a \<Rightarrow> ('s, 'a) state" where
  "pure_call r = State_Monad.return r"

text \<open>Running a computation on a component of a larger state.\<close>

definition zoom :: "('w \<Rightarrow> 's) \<Rightarrow> ('s \<Rightarrow> 'w \<Rightarrow> 'w) \<Rightarrow> ('s, 'a) state \<Rightarrow> ('w, 'a) state" where
  "zoom get put m = State (\<lambda>w. case run_state m (get w) of (r, s) \<Rightarrow> (r, put s w))"

lemma run_state_zoom [simp]:
  "run_state (zoom get put m) w = (case run_state m (get w) of (r, s) \<Rightarrow> (r, put s w))"
  by (simp add: zoom_def)

lemma run_state_tryE [simp]:
  "run_state (tryE m f) s =
     (case run_state m s of (Inl e, s') \<Rightarrow> (Inl e, s') | (Inr x, s') \<Rightarrow> run_state (f x) s')"
  by (simp add: tryE_def split: prod.splits sum.splits)

section \<open>Weakest preconditions\<close>

named_theorems wp_simps \<open>rewrite rules for the weakest precondition\<close>

definition wp :: "('s, 'a) state \<Rightarrow> ('a \<Rightarrow> 's \<Rightarrow> bool) \<Rightarrow> 's \<Rightarrow> bool" where
  "wp m Q s \<longleftrightarrow> (case run_state m s of (r, s') \<Rightarrow> Q r s')"

lemma wp_return [wp_simps]: "wp (State_Monad.return x) Q s \<longleftrightarrow> Q x s"
  by (simp add: wp_def)

lemma wp_bind [wp_simps]: "wp (State_Monad.bind m f) Q s \<longleftrightarrow> wp m (\<lambda>x. wp (f x) Q) s"
  by (simp add: wp_def split: prod.splits)

lemma wp_tryE [wp_simps]:
  "wp (tryE m f) Q s \<longleftrightarrow> wp m (\<lambda>r. case r of Inl e \<Rightarrow> Q (Inl e) | Inr x \<Rightarrow> wp (f x) Q) s"
  by (simp add: wp_def split: prod.splits sum.splits)

lemma wp_deref [wp_simps]:
  "wp (deref p) Q s \<longleftrightarrow> (case p of None \<Rightarrow> Q (Inl NilDereference) s | Some x \<Rightarrow> Q (Inr x) s)"
  by (cases p) (simp_all add: deref_def wp_return)

lemma wp_pure_call [wp_simps]: "wp (pure_call r) Q s \<longleftrightarrow> Q r s"
  by (simp add: pure_call_def wp_return)

lemma wp_zoom [wp_simps]:
  "wp (zoom get put m) Q w \<longleftrightarrow> wp m (\<lambda>r s. Q r (put s w)) (get w)"
  by (simp add: wp_def split: prod.splits)

lemma wp_if [wp_simps]: "wp (if b then m else n) Q s \<longleftrightarrow> (if b then wp m Q s else wp n Q s)"
  by simp

lemma wp_case_sum [wp_simps]:
  "wp (case r of Inl e \<Rightarrow> f e | Inr x \<Rightarrow> g x) Q s \<longleftrightarrow>
     (case r of Inl e \<Rightarrow> wp (f e) Q s | Inr x \<Rightarrow> wp (g x) Q s)"
  by (cases r) simp_all

lemma wp_case_option [wp_simps]:
  "wp (case r of None \<Rightarrow> m | Some x \<Rightarrow> g x) Q s \<longleftrightarrow>
     (case r of None \<Rightarrow> wp m Q s | Some x \<Rightarrow> wp (g x) Q s)"
  by (cases r) simp_all

lemma wp_run: "run_state m s = (r, s') \<Longrightarrow> wp m Q s \<longleftrightarrow> Q r s'"
  by (simp add: wp_def)

lemma wpD: "wp m Q s \<Longrightarrow> run_state m s = (r, s') \<Longrightarrow> Q r s'"
  by (simp add: wp_def)

lemma wpI: "(\<And>r s'. run_state m s = (r, s') \<Longrightarrow> Q r s') \<Longrightarrow> wp m Q s"
  by (simp add: wp_def split: prod.splits)

lemma wp_mono: "wp m P s \<Longrightarrow> (\<And>r s'. P r s' \<Longrightarrow> Q r s') \<Longrightarrow> wp m Q s"
  by (auto simp: wp_def split: prod.splits)

section \<open>Relating the state before to the state after\<close>

named_theorems io_intros \<open>introduction rules for state relations\<close>

lemma io_return [io_intros]: "reflp R \<Longrightarrow> state_io_rel R (State_Monad.return x)"
  by (auto simp: state_io_rel_def reflp_def)

lemma io_bind [io_intros]:
  assumes "transp R" and "state_io_rel R m" and "\<And>x. state_io_rel R (f x)"
  shows "state_io_rel R (State_Monad.bind m f)"
  using assms by (auto simp: state_io_rel_def split: prod.splits dest: transpD) (metis snd_conv transpD)

lemma io_tryE [io_intros]:
  assumes "reflp R" and "transp R" and "state_io_rel R m" and "\<And>x. state_io_rel R (f x)"
  shows "state_io_rel R (tryE m f)"
  unfolding tryE_def
  using assms by (intro io_bind) (auto split: sum.splits intro: io_return)

lemma io_deref [io_intros]: "reflp R \<Longrightarrow> state_io_rel R (deref p)"
  by (simp add: deref_def io_return)

lemma io_pure_call [io_intros]: "reflp R \<Longrightarrow> state_io_rel R (pure_call r)"
  by (simp add: pure_call_def io_return)

lemma io_if [io_intros]:
  "state_io_rel R m \<Longrightarrow> state_io_rel R n \<Longrightarrow> state_io_rel R (if b then m else n)"
  by simp

lemma io_case_sum [io_intros]:
  "(\<And>e. r = Inl e \<Longrightarrow> state_io_rel R (f e)) \<Longrightarrow> (\<And>x. r = Inr x \<Longrightarrow> state_io_rel R (g x)) \<Longrightarrow>
   state_io_rel R (case r of Inl e \<Rightarrow> f e | Inr x \<Rightarrow> g x)"
  by (cases r) simp_all

lemma io_case_option [io_intros]:
  "(r = None \<Longrightarrow> state_io_rel R m) \<Longrightarrow> (\<And>x. r = Some x \<Longrightarrow> state_io_rel R (g x)) \<Longrightarrow>
   state_io_rel R (case r of None \<Rightarrow> m | Some x \<Rightarrow> g x)"
  by (cases r) simp_all

lemma io_zoom:
  assumes "state_io_rel R m" and "\<And>w s. R (get w) s \<Longrightarrow> S w (put s w)"
  shows "state_io_rel S (zoom get put m)"
  using assms by (auto simp: state_io_rel_def split: prod.splits) (metis snd_conv)

lemma io_run: "state_io_rel R m \<Longrightarrow> run_state m s = (r, s') \<Longrightarrow> R s s'"
  by (auto simp: state_io_rel_def dest: spec [of _ s])

text \<open>Keeping a predicate is such a relation.\<close>

definition keeps :: "('s \<Rightarrow> bool) \<Rightarrow> 's \<Rightarrow> 's \<Rightarrow> bool" where
  "keeps I s s' \<longleftrightarrow> (I s \<longrightarrow> I s')"

lemma reflp_keeps [simp]: "reflp (keeps I)" and transp_keeps [simp]: "transp (keeps I)"
  by (auto simp: keeps_def reflp_def transp_def)

lemma keepsI: "(I s \<Longrightarrow> I s') \<Longrightarrow> keeps I s s'"
  by (simp add: keeps_def)

lemma keepsD: "keeps I s s' \<Longrightarrow> I s \<Longrightarrow> I s'"
  by (simp add: keeps_def)

section \<open>Answers of a data source\<close>

text \<open>
  The shapes of answer the contracts of the repositories use. \<open>up\<close> says that no request or reply is
  lost; otherwise a call may also answer that the connection failed.
\<close>

abbreviation conn_lost :: go_error where
  "conn_lost \<equiv> DatabaseError ConnectionFailure"

text \<open>A read answers \<open>P\<close>, or the connection failed.\<close>

definition reads :: "bool \<Rightarrow> ('a \<Rightarrow> bool) \<Rightarrow> go_error + 'a \<Rightarrow> bool" where
  "reads up P r = (case r of Inr x \<Rightarrow> P x | Inl e \<Rightarrow> \<not> up \<and> e = conn_lost)"

text \<open>A lookup answers an element of \<open>S\<close>, \<open>ErrNoRows\<close> when there is none, or the connection failed.\<close>

definition lookup :: "bool \<Rightarrow> 'a set \<Rightarrow> go_error + 'a option \<Rightarrow> bool" where
  "lookup up S r = (case r of
     Inr None \<Rightarrow> False
   | Inr (Some x) \<Rightarrow> x \<in> S
   | Inl e \<Rightarrow> (e = ErrNoRows \<and> S = {}) \<or> (\<not> up \<and> e = conn_lost))"

text \<open>
  A write answers \<open>x\<close> with effect \<open>eff x\<close>, or it is refused without an effect, or the connection
  failed and the effect is in doubt.
\<close>

definition writes :: "bool \<Rightarrow> ('a \<Rightarrow> 'v \<Rightarrow> 'v \<Rightarrow> bool) \<Rightarrow> ('v \<Rightarrow> go_error \<Rightarrow> bool) \<Rightarrow>
    'v \<Rightarrow> go_error + 'a \<Rightarrow> 'v \<Rightarrow> bool" where
  "writes up eff refused v r v' = (case r of
     Inr x \<Rightarrow> eff x v v'
   | Inl e \<Rightarrow> (v' = v \<and> refused v e) \<or>
       (\<not> up \<and> e = conn_lost \<and> (v' = v \<or> (\<exists>x. eff x v v'))))"

lemma reads_simps [simp]:
  "reads up P (Inr x) \<longleftrightarrow> P x" "reads up P (Inl e) \<longleftrightarrow> \<not> up \<and> e = conn_lost"
  by (simp_all add: reads_def)

lemma lookup_simps [simp]:
  "lookup up S (Inr (Some x)) \<longleftrightarrow> x \<in> S" "\<not> lookup up S (Inr None)"
  "lookup up S (Inl e) \<longleftrightarrow> (e = ErrNoRows \<and> S = {}) \<or> (\<not> up \<and> e = conn_lost)"
  by (simp_all add: lookup_def)

lemma writes_simps [simp]:
  "writes up eff refused v (Inr x) v' \<longleftrightarrow> eff x v v'"
  "writes up eff refused v (Inl e) v' \<longleftrightarrow> (v' = v \<and> refused v e) \<or>
     (\<not> up \<and> e = conn_lost \<and> (v' = v \<or> (\<exists>x. eff x v v')))"
  by (simp_all add: writes_def)

text \<open>Using a law of a contract inside a larger computation.\<close>

lemma wp_lookupI:
  assumes law: "wp m (\<lambda>r s'. ok s' \<and> view s' = view s \<and> lookup up S r) s"
    and found: "\<And>x s'. ok s' \<Longrightarrow> view s' = view s \<Longrightarrow> x \<in> S \<Longrightarrow> Q (Inr (Some x)) s'"
    and none: "\<And>s'. ok s' \<Longrightarrow> view s' = view s \<Longrightarrow> S = {} \<Longrightarrow> Q (Inl ErrNoRows) s'"
    and lost: "\<And>s'. ok s' \<Longrightarrow> view s' = view s \<Longrightarrow> \<not> up \<Longrightarrow> Q (Inl conn_lost) s'"
  shows "wp m Q s"
proof (rule wp_mono [OF law])
  fix r s'
  assume "ok s' \<and> view s' = view s \<and> lookup up S r"
  then show "Q r s'"
    using found none lost by (auto simp: lookup_def split: sum.splits option.splits)
qed

lemma wp_readI:
  assumes law: "wp m (\<lambda>r s'. ok s' \<and> view s' = view s \<and> reads up P r) s"
    and found: "\<And>x s'. ok s' \<Longrightarrow> view s' = view s \<Longrightarrow> P x \<Longrightarrow> Q (Inr x) s'"
    and lost: "\<And>s'. ok s' \<Longrightarrow> view s' = view s \<Longrightarrow> \<not> up \<Longrightarrow> Q (Inl conn_lost) s'"
  shows "wp m Q s"
proof (rule wp_mono [OF law])
  fix r s'
  assume "ok s' \<and> view s' = view s \<and> reads up P r"
  then show "Q r s'"
    using found lost by (auto simp: reads_def split: sum.splits)
qed

lemma wp_writeI:
  assumes law: "wp m (\<lambda>r s'. ok s' \<and> writes up eff refused (view s) r (view s')) s"
    and step: "\<And>r s'. ok s' \<Longrightarrow> writes up eff refused (view s) r (view s') \<Longrightarrow> Q r s'"
  shows "wp m Q s"
  by (rule wp_mono [OF law]) (use step in blast)

section \<open>Lists\<close>

lemma set_sort_key_on [simp]: "set (sort_key f xs) = set xs"
  by simp

lemma map_filter_distinct: "distinct (map f xs) \<Longrightarrow> distinct (map f (filter P xs))"
  by (induction xs) auto

lemma distinct_map_eq: "distinct (map f xs) \<Longrightarrow> x \<in> set xs \<Longrightarrow> y \<in> set xs \<Longrightarrow> f x = f y \<Longrightarrow> x = y"
  by (auto simp: distinct_map inj_on_def)

lemma find_SomeD: "find P xs = Some x \<Longrightarrow> x \<in> set xs \<and> P x"
  by (auto simp: find_Some_iff)

lemma find_NoneD: "find P xs = None \<Longrightarrow> x \<in> set xs \<Longrightarrow> \<not> P x"
  by (auto simp: find_None_iff)

end
