(* ===== verification/Domain.thy ===== *)
theory Domain
  imports Prelude
begin

text \<open>
  The shared domain types of \<open>internal/domain/user.go\<close> and the conversions between Go values and
  the driver's nullable values of \<open>internal/db/dbutil/convert.go\<close>. A Go pointer is an \<open>option\<close>
  (\<open>None\<close> is nil); a driver value carries its own \<open>Valid\<close> flag, false for SQL NULL.
\<close>

section \<open>Domain types\<close>

record ApprovedUser =
  ApprovedUser_ID :: uuid
  ApprovedUser_Email :: string
  ApprovedUser_FirstName :: string
  ApprovedUser_CreatedBy :: "uuid option"
  ApprovedUser_CreatedAt :: go_time
  ApprovedUser_UpdatedAt :: go_time

record Role =
  Role_ID :: uuid
  Role_Name :: string
  Role_Description :: "string option"
  Role_CreatedAt :: go_time

record User =
  User_ID :: uuid
  User_ApprovedUserID :: uuid
  User_HashedPassword :: string
  User_IsActive :: bool
  User_CreatedAt :: go_time
  User_UpdatedAt :: go_time
  User_ApprovedUser :: "ApprovedUser option"
  User_Roles :: "Role list"

record Todo =
  Todo_ID :: uuid
  Todo_UserID :: uuid
  Todo_Title :: string
  Todo_Description :: "string option"
  Todo_IsCompleted :: bool
  Todo_DueDate :: "go_time option"
  Todo_CreatedAt :: go_time
  Todo_UpdatedAt :: go_time

text \<open>The loop of \<open>HasRole\<close> over the user's roles, returning at the first match.\<close>

fun has_role_in :: "Role list \<Rightarrow> string \<Rightarrow> bool" where
  "has_role_in [] roleName = False"
| "has_role_in (role # rs) roleName =
     (if Role_Name role = roleName then True else has_role_in rs roleName)"

definition HasRole :: "User \<Rightarrow> string \<Rightarrow> bool" where
  "HasRole u roleName = has_role_in (User_Roles u) roleName"

lemma has_role_in_iff: "has_role_in rs n \<longleftrightarrow> (\<exists>r \<in> set rs. Role_Name r = n)"
  by (induction rs) auto

lemma HasRole_iff: "HasRole u n \<longleftrightarrow> n \<in> Role_Name ` set (User_Roles u)"
  by (auto simp: HasRole_def has_role_in_iff)

section \<open>Driver values\<close>

record pg_UUID =
  UUID_Bytes :: uuid
  UUID_Valid :: bool

record pg_Timestamptz =
  Timestamptz_Time :: go_time
  Timestamptz_Valid :: bool

record pg_Int4 =
  Int4_Int32 :: "32 word"
  Int4_Valid :: bool

text \<open>The zero values \<open>pgtype.UUID{}\<close>, \<open>pgtype.Timestamptz{}\<close>, \<open>pgtype.Int4{}\<close>: NULL.\<close>

definition null_UUID :: pg_UUID where
  "null_UUID = \<lparr>UUID_Bytes = 0, UUID_Valid = False\<rparr>"

definition null_Timestamptz :: pg_Timestamptz where
  "null_Timestamptz = \<lparr>Timestamptz_Time = 0, Timestamptz_Valid = False\<rparr>"

definition null_Int4 :: pg_Int4 where
  "null_Int4 = \<lparr>Int4_Int32 = 0, Int4_Valid = False\<rparr>"

definition PgUUIDToPtr :: "pg_UUID \<Rightarrow> uuid option" where
  "PgUUIDToPtr p = (if \<not> UUID_Valid p then None else Some (UUID_Bytes p))"

definition UUIDToPgtype :: "uuid option \<Rightarrow> pg_UUID" where
  "UUIDToPgtype u =
     (case u of None \<Rightarrow> null_UUID | Some b \<Rightarrow> \<lparr>UUID_Bytes = b, UUID_Valid = True\<rparr>)"

definition UUIDToPgtypeValue :: "uuid \<Rightarrow> pg_UUID" where
  "UUIDToPgtypeValue u = \<lparr>UUID_Bytes = u, UUID_Valid = True\<rparr>"

definition PgUUIDToValue :: "pg_UUID \<Rightarrow> uuid" where
  "PgUUIDToValue p = (if \<not> UUID_Valid p then uuid_Nil else UUID_Bytes p)"

definition PgTimestamptzToPtr :: "pg_Timestamptz \<Rightarrow> go_time option" where
  "PgTimestamptzToPtr t = (if \<not> Timestamptz_Valid t then None else Some (Timestamptz_Time t))"

text \<open>
  \<open>int\<close> is 64 bits wide on the platforms the service is built for; \<open>int(p.Int32)\<close> sign-extends and
  \<open>int32(*i)\<close> keeps the low 32 bits.
\<close>

definition PgInt4ToPtr :: "pg_Int4 \<Rightarrow> 64 word option" where
  "PgInt4ToPtr p = (if \<not> Int4_Valid p then None else Some (scast (Int4_Int32 p)))"

definition IntToPgInt4 :: "64 word option \<Rightarrow> pg_Int4" where
  "IntToPgInt4 i =
     (case i of None \<Rightarrow> null_Int4 | Some v \<Rightarrow> \<lparr>Int4_Int32 = ucast v, Int4_Valid = True\<rparr>)"

lemma PgUUIDToValue_of_Value [simp]: "PgUUIDToValue (UUIDToPgtypeValue u) = u"
  by (simp add: PgUUIDToValue_def UUIDToPgtypeValue_def)

lemma PgUUIDToPtr_of_ptr [simp]: "PgUUIDToPtr (UUIDToPgtype u) = u"
  by (cases u) (simp_all add: PgUUIDToPtr_def UUIDToPgtype_def null_UUID_def)

lemma UUIDToPgtypeValue_simps [simp]:
  "UUID_Valid (UUIDToPgtypeValue u)" "UUID_Bytes (UUIDToPgtypeValue u) = u"
  by (simp_all add: UUIDToPgtypeValue_def)

lemma UUIDToPgtypeValue_inj [simp]: "UUIDToPgtypeValue u = UUIDToPgtypeValue v \<longleftrightarrow> u = v"
  by (simp add: UUIDToPgtypeValue_def)

lemma valid_UUID_cases: "UUID_Valid p \<Longrightarrow> p = UUIDToPgtypeValue (PgUUIDToValue p)"
  by (cases p) (simp add: UUIDToPgtypeValue_def PgUUIDToValue_def)

lemma PgUUIDToValue_inj:
  "UUID_Valid p \<Longrightarrow> UUID_Valid q \<Longrightarrow> PgUUIDToValue p = PgUUIDToValue q \<longleftrightarrow> p = q"
  using valid_UUID_cases by metis

lemma PgUUIDToValue_eq_iff:
  "UUID_Valid p \<Longrightarrow> PgUUIDToValue p = u \<longleftrightarrow> p = UUIDToPgtypeValue u"
  by (metis PgUUIDToValue_of_Value valid_UUID_cases)

lemma ucast_scast_32_64: "ucast (scast (w :: 32 word) :: 64 word) = w"
  by (rule bit_word_eqI) (simp add: bit_simps)

lemma scast_ucast_32_64:
  assumes "- (2 ^ 31) \<le> sint (v :: 64 word)" and "sint v < 2 ^ 31"
  shows "scast (ucast v :: 32 word) = v"
proof -
  have "signed_take_bit 31 (sint v) = sint v"
    using assms by (intro signed_take_bit_int_eq_self) simp_all
  moreover have "sint (ucast v :: 32 word) = signed_take_bit 31 (sint v)"
    by transfer (simp add: signed_take_bit_take_bit)
  ultimately show ?thesis
    by (metis scast_eq scast_id)
qed

lemma Int4_of_ptr: "Int4_Valid p \<Longrightarrow> IntToPgInt4 (PgInt4ToPtr p) = p"
  by (cases p) (simp add: PgInt4ToPtr_def IntToPgInt4_def ucast_scast_32_64)

lemma ptr_of_Int4:
  "- (2 ^ 31) \<le> sint v \<Longrightarrow> sint v < 2 ^ 31 \<Longrightarrow> PgInt4ToPtr (IntToPgInt4 (Some v)) = Some v"
  by (simp add: PgInt4ToPtr_def IntToPgInt4_def scast_ucast_32_64)

end
