(* ===== verification/Schema.thy ===== *)
theory Schema
  imports Domain
begin

text \<open>
  The relational schema: the row types of \<open>internal/db/sqlc/models.go\<close>, the tables and constraints
  of \<open>migrations/*.up.sql\<close>, and the effect on the tables of inserting rows (primary keys, UNIQUE,
  NOT NULL, foreign keys) and of deleting them (ON DELETE CASCADE, ON DELETE SET NULL).

  A table is the list of its rows, in insertion order. \<open>db_inv\<close> says that every constraint of the
  schema holds; inserting and deleting keep it.
\<close>

section \<open>Rows and tables\<close>

record db_ApprovedUser =
  dbA_ID :: pg_UUID
  dbA_Email :: string
  dbA_FirstName :: string
  dbA_CreatedBy :: pg_UUID
  dbA_CreatedAt :: pg_Timestamptz
  dbA_UpdatedAt :: pg_Timestamptz

record db_Role =
  dbR_ID :: pg_UUID
  dbR_Name :: string
  dbR_Description :: "string option"
  dbR_CreatedAt :: pg_Timestamptz

record db_Todo =
  dbT_ID :: pg_UUID
  dbT_UserID :: pg_UUID
  dbT_Title :: string
  dbT_Description :: "string option"
  dbT_IsCompleted :: bool
  dbT_DueDate :: pg_Timestamptz
  dbT_CreatedAt :: pg_Timestamptz
  dbT_UpdatedAt :: pg_Timestamptz

record db_User =
  dbU_ID :: pg_UUID
  dbU_ApprovedUserID :: pg_UUID
  dbU_Email :: string
  dbU_PasswordHash :: string
  dbU_IsActive :: bool
  dbU_CreatedAt :: pg_Timestamptz
  dbU_UpdatedAt :: pg_Timestamptz

record db_UserRole =
  dbUR_UserID :: pg_UUID
  dbUR_RoleID :: pg_UUID
  dbUR_CreatedAt :: pg_Timestamptz

text \<open>
  The database, with the number of statements it has been sent so far (which indexes the choices of
  the server: its clock, its random identifiers, its failures).
\<close>

record db =
  tbl_approved_users :: "db_ApprovedUser list"
  tbl_users :: "db_User list"
  tbl_roles :: "db_Role list"
  tbl_user_roles :: "db_UserRole list"
  tbl_todos :: "db_Todo list"
  roundtrips :: nat

definition empty_db :: db where
  "empty_db = \<lparr>tbl_approved_users = [], tbl_users = [], tbl_roles = [], tbl_user_roles = [],
     tbl_todos = [], roundtrips = 0\<rparr>"

section \<open>Constraints\<close>

definition primary_key :: "('a \<Rightarrow> pg_UUID) \<Rightarrow> 'a list \<Rightarrow> bool" where
  "primary_key f xs \<longleftrightarrow> distinct (map f xs) \<and> (\<forall>x \<in> set xs. UUID_Valid (f x))"

definition references :: "('a \<Rightarrow> pg_UUID) \<Rightarrow> 'a list \<Rightarrow> ('b \<Rightarrow> pg_UUID) \<Rightarrow> 'b list \<Rightarrow> bool" where
  "references f xs g ys \<longleftrightarrow> (\<forall>x \<in> set xs. f x \<in> g ` set ys)"

definition approved_users_ok :: "db \<Rightarrow> bool" where
  "approved_users_ok d \<longleftrightarrow>
     primary_key dbA_ID (tbl_approved_users d) \<and>
     distinct (map dbA_Email (tbl_approved_users d)) \<and>
     references dbA_CreatedBy (filter (UUID_Valid \<circ> dbA_CreatedBy) (tbl_approved_users d))
       dbA_ID (tbl_approved_users d)"

definition users_ok :: "db \<Rightarrow> bool" where
  "users_ok d \<longleftrightarrow>
     primary_key dbU_ID (tbl_users d) \<and>
     distinct (map dbU_Email (tbl_users d)) \<and>
     references dbU_ApprovedUserID (tbl_users d) dbA_ID (tbl_approved_users d)"

definition roles_ok :: "db \<Rightarrow> bool" where
  "roles_ok d \<longleftrightarrow> primary_key dbR_ID (tbl_roles d) \<and> distinct (map dbR_Name (tbl_roles d))"

definition user_roles_ok :: "db \<Rightarrow> bool" where
  "user_roles_ok d \<longleftrightarrow>
     distinct (map (\<lambda>r. (dbUR_UserID r, dbUR_RoleID r)) (tbl_user_roles d)) \<and>
     references dbUR_UserID (tbl_user_roles d) dbU_ID (tbl_users d) \<and>
     references dbUR_RoleID (tbl_user_roles d) dbR_ID (tbl_roles d)"

definition todos_ok :: "db \<Rightarrow> bool" where
  "todos_ok d \<longleftrightarrow>
     primary_key dbT_ID (tbl_todos d) \<and>
     references dbT_UserID (tbl_todos d) dbU_ID (tbl_users d)"

definition db_inv :: "db \<Rightarrow> bool" where
  "db_inv d \<longleftrightarrow> approved_users_ok d \<and> users_ok d \<and> roles_ok d \<and> user_roles_ok d \<and> todos_ok d"

lemmas constraint_defs = primary_key_def references_def approved_users_ok_def users_ok_def
  roles_ok_def user_roles_ok_def todos_ok_def

lemma db_inv_empty: "db_inv empty_db"
  by (simp add: db_inv_def constraint_defs empty_db_def)

lemma db_inv_roundtrips [simp]: "db_inv (d\<lparr>roundtrips := n\<rparr>) = db_inv d"
  by (simp add: db_inv_def constraint_defs)

lemma db_invD:
  assumes "db_inv d"
  shows db_inv_users_key: "distinct (map dbU_ID (tbl_users d))"
    and db_inv_users_valid: "u \<in> set (tbl_users d) \<Longrightarrow> UUID_Valid (dbU_ID u)"
    and db_inv_users_email: "distinct (map dbU_Email (tbl_users d))"
    and db_inv_users_fk: "u \<in> set (tbl_users d) \<Longrightarrow> dbU_ApprovedUserID u \<in> dbA_ID ` set (tbl_approved_users d)"
    and db_inv_approved_key: "distinct (map dbA_ID (tbl_approved_users d))"
    and db_inv_approved_valid: "a \<in> set (tbl_approved_users d) \<Longrightarrow> UUID_Valid (dbA_ID a)"
    and db_inv_approved_email: "distinct (map dbA_Email (tbl_approved_users d))"
    and db_inv_approved_creator: "a \<in> set (tbl_approved_users d) \<Longrightarrow> UUID_Valid (dbA_CreatedBy a) \<Longrightarrow>
      dbA_CreatedBy a \<in> dbA_ID ` set (tbl_approved_users d)"
    and db_inv_roles_key: "distinct (map dbR_ID (tbl_roles d))"
    and db_inv_roles_valid: "r \<in> set (tbl_roles d) \<Longrightarrow> UUID_Valid (dbR_ID r)"
    and db_inv_roles_name: "distinct (map dbR_Name (tbl_roles d))"
    and db_inv_user_roles_key: "distinct (map (\<lambda>r. (dbUR_UserID r, dbUR_RoleID r)) (tbl_user_roles d))"
    and db_inv_user_roles_fk: "m \<in> set (tbl_user_roles d) \<Longrightarrow> dbUR_UserID m \<in> dbU_ID ` set (tbl_users d)"
    and db_inv_user_roles_role: "m \<in> set (tbl_user_roles d) \<Longrightarrow> dbUR_RoleID m \<in> dbR_ID ` set (tbl_roles d)"
    and db_inv_todos_key: "distinct (map dbT_ID (tbl_todos d))"
    and db_inv_todos_valid: "t \<in> set (tbl_todos d) \<Longrightarrow> UUID_Valid (dbT_ID t)"
    and db_inv_todos_fk: "t \<in> set (tbl_todos d) \<Longrightarrow> dbT_UserID t \<in> dbU_ID ` set (tbl_users d)"
  using assms by (auto simp: db_inv_def constraint_defs)

lemma db_inv_users_approved_valid:
  "db_inv d \<Longrightarrow> u \<in> set (tbl_users d) \<Longrightarrow> UUID_Valid (dbU_ApprovedUserID u)"
  using db_inv_users_fk db_inv_approved_valid by fastforce

lemma db_inv_todos_owner_valid:
  "db_inv d \<Longrightarrow> t \<in> set (tbl_todos d) \<Longrightarrow> UUID_Valid (dbT_UserID t)"
  using db_inv_todos_fk db_inv_users_valid by fastforce

section \<open>Inserting rows\<close>

text \<open>
  One row at a time for the key and UNIQUE indexes, as the server fills them; the foreign keys of the
  rows a statement inserted are checked when the statement ends. A statement that violates a
  constraint leaves the tables as they were.
\<close>

fun insert_approved_rows :: "db_ApprovedUser list \<Rightarrow> db \<Rightarrow> db_error + db" where
  "insert_approved_rows [] d = Inr d"
| "insert_approved_rows (a # as) d =
     (if \<not> UUID_Valid (dbA_ID a) then Inl (NotNullViolation ''id'')
      else if dbA_ID a \<in> dbA_ID ` set (tbl_approved_users d) then
        Inl (UniqueViolation ''approved_users_pkey'')
      else if dbA_Email a \<in> dbA_Email ` set (tbl_approved_users d) then
        Inl (UniqueViolation ''approved_users_email_key'')
      else insert_approved_rows as (d\<lparr>tbl_approved_users := tbl_approved_users d @ [a]\<rparr>))"

definition insert_approved_users :: "db_ApprovedUser list \<Rightarrow> db \<Rightarrow> db_error + db" where
  "insert_approved_users as d =
     (case insert_approved_rows as d of
        Inl e \<Rightarrow> Inl e
      | Inr d' \<Rightarrow>
          if \<forall>a \<in> set as. UUID_Valid (dbA_CreatedBy a) \<longrightarrow>
               dbA_CreatedBy a \<in> dbA_ID ` set (tbl_approved_users d')
          then Inr d' else Inl (ForeignKeyViolation ''approved_users_created_by_fkey''))"

definition insert_user :: "db_User \<Rightarrow> db \<Rightarrow> db_error + db" where
  "insert_user u d =
     (if \<not> UUID_Valid (dbU_ID u) then Inl (NotNullViolation ''id'')
      else if \<not> UUID_Valid (dbU_ApprovedUserID u) then Inl (NotNullViolation ''approved_user_id'')
      else if dbU_ID u \<in> dbU_ID ` set (tbl_users d) then Inl (UniqueViolation ''users_pkey'')
      else if dbU_Email u \<in> dbU_Email ` set (tbl_users d) then
        Inl (UniqueViolation ''users_email_key'')
      else if dbU_ApprovedUserID u \<notin> dbA_ID ` set (tbl_approved_users d) then
        Inl (ForeignKeyViolation ''users_approved_user_id_fkey'')
      else Inr (d\<lparr>tbl_users := tbl_users d @ [u]\<rparr>))"

definition insert_role :: "db_Role \<Rightarrow> db \<Rightarrow> db_error + db" where
  "insert_role r d =
     (if \<not> UUID_Valid (dbR_ID r) then Inl (NotNullViolation ''id'')
      else if dbR_ID r \<in> dbR_ID ` set (tbl_roles d) then Inl (UniqueViolation ''roles_pkey'')
      else if dbR_Name r \<in> dbR_Name ` set (tbl_roles d) then
        Inl (UniqueViolation ''roles_name_key'')
      else Inr (d\<lparr>tbl_roles := tbl_roles d @ [r]\<rparr>))"

text \<open>\<open>ON CONFLICT (user_id, role_id) DO NOTHING\<close>: a pair already there is left as it is.\<close>

definition insert_user_role :: "db_UserRole \<Rightarrow> db \<Rightarrow> db_error + db" where
  "insert_user_role m d =
     (if \<not> UUID_Valid (dbUR_UserID m) then Inl (NotNullViolation ''user_id'')
      else if \<not> UUID_Valid (dbUR_RoleID m) then Inl (NotNullViolation ''role_id'')
      else if (dbUR_UserID m, dbUR_RoleID m) \<in>
          (\<lambda>r. (dbUR_UserID r, dbUR_RoleID r)) ` set (tbl_user_roles d) then Inr d
      else if dbUR_UserID m \<notin> dbU_ID ` set (tbl_users d) then
        Inl (ForeignKeyViolation ''user_roles_user_id_fkey'')
      else if dbUR_RoleID m \<notin> dbR_ID ` set (tbl_roles d) then
        Inl (ForeignKeyViolation ''user_roles_role_id_fkey'')
      else Inr (d\<lparr>tbl_user_roles := tbl_user_roles d @ [m]\<rparr>))"

definition insert_todo :: "db_Todo \<Rightarrow> db \<Rightarrow> db_error + db" where
  "insert_todo t d =
     (if \<not> UUID_Valid (dbT_ID t) then Inl (NotNullViolation ''id'')
      else if \<not> UUID_Valid (dbT_UserID t) then Inl (NotNullViolation ''user_id'')
      else if dbT_ID t \<in> dbT_ID ` set (tbl_todos d) then Inl (UniqueViolation ''todos_pkey'')
      else if dbT_UserID t \<notin> dbU_ID ` set (tbl_users d) then
        Inl (ForeignKeyViolation ''todos_user_id_fkey'')
      else Inr (d\<lparr>tbl_todos := tbl_todos d @ [t]\<rparr>))"

section \<open>Deleting rows\<close>

text \<open>Deleting users cascades to their role memberships and their todos.\<close>

definition delete_users :: "(db_User \<Rightarrow> bool) \<Rightarrow> db \<Rightarrow> db" where
  "delete_users P d =
     (let gone = map dbU_ID (filter P (tbl_users d))
      in d\<lparr>tbl_users := filter (\<lambda>u. \<not> P u) (tbl_users d),
           tbl_user_roles := filter (\<lambda>m. dbUR_UserID m \<notin> set gone) (tbl_user_roles d),
           tbl_todos := filter (\<lambda>t. dbT_UserID t \<notin> set gone) (tbl_todos d)\<rparr>)"

text \<open>
  Deleting approved users clears \<open>created_by\<close> where it named them and cascades to the accounts
  registered under them.
\<close>

definition delete_approved_users :: "(db_ApprovedUser \<Rightarrow> bool) \<Rightarrow> db \<Rightarrow> db" where
  "delete_approved_users P d =
     (let gone = map dbA_ID (filter P (tbl_approved_users d));
          d' = d\<lparr>tbl_approved_users :=
                  map (\<lambda>a. if dbA_CreatedBy a \<in> set gone then a\<lparr>dbA_CreatedBy := null_UUID\<rparr> else a)
                    (filter (\<lambda>a. \<not> P a) (tbl_approved_users d))\<rparr>
      in delete_users (\<lambda>u. dbU_ApprovedUserID u \<in> set gone) d')"

section \<open>The constraints are kept\<close>

lemma references_simps [simp]:
  "references f [] g ys"
  "references f (xs @ zs) g ys \<longleftrightarrow> references f xs g ys \<and> references f zs g ys"
  "references f (x # xs) g ys \<longleftrightarrow> f x \<in> g ` set ys \<and> references f xs g ys"
  by (auto simp: references_def)

lemma references_target: "references f xs g ys \<Longrightarrow> set ys \<subseteq> set zs \<Longrightarrow> references f xs g zs"
  by (fastforce simp: references_def)

lemma primary_key_append [simp]:
  "primary_key f (xs @ zs) \<longleftrightarrow>
     primary_key f xs \<and> primary_key f zs \<and> f ` set xs \<inter> f ` set zs = {}"
  by (auto simp: primary_key_def)

lemma primary_key_single [simp]: "primary_key f [x] \<longleftrightarrow> UUID_Valid (f x)"
  by (simp add: primary_key_def)

lemmas table_defs = approved_users_ok_def users_ok_def roles_ok_def user_roles_ok_def todos_ok_def

lemma insert_approved_rowsD:
  "insert_approved_rows as d = Inr d' \<Longrightarrow>
     d' = d\<lparr>tbl_approved_users := tbl_approved_users d @ as\<rparr> \<and>
     (\<forall>a \<in> set as. UUID_Valid (dbA_ID a)) \<and>
     distinct (map dbA_ID as) \<and> distinct (map dbA_Email as) \<and>
     dbA_ID ` set as \<inter> dbA_ID ` set (tbl_approved_users d) = {} \<and>
     dbA_Email ` set as \<inter> dbA_Email ` set (tbl_approved_users d) = {}"
proof (induction as d rule: insert_approved_rows.induct)
  case (1 d)
  then show ?case by simp
next
  case (2 a as d)
  from "2.prems" have a: "UUID_Valid (dbA_ID a)" "dbA_ID a \<notin> dbA_ID ` set (tbl_approved_users d)"
      "dbA_Email a \<notin> dbA_Email ` set (tbl_approved_users d)"
    and rest: "insert_approved_rows as (d\<lparr>tbl_approved_users := tbl_approved_users d @ [a]\<rparr>) = Inr d'"
    by (simp_all split: if_splits)
  note IH = "2.IH" [OF _ _ _ rest, simplified, OF a]
  from IH a show ?case by (elim conjE) simp
qed

lemma insert_approved_usersD:
  assumes "insert_approved_users as d = Inr d'"
  shows "d' = d\<lparr>tbl_approved_users := tbl_approved_users d @ as\<rparr>"
    and "\<And>a. a \<in> set as \<Longrightarrow> UUID_Valid (dbA_ID a)"
    and "distinct (map dbA_ID as)" and "distinct (map dbA_Email as)"
    and "dbA_ID ` set as \<inter> dbA_ID ` set (tbl_approved_users d) = {}"
    and "dbA_Email ` set as \<inter> dbA_Email ` set (tbl_approved_users d) = {}"
    and "\<And>a. a \<in> set as \<Longrightarrow> UUID_Valid (dbA_CreatedBy a) \<Longrightarrow>
      dbA_CreatedBy a \<in> dbA_ID ` set (tbl_approved_users d @ as)"
proof -
  from assms have rows: "insert_approved_rows as d = Inr d'"
    and fk: "\<forall>a \<in> set as. UUID_Valid (dbA_CreatedBy a) \<longrightarrow>
      dbA_CreatedBy a \<in> dbA_ID ` set (tbl_approved_users d')"
    by (simp_all add: insert_approved_users_def split: sum.splits if_splits)
  note R = insert_approved_rowsD [OF rows]
  from R show d': "d' = d\<lparr>tbl_approved_users := tbl_approved_users d @ as\<rparr>" by (elim conjE)
  from R show "\<And>a. a \<in> set as \<Longrightarrow> UUID_Valid (dbA_ID a)"
    and "distinct (map dbA_ID as)" and "distinct (map dbA_Email as)"
    and "dbA_ID ` set as \<inter> dbA_ID ` set (tbl_approved_users d) = {}"
    and "dbA_Email ` set as \<inter> dbA_Email ` set (tbl_approved_users d) = {}"
    by (elim conjE; simp)+
  show "\<And>a. a \<in> set as \<Longrightarrow> UUID_Valid (dbA_CreatedBy a) \<Longrightarrow>
      dbA_CreatedBy a \<in> dbA_ID ` set (tbl_approved_users d @ as)"
    using fk by (simp add: d')
qed

lemma db_inv_insert_approved_users:
  assumes "insert_approved_users as d = Inr d'" and "db_inv d"
  shows "db_inv d'"
proof -
  note D = insert_approved_usersD [OF assms(1)]
  have "approved_users_ok d'"
    using D(2-) assms(2) unfolding db_inv_def approved_users_ok_def D(1)
    by (auto simp: primary_key_def references_def)
  moreover have "users_ok d' \<and> roles_ok d' \<and> user_roles_ok d' \<and> todos_ok d'"
    using assms(2) by (auto simp: D(1) db_inv_def table_defs intro: references_target)
  ultimately show ?thesis by (simp add: db_inv_def)
qed

lemma insert_userD:
  "insert_user u d = Inr d' \<Longrightarrow>
     d' = d\<lparr>tbl_users := tbl_users d @ [u]\<rparr> \<and> UUID_Valid (dbU_ID u) \<and>
     UUID_Valid (dbU_ApprovedUserID u) \<and>
     dbU_ID u \<notin> dbU_ID ` set (tbl_users d) \<and> dbU_Email u \<notin> dbU_Email ` set (tbl_users d) \<and>
     dbU_ApprovedUserID u \<in> dbA_ID ` set (tbl_approved_users d)"
  by (auto simp: insert_user_def split: if_splits)

lemma db_inv_insert_user: "insert_user u d = Inr d' \<Longrightarrow> db_inv d \<Longrightarrow> db_inv d'"
  by (drule insert_userD) (auto simp: db_inv_def table_defs intro: references_target)

lemma db_inv_insert_role: "insert_role r d = Inr d' \<Longrightarrow> db_inv d \<Longrightarrow> db_inv d'"
  by (auto simp: insert_role_def db_inv_def table_defs split: if_splits intro: references_target)

lemma insert_user_roleD:
  "insert_user_role m d = Inr d' \<Longrightarrow>
     (d' = d \<and> (dbUR_UserID m, dbUR_RoleID m) \<in>
        (\<lambda>r. (dbUR_UserID r, dbUR_RoleID r)) ` set (tbl_user_roles d)) \<or>
     (d' = d\<lparr>tbl_user_roles := tbl_user_roles d @ [m]\<rparr> \<and>
      (dbUR_UserID m, dbUR_RoleID m) \<notin>
        (\<lambda>r. (dbUR_UserID r, dbUR_RoleID r)) ` set (tbl_user_roles d) \<and>
      dbUR_UserID m \<in> dbU_ID ` set (tbl_users d) \<and> dbUR_RoleID m \<in> dbR_ID ` set (tbl_roles d))"
  by (auto simp: insert_user_role_def split: if_splits)

lemma db_inv_insert_user_role: "insert_user_role m d = Inr d' \<Longrightarrow> db_inv d \<Longrightarrow> db_inv d'"
  by (drule insert_user_roleD) (auto simp: db_inv_def table_defs)

lemma insert_todoD:
  "insert_todo t d = Inr d' \<Longrightarrow>
     d' = d\<lparr>tbl_todos := tbl_todos d @ [t]\<rparr> \<and> UUID_Valid (dbT_ID t) \<and>
     UUID_Valid (dbT_UserID t) \<and>
     dbT_ID t \<notin> dbT_ID ` set (tbl_todos d) \<and> dbT_UserID t \<in> dbU_ID ` set (tbl_users d)"
  by (auto simp: insert_todo_def split: if_splits)

lemma db_inv_insert_todo: "insert_todo t d = Inr d' \<Longrightarrow> db_inv d \<Longrightarrow> db_inv d'"
  by (drule insert_todoD) (auto simp: db_inv_def table_defs)

text \<open>Deleting from a table that other tables reference leaves no reference behind.\<close>

lemma delete_users_simps:
  "tbl_approved_users (delete_users P d) = tbl_approved_users d"
  "tbl_users (delete_users P d) = filter (\<lambda>u. \<not> P u) (tbl_users d)"
  "tbl_roles (delete_users P d) = tbl_roles d"
  "roundtrips (delete_users P d) = roundtrips d"
  "tbl_user_roles (delete_users P d) =
     filter (\<lambda>m. dbUR_UserID m \<notin> dbU_ID ` {u \<in> set (tbl_users d). P u}) (tbl_user_roles d)"
  "tbl_todos (delete_users P d) =
     filter (\<lambda>t. dbT_UserID t \<notin> dbU_ID ` {u \<in> set (tbl_users d). P u}) (tbl_todos d)"
  by (auto simp: delete_users_def Let_def)

lemma references_survivors:
  "references f xs g ys \<Longrightarrow>
   references f (filter (\<lambda>x. f x \<notin> g ` {y \<in> set ys. P y}) xs) g (filter (\<lambda>y. \<not> P y) ys)"
  by (fastforce simp: references_def)

lemma primary_key_filter: "primary_key f xs \<Longrightarrow> primary_key f (filter P xs)"
  by (simp add: primary_key_def map_filter_distinct)

lemma references_filter: "references f xs g ys \<Longrightarrow> references f (filter P xs) g ys"
  by (simp add: references_def)

lemma db_inv_delete_users: "db_inv d \<Longrightarrow> db_inv (delete_users P d)"
  unfolding db_inv_def approved_users_ok_def users_ok_def roles_ok_def user_roles_ok_def todos_ok_def
    delete_users_simps
  by (auto intro: references_survivors references_filter primary_key_filter map_filter_distinct)

text \<open>Approved users after a deletion: the survivors, with dangling creators cleared.\<close>

lemma delete_approved_users_simps:
  "tbl_approved_users (delete_approved_users P d) =
     map (\<lambda>a. if dbA_CreatedBy a \<in> dbA_ID ` {b \<in> set (tbl_approved_users d). P b}
              then a\<lparr>dbA_CreatedBy := null_UUID\<rparr> else a)
       (filter (\<lambda>a. \<not> P a) (tbl_approved_users d))"
  "tbl_users (delete_approved_users P d) =
     filter (\<lambda>u. dbU_ApprovedUserID u \<notin> dbA_ID ` {b \<in> set (tbl_approved_users d). P b})
       (tbl_users d)"
  "tbl_roles (delete_approved_users P d) = tbl_roles d"
  "roundtrips (delete_approved_users P d) = roundtrips d"
  "tbl_user_roles (delete_approved_users P d) =
     filter (\<lambda>m. dbUR_UserID m \<notin> dbU_ID ` {u \<in> set (tbl_users d).
         dbU_ApprovedUserID u \<in> dbA_ID ` {b \<in> set (tbl_approved_users d). P b}})
       (tbl_user_roles d)"
  "tbl_todos (delete_approved_users P d) =
     filter (\<lambda>t. dbT_UserID t \<notin> dbU_ID ` {u \<in> set (tbl_users d).
         dbU_ApprovedUserID u \<in> dbA_ID ` {b \<in> set (tbl_approved_users d). P b}})
       (tbl_todos d)"
  by (auto simp: delete_approved_users_def delete_users_simps Let_def)

lemma db_inv_delete_approved_users:
  assumes "db_inv d"
  shows "db_inv (delete_approved_users P d)"
proof -
  define gone where "gone = dbA_ID ` {b \<in> set (tbl_approved_users d). P b}"
  define keep where "keep = filter (\<lambda>a. \<not> P a) (tbl_approved_users d)"
  define clear :: "db_ApprovedUser \<Rightarrow> db_ApprovedUser" where "clear a = (if dbA_CreatedBy a \<in> gone then a\<lparr>dbA_CreatedBy := null_UUID\<rparr> else a)" for a
  define d' where "d' = d\<lparr>tbl_approved_users := map clear keep\<rparr>"
  define Q :: "db_User \<Rightarrow> bool" where "Q u \<longleftrightarrow> dbU_ApprovedUserID u \<in> gone" for u
  have del: "delete_approved_users P d = delete_users Q d'"
  proof -
    have "set (map dbA_ID (filter P (tbl_approved_users d))) = gone"
      by (auto simp: gone_def)
    then show ?thesis
      by (simp add: delete_approved_users_def Let_def d'_def keep_def clear_def [abs_def] Q_def [abs_def])
  qed
  have clear: "dbA_ID (clear a) = dbA_ID a" "dbA_Email (clear a) = dbA_Email a" for a
    by (simp_all add: clear_def)
  have ids: "map dbA_ID (map clear keep) = map dbA_ID keep" "map dbA_Email (map clear keep) = map dbA_Email keep"
    by (simp_all add: clear)
  have kept: "i \<in> dbA_ID ` set keep" if "i \<in> dbA_ID ` set (tbl_approved_users d)" "i \<notin> gone" for i
    using that by (auto simp: keep_def gone_def)
  have "UUID_Valid (dbA_CreatedBy a) \<Longrightarrow> dbA_CreatedBy a \<in> dbA_ID ` set keep" if "a \<in> set (map clear keep)" for a
    using that assms kept
    by (auto simp: clear_def null_UUID_def keep_def db_inv_def approved_users_ok_def references_def
        split: if_splits)
  moreover have "distinct (map dbA_ID keep)" "distinct (map dbA_Email keep)"
    using assms by (auto simp: keep_def db_inv_def approved_users_ok_def primary_key_def map_filter_distinct)
  moreover have "a \<in> set keep \<Longrightarrow> UUID_Valid (dbA_ID a)" for a
    using assms by (auto simp: keep_def dest: db_inv_approved_valid)
  moreover have "dbA_ID ` set (map clear keep) = dbA_ID ` set keep"
    using ids(1) by (metis set_map)
  ultimately have A: "approved_users_ok d'"
    using ids unfolding approved_users_ok_def primary_key_def references_def d'_def
    by (auto simp: clear comp_def)
  have U: "dbU_ApprovedUserID u \<in> dbA_ID ` set (map clear keep)" if "u \<in> set (tbl_users d)" "\<not> Q u" for u
    using kept [of "dbU_ApprovedUserID u"] that db_inv_users_fk [OF assms that(1)] ids(1)
    unfolding Q_def by (metis set_map)
  have "db_inv (delete_users Q d)" using assms by (rule db_inv_delete_users)
  then show ?thesis
    using A U unfolding del db_inv_def users_ok_def roles_ok_def user_roles_ok_def todos_ok_def
      approved_users_ok_def delete_users_simps d'_def
    by (auto simp: references_def)
qed

end
