(* ===== verification/Queries.thy ===== *)
theory Queries
  imports Schema "HOL-Library.List_Lexorder" "HOL-Library.Char_ord"
begin

text \<open>
  The statements of \<open>internal/db/sqlc/*.sql.go\<close>, one definition per \<open>Queries\<close> method: the SQL text
  read over the tables of \<open>Schema\<close>, and the method's scan of the result.

  What the server decides is a parameter \<open>pg\<close>: its clock (\<open>NOW()\<close>), the identifiers of
  \<open>gen_random_uuid()\<close> (per statement and row; nothing is assumed about them, a repeated one violates
  the primary key), its collation, and whether a statement and its reply get through. A statement
  whose reply is lost has taken effect, although the caller sees an error.

  The order of rows that SQL leaves open (ties of an ORDER BY, no ORDER BY) is table order here.
\<close>

section \<open>Sending a statement\<close>

datatype delivery = Delivered | RequestLost | ReplyLost

record pg =
  pg_now :: "nat \<Rightarrow> go_time"
  pg_uuid :: "nat \<Rightarrow> nat \<Rightarrow> uuid"
  pg_delivery :: "nat \<Rightarrow> delivery"
  pg_sortkey :: "string \<Rightarrow> string"

definition Now :: "pg \<Rightarrow> nat \<Rightarrow> pg_Timestamptz" where
  "Now E n = \<lparr>Timestamptz_Time = pg_now E n, Timestamptz_Valid = True\<rparr>"

definition gen_random_uuid :: "pg \<Rightarrow> nat \<Rightarrow> nat \<Rightarrow> pg_UUID" where
  "gen_random_uuid E n i = UUIDToPgtypeValue (pg_uuid E n i)"

type_synonym 'a sql = "nat \<Rightarrow> db \<Rightarrow> db_error + ('a \<times> db)"

definition run_statement :: "pg \<Rightarrow> 'a sql \<Rightarrow> db \<Rightarrow> (go_error + 'a) \<times> db" where
  "run_statement E q d =
     (let n = roundtrips d; d0 = d\<lparr>roundtrips := Suc n\<rparr>
      in case pg_delivery E n of
           Delivered \<Rightarrow>
             (case q n d0 of Inl e \<Rightarrow> (Inl (DatabaseError e), d0) | Inr (x, d') \<Rightarrow> (Inr x, d'))
         | RequestLost \<Rightarrow> (Inl (DatabaseError ConnectionFailure), d0)
         | ReplyLost \<Rightarrow>
             (Inl (DatabaseError ConnectionFailure),
              case q n d0 of Inl e \<Rightarrow> d0 | Inr (x, d') \<Rightarrow> d'))"

definition statement :: "pg \<Rightarrow> 'a sql \<Rightarrow> (db, go_error + 'a) state" where
  "statement E q = State (run_statement E q)"

text \<open>\<open>QueryRow(...).Scan(...)\<close>: the first row, or \<open>pgx.ErrNoRows\<close>.\<close>

fun scan_one :: "go_error + 'a list \<Rightarrow> go_error + 'a" where
  "scan_one (Inl e) = Inl e"
| "scan_one (Inr []) = Inl ErrNoRows"
| "scan_one (Inr (x # xs)) = Inr x"

definition query_row :: "pg \<Rightarrow> 'a list sql \<Rightarrow> (db, go_error + 'a) state" where
  "query_row E q = do { r \<leftarrow> statement E q; State_Monad.return (scan_one r) }"

definition select :: "(db \<Rightarrow> 'a) \<Rightarrow> 'a sql" where
  "select f = (\<lambda>n d. Inr (f d, d))"

text \<open>Equality of SQL values is not true when either is NULL.\<close>

definition sql_eq :: "pg_UUID \<Rightarrow> pg_UUID \<Rightarrow> bool" where
  "sql_eq p q \<longleftrightarrow> UUID_Valid p \<and> UUID_Valid q \<and> UUID_Bytes p = UUID_Bytes q"

lemma sql_eq_iff: "UUID_Valid p \<Longrightarrow> sql_eq p q \<longleftrightarrow> p = q"
  by (cases p; cases q) (auto simp: sql_eq_def)

lemma sql_eq_value [simp]: "sql_eq p (UUIDToPgtypeValue u) \<longleftrightarrow> p = UUIDToPgtypeValue u"
  by (cases p) (auto simp: sql_eq_def UUIDToPgtypeValue_def)

definition created_desc :: "('a \<Rightarrow> pg_Timestamptz) \<Rightarrow> 'a list \<Rightarrow> 'a list" where
  "created_desc f = sort_key (\<lambda>r. - Timestamptz_Time (f r))"

lemma created_desc_set [simp]: "set (created_desc f xs) = set xs"
  by (simp add: created_desc_def)

lemma created_desc_distinct: "distinct (map g xs) \<Longrightarrow> distinct (map g (created_desc f xs))"
  by (simp add: created_desc_def distinct_map)

lemma created_desc_sorted: "sorted (rev (map (\<lambda>x. Timestamptz_Time (f x)) (created_desc f xs)))"
proof -
  have "sorted (map (\<lambda>x. - Timestamptz_Time (f x)) (created_desc f xs))"
    by (simp add: created_desc_def)
  then show ?thesis
    by (simp add: sorted_wrt_rev sorted_wrt_map)
qed

section \<open>approved-users.sql\<close>

record db_CreateApprovedUserParams =
  capEmail :: string
  capFirstName :: string
  capCreatedBy :: pg_UUID

definition new_approved_user :: "pg \<Rightarrow> nat \<Rightarrow> nat \<Rightarrow> string \<Rightarrow> string \<Rightarrow> pg_UUID \<Rightarrow> db_ApprovedUser" where
  "new_approved_user E n i email firstName createdBy =
     \<lparr>dbA_ID = gen_random_uuid E n i, dbA_Email = email, dbA_FirstName = firstName,
      dbA_CreatedBy = createdBy, dbA_CreatedAt = Now E n, dbA_UpdatedAt = Now E n\<rparr>"

definition Queries_CreateApprovedUser ::
  "pg \<Rightarrow> db_CreateApprovedUserParams \<Rightarrow> (db, go_error + db_ApprovedUser) state" where
  "Queries_CreateApprovedUser E arg = query_row E (\<lambda>n d.
     let a = new_approved_user E n 0 (capEmail arg) (capFirstName arg) (capCreatedBy arg)
     in case insert_approved_users [a] d of Inl e \<Rightarrow> Inl e | Inr d' \<Rightarrow> Inr ([a], d'))"

record db_CreateApprovedUsersBulkParams =
  cabColumn1 :: "string list"
  cabColumn2 :: "string list"
  cabColumn3 :: "pg_UUID list"

text \<open>
  Several \<open>unnest\<close> in one select list run in step; the shorter arrays are padded with NULL, and NULL in
  \<open>email\<close> or \<open>first_name\<close> violates NOT NULL.
\<close>

fun unnest3 :: "pg \<Rightarrow> nat \<Rightarrow> nat \<Rightarrow> string list \<Rightarrow> string list \<Rightarrow> pg_UUID list \<Rightarrow>
    db_error + db_ApprovedUser list" where
  "unnest3 E n i [] [] [] = Inr []"
| "unnest3 E n i [] fs cs = Inl (NotNullViolation ''email'')"
| "unnest3 E n i (e # es) [] cs = Inl (NotNullViolation ''first_name'')"
| "unnest3 E n i (e # es) (f # fs) cs =
     (case unnest3 E n (Suc i) es fs (tl cs) of
        Inl x \<Rightarrow> Inl x
      | Inr rs \<Rightarrow>
          Inr (new_approved_user E n i e f (case cs of [] \<Rightarrow> null_UUID | c # _ \<Rightarrow> c) # rs))"

definition Queries_CreateApprovedUsersBulk ::
  "pg \<Rightarrow> db_CreateApprovedUsersBulkParams \<Rightarrow> (db, go_error + db_ApprovedUser list) state" where
  "Queries_CreateApprovedUsersBulk E arg = statement E (\<lambda>n d.
     case unnest3 E n 0 (cabColumn1 arg) (cabColumn2 arg) (cabColumn3 arg) of
       Inl e \<Rightarrow> Inl e
     | Inr rows \<Rightarrow>
         (case insert_approved_users rows d of Inl e \<Rightarrow> Inl e | Inr d' \<Rightarrow> Inr (rows, d')))"

definition Queries_DeleteApprovedUser :: "pg \<Rightarrow> pg_UUID \<Rightarrow> (db, go_error + nat) state" where
  "Queries_DeleteApprovedUser E key = statement E (\<lambda>n d.
     let hit = (\<lambda>a. sql_eq (dbA_ID a) key)
     in Inr (length (filter hit (tbl_approved_users d)), delete_approved_users hit d))"

definition Queries_GetApprovedUserByEmail ::
  "pg \<Rightarrow> string \<Rightarrow> (db, go_error + db_ApprovedUser) state" where
  "Queries_GetApprovedUserByEmail E email =
     query_row E (select (\<lambda>d. filter (\<lambda>a. dbA_Email a = email) (tbl_approved_users d)))"

definition Queries_GetApprovedUserByID ::
  "pg \<Rightarrow> pg_UUID \<Rightarrow> (db, go_error + db_ApprovedUser) state" where
  "Queries_GetApprovedUserByID E key =
     query_row E (select (\<lambda>d. filter (\<lambda>a. sql_eq (dbA_ID a) key) (tbl_approved_users d)))"

definition Queries_ListApprovedUsers :: "pg \<Rightarrow> (db, go_error + db_ApprovedUser list) state" where
  "Queries_ListApprovedUsers E =
     statement E (select (\<lambda>d. created_desc dbA_CreatedAt (tbl_approved_users d)))"

section \<open>auth.sql\<close>

definition Queries_ApprovedUserExists :: "pg \<Rightarrow> pg_UUID \<Rightarrow> (db, go_error + bool) state" where
  "Queries_ApprovedUserExists E key =
     query_row E (select (\<lambda>d. [\<exists>a \<in> set (tbl_approved_users d). sql_eq (dbA_ID a) key]))"

record db_AssignRoleParams =
  arUserID :: pg_UUID
  arRoleID :: pg_UUID

definition Queries_AssignRole :: "pg \<Rightarrow> db_AssignRoleParams \<Rightarrow> (db, go_error + unit) state" where
  "Queries_AssignRole E arg = statement E (\<lambda>n d.
     case insert_user_role \<lparr>dbUR_UserID = arUserID arg, dbUR_RoleID = arRoleID arg,
       dbUR_CreatedAt = Now E n\<rparr> d of
       Inl e \<Rightarrow> Inl e | Inr d' \<Rightarrow> Inr ((), d'))"

record db_CreateUserParams =
  cuApprovedUserID :: pg_UUID
  cuEmail :: string
  cuPasswordHash :: string
  cuIsActive :: bool

definition Queries_CreateUser :: "pg \<Rightarrow> db_CreateUserParams \<Rightarrow> (db, go_error + db_User) state" where
  "Queries_CreateUser E arg = query_row E (\<lambda>n d.
     let u = \<lparr>dbU_ID = gen_random_uuid E n 0, dbU_ApprovedUserID = cuApprovedUserID arg,
              dbU_Email = cuEmail arg, dbU_PasswordHash = cuPasswordHash arg,
              dbU_IsActive = cuIsActive arg, dbU_CreatedAt = Now E n, dbU_UpdatedAt = Now E n\<rparr>
     in case insert_user u d of Inl e \<Rightarrow> Inl e | Inr d' \<Rightarrow> Inr ([u], d'))"

definition Queries_DeleteUser :: "pg \<Rightarrow> pg_UUID \<Rightarrow> (db, go_error + unit) state" where
  "Queries_DeleteUser E key =
     statement E (\<lambda>n d. Inr ((), delete_users (\<lambda>u. sql_eq (dbU_ID u) key) d))"

definition Queries_GetRoleByName :: "pg \<Rightarrow> string \<Rightarrow> (db, go_error + db_Role) state" where
  "Queries_GetRoleByName E name =
     query_row E (select (\<lambda>d. take 1 (filter (\<lambda>r. dbR_Name r = name) (tbl_roles d))))"

definition Queries_GetRolesByNames :: "pg \<Rightarrow> string list \<Rightarrow> (db, go_error + db_Role list) state" where
  "Queries_GetRolesByNames E names =
     statement E (select (\<lambda>d. filter (\<lambda>r. dbR_Name r \<in> set names) (tbl_roles d)))"

definition Queries_GetUserByEmail :: "pg \<Rightarrow> string \<Rightarrow> (db, go_error + db_User) state" where
  "Queries_GetUserByEmail E email =
     query_row E (select (\<lambda>d. filter (\<lambda>u. dbU_Email u = email) (tbl_users d)))"

definition Queries_GetUserByID :: "pg \<Rightarrow> pg_UUID \<Rightarrow> (db, go_error + db_User) state" where
  "Queries_GetUserByID E key =
     query_row E (select (\<lambda>d. filter (\<lambda>u. sql_eq (dbU_ID u) key) (tbl_users d)))"

text \<open>The join of a user's memberships with the roles.\<close>

definition roles_of :: "db \<Rightarrow> pg_UUID \<Rightarrow> db_Role list" where
  "roles_of d uid =
     concat (map (\<lambda>m. filter (\<lambda>r. sql_eq (dbR_ID r) (dbUR_RoleID m)) (tbl_roles d))
       (filter (\<lambda>m. sql_eq (dbUR_UserID m) uid) (tbl_user_roles d)))"

definition Queries_GetUserRoles :: "pg \<Rightarrow> pg_UUID \<Rightarrow> (db, go_error + db_Role list) state" where
  "Queries_GetUserRoles E userID =
     statement E (select (\<lambda>d. sort_key (\<lambda>r. pg_sortkey E (dbR_Name r)) (roles_of d userID)))"

record db_GetUserWithRolesAndApprovedRow =
  gurID :: pg_UUID
  gurApprovedUserID :: pg_UUID
  gurEmail :: string
  gurPasswordHash :: string
  gurIsActive :: bool
  gurCreatedAt :: pg_Timestamptz
  gurUpdatedAt :: pg_Timestamptz
  gurRoleNames :: any
  gurApprovedID :: pg_UUID
  gurApprovedEmail :: "string option"
  gurApprovedFirstName :: "string option"
  gurApprovedCreatedBy :: pg_UUID
  gurApprovedCreatedAt :: pg_Timestamptz
  gurApprovedUpdatedAt :: pg_Timestamptz

definition user_with_roles_row ::
  "pg \<Rightarrow> db \<Rightarrow> db_User \<Rightarrow> db_ApprovedUser option \<Rightarrow> db_GetUserWithRolesAndApprovedRow" where
  "user_with_roles_row E d u ao =
     \<lparr>gurID = dbU_ID u, gurApprovedUserID = dbU_ApprovedUserID u, gurEmail = dbU_Email u,
      gurPasswordHash = dbU_PasswordHash u, gurIsActive = dbU_IsActive u,
      gurCreatedAt = dbU_CreatedAt u, gurUpdatedAt = dbU_UpdatedAt u,
      gurRoleNames =
        AnyList (map AnyString (sort_key (pg_sortkey E) (map dbR_Name (roles_of d (dbU_ID u))))),
      gurApprovedID = (case ao of None \<Rightarrow> null_UUID | Some a \<Rightarrow> dbA_ID a),
      gurApprovedEmail = map_option dbA_Email ao,
      gurApprovedFirstName = map_option dbA_FirstName ao,
      gurApprovedCreatedBy = (case ao of None \<Rightarrow> null_UUID | Some a \<Rightarrow> dbA_CreatedBy a),
      gurApprovedCreatedAt = (case ao of None \<Rightarrow> null_Timestamptz | Some a \<Rightarrow> dbA_CreatedAt a),
      gurApprovedUpdatedAt = (case ao of None \<Rightarrow> null_Timestamptz | Some a \<Rightarrow> dbA_UpdatedAt a)\<rparr>"

definition left_join_approved :: "db \<Rightarrow> db_User \<Rightarrow> db_ApprovedUser option list" where
  "left_join_approved d u =
     (case filter (\<lambda>a. sql_eq (dbA_ID a) (dbU_ApprovedUserID u)) (tbl_approved_users d) of
        [] \<Rightarrow> [None] | as \<Rightarrow> map Some as)"

definition Queries_GetUserWithRolesAndApproved ::
  "pg \<Rightarrow> pg_UUID \<Rightarrow> (db, go_error + db_GetUserWithRolesAndApprovedRow) state" where
  "Queries_GetUserWithRolesAndApproved E key = query_row E (select (\<lambda>d.
     concat (map (\<lambda>u. map (user_with_roles_row E d u) (left_join_approved d u))
       (filter (\<lambda>u. sql_eq (dbU_ID u) key) (tbl_users d)))))"

record db_RemoveRoleFromUserParams =
  rrUserID :: pg_UUID
  rrRoleID :: pg_UUID

definition Queries_RemoveRoleFromUser ::
  "pg \<Rightarrow> db_RemoveRoleFromUserParams \<Rightarrow> (db, go_error + unit) state" where
  "Queries_RemoveRoleFromUser E arg = statement E (\<lambda>n d.
     Inr ((), d\<lparr>tbl_user_roles := filter (\<lambda>m. \<not> (sql_eq (dbUR_UserID m) (rrUserID arg) \<and>
       sql_eq (dbUR_RoleID m) (rrRoleID arg))) (tbl_user_roles d)\<rparr>))"

record db_UpdateUserParams =
  uuID :: pg_UUID
  uuEmail :: string
  uuPasswordHash :: string
  uuIsActive :: bool

definition Queries_UpdateUser :: "pg \<Rightarrow> db_UpdateUserParams \<Rightarrow> (db, go_error + db_User) state" where
  "Queries_UpdateUser E arg = query_row E (\<lambda>n d.
     let hit = (\<lambda>u. sql_eq (dbU_ID u) (uuID arg));
         upd = (\<lambda>u. u\<lparr>dbU_Email := uuEmail arg, dbU_PasswordHash := uuPasswordHash arg,
                    dbU_IsActive := uuIsActive arg, dbU_UpdatedAt := Now E n\<rparr>)
     in if (\<exists>u \<in> set (tbl_users d). hit u) \<and>
           (\<exists>u \<in> set (tbl_users d). \<not> hit u \<and> dbU_Email u = uuEmail arg)
        then Inl (UniqueViolation ''users_email_key'')
        else Inr (map upd (filter hit (tbl_users d)),
               d\<lparr>tbl_users := map (\<lambda>u. if hit u then upd u else u) (tbl_users d)\<rparr>))"

section \<open>todo.sql\<close>

record db_CreateTodoParams =
  ctUserID :: pg_UUID
  ctTitle :: string
  ctDescription :: "string option"
  ctIsCompleted :: bool
  ctDueDate :: pg_Timestamptz

definition Queries_CreateTodo :: "pg \<Rightarrow> db_CreateTodoParams \<Rightarrow> (db, go_error + db_Todo) state" where
  "Queries_CreateTodo E arg = query_row E (\<lambda>n d.
     let t = \<lparr>dbT_ID = gen_random_uuid E n 0, dbT_UserID = ctUserID arg, dbT_Title = ctTitle arg,
              dbT_Description = ctDescription arg, dbT_IsCompleted = ctIsCompleted arg,
              dbT_DueDate = ctDueDate arg, dbT_CreatedAt = Now E n, dbT_UpdatedAt = Now E n\<rparr>
     in case insert_todo t d of Inl e \<Rightarrow> Inl e | Inr d' \<Rightarrow> Inr ([t], d'))"

definition Queries_DeleteTodo :: "pg \<Rightarrow> pg_UUID \<Rightarrow> (db, go_error + unit) state" where
  "Queries_DeleteTodo E key = statement E (\<lambda>n d.
     Inr ((), d\<lparr>tbl_todos := filter (\<lambda>t. \<not> sql_eq (dbT_ID t) key) (tbl_todos d)\<rparr>))"

definition Queries_DeleteTodosByUserID :: "pg \<Rightarrow> pg_UUID \<Rightarrow> (db, go_error + unit) state" where
  "Queries_DeleteTodosByUserID E userID = statement E (\<lambda>n d.
     Inr ((), d\<lparr>tbl_todos := filter (\<lambda>t. \<not> sql_eq (dbT_UserID t) userID) (tbl_todos d)\<rparr>))"

definition Queries_GetTodoByID :: "pg \<Rightarrow> pg_UUID \<Rightarrow> (db, go_error + db_Todo) state" where
  "Queries_GetTodoByID E key =
     query_row E (select (\<lambda>d. filter (\<lambda>t. sql_eq (dbT_ID t) key) (tbl_todos d)))"

definition Queries_ListTodosByUserID :: "pg \<Rightarrow> pg_UUID \<Rightarrow> (db, go_error + db_Todo list) state" where
  "Queries_ListTodosByUserID E userID = statement E (select (\<lambda>d.
     created_desc dbT_CreatedAt (filter (\<lambda>t. sql_eq (dbT_UserID t) userID) (tbl_todos d))))"

record db_ListTodosByUserIDWithFiltersParams =
  ltUserID :: pg_UUID
  ltIsCompleted :: "bool option"
  ltSortBy :: any

text \<open>
  The three sort keys of the statement, the last one first: each sort is stable, so the earlier keys
  win. Keys are ascending with NULL last; only the third, the title, is descending.
\<close>

definition null_last :: "pg_Timestamptz \<Rightarrow> nat \<times> int" where
  "null_last t = (if Timestamptz_Valid t then (0, Timestamptz_Time t) else (1, 0))"

definition sort_null_last :: "('a \<Rightarrow> pg_Timestamptz) \<Rightarrow> 'a list \<Rightarrow> 'a list" where
  "sort_null_last f xs =
     sort_key (\<lambda>x. snd (null_last (f x))) (filter (\<lambda>x. fst (null_last (f x)) = 0) xs) @
     filter (\<lambda>x. fst (null_last (f x)) \<noteq> 0) xs"

definition sort_todos :: "pg \<Rightarrow> any \<Rightarrow> db_Todo list \<Rightarrow> db_Todo list" where
  "sort_todos E sortBy ts =
     (if sortBy = AnyString ''due_date'' then sort_null_last dbT_DueDate ts
      else if sortBy = AnyString ''created_at'' then sort_null_last dbT_CreatedAt ts
      else if sortBy = AnyString ''title'' then
        rev (sort_key (\<lambda>t. pg_sortkey E (dbT_Title t)) (rev ts))
      else ts)"

definition Queries_ListTodosByUserIDWithFilters ::
  "pg \<Rightarrow> db_ListTodosByUserIDWithFiltersParams \<Rightarrow> (db, go_error + db_Todo list) state" where
  "Queries_ListTodosByUserIDWithFilters E arg = statement E (select (\<lambda>d.
     sort_todos E (ltSortBy arg)
       (filter (\<lambda>t. sql_eq (dbT_UserID t) (ltUserID arg) \<and>
          (case ltIsCompleted arg of None \<Rightarrow> True | Some b \<Rightarrow> dbT_IsCompleted t = b))
        (tbl_todos d))))"

text \<open>\<open>UPDATE todos SET ... WHERE id = $1 RETURNING ...\<close> with the new row of each row hit.\<close>

definition update_todos :: "pg \<Rightarrow> pg_UUID \<Rightarrow> (nat \<Rightarrow> db_Todo \<Rightarrow> db_Todo) \<Rightarrow> (db, go_error + db_Todo) state" where
  "update_todos E key upd = query_row E (\<lambda>n d.
     let hit = (\<lambda>t. sql_eq (dbT_ID t) key)
     in Inr (map (upd n) (filter hit (tbl_todos d)),
             d\<lparr>tbl_todos := map (\<lambda>t. if hit t then upd n t else t) (tbl_todos d)\<rparr>))"

record db_UpdateTodoParams =
  utID :: pg_UUID
  utTitle :: string
  utDescription :: "string option"
  utIsCompleted :: bool
  utDueDate :: pg_Timestamptz

definition Queries_UpdateTodo :: "pg \<Rightarrow> db_UpdateTodoParams \<Rightarrow> (db, go_error + db_Todo) state" where
  "Queries_UpdateTodo E arg = update_todos E (utID arg) (\<lambda>n t.
     t\<lparr>dbT_Title := utTitle arg, dbT_Description := utDescription arg,
       dbT_IsCompleted := utIsCompleted arg, dbT_DueDate := utDueDate arg,
       dbT_UpdatedAt := Now E n\<rparr>)"

record db_UpdateTodoPartialParams =
  upTitle :: "string option"
  upDescription :: "string option"
  upIsCompleted :: "bool option"
  upDueDate :: pg_Timestamptz
  upID :: pg_UUID

text \<open>\<open>COALESCE($k, column)\<close>: a NULL argument keeps the column.\<close>

definition coalesce :: "'a option \<Rightarrow> 'a \<Rightarrow> 'a" where
  "coalesce v column = (case v of None \<Rightarrow> column | Some x \<Rightarrow> x)"

definition Queries_UpdateTodoPartial ::
  "pg \<Rightarrow> db_UpdateTodoPartialParams \<Rightarrow> (db, go_error + db_Todo) state" where
  "Queries_UpdateTodoPartial E arg = update_todos E (upID arg) (\<lambda>n t.
     t\<lparr>dbT_Title := coalesce (upTitle arg) (dbT_Title t),
       dbT_Description :=
         (case upDescription arg of None \<Rightarrow> dbT_Description t | Some x \<Rightarrow> Some x),
       dbT_IsCompleted := coalesce (upIsCompleted arg) (dbT_IsCompleted t),
       dbT_DueDate := (if Timestamptz_Valid (upDueDate arg) then upDueDate arg else dbT_DueDate t),
       dbT_UpdatedAt := Now E n\<rparr>)"

section \<open>Reasoning about statements\<close>

lemma wp_query_row [wp_simps]: "wp (query_row E q) Q d \<longleftrightarrow> wp (statement E q) (\<lambda>r. Q (scan_one r)) d"
  by (simp add: query_row_def wp_def split: prod.splits)

text \<open>
  A statement either has no effect beyond being counted (request lost, constraint violated), or its
  effect takes place and the caller sees the result or a connection failure.
\<close>

definition server_up :: "pg \<Rightarrow> bool" where
  "server_up E \<longleftrightarrow> (\<forall>n. pg_delivery E n = Delivered)"

abbreviation sent :: "db \<Rightarrow> db" where
  "sent d \<equiv> d\<lparr>roundtrips := Suc (roundtrips d)\<rparr>"

lemma wp_statementI:
  assumes "\<not> server_up E \<Longrightarrow> Q (Inl (DatabaseError ConnectionFailure)) (sent d)"
    and "\<And>e. q (roundtrips d) (sent d) = Inl e \<Longrightarrow> Q (Inl (DatabaseError e)) (sent d)"
    and "\<And>x d'. q (roundtrips d) (sent d) = Inr (x, d') \<Longrightarrow>
      Q (Inr x) d' \<and> (\<not> server_up E \<longrightarrow> Q (Inl (DatabaseError ConnectionFailure)) d')"
  shows "wp (statement E q) Q d"
proof -
  have "pg_delivery E (roundtrips d) = Delivered \<or> \<not> server_up E"
    by (auto simp: server_up_def)
  then show ?thesis
    using assms
    by (cases "pg_delivery E (roundtrips d)"; cases "q (roundtrips d) (sent d)")
      (auto simp: wp_def statement_def run_statement_def Let_def)
qed

lemma wp_selectI:
  assumes "\<not> server_up E \<Longrightarrow> Q (Inl (DatabaseError ConnectionFailure)) (sent d)"
    and "Q (Inr (f (sent d))) (sent d)"
  shows "wp (statement E (select f)) Q d"
  using assms by (intro wp_statementI) (auto simp: select_def)

lemma io_statement:
  assumes "reflp R" and "transp R" and "\<And>d n. R d (d\<lparr>roundtrips := n\<rparr>)"
    and "\<And>n d x d'. q n d = Inr (x, d') \<Longrightarrow> R d d'"
  shows "state_io_rel R (statement E q)"
proof
  fix r and d d' :: db
  assume "run_state (statement E q) d = (r, d')"
  moreover have "wp (statement E q) (\<lambda>_ d'. R d d') d"
    using assms by (intro wp_statementI) (blast dest: transpD)+
  ultimately show "R d d'" by (simp add: wp_def)
qed

lemma io_query_row:
  assumes "reflp R" and "transp R" and "\<And>d n. R d (d\<lparr>roundtrips := n\<rparr>)"
    and "\<And>n d x d'. q n d = Inr (x, d') \<Longrightarrow> R d d'"
  shows "state_io_rel R (query_row E q)"
  unfolding query_row_def using assms by (intro io_bind io_return io_statement) auto

text \<open>Statements keep the constraints of the schema.\<close>

lemma keeps_statement:
  "(\<And>n d x d'. q n d = Inr (x, d') \<Longrightarrow> db_inv d \<Longrightarrow> db_inv d') \<Longrightarrow>
   state_io_rel (keeps db_inv) (statement E q)"
  by (rule io_statement) (auto simp: keeps_def)

lemma keeps_query_row:
  "(\<And>n d x d'. q n d = Inr (x, d') \<Longrightarrow> db_inv d \<Longrightarrow> db_inv d') \<Longrightarrow>
   state_io_rel (keeps db_inv) (query_row E q)"
  by (rule io_query_row) (auto simp: keeps_def)

lemma keeps_select [simp]:
  "state_io_rel (keeps db_inv) (statement E (select f))"
  "state_io_rel (keeps db_inv) (query_row E (select g))"
  by (rule keeps_statement, simp add: select_def) (rule keeps_query_row, simp add: select_def)

lemma unnest3_rows:
  "unnest3 E n i es fs cs = Inr rows \<Longrightarrow> length es = length fs \<and> length rows = length es \<and>
     map dbA_Email rows = es \<and> map dbA_FirstName rows = fs"
proof (induction E n i es fs cs arbitrary: rows rule: unnest3.induct)
  case (4 E n i e es f fs cs)
  from "4.prems" obtain rs where "unnest3 E n (Suc i) es fs (tl cs) = Inr rs"
    and rows: "rows = new_approved_user E n i e f (case cs of [] \<Rightarrow> null_UUID | c # _ \<Rightarrow> c) # rs"
    by (auto split: sum.splits)
  from "4.IH" [OF this(1)] show ?case
    by (simp add: rows new_approved_user_def)
qed simp_all

lemma keeps_CreateApprovedUser: "state_io_rel (keeps db_inv) (Queries_CreateApprovedUser E arg)"
  unfolding Queries_CreateApprovedUser_def
  by (rule keeps_query_row) (auto simp: Let_def split: sum.splits dest: db_inv_insert_approved_users)

lemma keeps_CreateApprovedUsersBulk:
  "state_io_rel (keeps db_inv) (Queries_CreateApprovedUsersBulk E bulk)"
  unfolding Queries_CreateApprovedUsersBulk_def
  by (rule keeps_statement) (auto split: sum.splits dest: db_inv_insert_approved_users)

lemma keeps_DeleteApprovedUser: "state_io_rel (keeps db_inv) (Queries_DeleteApprovedUser E key)"
  unfolding Queries_DeleteApprovedUser_def
  by (rule keeps_statement) (auto simp: Let_def db_inv_delete_approved_users)

lemma keeps_AssignRole: "state_io_rel (keeps db_inv) (Queries_AssignRole E asg)"
  unfolding Queries_AssignRole_def
  by (rule keeps_statement) (auto split: sum.splits dest: db_inv_insert_user_role)

lemma keeps_CreateUser: "state_io_rel (keeps db_inv) (Queries_CreateUser E cu)"
  unfolding Queries_CreateUser_def
  by (rule keeps_query_row) (auto simp: Let_def split: sum.splits dest: db_inv_insert_user)

lemma keeps_DeleteUser: "state_io_rel (keeps db_inv) (Queries_DeleteUser E key)"
  unfolding Queries_DeleteUser_def
  by (rule keeps_statement) (auto simp: db_inv_delete_users)

lemma keeps_RemoveRoleFromUser: "state_io_rel (keeps db_inv) (Queries_RemoveRoleFromUser E rr)"
  unfolding Queries_RemoveRoleFromUser_def
  by (rule keeps_statement)
    (auto simp: db_inv_def table_defs intro: map_filter_distinct references_filter)

lemma db_inv_map_users:
  assumes "db_inv d" and "\<And>u. dbU_ID (f u) = dbU_ID u"
    and "\<And>u. dbU_ApprovedUserID (f u) = dbU_ApprovedUserID u"
    and "distinct (map dbU_Email (map f (tbl_users d)))"
  shows "db_inv (d\<lparr>tbl_users := map f (tbl_users d)\<rparr>)"
proof -
  have "dbU_ID ` f ` set (tbl_users d) = dbU_ID ` set (tbl_users d)"
    by (simp add: image_image assms(2))
  with assms show ?thesis
    by (simp add: db_inv_def table_defs primary_key_def references_def comp_def)
qed

lemma db_inv_update_user:
  fixes d :: db and key :: pg_UUID and email :: string
  defines "hit \<equiv> \<lambda>u. sql_eq (dbU_ID u) key"
  assumes inv: "db_inv d"
    and free: "(\<forall>u\<in>set (tbl_users d). \<not> hit u) \<or>
      (\<forall>u\<in>set (tbl_users d). \<not> hit u \<longrightarrow> dbU_Email u \<noteq> email)"
    and upd: "\<And>u. dbU_ID (upd u) = dbU_ID u"
      "\<And>u. dbU_ApprovedUserID (upd u) = dbU_ApprovedUserID u" "\<And>u. dbU_Email (upd u) = email"
  shows "db_inv (d\<lparr>tbl_users := map (\<lambda>u. if hit u then upd u else u) (tbl_users d)\<rparr>)"
proof (rule db_inv_map_users)
  have one: "u = v" if "u \<in> set (tbl_users d)" "v \<in> set (tbl_users d)" "hit u" "hit v" for u v
    using that db_inv_users_key [OF inv] db_inv_users_valid [OF inv]
    by (metis distinct_map_eq sql_eq_iff hit_def)
  have inj: "inj_on dbU_Email (set (tbl_users d))" and dist: "distinct (tbl_users d)"
    using db_inv_users_email [OF inv] by (simp_all add: distinct_map)
  have "inj_on (\<lambda>u. dbU_Email (if hit u then upd u else u)) (set (tbl_users d))"
  proof (rule inj_onI)
    fix u v
    assume "u \<in> set (tbl_users d)" "v \<in> set (tbl_users d)"
      and "dbU_Email (if hit u then upd u else u) = dbU_Email (if hit v then upd v else v)"
    then show "u = v"
      using one [of u v] free inj_onD [OF inj, of u v] by (cases "hit u"; cases "hit v") (auto simp: upd)
  qed
  then show "distinct (map dbU_Email (map (\<lambda>u. if hit u then upd u else u) (tbl_users d)))"
    using dist by (simp add: distinct_map comp_def)
qed (use inv upd in simp_all)

lemma keeps_UpdateUser: "state_io_rel (keeps db_inv) (Queries_UpdateUser E uu)"
  unfolding Queries_UpdateUser_def Let_def
  by (rule keeps_query_row, split if_split_asm) (auto intro!: db_inv_update_user)

lemma db_inv_map_todos:
  assumes "db_inv d" and "\<And>t. dbT_ID (f t) = dbT_ID t" and "\<And>t. dbT_UserID (f t) = dbT_UserID t"
  shows "db_inv (d\<lparr>tbl_todos := map f (tbl_todos d)\<rparr>)"
  using assms by (simp add: db_inv_def table_defs primary_key_def references_def comp_def)

lemma keeps_CreateTodo: "state_io_rel (keeps db_inv) (Queries_CreateTodo E ct)"
  unfolding Queries_CreateTodo_def
  by (rule keeps_query_row) (auto simp: Let_def split: sum.splits dest: db_inv_insert_todo)

lemma db_inv_filter_todos: "db_inv d \<Longrightarrow> db_inv (d\<lparr>tbl_todos := filter P (tbl_todos d)\<rparr>)"
  by (simp add: db_inv_def table_defs primary_key_filter references_filter)

lemma keeps_DeleteTodo: "state_io_rel (keeps db_inv) (Queries_DeleteTodo E key)"
  unfolding Queries_DeleteTodo_def by (rule keeps_statement) (auto simp: db_inv_filter_todos)

lemma keeps_DeleteTodosByUserID: "state_io_rel (keeps db_inv) (Queries_DeleteTodosByUserID E key)"
  unfolding Queries_DeleteTodosByUserID_def
  by (rule keeps_statement) (auto simp: db_inv_filter_todos)

lemma keeps_update_todos:
  assumes "\<And>n t. dbT_ID (upd n t) = dbT_ID t" and "\<And>n t. dbT_UserID (upd n t) = dbT_UserID t"
  shows "state_io_rel (keeps db_inv) (update_todos E key upd)"
  unfolding update_todos_def
  by (rule keeps_query_row) (auto simp: Let_def assms intro: db_inv_map_todos)

lemma keeps_UpdateTodo: "state_io_rel (keeps db_inv) (Queries_UpdateTodo E ut)"
  unfolding Queries_UpdateTodo_def by (rule keeps_update_todos) simp_all

lemma keeps_UpdateTodoPartial: "state_io_rel (keeps db_inv) (Queries_UpdateTodoPartial E up)"
  unfolding Queries_UpdateTodoPartial_def by (rule keeps_update_todos) simp_all

lemmas keeps_mutating_queries = keeps_CreateApprovedUser keeps_CreateApprovedUsersBulk
  keeps_DeleteApprovedUser keeps_AssignRole keeps_CreateUser keeps_DeleteUser
  keeps_RemoveRoleFromUser keeps_UpdateUser keeps_CreateTodo keeps_DeleteTodo
  keeps_DeleteTodosByUserID keeps_UpdateTodo keeps_UpdateTodoPartial

end
