(* ===== verification/Auth_Rows.thy ===== *)
theory Auth_Rows
  imports Queries
begin

text \<open>
  The row types of \<open>internal/auth/types.go\<close>, their conversions from and to the statement layer
  (\<open>convert.go\<close>), and the assembly of domain values from rows (\<open>mapper.go\<close> and the converters at
  the end of \<open>service.go\<close>). Pointers are options: each conversion of a pointer maps nil to nil.
\<close>

section \<open>Rows and inputs\<close>

record UserRow =
  UserRow_ID :: uuid
  UserRow_ApprovedUserID :: uuid
  UserRow_Email :: string
  UserRow_PasswordHash :: string
  UserRow_IsActive :: bool
  UserRow_CreatedAt :: go_time
  UserRow_UpdatedAt :: go_time

record ApprovedUserRow =
  ApprovedRow_ID :: uuid
  ApprovedRow_Email :: string
  ApprovedRow_FirstName :: string
  ApprovedRow_CreatedBy :: "uuid option"
  ApprovedRow_CreatedAt :: go_time
  ApprovedRow_UpdatedAt :: go_time

record RoleRow =
  RoleRow_ID :: uuid
  RoleRow_Name :: string
  RoleRow_Description :: "string option"
  RoleRow_CreatedAt :: go_time

record UserCreateInput =
  uciApprovedUserID :: uuid
  uciEmail :: string
  uciPasswordHash :: string
  uciIsActive :: bool

record ApprovedUserCreateInput =
  auciEmail :: string
  auciFirstName :: string
  auciCreatedBy :: uuid

record BulkApprovedUserInput =
  bauiEmails :: "string list"
  bauiFirstNames :: "string list"
  bauiCreatedBy :: uuid

record UserWithContext =
  uwcUser :: "UserRow option"
  uwcRoleNames :: "string list"
  uwcApprovedUser :: "ApprovedUserRow option"

section \<open>convert.go\<close>

definition userRowFromDB :: "db_User option \<Rightarrow> UserRow option" where
  "userRowFromDB p = (case p of
     None \<Rightarrow> None
   | Some u \<Rightarrow> Some
       \<lparr>UserRow_ID = PgUUIDToValue (dbU_ID u),
        UserRow_ApprovedUserID = PgUUIDToValue (dbU_ApprovedUserID u),
        UserRow_Email = dbU_Email u, UserRow_PasswordHash = dbU_PasswordHash u,
        UserRow_IsActive = dbU_IsActive u, UserRow_CreatedAt = Timestamptz_Time (dbU_CreatedAt u),
        UserRow_UpdatedAt = Timestamptz_Time (dbU_UpdatedAt u)\<rparr>)"

definition UserCreateInput_toCreateParams :: "UserCreateInput \<Rightarrow> db_CreateUserParams" where
  "UserCreateInput_toCreateParams inp =
     \<lparr>cuApprovedUserID = UUIDToPgtypeValue (uciApprovedUserID inp), cuEmail = uciEmail inp,
      cuPasswordHash = uciPasswordHash inp, cuIsActive = uciIsActive inp\<rparr>"

definition approvedUserRowFromDB :: "db_ApprovedUser option \<Rightarrow> ApprovedUserRow option" where
  "approvedUserRowFromDB p = (case p of
     None \<Rightarrow> None
   | Some a \<Rightarrow> Some
       \<lparr>ApprovedRow_ID = PgUUIDToValue (dbA_ID a), ApprovedRow_Email = dbA_Email a,
        ApprovedRow_FirstName = dbA_FirstName a,
        ApprovedRow_CreatedBy = PgUUIDToPtr (dbA_CreatedBy a),
        ApprovedRow_CreatedAt = Timestamptz_Time (dbA_CreatedAt a),
        ApprovedRow_UpdatedAt = Timestamptz_Time (dbA_UpdatedAt a)\<rparr>)"

definition ApprovedUserCreateInput_toCreateParams ::
  "ApprovedUserCreateInput \<Rightarrow> db_CreateApprovedUserParams" where
  "ApprovedUserCreateInput_toCreateParams inp =
     \<lparr>capEmail = auciEmail inp, capFirstName = auciFirstName inp,
      capCreatedBy = UUIDToPgtypeValue (auciCreatedBy inp)\<rparr>"

definition roleRowFromDB :: "db_Role \<Rightarrow> RoleRow" where
  "roleRowFromDB r =
     \<lparr>RoleRow_ID = PgUUIDToValue (dbR_ID r), RoleRow_Name = dbR_Name r,
      RoleRow_Description = dbR_Description r,
      RoleRow_CreatedAt = Timestamptz_Time (dbR_CreatedAt r)\<rparr>"

definition rolesFromDB :: "db_Role list \<Rightarrow> RoleRow list" where
  "rolesFromDB rs = map roleRowFromDB rs"

definition approvedUsersFromDB :: "db_ApprovedUser list \<Rightarrow> ApprovedUserRow option list" where
  "approvedUsersFromDB rs = map (\<lambda>a. approvedUserRowFromDB (Some a)) rs"

definition BulkApprovedUserInput_toCreateParams ::
  "BulkApprovedUserInput \<Rightarrow> db_CreateApprovedUsersBulkParams" where
  "BulkApprovedUserInput_toCreateParams inp =
     \<lparr>cabColumn1 = bauiEmails inp, cabColumn2 = bauiFirstNames inp,
      cabColumn3 =
        replicate (length (bauiEmails inp)) (UUIDToPgtypeValue (bauiCreatedBy inp))\<rparr>"

definition userRowFromAggregate ::
  "db_GetUserWithRolesAndApprovedRow option \<Rightarrow> UserRow option" where
  "userRowFromAggregate p = (case p of
     None \<Rightarrow> None
   | Some r \<Rightarrow> Some
       \<lparr>UserRow_ID = PgUUIDToValue (gurID r),
        UserRow_ApprovedUserID = PgUUIDToValue (gurApprovedUserID r),
        UserRow_Email = gurEmail r, UserRow_PasswordHash = gurPasswordHash r,
        UserRow_IsActive = gurIsActive r, UserRow_CreatedAt = Timestamptz_Time (gurCreatedAt r),
        UserRow_UpdatedAt = Timestamptz_Time (gurUpdatedAt r)\<rparr>)"

definition derefStr :: "string option \<Rightarrow> string" where
  "derefStr s = (case s of None \<Rightarrow> '''' | Some x \<Rightarrow> x)"

definition approvedUserRowFromAggregate ::
  "db_GetUserWithRolesAndApprovedRow option \<Rightarrow> ApprovedUserRow option" where
  "approvedUserRowFromAggregate p = (case p of
     None \<Rightarrow> None
   | Some r \<Rightarrow>
       if \<not> UUID_Valid (gurApprovedID r) then None
       else Some
         \<lparr>ApprovedRow_ID = PgUUIDToValue (gurApprovedID r),
          ApprovedRow_Email = derefStr (gurApprovedEmail r),
          ApprovedRow_FirstName = derefStr (gurApprovedFirstName r),
          ApprovedRow_CreatedBy = PgUUIDToPtr (gurApprovedCreatedBy r),
          ApprovedRow_CreatedAt = Timestamptz_Time (gurApprovedCreatedAt r),
          ApprovedRow_UpdatedAt = Timestamptz_Time (gurApprovedUpdatedAt r)\<rparr>)"

text \<open>The elements of the array that are strings; a value of another type yields a nil slice.\<close>

fun strings_of :: "any list \<Rightarrow> string list" where
  "strings_of [] = []"
| "strings_of (AnyString name # rs) = name # strings_of rs"
| "strings_of (_ # rs) = strings_of rs"

fun roleNamesFromAggregate :: "any \<Rightarrow> string list" where
  "roleNamesFromAggregate (AnyList raw) = strings_of raw"
| "roleNamesFromAggregate _ = []"

lemma strings_of_map [simp]: "strings_of (map AnyString xs) = xs"
  by (induction xs) simp_all

section \<open>Domain values\<close>

definition ApprovedUser_of_row :: "ApprovedUserRow \<Rightarrow> ApprovedUser" where
  "ApprovedUser_of_row a =
     \<lparr>ApprovedUser_ID = ApprovedRow_ID a, ApprovedUser_Email = ApprovedRow_Email a,
      ApprovedUser_FirstName = ApprovedRow_FirstName a,
      ApprovedUser_CreatedBy = ApprovedRow_CreatedBy a,
      ApprovedUser_CreatedAt = ApprovedRow_CreatedAt a,
      ApprovedUser_UpdatedAt = ApprovedRow_UpdatedAt a\<rparr>"

definition ToDomainUser :: "UserRow \<Rightarrow> ApprovedUserRow option \<Rightarrow> RoleRow list \<Rightarrow> User" where
  "ToDomainUser user approved roles =
     \<lparr>User_ID = UserRow_ID user, User_ApprovedUserID = UserRow_ApprovedUserID user,
      User_HashedPassword = UserRow_PasswordHash user, User_IsActive = UserRow_IsActive user,
      User_CreatedAt = UserRow_CreatedAt user, User_UpdatedAt = UserRow_UpdatedAt user,
      User_ApprovedUser = map_option ApprovedUser_of_row approved,
      User_Roles = map (\<lambda>r. \<lparr>Role_ID = RoleRow_ID r, Role_Name = RoleRow_Name r,
        Role_Description = RoleRow_Description r, Role_CreatedAt = RoleRow_CreatedAt r\<rparr>) roles\<rparr>"

text \<open>The zero \<open>time.Time\<close> is instant 0 here: no code compares these fields with a clock.\<close>

definition userToDomain :: "UserRow \<Rightarrow> ApprovedUserRow option \<Rightarrow> string list \<Rightarrow> User" where
  "userToDomain user approved roleNames =
     \<lparr>User_ID = UserRow_ID user, User_ApprovedUserID = UserRow_ApprovedUserID user,
      User_HashedPassword = UserRow_PasswordHash user, User_IsActive = UserRow_IsActive user,
      User_CreatedAt = UserRow_CreatedAt user, User_UpdatedAt = UserRow_UpdatedAt user,
      User_ApprovedUser = map_option ApprovedUser_of_row approved,
      User_Roles = map (\<lambda>name. \<lparr>Role_ID = uuid_Nil, Role_Name = name, Role_Description = None,
        Role_CreatedAt = 0\<rparr>) roleNames\<rparr>"

definition approvedUserToDomain :: "ApprovedUserRow option \<Rightarrow> ApprovedUser option" where
  "approvedUserToDomain r = (case r of None \<Rightarrow> None | Some a \<Rightarrow> Some (ApprovedUser_of_row a))"

definition approvedUsersToDomain :: "ApprovedUserRow option list \<Rightarrow> ApprovedUser option list" where
  "approvedUsersToDomain rs = map approvedUserToDomain rs"

text \<open>The two assemblies of a domain user agree on everything but the roles' descriptions.\<close>

lemma ToDomainUser_userToDomain:
  "ToDomainUser u a rs = (userToDomain u a (map RoleRow_Name rs))
     \<lparr>User_Roles := User_Roles (ToDomainUser u a rs)\<rparr>"
  "map Role_Name (User_Roles (ToDomainUser u a rs)) =
     map Role_Name (User_Roles (userToDomain u a (map RoleRow_Name rs)))"
  by (simp_all add: ToDomainUser_def userToDomain_def comp_def)

lemma userToDomain_simps [simp]:
  "User_ID (userToDomain u a names) = UserRow_ID u"
  "User_ApprovedUserID (userToDomain u a names) = UserRow_ApprovedUserID u"
  "User_IsActive (userToDomain u a names) = UserRow_IsActive u"
  by (simp_all add: userToDomain_def)

lemma HasRole_userToDomain [simp]: "HasRole (userToDomain u a names) n \<longleftrightarrow> n \<in> set names"
  by (auto simp: HasRole_iff userToDomain_def image_image)

section \<open>Rows of the tables\<close>

definition user_row :: "db_User \<Rightarrow> UserRow" where
  "user_row u = the (userRowFromDB (Some u))"

definition approved_row :: "db_ApprovedUser \<Rightarrow> ApprovedUserRow" where
  "approved_row a = the (approvedUserRowFromDB (Some a))"

lemma row_Some [simp]:
  "userRowFromDB (Some u) = Some (user_row u)" "approvedUserRowFromDB (Some a) = Some (approved_row a)"
  by (simp_all add: user_row_def approved_row_def userRowFromDB_def approvedUserRowFromDB_def)

lemma user_row_simps [simp]:
  "UserRow_ID (user_row u) = PgUUIDToValue (dbU_ID u)"
  "UserRow_ApprovedUserID (user_row u) = PgUUIDToValue (dbU_ApprovedUserID u)"
  "UserRow_Email (user_row u) = dbU_Email u"
  "UserRow_PasswordHash (user_row u) = dbU_PasswordHash u"
  "UserRow_IsActive (user_row u) = dbU_IsActive u"
  by (simp_all add: user_row_def userRowFromDB_def)

lemma approved_row_simps [simp]:
  "ApprovedRow_ID (approved_row a) = PgUUIDToValue (dbA_ID a)"
  "ApprovedRow_Email (approved_row a) = dbA_Email a"
  "ApprovedRow_FirstName (approved_row a) = dbA_FirstName a"
  "ApprovedRow_CreatedBy (approved_row a) = PgUUIDToPtr (dbA_CreatedBy a)"
  "ApprovedRow_CreatedAt (approved_row a) = Timestamptz_Time (dbA_CreatedAt a)"
  by (simp_all add: approved_row_def approvedUserRowFromDB_def)

lemma role_row_simps [simp]:
  "RoleRow_ID (roleRowFromDB r) = PgUUIDToValue (dbR_ID r)" "RoleRow_Name (roleRowFromDB r) = dbR_Name r"
  by (simp_all add: roleRowFromDB_def)

lemma aggregate_row [simp]:
  "userRowFromAggregate (Some (user_with_roles_row E d u ao)) = Some (user_row u)"
  "approvedUserRowFromAggregate (Some (user_with_roles_row E d u None)) = None"
  "UUID_Valid (dbA_ID a) \<Longrightarrow>
   approvedUserRowFromAggregate (Some (user_with_roles_row E d u (Some a))) = Some (approved_row a)"
  "roleNamesFromAggregate (gurRoleNames (user_with_roles_row E d u ao)) =
     sort_key (pg_sortkey E) (map dbR_Name (roles_of d (dbU_ID u)))"
  by (simp_all add: user_row_def approved_row_def userRowFromAggregate_def userRowFromDB_def user_with_roles_row_def null_UUID_def
      approvedUserRowFromAggregate_def approvedUserRowFromDB_def derefStr_def)

end
