(* ===== verification/Auth_Interfaces.thy ===== *)
theory Auth_Interfaces
  imports Auth_Rows
begin

text \<open>
  The interface \<open>UserRepository\<close> of \<open>internal/auth/interfaces.go\<close> as a record of operations over an
  arbitrary repository state, and its contract: an abstract view of that state, an invariant, and
  what each operation answers and changes. The services are verified against the contract;
  \<open>Auth_Repository\<close> shows that the repository over the database satisfies it.

  \<open>up\<close> says that no request or reply is lost. Without it an operation may answer with a connection
  failure, and a failed write may or may not have taken effect.
\<close>

section \<open>Interface and view\<close>

record 's UserRepository =
  repo_GetUserByEmail :: "string \<Rightarrow> ('s, go_error + UserRow option) state"
  repo_GetUserByID :: "uuid \<Rightarrow> ('s, go_error + UserRow option) state"
  repo_CreateUser :: "UserCreateInput \<Rightarrow> ('s, go_error + UserRow option) state"
  repo_ApprovedUserExists :: "uuid \<Rightarrow> ('s, go_error + bool) state"
  repo_GetApprovedUserByID :: "uuid \<Rightarrow> ('s, go_error + ApprovedUserRow option) state"
  repo_GetUserRoles :: "uuid \<Rightarrow> ('s, go_error + RoleRow list) state"
  repo_GetRoleByName :: "string \<Rightarrow> ('s, go_error + RoleRow option) state"
  repo_AssignRoleToUser :: "uuid \<Rightarrow> uuid \<Rightarrow> ('s, go_error + unit) state"
  repo_ListApprovedUsers :: "('s, go_error + ApprovedUserRow option list) state"
  repo_CreateApprovedUser :: "ApprovedUserCreateInput \<Rightarrow> ('s, go_error + ApprovedUserRow option) state"
  repo_BulkCreateApprovedUsers ::
    "BulkApprovedUserInput \<Rightarrow> ('s, go_error + ApprovedUserRow option list) state"
  repo_DeleteApprovedUser :: "uuid \<Rightarrow> ('s, go_error + unit) state"
  repo_GetApprovedUserByEmail :: "string \<Rightarrow> ('s, go_error + ApprovedUserRow option) state"
  repo_GetUserWithRolesAndApproved :: "uuid \<Rightarrow> ('s, go_error + UserWithContext option) state"

record auth_view =
  v_users :: "UserRow set"
  v_approved :: "ApprovedUserRow set"
  v_roles :: "RoleRow set"
  v_members :: "(uuid \<times> uuid) set"

definition role_names_of :: "auth_view \<Rightarrow> uuid \<Rightarrow> string set" where
  "role_names_of v uid = RoleRow_Name ` {r \<in> v_roles v. (uid, RoleRow_ID r) \<in> v_members v}"

section \<open>Effects\<close>

definition user_created :: "UserCreateInput \<Rightarrow> UserRow option \<Rightarrow> auth_view \<Rightarrow> auth_view \<Rightarrow> bool" where
  "user_created inp p v v' \<longleftrightarrow> (\<exists>u. p = Some u \<and> v' = v\<lparr>v_users := insert u (v_users v)\<rparr> \<and>
     UserRow_ApprovedUserID u = uciApprovedUserID inp \<and> UserRow_Email u = uciEmail inp \<and>
     UserRow_PasswordHash u = uciPasswordHash inp \<and> UserRow_IsActive u = uciIsActive inp \<and>
     (\<forall>u' \<in> v_users v. UserRow_ID u' \<noteq> UserRow_ID u \<and> UserRow_Email u' \<noteq> UserRow_Email u) \<and>
     (\<exists>a \<in> v_approved v. ApprovedRow_ID a = uciApprovedUserID inp))"

definition user_refused :: "UserCreateInput \<Rightarrow> auth_view \<Rightarrow> go_error \<Rightarrow> bool" where
  "user_refused inp v e \<longleftrightarrow>
     (e = DatabaseError (UniqueViolation ''users_pkey'')) \<or>
     (e = DatabaseError (UniqueViolation ''users_email_key'') \<and>
        (\<exists>u \<in> v_users v. UserRow_Email u = uciEmail inp)) \<or>
     (e = DatabaseError (ForeignKeyViolation ''users_approved_user_id_fkey'') \<and>
        (\<forall>a \<in> v_approved v. ApprovedRow_ID a \<noteq> uciApprovedUserID inp))"

definition role_assigned :: "uuid \<Rightarrow> uuid \<Rightarrow> unit \<Rightarrow> auth_view \<Rightarrow> auth_view \<Rightarrow> bool" where
  "role_assigned uid rid _ v v' \<longleftrightarrow> v' = v\<lparr>v_members := insert (uid, rid) (v_members v)\<rparr> \<and>
     (\<exists>u \<in> v_users v. UserRow_ID u = uid) \<and> (\<exists>r \<in> v_roles v. RoleRow_ID r = rid)"

definition role_refused :: "uuid \<Rightarrow> uuid \<Rightarrow> auth_view \<Rightarrow> go_error \<Rightarrow> bool" where
  "role_refused uid rid v e \<longleftrightarrow>
     (e = DatabaseError (ForeignKeyViolation ''user_roles_user_id_fkey'') \<and>
        (\<forall>u \<in> v_users v. UserRow_ID u \<noteq> uid)) \<or>
     (e = DatabaseError (ForeignKeyViolation ''user_roles_role_id_fkey'') \<and>
        (\<forall>r \<in> v_roles v. RoleRow_ID r \<noteq> rid))"

text \<open>Rows added to the approved users: fresh identifiers and e-mails, as the input lists them.\<close>

definition approved_added ::
  "(string \<times> string) list \<Rightarrow> uuid \<Rightarrow> ApprovedUserRow option list \<Rightarrow> auth_view \<Rightarrow> auth_view \<Rightarrow> bool" where
  "approved_added pairs by ps v v' \<longleftrightarrow> (\<exists>as. ps = map Some as \<and>
     v' = v\<lparr>v_approved := v_approved v \<union> set as\<rparr> \<and>
     map (\<lambda>a. (ApprovedRow_Email a, ApprovedRow_FirstName a)) as = pairs \<and>
     (\<forall>a \<in> set as. ApprovedRow_CreatedBy a = Some by) \<and>
     distinct (map ApprovedRow_ID as) \<and> distinct (map ApprovedRow_Email as) \<and>
     (\<forall>a \<in> set as. \<forall>b \<in> v_approved v. ApprovedRow_ID a \<noteq> ApprovedRow_ID b \<and>
        ApprovedRow_Email a \<noteq> ApprovedRow_Email b))"

text \<open>The refusals of an insertion are constraint violations.\<close>

definition constraint_error :: "go_error \<Rightarrow> bool" where
  "constraint_error e \<longleftrightarrow>
     (\<exists>c. e = DatabaseError (UniqueViolation c) \<or> e = DatabaseError (ForeignKeyViolation c))"

definition approved_refused :: "string list \<Rightarrow> uuid \<Rightarrow> auth_view \<Rightarrow> go_error \<Rightarrow> bool" where
  "approved_refused emails by v e \<longleftrightarrow>
     (e = DatabaseError (UniqueViolation ''approved_users_pkey'')) \<or>
     (e = DatabaseError (UniqueViolation ''approved_users_email_key'') \<and>
        (\<not> distinct emails \<or> set emails \<inter> ApprovedRow_Email ` v_approved v \<noteq> {})) \<or>
     (e = DatabaseError (ForeignKeyViolation ''approved_users_created_by_fkey'') \<and>
        (\<forall>a \<in> v_approved v. ApprovedRow_ID a \<noteq> by))"

definition clear_creator :: "uuid \<Rightarrow> ApprovedUserRow \<Rightarrow> ApprovedUserRow" where
  "clear_creator key a =
     (if ApprovedRow_CreatedBy a = Some key then a\<lparr>ApprovedRow_CreatedBy := None\<rparr> else a)"

text \<open>
  Deleting an approved user: the row goes, rows it created forget their creator, and the accounts
  registered under it go with their role memberships.
\<close>

definition without_approved :: "uuid \<Rightarrow> auth_view \<Rightarrow> auth_view" where
  "without_approved key v =
     v\<lparr>v_approved := clear_creator key ` {a \<in> v_approved v. ApprovedRow_ID a \<noteq> key},
       v_users := {u \<in> v_users v. UserRow_ApprovedUserID u \<noteq> key},
       v_members := {(uid, rid) \<in> v_members v.
         \<exists>u \<in> v_users v. UserRow_ID u = uid \<and> UserRow_ApprovedUserID u \<noteq> key}\<rparr>"

definition approved_deleted :: "uuid \<Rightarrow> unit \<Rightarrow> auth_view \<Rightarrow> auth_view \<Rightarrow> bool" where
  "approved_deleted key _ v v' \<longleftrightarrow>
     (\<exists>a \<in> v_approved v. ApprovedRow_ID a = key) \<and> v' = without_approved key v"

definition delete_refused :: "uuid \<Rightarrow> auth_view \<Rightarrow> go_error \<Rightarrow> bool" where
  "delete_refused key v e \<longleftrightarrow>
     e = ErrApprovedUserNotFound \<and> (\<forall>a \<in> v_approved v. ApprovedRow_ID a \<noteq> key)"

text \<open>The aggregate of a user: the row, its approved user, and the names of its roles.\<close>

definition aggregates :: "auth_view \<Rightarrow> uuid \<Rightarrow> UserWithContext set" where
  "aggregates v key = {c. \<exists>u \<in> v_users v. \<exists>a \<in> v_approved v.
     UserRow_ID u = key \<and> ApprovedRow_ID a = UserRow_ApprovedUserID u \<and>
     uwcUser c = Some u \<and> uwcApprovedUser c = Some a \<and>
     set (uwcRoleNames c) = role_names_of v key \<and> distinct (uwcRoleNames c)}"

section \<open>The contract\<close>

locale user_repository =
  fixes R :: "'s UserRepository"
    and inv :: "'s \<Rightarrow> bool"
    and view :: "'s \<Rightarrow> auth_view"
    and up :: bool
  assumes users_email: "inv s \<Longrightarrow> inj_on UserRow_Email (v_users (view s))"
    and users_id: "inv s \<Longrightarrow> inj_on UserRow_ID (v_users (view s))"
    and approved_id: "inv s \<Longrightarrow> inj_on ApprovedRow_ID (v_approved (view s))"
    and approved_email: "inv s \<Longrightarrow> inj_on ApprovedRow_Email (v_approved (view s))"
    and roles_name: "inv s \<Longrightarrow> inj_on RoleRow_Name (v_roles (view s))"
    and roles_finite: "inv s \<Longrightarrow> finite (v_roles (view s))"
    and users_approved: "inv s \<Longrightarrow> u \<in> v_users (view s) \<Longrightarrow>
      \<exists>a \<in> v_approved (view s). ApprovedRow_ID a = UserRow_ApprovedUserID u"
    and members_users: "inv s \<Longrightarrow> (uid, rid) \<in> v_members (view s) \<Longrightarrow>
      \<exists>u \<in> v_users (view s). UserRow_ID u = uid"
    and GetUserByEmail: "inv s \<Longrightarrow> wp (repo_GetUserByEmail R email) (\<lambda>r s'. inv s' \<and> view s' = view s \<and>
      lookup up {u \<in> v_users (view s). UserRow_Email u = email} r) s"
    and GetUserByID: "inv s \<Longrightarrow> wp (repo_GetUserByID R key) (\<lambda>r s'. inv s' \<and> view s' = view s \<and>
      lookup up {u \<in> v_users (view s). UserRow_ID u = key} r) s"
    and CreateUser: "inv s \<Longrightarrow> wp (repo_CreateUser R uci) (\<lambda>r s'. inv s' \<and>
      writes up (user_created uci) (user_refused uci) (view s) r (view s')) s"
    and ApprovedUserExists: "inv s \<Longrightarrow> wp (repo_ApprovedUserExists R key) (\<lambda>r s'. inv s' \<and> view s' = view s \<and>
      reads up (\<lambda>b. b = (\<exists>a \<in> v_approved (view s). ApprovedRow_ID a = key)) r) s"
    and GetApprovedUserByID: "inv s \<Longrightarrow> wp (repo_GetApprovedUserByID R key) (\<lambda>r s'. inv s' \<and> view s' = view s \<and>
      lookup up {a \<in> v_approved (view s). ApprovedRow_ID a = key} r) s"
    and GetUserRoles: "inv s \<Longrightarrow> wp (repo_GetUserRoles R key) (\<lambda>r s'. inv s' \<and> view s' = view s \<and>
      reads up (\<lambda>rs. set rs = {r \<in> v_roles (view s). (key, RoleRow_ID r) \<in> v_members (view s)}) r) s"
    and GetRoleByName: "inv s \<Longrightarrow> wp (repo_GetRoleByName R name) (\<lambda>r s'. inv s' \<and> view s' = view s \<and>
      reads up (\<lambda>p. case p of None \<Rightarrow> name \<notin> RoleRow_Name ` v_roles (view s)
        | Some x \<Rightarrow> x \<in> v_roles (view s) \<and> RoleRow_Name x = name) r) s"
    and AssignRoleToUser: "inv s \<Longrightarrow> wp (repo_AssignRoleToUser R uid rid) (\<lambda>r s'. inv s' \<and>
      writes up (role_assigned uid rid) (role_refused uid rid) (view s) r (view s')) s"
    and ListApprovedUsers: "inv s \<Longrightarrow> wp (repo_ListApprovedUsers R) (\<lambda>r s'. inv s' \<and> view s' = view s \<and>
      reads up (\<lambda>ps. \<exists>as. ps = map Some as \<and> set as = v_approved (view s) \<and>
        distinct (map ApprovedRow_ID as) \<and> sorted (rev (map ApprovedRow_CreatedAt as))) r) s"
    and CreateApprovedUser: "inv s \<Longrightarrow> wp (repo_CreateApprovedUser R auci) (\<lambda>r s'. inv s' \<and>
      writes up (\<lambda>p. approved_added [(auciEmail auci, auciFirstName auci)] (auciCreatedBy auci) [p])
        (approved_refused [auciEmail auci] (auciCreatedBy auci)) (view s) r (view s')) s"
    and BulkCreateApprovedUsers: "inv s \<Longrightarrow> wp (repo_BulkCreateApprovedUsers R bulk) (\<lambda>r s'. inv s' \<and>
      writes up (approved_added (zip (bauiEmails bulk) (bauiFirstNames bulk)) (bauiCreatedBy bulk))
        (\<lambda>v e. if length (bauiEmails bulk) \<noteq> length (bauiFirstNames bulk) then e = ErrInvalidInput
          else approved_refused (bauiEmails bulk) (bauiCreatedBy bulk) v e) (view s) r (view s')) s"
    and DeleteApprovedUser: "inv s \<Longrightarrow> wp (repo_DeleteApprovedUser R key) (\<lambda>r s'. inv s' \<and>
      writes up (approved_deleted key) (delete_refused key) (view s) r (view s')) s"
    and GetApprovedUserByEmail: "inv s \<Longrightarrow> wp (repo_GetApprovedUserByEmail R email) (\<lambda>r s'. inv s' \<and> view s' = view s \<and>
      lookup up {a \<in> v_approved (view s). ApprovedRow_Email a = email} r) s"
    and GetUserWithRolesAndApproved: "inv s \<Longrightarrow> wp (repo_GetUserWithRolesAndApproved R key)
      (\<lambda>r s'. inv s' \<and> view s' = view s \<and> lookup up (aggregates (view s) key) r) s"
begin

text \<open>E-mail addresses and identifiers identify users.\<close>

lemma user_by_email:
  assumes "inv s" and "u \<in> v_users (view s)"
  shows "{u' \<in> v_users (view s). UserRow_Email u' = UserRow_Email u} = {u}"
  using assms users_email [OF assms(1)] by (auto dest: inj_onD)

lemma user_by_id:
  assumes "inv s" and "u \<in> v_users (view s)"
  shows "{u' \<in> v_users (view s). UserRow_ID u' = UserRow_ID u} = {u}"
  using assms users_id [OF assms(1)] by (auto dest: inj_onD)

text \<open>Every account has an aggregate.\<close>

lemma aggregates_nonempty:
  assumes "inv s" and "u \<in> v_users (view s)"
  shows "aggregates (view s) (UserRow_ID u) \<noteq> {}"
proof -
  obtain a where a: "a \<in> v_approved (view s)" "ApprovedRow_ID a = UserRow_ApprovedUserID u"
    using users_approved [OF assms] by auto
  have "finite (role_names_of (view s) (UserRow_ID u))"
    using roles_finite [OF assms(1)] by (simp add: role_names_of_def)
  then obtain names where "set names = role_names_of (view s) (UserRow_ID u)" "distinct names"
    using finite_distinct_list by blast
  with a assms(2) have "\<lparr>uwcUser = Some u, uwcRoleNames = names, uwcApprovedUser = Some a\<rparr> \<in>
      aggregates (view s) (UserRow_ID u)"
    by (auto simp: aggregates_def)
  then show ?thesis by blast
qed

end

end
