(* ===== verification/Auth_Service.thy ===== *)
theory Auth_Service
  imports Auth_Interfaces
begin

text \<open>
  The authentication service of \<open>internal/auth/service.go\<close> with the process-wide cache of the default
  role (\<open>rolecache.go\<close>), over any repository \<open>R\<close>.

  The state of the process is the repository's state, the cached role identifier (\<open>None\<close> before the
  first \<open>Store\<close>) and the number of readings taken so far from the clock and the random source, which
  indexes both. The packages the service calls and this repository does not hold (uuid, bcrypt, jwt)
  are the fields of the parameter \<open>auth_libs\<close>; what the code relies on about them is named in
  \<open>token_roundtrip\<close> and its neighbours below.
\<close>

section \<open>Third-party packages\<close>

datatype signing_method = SigningMethodHMAC string | OtherSigningMethod string

text \<open>A Go map of claims, as the list of its entries.\<close>

type_synonym claims = "(string \<times> any) list"

datatype jwt_claims = MapClaims claims | OtherClaims

record jwt_token =
  tok_Method :: signing_method
  tok_Claims :: jwt_claims
  tok_Valid :: bool

record auth_libs =
  uuid_Parse :: "string \<Rightarrow> go_error + uuid"
  uuid_String :: "uuid \<Rightarrow> string"
  bcrypt_GenerateFromPassword :: "nat \<Rightarrow> string \<Rightarrow> int \<Rightarrow> go_error + string"
  bcrypt_CompareHashAndPassword :: "string \<Rightarrow> string \<Rightarrow> go_error option"
  jwt_SignedString :: "signing_method \<Rightarrow> claims \<Rightarrow> string \<Rightarrow> go_error + string"
  jwt_Parse :: "go_time \<Rightarrow> string list \<Rightarrow> bool \<Rightarrow> (jwt_token \<Rightarrow> go_error + string) \<Rightarrow> string \<Rightarrow>
    go_error + jwt_token"
  time_Now :: "nat \<Rightarrow> go_time"

definition SigningMethodHS256 :: signing_method where
  "SigningMethodHS256 = SigningMethodHMAC ''HS256''"

section \<open>State\<close>

record 's auth_state =
  as_repo :: 's
  as_defaultUserRoleID :: "uuid option"
  as_calls :: nat

definition on_repo :: "('s, 'a) state \<Rightarrow> ('s auth_state, 'a) state" where
  "on_repo m = zoom as_repo (\<lambda>s w. w\<lparr>as_repo := s\<rparr>) m"

definition next_call :: "('s auth_state, nat) state" where
  "next_call = State (\<lambda>w. (as_calls w, w\<lparr>as_calls := Suc (as_calls w)\<rparr>))"

lemma wp_on_repo [wp_simps]:
  "wp (on_repo m) Q w \<longleftrightarrow> wp m (\<lambda>r s. Q r (w\<lparr>as_repo := s\<rparr>)) (as_repo w)"
  by (simp add: on_repo_def wp_zoom)

lemma wp_next_call [wp_simps]:
  "wp next_call Q w \<longleftrightarrow> Q (as_calls w) (w\<lparr>as_calls := Suc (as_calls w)\<rparr>)"
  by (simp add: next_call_def wp_def)

record service =
  svc_jwtSecret :: string
  svc_jwtExpiry :: go_duration
  svc_bcryptCost :: int

definition NewService :: "string \<Rightarrow> go_duration \<Rightarrow> int \<Rightarrow> service" where
  "NewService jwtSecret jwtExpiry bcryptCost =
     \<lparr>svc_jwtSecret = jwtSecret, svc_jwtExpiry = jwtExpiry, svc_bcryptCost = bcryptCost\<rparr>"

section \<open>The default role\<close>

definition DefaultUserRoleID :: "('s auth_state, uuid) state" where
  "DefaultUserRoleID =
     State (\<lambda>w. (case as_defaultUserRoleID w of Some i \<Rightarrow> i | None \<Rightarrow> uuid_Nil, w))"

definition SetDefaultUserRoleID :: "uuid \<Rightarrow> ('s auth_state, unit) state" where
  "SetDefaultUserRoleID i = State (\<lambda>w. ((), w\<lparr>as_defaultUserRoleID := Some i\<rparr>))"

definition default_role_loaded :: "('s auth_state, bool) state" where
  "default_role_loaded = State (\<lambda>w. (as_defaultUserRoleID w \<noteq> None, w))"

definition InitDefaultRoles :: "'s UserRepository \<Rightarrow> ('s auth_state, go_error + unit) state" where
  "InitDefaultRoles R = do {
     loaded \<leftarrow> default_role_loaded;
     if loaded then State_Monad.return (Inr ())
     else tryE (on_repo (repo_GetRoleByName R ''user'')) (\<lambda>r.
       case r of
         None \<Rightarrow> State_Monad.return (Inl ErrUserNotFound)
       | Some role \<Rightarrow> do { SetDefaultUserRoleID (RoleRow_ID role); State_Monad.return (Inr ()) })
   }"

lemma wp_default_role [wp_simps]:
  "wp DefaultUserRoleID Q w \<longleftrightarrow> Q (case as_defaultUserRoleID w of Some i \<Rightarrow> i | None \<Rightarrow> uuid_Nil) w"
  "wp (SetDefaultUserRoleID i) Q' w \<longleftrightarrow> Q' () (w\<lparr>as_defaultUserRoleID := Some i\<rparr>)"
  "wp default_role_loaded Q'' w \<longleftrightarrow> Q'' (as_defaultUserRoleID w \<noteq> None) w"
  by (simp_all add: DefaultUserRoleID_def SetDefaultUserRoleID_def default_role_loaded_def wp_def)

definition assignDefaultRole ::
  "'s UserRepository \<Rightarrow> uuid \<Rightarrow> ('s auth_state, go_error + unit) state" where
  "assignDefaultRole R userID = do {
     cached \<leftarrow> DefaultUserRoleID;
     roleID \<leftarrow>
       (if cached = uuid_Nil then do {
          r \<leftarrow> on_repo (repo_GetRoleByName R ''user'');
          case r of
            Inr (Some userRole) \<Rightarrow> do {
              SetDefaultUserRoleID (RoleRow_ID userRole);
              State_Monad.return (RoleRow_ID userRole) }
          | _ \<Rightarrow> State_Monad.return cached }
        else State_Monad.return cached);
     if roleID = uuid_Nil then State_Monad.return (Inr ())
     else on_repo (repo_AssignRoleToUser R userID roleID)
   }"

section \<open>Tokens\<close>

definition token_claims :: "auth_libs \<Rightarrow> service \<Rightarrow> go_time \<Rightarrow> UserRow \<Rightarrow> claims" where
  "token_claims L svc now user =
     [(''user_id'', AnyString (uuid_String L (UserRow_ID user))),
      (''email'', AnyString (UserRow_Email user)),
      (''exp'', AnyInt ((now + svc_jwtExpiry svc) div Second))]"

definition issue_token :: "auth_libs \<Rightarrow> service \<Rightarrow> UserRow \<Rightarrow> ('s auth_state, go_error + string) state" where
  "issue_token L svc user = do {
     n \<leftarrow> next_call;
     State_Monad.return
       (jwt_SignedString L SigningMethodHS256 (token_claims L svc (time_Now L n) user)
          (svc_jwtSecret svc))
   }"

text \<open>The key function given to \<open>jwt.Parse\<close>.\<close>

definition token_key :: "service \<Rightarrow> jwt_token \<Rightarrow> go_error + string" where
  "token_key svc token =
     (case tok_Method token of
        SigningMethodHMAC alg \<Rightarrow> Inr (svc_jwtSecret svc)
      | OtherSigningMethod alg \<Rightarrow> Inl ErrInvalidCredentials)"

section \<open>Operations\<close>

definition Service_Register :: "auth_libs \<Rightarrow> 's UserRepository \<Rightarrow> service \<Rightarrow> string \<Rightarrow> string \<Rightarrow> string \<Rightarrow>
    ('s auth_state, go_error + string) state" where
  "Service_Register L R svc email password approvedID =
     (case uuid_Parse L approvedID of
        Inl err \<Rightarrow> State_Monad.return (Inl ErrInvalidCredentials)
      | Inr approvedUUID \<Rightarrow>
          tryE (on_repo (repo_ApprovedUserExists R approvedUUID)) (\<lambda>exists.
            if \<not> exists then State_Monad.return (Inl ErrUserNotFound)
            else do {
              existing \<leftarrow> on_repo (repo_GetUserByEmail R email);
              case existing of
                Inr (Some _) \<Rightarrow> State_Monad.return (Inl ErrUserAlreadyExists)
              | _ \<Rightarrow>
                  if (case existing of Inl err \<Rightarrow> err \<noteq> ErrNoRows | Inr _ \<Rightarrow> False)
                  then State_Monad.return (Inl (projl existing))
                  else do {
                    n \<leftarrow> next_call;
                    case bcrypt_GenerateFromPassword L n password (svc_bcryptCost svc) of
                      Inl err \<Rightarrow> State_Monad.return (Inl err)
                    | Inr hashedPassword \<Rightarrow>
                        tryE (on_repo (repo_CreateUser R
                            \<lparr>uciApprovedUserID = approvedUUID, uciEmail = email,
                             uciPasswordHash = hashedPassword, uciIsActive = True\<rparr>))
                          (\<lambda>p. tryE (deref p) (\<lambda>user.
                             tryE (assignDefaultRole R (UserRow_ID user)) (\<lambda>_.
                               issue_token L svc user)))
                  }
            }))"

definition Service_Login :: "auth_libs \<Rightarrow> 's UserRepository \<Rightarrow> service \<Rightarrow> string \<Rightarrow> string \<Rightarrow>
    ('s auth_state, go_error + string) state" where
  "Service_Login L R svc email password = do {
     r \<leftarrow> on_repo (repo_GetUserByEmail R email);
     case r of
       Inl err \<Rightarrow> State_Monad.return (Inl ErrInvalidCredentials)
     | Inr p \<Rightarrow> tryE (deref p) (\<lambda>user.
         if \<not> UserRow_IsActive user then State_Monad.return (Inl ErrInvalidCredentials)
         else (case bcrypt_CompareHashAndPassword L (UserRow_PasswordHash user) password of
             Some cmpErr \<Rightarrow> State_Monad.return (Inl ErrInvalidCredentials)
           | None \<Rightarrow> issue_token L svc user))
   }"

definition token_user_id :: "auth_libs \<Rightarrow> service \<Rightarrow> go_time \<Rightarrow> string \<Rightarrow> go_error + uuid" where
  "token_user_id L svc now tokenString =
     (case jwt_Parse L now [''HS256''] True (token_key svc) tokenString of
        Inl err \<Rightarrow> Inl ErrInvalidCredentials
      | Inr token \<Rightarrow>
          (case tok_Claims token of
             OtherClaims \<Rightarrow> Inl ErrInvalidCredentials
           | MapClaims claims \<Rightarrow>
               if \<not> tok_Valid token then Inl ErrInvalidCredentials
               else (case map_of claims ''user_id'' of
                   Some (AnyString userID) \<Rightarrow>
                     (case uuid_Parse L userID of
                        Inl err \<Rightarrow> Inl ErrInvalidCredentials
                      | Inr i \<Rightarrow> Inr i)
                 | _ \<Rightarrow> Inl ErrInvalidCredentials)))"

definition Service_GetUserFromToken :: "auth_libs \<Rightarrow> 's UserRepository \<Rightarrow> service \<Rightarrow> string \<Rightarrow>
    ('s auth_state, go_error + User) state" where
  "Service_GetUserFromToken L R svc tokenString = do {
     n \<leftarrow> next_call;
     tryE (pure_call (token_user_id L svc (time_Now L n) tokenString)) (\<lambda>i. do {
       r \<leftarrow> on_repo (repo_GetUserWithRolesAndApproved R i);
       case r of
         Inl err \<Rightarrow>
           if err = ErrNoRows then State_Monad.return (Inl ErrUserNotFound)
           else State_Monad.return (Inl err)
       | Inr p \<Rightarrow> tryE (deref p) (\<lambda>agg. tryE (deref (uwcUser agg)) (\<lambda>user.
           if \<not> UserRow_IsActive user then State_Monad.return (Inl ErrInvalidCredentials)
           else State_Monad.return
             (Inr (userToDomain user (uwcApprovedUser agg) (uwcRoleNames agg)))))
     })
   }"

definition Service_ListApprovedUsers ::
  "'s UserRepository \<Rightarrow> ('s auth_state, go_error + ApprovedUser option list) state" where
  "Service_ListApprovedUsers R =
     tryE (on_repo (repo_ListApprovedUsers R))
       (\<lambda>rows. State_Monad.return (Inr (approvedUsersToDomain rows)))"

definition Service_CreateApprovedUser :: "'s UserRepository \<Rightarrow> string \<Rightarrow> string \<Rightarrow> uuid \<Rightarrow>
    ('s auth_state, go_error + ApprovedUser option) state" where
  "Service_CreateApprovedUser R email firstName createdBy = do {
     existing \<leftarrow> on_repo (repo_GetApprovedUserByEmail R email);
     case existing of
       Inr (Some _) \<Rightarrow> State_Monad.return (Inl ErrApprovedEmailExists)
     | _ \<Rightarrow>
         tryE (on_repo (repo_CreateApprovedUser R
             \<lparr>auciEmail = email, auciFirstName = firstName, auciCreatedBy = createdBy\<rparr>))
           (\<lambda>row. State_Monad.return (Inr (approvedUserToDomain row)))
   }"

definition Service_BulkCreateApprovedUsers :: "'s UserRepository \<Rightarrow> string list \<Rightarrow> string list \<Rightarrow> uuid \<Rightarrow>
    ('s auth_state, go_error + ApprovedUser option list) state" where
  "Service_BulkCreateApprovedUsers R emails firstNames createdBy =
     (if length emails \<noteq> length firstNames then State_Monad.return (Inl ErrInvalidInput)
      else tryE (on_repo (repo_BulkCreateApprovedUsers R
             \<lparr>bauiEmails = emails, bauiFirstNames = firstNames, bauiCreatedBy = createdBy\<rparr>))
           (\<lambda>rows. State_Monad.return (Inr (approvedUsersToDomain rows))))"

definition Service_DeleteApprovedUser ::
  "'s UserRepository \<Rightarrow> uuid \<Rightarrow> ('s auth_state, go_error + unit) state" where
  "Service_DeleteApprovedUser R key = on_repo (repo_DeleteApprovedUser R key)"

section \<open>What the service relies on\<close>

text \<open>
  A token signed with HS256 and a secret parses, until it expires, under the same secret when the
  parser accepts HS256; its string claims are the ones signed.
\<close>

definition token_roundtrip :: "auth_libs \<Rightarrow> bool" where
  "token_roundtrip L \<longleftrightarrow> (\<forall>claims secret tok now e key methods.
     jwt_SignedString L SigningMethodHS256 claims secret = Inr tok \<longrightarrow>
     map_of claims ''exp'' = Some (AnyInt e) \<longrightarrow> now < e * Second \<longrightarrow> ''HS256'' \<in> set methods \<longrightarrow>
     (\<forall>t. tok_Method t = SigningMethodHS256 \<longrightarrow> key t = Inr secret) \<longrightarrow>
     (\<exists>t claims'. jwt_Parse L now methods True key tok = Inr t \<and> tok_Valid t \<and>
        tok_Claims t = MapClaims claims' \<and>
        (\<forall>k s. map_of claims k = Some (AnyString s) \<longrightarrow> map_of claims' k = Some (AnyString s))))"

text \<open>An expired token does not parse.\<close>

definition token_expires :: "auth_libs \<Rightarrow> bool" where
  "token_expires L \<longleftrightarrow> (\<forall>claims secret tok now e key methods.
     jwt_SignedString L SigningMethodHS256 claims secret = Inr tok \<longrightarrow>
     map_of claims ''exp'' = Some (AnyInt e) \<longrightarrow> e * Second \<le> now \<longrightarrow>
     (\<exists>err. jwt_Parse L now methods True key tok = Inl err))"

text \<open>\<open>uuid.Parse\<close> reads back what \<open>String\<close> prints.\<close>

definition uuid_roundtrip :: "auth_libs \<Rightarrow> bool" where
  "uuid_roundtrip L \<longleftrightarrow> (\<forall>u. uuid_Parse L (uuid_String L u) = Inr u)"

text \<open>A password matches the hash generated from it.\<close>

definition bcrypt_roundtrip :: "auth_libs \<Rightarrow> bool" where
  "bcrypt_roundtrip L \<longleftrightarrow> (\<forall>n p cost h. bcrypt_GenerateFromPassword L n p cost = Inr h \<longrightarrow>
     bcrypt_CompareHashAndPassword L h p = None)"

abbreviation signed_token :: "auth_libs \<Rightarrow> service \<Rightarrow> go_time \<Rightarrow> UserRow \<Rightarrow> go_error + string" where
  "signed_token L svc now u \<equiv>
     jwt_SignedString L SigningMethodHS256 (token_claims L svc now u) (svc_jwtSecret svc)"

lemma token_roundtripD:
  "token_roundtrip L \<Longrightarrow> jwt_SignedString L SigningMethodHS256 claims secret = Inr tok \<Longrightarrow>
   map_of claims ''exp'' = Some (AnyInt e) \<Longrightarrow> now < e * Second \<Longrightarrow> ''HS256'' \<in> set methods \<Longrightarrow>
   \<forall>t. tok_Method t = SigningMethodHS256 \<longrightarrow> key t = Inr secret \<Longrightarrow>
   \<exists>t claims'. jwt_Parse L now methods True key tok = Inr t \<and> tok_Valid t \<and> tok_Claims t = MapClaims claims' \<and>
     (\<forall>k s. map_of claims k = Some (AnyString s) \<longrightarrow> map_of claims' k = Some (AnyString s))"
  unfolding token_roundtrip_def by blast

lemma token_expiresD:
  "token_expires L \<Longrightarrow> jwt_SignedString L SigningMethodHS256 claims secret = Inr tok \<Longrightarrow>
   map_of claims ''exp'' = Some (AnyInt e) \<Longrightarrow> e * Second \<le> now \<Longrightarrow>
   \<exists>err. jwt_Parse L now methods True key tok = Inl err"
  unfolding token_expires_def by blast

lemma issued_token_user_id:
  assumes "token_roundtrip L" and "uuid_roundtrip L" and "signed_token L svc now u = Inr tok"
    and "later < (now + svc_jwtExpiry svc) div Second * Second"
  shows "token_user_id L svc later tok = Inr (UserRow_ID u)"
proof -
  have "\<forall>t. tok_Method t = SigningMethodHS256 \<longrightarrow> token_key svc t = Inr (svc_jwtSecret svc)"
    by (simp add: token_key_def SigningMethodHS256_def)
  with token_roundtripD [OF assms(1,3), of "(now + svc_jwtExpiry svc) div Second" later "[''HS256'']" "token_key svc"]
  obtain t claims where "jwt_Parse L later [''HS256''] True (token_key svc) tok = Inr t"
    "tok_Valid t" "tok_Claims t = MapClaims claims"
    "\<forall>k s. map_of (token_claims L svc now u) k = Some (AnyString s) \<longrightarrow> map_of claims k = Some (AnyString s)"
    using assms(4) by (auto simp: token_claims_def)
  with assms(2) show ?thesis
    by (simp add: token_user_id_def token_claims_def uuid_roundtrip_def)
qed

lemma expired_token_rejected:
  assumes "token_expires L" and "signed_token L svc now u = Inr tok"
    and "(now + svc_jwtExpiry svc) div Second * Second \<le> later"
  shows "token_user_id L svc later tok = Inl ErrInvalidCredentials"
proof -
  have "map_of (token_claims L svc now u) ''exp'' = Some (AnyInt ((now + svc_jwtExpiry svc) div Second))"
    by (simp add: token_claims_def)
  from token_expiresD [OF assms(1,2) this assms(3)]
  obtain err where "jwt_Parse L later [''HS256''] True (token_key svc) tok = Inl err" by blast
  then show ?thesis by (simp add: token_user_id_def)
qed

section \<open>Answers of the service\<close>

text \<open>The outcomes of the operations, over the abstract view of the repository.\<close>

definition login_allowed :: "auth_libs \<Rightarrow> auth_view \<Rightarrow> string \<Rightarrow> string \<Rightarrow> UserRow \<Rightarrow> bool" where
  "login_allowed L v email password u \<longleftrightarrow> u \<in> v_users v \<and> UserRow_Email u = email \<and>
     UserRow_IsActive u \<and> bcrypt_CompareHashAndPassword L (UserRow_PasswordHash u) password = None"

definition login_answer :: "auth_libs \<Rightarrow> service \<Rightarrow> bool \<Rightarrow> go_time \<Rightarrow> auth_view \<Rightarrow> string \<Rightarrow> string \<Rightarrow>
    go_error + string \<Rightarrow> bool" where
  "login_answer L svc up now v email password r \<longleftrightarrow>
     (\<exists>u. login_allowed L v email password u \<and> r = signed_token L svc now u) \<or>
     (r = Inl ErrInvalidCredentials \<and> (up \<longrightarrow> (\<forall>u. \<not> login_allowed L v email password u)))"

definition token_answer :: "auth_libs \<Rightarrow> service \<Rightarrow> bool \<Rightarrow> go_time \<Rightarrow> auth_view \<Rightarrow> string \<Rightarrow>
    go_error + User \<Rightarrow> bool" where
  "token_answer L svc up now v tok r \<longleftrightarrow>
     (case token_user_id L svc now tok of
        Inl e \<Rightarrow> r = Inl e
      | Inr i \<Rightarrow>
          (\<exists>c u. c \<in> aggregates v i \<and> uwcUser c = Some u \<and>
             r = (if UserRow_IsActive u then Inr (userToDomain u (uwcApprovedUser c) (uwcRoleNames c))
                  else Inl ErrInvalidCredentials)) \<or>
          (r = Inl ErrUserNotFound \<and> aggregates v i = {}) \<or>
          (\<not> up \<and> r = Inl conn_lost))"

text \<open>
  A token entitles to act as a user when it names, unexpired, a stored active account; the user carries
  the account's identity and exactly its roles.
\<close>

definition genuine_token :: "auth_libs \<Rightarrow> service \<Rightarrow> go_time \<Rightarrow> auth_view \<Rightarrow> string \<Rightarrow> User \<Rightarrow> bool" where
  "genuine_token L svc now v tok user \<longleftrightarrow> (\<exists>u \<in> v_users v.
     token_user_id L svc now tok = Inr (UserRow_ID u) \<and> UserRow_IsActive u \<and>
     User_ID user = UserRow_ID u \<and> User_ApprovedUserID user = UserRow_ApprovedUserID u \<and>
     (\<forall>n. HasRole user n \<longleftrightarrow> n \<in> role_names_of v (UserRow_ID u)))"

lemma token_answer_genuine:
  assumes "token_answer L svc up now v tok (Inr user)"
  shows "genuine_token L svc now v tok user"
proof -
  from assms obtain i c u where "token_user_id L svc now tok = Inr i" "c \<in> aggregates v i"
    "uwcUser c = Some u" "UserRow_IsActive u" "user = userToDomain u (uwcApprovedUser c) (uwcRoleNames c)"
    by (auto simp: token_answer_def split: sum.splits if_splits)
  then show ?thesis
    by (auto simp: aggregates_def genuine_token_def)
qed

text \<open>
  The default role: the cached identifier, or the role named ``user'' when the cache is empty; no
  role when there is none, and none either when the lookup fails.
\<close>

definition default_role :: "bool \<Rightarrow> auth_view \<Rightarrow> uuid option \<Rightarrow> uuid \<Rightarrow> uuid option \<Rightarrow> bool" where
  "default_role up v cache rid cache' \<longleftrightarrow>
     (if cache \<noteq> None \<and> cache \<noteq> Some uuid_Nil then cache = Some rid \<and> cache' = cache
      else (\<exists>x \<in> v_roles v. RoleRow_Name x = ''user'' \<and> rid = RoleRow_ID x \<and> cache' = Some rid) \<or>
           (rid = uuid_Nil \<and> cache' = cache \<and> (up \<longrightarrow> ''user'' \<notin> RoleRow_Name ` v_roles v)))"

definition role_step :: "bool \<Rightarrow> auth_view \<Rightarrow> uuid option \<Rightarrow> uuid \<Rightarrow> go_error + unit \<Rightarrow>
    auth_view \<Rightarrow> uuid option \<Rightarrow> bool" where
  "role_step up v cache uid r v' cache' \<longleftrightarrow> (\<exists>rid. default_role up v cache rid cache' \<and>
     (if rid = uuid_Nil then r = Inr () \<and> v' = v
      else writes up (role_assigned uid rid) (role_refused uid rid) v r v'))"

text \<open>Registration after its checks have passed.\<close>

definition account_step :: "auth_libs \<Rightarrow> service \<Rightarrow> bool \<Rightarrow> (nat \<Rightarrow> go_time) \<Rightarrow> nat \<Rightarrow> uuid \<Rightarrow> string \<Rightarrow>
    string \<Rightarrow> auth_view \<Rightarrow> uuid option \<Rightarrow> go_error + string \<Rightarrow> auth_view \<Rightarrow> uuid option \<Rightarrow> bool" where
  "account_step L svc up clock n a email password v cache r v' cache' \<longleftrightarrow>
     (case bcrypt_GenerateFromPassword L n password (svc_bcryptCost svc) of
        Inl e \<Rightarrow> r = Inl e \<and> v' = v \<and> cache' = cache
      | Inr h \<Rightarrow>
          (let inp = \<lparr>uciApprovedUserID = a, uciEmail = email, uciPasswordHash = h, uciIsActive = True\<rparr>
           in (\<exists>e. r = Inl e \<and> cache' = cache \<and>
                 writes up (user_created inp) (user_refused inp) v (Inl e) v') \<or>
              (\<exists>u v1 rr. user_created inp (Some u) v v1 \<and> role_step up v1 cache (UserRow_ID u) rr v' cache' \<and>
                 r = (case rr of Inl e \<Rightarrow> Inl e | Inr _ \<Rightarrow> signed_token L svc (clock (Suc n)) u))))"

definition register_answer :: "auth_libs \<Rightarrow> service \<Rightarrow> bool \<Rightarrow> nat \<Rightarrow> string \<Rightarrow> string \<Rightarrow> string \<Rightarrow>
    auth_view \<Rightarrow> uuid option \<Rightarrow> go_error + string \<Rightarrow> auth_view \<Rightarrow> uuid option \<Rightarrow> bool" where
  "register_answer L svc up n email password approvedID v cache r v' cache' \<longleftrightarrow>
     (case uuid_Parse L approvedID of
        Inl _ \<Rightarrow> r = Inl ErrInvalidCredentials \<and> v' = v \<and> cache' = cache
      | Inr a \<Rightarrow>
          (\<not> up \<and> r = Inl conn_lost \<and> v' = v \<and> cache' = cache) \<or>
          (if \<forall>x \<in> v_approved v. ApprovedRow_ID x \<noteq> a
           then r = Inl ErrUserNotFound \<and> v' = v \<and> cache' = cache
           else if \<exists>u \<in> v_users v. UserRow_Email u = email
           then r = Inl ErrUserAlreadyExists \<and> v' = v \<and> cache' = cache
           else account_step L svc up (time_Now L) n a email password v cache r v' cache'))"

definition create_approved_answer :: "bool \<Rightarrow> string \<Rightarrow> string \<Rightarrow> uuid \<Rightarrow> auth_view \<Rightarrow>
    go_error + ApprovedUser option \<Rightarrow> auth_view \<Rightarrow> bool" where
  "create_approved_answer up email firstName by v r v' \<longleftrightarrow>
     (case r of
        Inr p \<Rightarrow> (\<exists>a. p = Some (ApprovedUser_of_row a) \<and>
          approved_added [(email, firstName)] by [Some a] v v')
      | Inl e \<Rightarrow>
          (e = ErrApprovedEmailExists \<and> v' = v \<and> email \<in> ApprovedRow_Email ` v_approved v) \<or>
          ((up \<longrightarrow> email \<notin> ApprovedRow_Email ` v_approved v) \<and>
           writes up (\<lambda>p. approved_added [(email, firstName)] by [p]) (approved_refused [email] by) v (Inl e) v'))"

definition bulk_answer :: "bool \<Rightarrow> string list \<Rightarrow> string list \<Rightarrow> uuid \<Rightarrow> auth_view \<Rightarrow>
    go_error + ApprovedUser option list \<Rightarrow> auth_view \<Rightarrow> bool" where
  "bulk_answer up emails firstNames by v r v' \<longleftrightarrow>
     (case r of
        Inr ps \<Rightarrow> (\<exists>as. ps = map (\<lambda>a. Some (ApprovedUser_of_row a)) as \<and>
          approved_added (zip emails firstNames) by (map Some as) v v') \<and> length emails = length firstNames
      | Inl e \<Rightarrow>
          if length emails \<noteq> length firstNames then e = ErrInvalidInput \<and> v' = v
          else writes up (approved_added (zip emails firstNames) by) (approved_refused emails by) v (Inl e) v')"

definition init_answer :: "bool \<Rightarrow> auth_view \<Rightarrow> uuid option \<Rightarrow> go_error + unit \<Rightarrow> uuid option \<Rightarrow> bool" where
  "init_answer up v cache r cache' \<longleftrightarrow>
     (case r of
        Inr _ \<Rightarrow> (case cache of
            Some i \<Rightarrow> cache' = cache
          | None \<Rightarrow> \<exists>x \<in> v_roles v. RoleRow_Name x = ''user'' \<and> cache' = Some (RoleRow_ID x))
      | Inl e \<Rightarrow> cache = None \<and> cache' = None \<and>
          ((e = ErrUserNotFound \<and> ''user'' \<notin> RoleRow_Name ` v_roles v) \<or> (\<not> up \<and> e = conn_lost)))"

section \<open>Verification against the contract\<close>

lemma approved_added_rows: "approved_added pairs by ps v v' \<Longrightarrow> \<exists>as. ps = map Some as"
  by (auto simp: approved_added_def)

lemma approved_added_row: "approved_added pairs by [p] v v' \<Longrightarrow> \<exists>a. p = Some a"
  by (auto simp: approved_added_def)

context user_repository
begin

lemma wp_issue_token [wp_simps]:
  "wp (issue_token L svc u) Q w \<longleftrightarrow>
     Q (signed_token L svc (time_Now L (as_calls w)) u) (w\<lparr>as_calls := Suc (as_calls w)\<rparr>)"
  by (simp add: issue_token_def wp_simps)

lemma Login_wp:
  assumes "inv (as_repo w)"
  shows "wp (Service_Login L R svc email password) (\<lambda>r w'. inv (as_repo w') \<and>
    view (as_repo w') = view (as_repo w) \<and> as_defaultUserRoleID w' = as_defaultUserRoleID w \<and>
    login_answer L svc up (time_Now L (as_calls w)) (view (as_repo w)) email password r) w"
  unfolding Service_Login_def wp_simps
proof (rule wp_lookupI [OF GetUserByEmail [OF assms]], goal_cases)
  case (1 u s')
  then have "\<forall>u'. login_allowed L (view (as_repo w)) email password u' \<longrightarrow> u' = u"
    using users_email [OF assms] by (auto simp: login_allowed_def dest: inj_onD)
  moreover have "login_allowed L (view (as_repo w)) email password u \<longleftrightarrow>
      UserRow_IsActive u \<and> bcrypt_CompareHashAndPassword L (UserRow_PasswordHash u) password = None"
    using 1 by (simp add: login_allowed_def)
  ultimately show ?case
    using 1(1,2) by (auto simp: wp_simps login_answer_def split: option.splits)
next
  case (2 s')
  then show ?case by (auto simp: wp_simps login_answer_def login_allowed_def)
next
  case (3 s')
  then show ?case by (simp add: wp_simps login_answer_def)
qed

lemma aggregates_user: "c \<in> aggregates v i \<Longrightarrow> \<exists>u. uwcUser c = Some u \<and> u \<in> v_users v \<and> UserRow_ID u = i"
  by (auto simp: aggregates_def)

lemma GetUserFromToken_wp:
  assumes "inv (as_repo w)"
  shows "wp (Service_GetUserFromToken L R svc tok) (\<lambda>r w'. inv (as_repo w') \<and>
    view (as_repo w') = view (as_repo w) \<and> as_defaultUserRoleID w' = as_defaultUserRoleID w \<and>
    token_answer L svc up (time_Now L (as_calls w)) (view (as_repo w)) tok r) w"
proof (cases "token_user_id L svc (time_Now L (as_calls w)) tok")
  case (Inl e)
  with assms show ?thesis
    by (simp add: Service_GetUserFromToken_def wp_simps token_answer_def)
next
  case (Inr i)
  have inv': "inv (as_repo (w\<lparr>as_calls := Suc (as_calls w)\<rparr>))" using assms by simp
  show ?thesis
    unfolding Service_GetUserFromToken_def wp_simps Inr sum.case
  proof (rule wp_lookupI [OF GetUserWithRolesAndApproved [OF inv']], goal_cases)
    case (1 c s')
    from aggregates_user [OF 1(3)] obtain u where u: "uwcUser c = Some u" by auto
    with 1 Inr have "token_answer L svc up (time_Now L (as_calls w)) (view (as_repo w)) tok
        (if UserRow_IsActive u then Inr (userToDomain u (uwcApprovedUser c) (uwcRoleNames c))
         else Inl ErrInvalidCredentials)"
      unfolding token_answer_def by auto
    with 1 u show ?case
      by (auto simp: wp_simps split: if_splits)
  qed (auto simp: wp_simps token_answer_def Inr)
qed

lemma assignDefaultRole_wp:
  assumes "inv (as_repo w)"
  shows "wp (assignDefaultRole R uid) (\<lambda>r w'. inv (as_repo w') \<and> as_calls w' = as_calls w \<and>
    role_step up (view (as_repo w)) (as_defaultUserRoleID w) uid r (view (as_repo w')) (as_defaultUserRoleID w')) w"
proof (cases "as_defaultUserRoleID w = None \<or> as_defaultUserRoleID w = Some uuid_Nil")
  case False
  then obtain i where i: "as_defaultUserRoleID w = Some i" "i \<noteq> uuid_Nil" by auto
  show ?thesis
    unfolding assignDefaultRole_def wp_simps i option.case
    using i(2) by (simp add: wp_simps, intro wp_mono [OF AssignRoleToUser [OF assms]])
      (auto simp: role_step_def default_role_def i)
next
  case True
  then have none: "(case as_defaultUserRoleID w of None \<Rightarrow> uuid_Nil | Some i \<Rightarrow> i) = uuid_Nil" by auto
  show ?thesis
    unfolding assignDefaultRole_def wp_simps none if_True simp_thms
  proof (rule wp_readI [OF GetRoleByName [OF assms]], goal_cases)
    case (1 p s')
    show ?case
    proof (cases p)
      case None
      with 1 True show ?thesis
        by (auto simp: wp_simps role_step_def default_role_def)
    next
      case (Some x)
      with 1 True have rid: "default_role up (view (as_repo w)) (as_defaultUserRoleID w) (RoleRow_ID x) (Some (RoleRow_ID x))"
        by (auto simp: default_role_def)
      show ?thesis
      proof (cases "RoleRow_ID x = uuid_Nil")
        case True
        with 1 Some rid show ?thesis
          by (auto simp: wp_simps role_step_def intro!: exI [of _ uuid_Nil])
      next
        case False
        have step: "role_step up (view (as_repo w)) (as_defaultUserRoleID w) uid r v' (Some (RoleRow_ID x))"
          if "writes up (role_assigned uid (RoleRow_ID x)) (role_refused uid (RoleRow_ID x)) (view (as_repo w)) r v'" for r v'
          unfolding role_step_def using that rid False by (intro exI [of _ "RoleRow_ID x"]) simp
        show ?thesis
          using Some False 1(2)
          by (simp add: wp_simps, intro wp_mono [OF AssignRoleToUser [OF 1(1)]]) (auto intro: step)
      qed
    qed
  next
    case (2 s')
    with True show ?case
      by (auto simp: wp_simps role_step_def default_role_def)
  qed
qed

text \<open>Registration, step by step from the last one back.\<close>

lemma account_wp:
  assumes inv: "inv (as_repo w)"
    and h: "bcrypt_GenerateFromPassword L n password (svc_bcryptCost svc) = Inr h"
    and n: "as_calls w = Suc n"
  shows "wp (tryE (on_repo (repo_CreateUser R
        \<lparr>uciApprovedUserID = a, uciEmail = email, uciPasswordHash = h, uciIsActive = True\<rparr>))
      (\<lambda>p. tryE (deref p) (\<lambda>user. tryE (assignDefaultRole R (UserRow_ID user)) (\<lambda>_. issue_token L svc user))))
    (\<lambda>r w'. inv (as_repo w') \<and> account_step L svc up (time_Now L) n a email password (view (as_repo w))
       (as_defaultUserRoleID w) r (view (as_repo w')) (as_defaultUserRoleID w')) w"
  (is "wp ?m ?Q w")
proof -
  let ?inp = "\<lparr>uciApprovedUserID = a, uciEmail = email, uciPasswordHash = h, uciIsActive = True\<rparr>"
  have fail: "?Q (Inl e) (w\<lparr>as_repo := s'\<rparr>)"
    if "inv s'" "writes up (user_created ?inp) (user_refused ?inp) (view (as_repo w)) (Inl e) (view s')" for e s'
    using that unfolding account_step_def h sum.case Let_def by (auto simp del: writes_simps)
  have ok: "wp (tryE (assignDefaultRole R (UserRow_ID u)) (\<lambda>_. issue_token L svc u)) ?Q (w\<lparr>as_repo := s'\<rparr>)"
    if s': "inv s'" and u: "user_created ?inp (Some u) (view (as_repo w)) (view s')" for u s'
  proof -
    have fin: "account_step L svc up (time_Now L) n a email password (view (as_repo w)) (as_defaultUserRoleID w)
        (case rr of Inl e \<Rightarrow> Inl e | Inr _ \<Rightarrow> signed_token L svc (time_Now L (Suc n)) u) v' cache'"
      if "role_step up (view s') (as_defaultUserRoleID w) (UserRow_ID u) rr v' cache'" for rr v' cache'
      unfolding account_step_def h sum.case Let_def using u that by blast
    have inv': "inv (as_repo (w\<lparr>as_repo := s'\<rparr>))" using s' by simp
    show ?thesis
      unfolding wp_tryE
    proof (rule wp_mono [OF assignDefaultRole_wp [OF inv', of "UserRow_ID u"]], goal_cases)
      case (1 r w')
      with fin [of r] n show ?case by (cases r) (simp_all add: wp_issue_token)
    qed
  qed
  show ?thesis
    unfolding wp_tryE wp_on_repo
  proof (rule wp_mono [OF CreateUser [OF inv]], goal_cases)
    case (1 r s')
    then have inv': "inv s'"
      and w: "writes up (user_created ?inp) (user_refused ?inp) (view (as_repo w)) r (view s')" by simp_all
    show ?case
    proof (cases r)
      case (Inl e)
      with fail [OF inv'] w show ?thesis by simp
    next
      case (Inr p)
      then obtain u where "p = Some u" using w by (auto simp: user_created_def)
      with Inr w ok [OF inv'] show ?thesis by (simp add: wp_deref wp_tryE)
    qed
  qed
qed

lemma Register_wp:
  assumes inv: "inv (as_repo w)"
  shows "wp (Service_Register L R svc email password approvedID) (\<lambda>r w'. inv (as_repo w') \<and>
    register_answer L svc up (as_calls w) email password approvedID (view (as_repo w)) (as_defaultUserRoleID w)
      r (view (as_repo w')) (as_defaultUserRoleID w')) w" (is "wp _ ?Q w")
proof (cases "uuid_Parse L approvedID")
  case (Inl e)
  with inv show ?thesis
    by (simp add: Service_Register_def register_answer_def wp_simps)
next
  case (Inr a)
  have lost: "\<not> up \<Longrightarrow> inv s' \<Longrightarrow> view s' = view (as_repo w) \<Longrightarrow> ?Q (Inl conn_lost) (w\<lparr>as_repo := s'\<rparr>)" for s'
    by (simp add: register_answer_def Inr)
  show ?thesis
    unfolding Service_Register_def Inr sum.case wp_tryE wp_on_repo
  proof (rule wp_readI [OF ApprovedUserExists [OF inv]], goal_cases)
    case (1 b s1)
    show ?case
    proof (cases b)
      case False
      with 1 Inr show ?thesis
        by (auto simp: wp_simps register_answer_def)
    next
      case True
      have approved: "\<not> (\<forall>x \<in> v_approved (view (as_repo w)). ApprovedRow_ID x \<noteq> a)" using 1(3) True by auto
      have inv1: "inv (as_repo (w\<lparr>as_repo := s1\<rparr>))" using 1(1) by simp
      show ?thesis
        using True
      proof (simp only: sum.case not_True_eq_False if_False wp_bind wp_on_repo,
          intro wp_lookupI [OF GetUserByEmail [OF inv1]], goal_cases)
        case (1 u s2)
        with \<open>view s1 = view (as_repo w)\<close> approved Inr show ?case
          by (auto simp: wp_simps register_answer_def)
      next
        case (2 s2)
        then have fresh: "\<not> (\<exists>u \<in> v_users (view (as_repo w)). UserRow_Email u = email)"
          using \<open>view s1 = view (as_repo w)\<close> by auto
        let ?w = "w\<lparr>as_repo := s2, as_calls := Suc (as_calls w)\<rparr>"
        have same: "view (as_repo ?w) = view (as_repo w)" and inv2: "inv (as_repo ?w)"
          using 2 \<open>view s1 = view (as_repo w)\<close> by simp_all
        have answer: "register_answer L svc up (as_calls w) email password approvedID (view (as_repo w))
            (as_defaultUserRoleID w) r v' c'"
          if "account_step L svc up (time_Now L) (as_calls w) a email password (view (as_repo w))
            (as_defaultUserRoleID w) r v' c'" for r v' c'
          unfolding register_answer_def Inr sum.case if_not_P [OF approved] if_not_P [OF fresh]
          using that by blast
        show ?case
        proof (cases "bcrypt_GenerateFromPassword L (as_calls w) password (svc_bcryptCost svc)")
          case (Inl e)
          have "account_step L svc up (time_Now L) (as_calls w) a email password (view (as_repo w))
              (as_defaultUserRoleID w) (Inl e) (view (as_repo w)) (as_defaultUserRoleID w)"
            by (simp add: account_step_def Inl)
          with answer inv2 same Inl show ?thesis
            by (simp add: wp_simps)
        next
          case (Inr h)
          show ?thesis
            using wp_mono [OF account_wp [OF inv2 Inr, of a email]] answer same Inr
            by (simp add: wp_bind wp_next_call)
        qed
      next
        case (3 s2)
        with lost [of s2] \<open>view s1 = view (as_repo w)\<close> show ?case by (simp add: wp_simps)
      qed
    qed
  next
    case (2 s1)
    with lost show ?case by simp
  qed
qed

text \<open>The operations on the approved users.\<close>

lemma CreateApprovedUser_wp:
  assumes "inv (as_repo w)"
  shows "wp (Service_CreateApprovedUser R email firstName by) (\<lambda>r w'. inv (as_repo w') \<and>
    create_approved_answer up email firstName by (view (as_repo w)) r (view (as_repo w'))) w"
proof -
  let ?Q = "\<lambda>r w'. inv (as_repo w') \<and>
    create_approved_answer up email firstName by (view (as_repo w)) r (view (as_repo w'))"
  have create: "wp (tryE (on_repo (repo_CreateApprovedUser R
        \<lparr>auciEmail = email, auciFirstName = firstName, auciCreatedBy = by\<rparr>))
      (\<lambda>row. State_Monad.return (Inr (approvedUserToDomain row)))) ?Q w'"
    if "inv (as_repo w')" and view': "view (as_repo w') = view (as_repo w)"
      and "up \<longrightarrow> email \<notin> ApprovedRow_Email ` v_approved (view (as_repo w))" for w'
    unfolding wp_tryE wp_on_repo
  proof (rule wp_writeI [OF CreateApprovedUser [OF that(1)]], goal_cases)
    case (1 r s2)
    show ?case
    proof (cases r)
      case (Inl e)
      with 1 that show ?thesis
        by (simp add: create_approved_answer_def del: writes_simps)
    next
      case (Inr p)
      with 1(2) view' have added: "approved_added [(email, firstName)] by [p] (view (as_repo w)) (view s2)"
        by simp
      with approved_added_row obtain a where "p = Some a" by blast
      with added have "p = Some a" "approved_added [(email, firstName)] by [Some a] (view (as_repo w)) (view s2)"
        by simp_all
      with 1(1) Inr show ?thesis
        by (auto simp: wp_simps create_approved_answer_def approvedUserToDomain_def)
    qed
  qed
  show ?thesis
    unfolding Service_CreateApprovedUser_def wp_bind wp_on_repo
  proof (rule wp_lookupI [OF GetApprovedUserByEmail [OF assms]], goal_cases)
    case (1 a s')
    then show ?case by (auto simp: wp_simps create_approved_answer_def)
  next
    case (2 s')
    with create [of "w\<lparr>as_repo := s'\<rparr>"] show ?case by auto
  next
    case (3 s')
    with create [of "w\<lparr>as_repo := s'\<rparr>"] show ?case by auto
  qed
qed

lemma BulkCreateApprovedUsers_wp:
  assumes "inv (as_repo w)"
  shows "wp (Service_BulkCreateApprovedUsers R emails firstNames by) (\<lambda>r w'. inv (as_repo w') \<and>
    bulk_answer up emails firstNames by (view (as_repo w)) r (view (as_repo w'))) w"
proof (cases "length emails = length firstNames")
  case False
  with assms show ?thesis
    by (simp add: Service_BulkCreateApprovedUsers_def bulk_answer_def wp_simps)
next
  case True
  show ?thesis
    unfolding Service_BulkCreateApprovedUsers_def
    using True
  proof (simp add: wp_tryE wp_on_repo, intro wp_writeI [OF BulkCreateApprovedUsers [OF assms]], goal_cases)
    case (1 r s')
    show ?case
    proof (cases r)
      case (Inl e)
      with 1 True show ?thesis
        by (simp add: bulk_answer_def del: writes_simps)
    next
      case (Inr ps)
      with 1 have added: "approved_added (zip emails firstNames) by ps (view (as_repo w)) (view s')"
        by simp
      with approved_added_rows obtain as where "ps = map Some as" by blast
      with added have "ps = map Some as"
        "approved_added (zip emails firstNames) by (map Some as) (view (as_repo w)) (view s')" by simp_all
      with 1 True Inr show ?thesis
        by (auto simp: wp_simps bulk_answer_def approvedUsersToDomain_def approvedUserToDomain_def comp_def)
    qed
  qed
qed

lemma DeleteApprovedUser_wp:
  assumes "inv (as_repo w)"
  shows "wp (Service_DeleteApprovedUser R key) (\<lambda>r w'. inv (as_repo w') \<and>
    writes up (approved_deleted key) (delete_refused key) (view (as_repo w)) r (view (as_repo w'))) w"
  unfolding Service_DeleteApprovedUser_def wp_on_repo
  by (rule wp_mono [OF DeleteApprovedUser [OF assms]]) simp

lemma ListApprovedUsers_wp:
  assumes "inv (as_repo w)"
  shows "wp (Service_ListApprovedUsers R) (\<lambda>r w'. inv (as_repo w') \<and> view (as_repo w') = view (as_repo w) \<and>
    reads up (\<lambda>ps. \<exists>as. ps = map (\<lambda>a. Some (ApprovedUser_of_row a)) as \<and> set as = v_approved (view (as_repo w)) \<and>
      distinct (map ApprovedRow_ID as) \<and> sorted (rev (map ApprovedRow_CreatedAt as))) r) w"
  unfolding Service_ListApprovedUsers_def wp_tryE wp_on_repo
  by (rule wp_readI [OF ListApprovedUsers [OF assms]])
    (auto simp: wp_simps approvedUsersToDomain_def approvedUserToDomain_def comp_def)

lemma InitDefaultRoles_wp:
  assumes "inv (as_repo w)"
  shows "wp (InitDefaultRoles R) (\<lambda>r w'. inv (as_repo w') \<and> view (as_repo w') = view (as_repo w) \<and>
    init_answer up (view (as_repo w)) (as_defaultUserRoleID w) r (as_defaultUserRoleID w')) w"
proof (cases "as_defaultUserRoleID w")
  case (Some i)
  with assms show ?thesis
    by (simp add: InitDefaultRoles_def wp_simps init_answer_def)
next
  case None
  show ?thesis
    unfolding InitDefaultRoles_def wp_bind wp_default_role None
    by (simp add: wp_tryE wp_on_repo, rule wp_readI [OF GetRoleByName [OF assms]])
      (auto simp: wp_simps init_answer_def None split: option.splits)
qed

end

end
