(* ===== verification/Auth_Repository.thy ===== *)
theory Auth_Repository
  imports Auth_Service
begin

text \<open>
  The repository over the database, \<open>internal/auth/repository.go\<close>: one definition per method of
  \<open>Repository\<close>, and the proof that they satisfy the contract \<open>user_repository\<close> for the view of
  the tables as sets of rows.
\<close>

section \<open>The methods\<close>

definition Repository_GetUserByEmail :: "pg \<Rightarrow> string \<Rightarrow> (db, go_error + UserRow option) state" where
  "Repository_GetUserByEmail E email =
     tryE (Queries_GetUserByEmail E email) (\<lambda>u. State_Monad.return (Inr (userRowFromDB (Some u))))"

definition Repository_GetUserByID :: "pg \<Rightarrow> uuid \<Rightarrow> (db, go_error + UserRow option) state" where
  "Repository_GetUserByID E key =
     tryE (Queries_GetUserByID E (UUIDToPgtypeValue key))
       (\<lambda>u. State_Monad.return (Inr (userRowFromDB (Some u))))"

definition Repository_CreateUser :: "pg \<Rightarrow> UserCreateInput \<Rightarrow> (db, go_error + UserRow option) state" where
  "Repository_CreateUser E inp =
     tryE (Queries_CreateUser E (UserCreateInput_toCreateParams inp))
       (\<lambda>u. State_Monad.return (Inr (userRowFromDB (Some u))))"

definition Repository_GetApprovedUserByID ::
  "pg \<Rightarrow> uuid \<Rightarrow> (db, go_error + ApprovedUserRow option) state" where
  "Repository_GetApprovedUserByID E key =
     tryE (Queries_GetApprovedUserByID E (UUIDToPgtypeValue key))
       (\<lambda>a. State_Monad.return (Inr (approvedUserRowFromDB (Some a))))"

definition Repository_GetUserRoles :: "pg \<Rightarrow> uuid \<Rightarrow> (db, go_error + RoleRow list) state" where
  "Repository_GetUserRoles E userID =
     tryE (Queries_GetUserRoles E (UUIDToPgtypeValue userID))
       (\<lambda>rows. State_Monad.return (Inr (rolesFromDB rows)))"

definition Repository_GetRoleByName :: "pg \<Rightarrow> string \<Rightarrow> (db, go_error + RoleRow option) state" where
  "Repository_GetRoleByName E name = do {
     r \<leftarrow> Queries_GetRoleByName E name;
     case r of
       Inl err \<Rightarrow>
         if err = ErrNoRows then State_Monad.return (Inr None) else State_Monad.return (Inl err)
     | Inr row \<Rightarrow> State_Monad.return (Inr (Some (roleRowFromDB row)))
   }"

definition Repository_ApprovedUserExists :: "pg \<Rightarrow> uuid \<Rightarrow> (db, go_error + bool) state" where
  "Repository_ApprovedUserExists E key = Queries_ApprovedUserExists E (UUIDToPgtypeValue key)"

definition Repository_AssignRoleToUser :: "pg \<Rightarrow> uuid \<Rightarrow> uuid \<Rightarrow> (db, go_error + unit) state" where
  "Repository_AssignRoleToUser E userID roleID =
     Queries_AssignRole E
       \<lparr>arUserID = UUIDToPgtypeValue userID, arRoleID = UUIDToPgtypeValue roleID\<rparr>"

definition Repository_ListApprovedUsers :: "pg \<Rightarrow> (db, go_error + ApprovedUserRow option list) state" where
  "Repository_ListApprovedUsers E =
     tryE (Queries_ListApprovedUsers E)
       (\<lambda>rows. State_Monad.return (Inr (approvedUsersFromDB rows)))"

definition Repository_CreateApprovedUser ::
  "pg \<Rightarrow> ApprovedUserCreateInput \<Rightarrow> (db, go_error + ApprovedUserRow option) state" where
  "Repository_CreateApprovedUser E inp =
     tryE (Queries_CreateApprovedUser E (ApprovedUserCreateInput_toCreateParams inp))
       (\<lambda>row. State_Monad.return (Inr (approvedUserRowFromDB (Some row))))"

definition Repository_BulkCreateApprovedUsers ::
  "pg \<Rightarrow> BulkApprovedUserInput \<Rightarrow> (db, go_error + ApprovedUserRow option list) state" where
  "Repository_BulkCreateApprovedUsers E inp =
     (if length (bauiEmails inp) \<noteq> length (bauiFirstNames inp)
      then State_Monad.return (Inl ErrInvalidInput)
      else tryE (Queries_CreateApprovedUsersBulk E (BulkApprovedUserInput_toCreateParams inp))
        (\<lambda>rows. State_Monad.return (Inr (approvedUsersFromDB rows))))"

definition Repository_DeleteApprovedUser :: "pg \<Rightarrow> uuid \<Rightarrow> (db, go_error + unit) state" where
  "Repository_DeleteApprovedUser E key =
     tryE (Queries_DeleteApprovedUser E (UUIDToPgtypeValue key))
       (\<lambda>rows. if rows = 0 then State_Monad.return (Inl ErrApprovedUserNotFound)
          else State_Monad.return (Inr ()))"

definition Repository_GetUserWithRolesAndApproved ::
  "pg \<Rightarrow> uuid \<Rightarrow> (db, go_error + UserWithContext option) state" where
  "Repository_GetUserWithRolesAndApproved E key =
     tryE (Queries_GetUserWithRolesAndApproved E (UUIDToPgtypeValue key)) (\<lambda>row.
       let user = userRowFromAggregate (Some row);
           roles = roleNamesFromAggregate (gurRoleNames row)
       in State_Monad.return (Inr (Some
         \<lparr>uwcUser = user, uwcRoleNames = roles,
          uwcApprovedUser = approvedUserRowFromAggregate (Some row)\<rparr>)))"

definition Repository_GetApprovedUserByEmail ::
  "pg \<Rightarrow> string \<Rightarrow> (db, go_error + ApprovedUserRow option) state" where
  "Repository_GetApprovedUserByEmail E email =
     tryE (Queries_GetApprovedUserByEmail E email)
       (\<lambda>a. State_Monad.return (Inr (approvedUserRowFromDB (Some a))))"

definition Repository :: "pg \<Rightarrow> db UserRepository" where
  "Repository E =
     \<lparr>repo_GetUserByEmail = Repository_GetUserByEmail E,
      repo_GetUserByID = Repository_GetUserByID E,
      repo_CreateUser = Repository_CreateUser E,
      repo_ApprovedUserExists = Repository_ApprovedUserExists E,
      repo_GetApprovedUserByID = Repository_GetApprovedUserByID E,
      repo_GetUserRoles = Repository_GetUserRoles E,
      repo_GetRoleByName = Repository_GetRoleByName E,
      repo_AssignRoleToUser = Repository_AssignRoleToUser E,
      repo_ListApprovedUsers = Repository_ListApprovedUsers E,
      repo_CreateApprovedUser = Repository_CreateApprovedUser E,
      repo_BulkCreateApprovedUsers = Repository_BulkCreateApprovedUsers E,
      repo_DeleteApprovedUser = Repository_DeleteApprovedUser E,
      repo_GetApprovedUserByEmail = Repository_GetApprovedUserByEmail E,
      repo_GetUserWithRolesAndApproved = Repository_GetUserWithRolesAndApproved E\<rparr>"

section \<open>The view\<close>

definition auth_view_of :: "db \<Rightarrow> auth_view" where
  "auth_view_of d =
     \<lparr>v_users = user_row ` set (tbl_users d), v_approved = approved_row ` set (tbl_approved_users d),
      v_roles = roleRowFromDB ` set (tbl_roles d),
      v_members = (\<lambda>m. (PgUUIDToValue (dbUR_UserID m), PgUUIDToValue (dbUR_RoleID m))) `
        set (tbl_user_roles d)\<rparr>"

lemma auth_view_simps [simp]:
  "v_users (auth_view_of d) = user_row ` set (tbl_users d)"
  "v_approved (auth_view_of d) = approved_row ` set (tbl_approved_users d)"
  "v_roles (auth_view_of d) = roleRowFromDB ` set (tbl_roles d)"
  "v_members (auth_view_of d) =
     (\<lambda>m. (PgUUIDToValue (dbUR_UserID m), PgUUIDToValue (dbUR_RoleID m))) ` set (tbl_user_roles d)"
  by (simp_all add: auth_view_of_def)

lemma auth_view_roundtrips [simp]: "auth_view_of (d\<lparr>roundtrips := n\<rparr>) = auth_view_of d"
  by (simp add: auth_view_of_def)

text \<open>The key of a stored row is never NULL, so comparing keys and comparing values agree.\<close>

lemma key_eq_iff:
  assumes "db_inv d"
  shows "u \<in> set (tbl_users d) \<Longrightarrow> dbU_ID u = UUIDToPgtypeValue k \<longleftrightarrow> PgUUIDToValue (dbU_ID u) = k"
    and "a \<in> set (tbl_approved_users d) \<Longrightarrow> dbA_ID a = UUIDToPgtypeValue k \<longleftrightarrow> PgUUIDToValue (dbA_ID a) = k"
    and "r \<in> set (tbl_roles d) \<Longrightarrow> dbR_ID r = UUIDToPgtypeValue k \<longleftrightarrow> PgUUIDToValue (dbR_ID r) = k"
    and "t \<in> set (tbl_todos d) \<Longrightarrow> dbT_ID t = UUIDToPgtypeValue k \<longleftrightarrow> PgUUIDToValue (dbT_ID t) = k"
  using assms db_invD [OF assms] by (simp_all add: PgUUIDToValue_eq_iff)

lemma wp_lookup_row:
  assumes "db_inv d" and "\<And>n. tbl (d\<lparr>roundtrips := n\<rparr>) = tbl d"
    and "\<And>x. x \<in> set (tbl d) \<Longrightarrow> hit x \<longleftrightarrow> P (f x)"
  shows "wp (tryE (query_row E (select (\<lambda>d. filter hit (tbl d)))) (\<lambda>x. State_Monad.return (Inr (Some (f x)))))
    (\<lambda>r d'. db_inv d' \<and> auth_view_of d' = auth_view_of d \<and>
       lookup (server_up E) {y \<in> f ` set (tbl d). P y} r) d"
proof (cases "filter hit (tbl d)")
  case Nil
  then show ?thesis
    unfolding wp_simps
    by (intro wp_selectI) (use assms in \<open>auto simp: filter_empty_conv\<close>)
next
  case (Cons x xs)
  then have "x \<in> set (tbl d) \<and> hit x"
    by (metis filter_eq_ConsD in_set_conv_decomp)
  with Cons show ?thesis
    unfolding wp_simps by (intro wp_selectI) (use assms in auto)
qed

lemma GetUserByEmail_ok:
  "db_inv d \<Longrightarrow> wp (Repository_GetUserByEmail E email) (\<lambda>r d'. db_inv d' \<and> auth_view_of d' = auth_view_of d \<and>
     lookup (server_up E) {u \<in> v_users (auth_view_of d). UserRow_Email u = email} r) d"
  unfolding Repository_GetUserByEmail_def Queries_GetUserByEmail_def auth_view_simps row_Some
  by (rule wp_lookup_row) simp_all

lemma GetUserByID_ok:
  "db_inv d \<Longrightarrow> wp (Repository_GetUserByID E key) (\<lambda>r d'. db_inv d' \<and> auth_view_of d' = auth_view_of d \<and>
     lookup (server_up E) {u \<in> v_users (auth_view_of d). UserRow_ID u = key} r) d"
  unfolding Repository_GetUserByID_def Queries_GetUserByID_def auth_view_simps row_Some
  by (rule wp_lookup_row) (simp_all add: key_eq_iff)

lemma GetApprovedUserByID_ok:
  "db_inv d \<Longrightarrow> wp (Repository_GetApprovedUserByID E key) (\<lambda>r d'. db_inv d' \<and> auth_view_of d' = auth_view_of d \<and>
     lookup (server_up E) {a \<in> v_approved (auth_view_of d). ApprovedRow_ID a = key} r) d"
  unfolding Repository_GetApprovedUserByID_def Queries_GetApprovedUserByID_def auth_view_simps row_Some
  by (rule wp_lookup_row) (simp_all add: key_eq_iff)

lemma GetApprovedUserByEmail_ok:
  "db_inv d \<Longrightarrow> wp (Repository_GetApprovedUserByEmail E email) (\<lambda>r d'. db_inv d' \<and> auth_view_of d' = auth_view_of d \<and>
     lookup (server_up E) {a \<in> v_approved (auth_view_of d). ApprovedRow_Email a = email} r) d"
  unfolding Repository_GetApprovedUserByEmail_def Queries_GetApprovedUserByEmail_def
    auth_view_simps row_Some
  by (rule wp_lookup_row) simp_all

section \<open>Reads\<close>

lemma ApprovedUserExists_ok:
  "db_inv d \<Longrightarrow> wp (Repository_ApprovedUserExists E key) (\<lambda>r d'. db_inv d' \<and> auth_view_of d' = auth_view_of d \<and>
     reads (server_up E) (\<lambda>b. b = (\<exists>a \<in> v_approved (auth_view_of d). ApprovedRow_ID a = key)) r) d"
  unfolding Repository_ApprovedUserExists_def Queries_ApprovedUserExists_def wp_simps
  by (intro wp_selectI) (simp_all add: key_eq_iff)

lemma GetRoleByName_ok:
  assumes "db_inv d"
  shows "wp (Repository_GetRoleByName E name) (\<lambda>r d'. db_inv d' \<and> auth_view_of d' = auth_view_of d \<and>
     reads (server_up E) (\<lambda>p. case p of None \<Rightarrow> name \<notin> RoleRow_Name ` v_roles (auth_view_of d)
       | Some x \<Rightarrow> x \<in> v_roles (auth_view_of d) \<and> RoleRow_Name x = name) r) d"
proof (cases "filter (\<lambda>r. dbR_Name r = name) (tbl_roles d)")
  case Nil
  with assms show ?thesis
    unfolding Repository_GetRoleByName_def Queries_GetRoleByName_def wp_simps
    by (intro wp_selectI) (auto simp: filter_empty_conv)
next
  case (Cons x xs)
  then have "x \<in> set (tbl_roles d) \<and> dbR_Name x = name"
    by (metis (mono_tags, lifting) filter_eq_ConsD in_set_conv_decomp)
  with assms Cons show ?thesis
    unfolding Repository_GetRoleByName_def Queries_GetRoleByName_def wp_simps
    by (intro wp_selectI) auto
qed

text \<open>The roles of a user are the roles its memberships name.\<close>

lemma in_roles_of:
  assumes "db_inv d"
  shows "x \<in> set (roles_of d (UUIDToPgtypeValue key)) \<longleftrightarrow> x \<in> set (tbl_roles d) \<and>
    (\<exists>m \<in> set (tbl_user_roles d). PgUUIDToValue (dbUR_UserID m) = key \<and>
       PgUUIDToValue (dbUR_RoleID m) = PgUUIDToValue (dbR_ID x))"
proof -
  have valid: "UUID_Valid (dbUR_UserID m)" "UUID_Valid (dbUR_RoleID m)" if "m \<in> set (tbl_user_roles d)" for m
    using that db_inv_user_roles_fk [OF assms that] db_inv_user_roles_role [OF assms that]
    by (auto dest: db_inv_users_valid [OF assms] db_inv_roles_valid [OF assms])
  have match: "sql_eq (dbR_ID x) (dbUR_RoleID m) \<longleftrightarrow> PgUUIDToValue (dbUR_RoleID m) = PgUUIDToValue (dbR_ID x)"
    if "m \<in> set (tbl_user_roles d)" "x \<in> set (tbl_roles d)" for m
    using valid [OF that(1)] db_inv_roles_valid [OF assms that(2)]
    by (simp add: sql_eq_iff PgUUIDToValue_inj eq_commute)
  have owner: "sql_eq (dbUR_UserID m) (UUIDToPgtypeValue key) \<longleftrightarrow> PgUUIDToValue (dbUR_UserID m) = key"
    if "m \<in> set (tbl_user_roles d)" for m
    using valid [OF that] by (simp add: PgUUIDToValue_eq_iff)
  have "x \<in> set (roles_of d (UUIDToPgtypeValue key)) \<longleftrightarrow>
      (\<exists>m \<in> set (tbl_user_roles d). sql_eq (dbUR_UserID m) (UUIDToPgtypeValue key) \<and>
         x \<in> set (tbl_roles d) \<and> sql_eq (dbR_ID x) (dbUR_RoleID m))"
    unfolding roles_of_def by (simp del: sql_eq_value) blast
  then show ?thesis
    using match owner by blast
qed

lemma set_roles_of:
  assumes "db_inv d"
  shows "roleRowFromDB ` set (roles_of d (UUIDToPgtypeValue key)) =
    {r \<in> v_roles (auth_view_of d). (key, RoleRow_ID r) \<in> v_members (auth_view_of d)}" (is "?L = ?R")
proof
  show "?L \<subseteq> ?R" by (auto simp: in_roles_of [OF assms]) (metis (mono_tags, lifting) image_eqI)
  show "?R \<subseteq> ?L" by (auto simp: in_roles_of [OF assms] intro!: imageI)
qed

lemma GetUserRoles_ok:
  assumes "db_inv d"
  shows "wp (Repository_GetUserRoles E key) (\<lambda>r d'. db_inv d' \<and> auth_view_of d' = auth_view_of d \<and>
     reads (server_up E) (\<lambda>rs. set rs = {r \<in> v_roles (auth_view_of d).
       (key, RoleRow_ID r) \<in> v_members (auth_view_of d)}) r) d"
  unfolding Repository_GetUserRoles_def Queries_GetUserRoles_def wp_simps set_roles_of [OF assms, symmetric]
  by (intro wp_selectI) (simp_all add: assms rolesFromDB_def roles_of_def)

lemma ListApprovedUsers_ok:
  assumes "db_inv d"
  shows "wp (Repository_ListApprovedUsers E) (\<lambda>r d'. db_inv d' \<and> auth_view_of d' = auth_view_of d \<and>
     reads (server_up E) (\<lambda>ps. \<exists>as. ps = map Some as \<and> set as = v_approved (auth_view_of d) \<and>
       distinct (map ApprovedRow_ID as) \<and> sorted (rev (map ApprovedRow_CreatedAt as))) r) d"
proof -
  let ?rows = "created_desc dbA_CreatedAt (tbl_approved_users d)"
  have "distinct (map PgUUIDToValue (map dbA_ID (tbl_approved_users d)))"
    unfolding distinct_map
    using db_inv_approved_key [OF assms] db_inv_approved_valid [OF assms]
    by (auto intro!: inj_onI simp: distinct_map PgUUIDToValue_inj)
  then have "distinct (map ApprovedRow_ID (map approved_row ?rows))"
    by (simp add: comp_def created_desc_distinct)
  moreover have "map ApprovedRow_CreatedAt (map approved_row ?rows) =
      map (\<lambda>a. Timestamptz_Time (dbA_CreatedAt a)) ?rows"
    by (simp add: approved_row_def approvedUserRowFromDB_def)
  ultimately have "\<exists>as. map (Some \<circ> approved_row) ?rows = map Some as \<and> set as = approved_row ` set (tbl_approved_users d) \<and>
      distinct (map ApprovedRow_ID as) \<and> sorted (rev (map ApprovedRow_CreatedAt as))"
    using created_desc_sorted [of dbA_CreatedAt "tbl_approved_users d"]
    by (intro exI [of _ "map approved_row ?rows"]) (simp add: comp_def)
  then show ?thesis
    unfolding Repository_ListApprovedUsers_def Queries_ListApprovedUsers_def wp_simps
    by (intro wp_selectI) (simp_all add: assms approvedUsersFromDB_def comp_def)
qed

section \<open>Writes\<close>

lemma view_row_exists:
  "UUIDToPgtypeValue uid \<in> dbU_ID ` set (tbl_users d) \<Longrightarrow>
     \<exists>u \<in> v_users (auth_view_of d). UserRow_ID u = uid"
  "UUIDToPgtypeValue rid \<in> dbR_ID ` set (tbl_roles d) \<Longrightarrow>
     \<exists>r \<in> v_roles (auth_view_of d). RoleRow_ID r = rid"
  "UUIDToPgtypeValue aid \<in> dbA_ID ` set (tbl_approved_users d) \<Longrightarrow>
     \<exists>a \<in> v_approved (auth_view_of d). ApprovedRow_ID a = aid"
  by (force dest: arg_cong [of _ _ PgUUIDToValue])+

lemma insert_user_created:
  assumes "db_inv d" and "insert_user u d = Inr d'"
    and "dbU_ApprovedUserID u = UUIDToPgtypeValue (uciApprovedUserID inp)" and "dbU_Email u = uciEmail inp"
    and "dbU_PasswordHash u = uciPasswordHash inp" and "dbU_IsActive u = uciIsActive inp"
  shows "user_created inp (Some (user_row u)) (auth_view_of d) (auth_view_of d')"
proof -
  from insert_userD [OF assms(2)] have d': "d' = d\<lparr>tbl_users := tbl_users d @ [u]\<rparr>"
    and valid: "UUID_Valid (dbU_ID u)"
    and fresh: "dbU_ID u \<notin> dbU_ID ` set (tbl_users d)" "dbU_Email u \<notin> dbU_Email ` set (tbl_users d)"
    and fk: "dbU_ApprovedUserID u \<in> dbA_ID ` set (tbl_approved_users d)" by auto
  have "PgUUIDToValue (dbU_ID u') \<noteq> PgUUIDToValue (dbU_ID u)" if "u' \<in> set (tbl_users d)" for u'
    using fresh(1) that valid db_inv_users_valid [OF assms(1) that]
    by (metis PgUUIDToValue_inj image_eqI)
  moreover have "dbU_Email u' \<noteq> dbU_Email u" if "u' \<in> set (tbl_users d)" for u'
    using fresh(2) that by (metis image_eqI)
  moreover have "\<exists>a \<in> v_approved (auth_view_of d). ApprovedRow_ID a = uciApprovedUserID inp"
    using fk assms(3) by (intro view_row_exists) simp
  ultimately show ?thesis
    using assms(3-6) by (simp add: user_created_def d' auth_view_of_def)
qed

lemma insert_user_refused:
  assumes "db_inv d" and "insert_user u d = Inl e" and "UUID_Valid (dbU_ID u)"
    and "dbU_ApprovedUserID u = UUIDToPgtypeValue (uciApprovedUserID inp)" and "dbU_Email u = uciEmail inp"
  shows "user_refused inp (auth_view_of d) (DatabaseError e)"
proof -
  have "dbU_ApprovedUserID u \<in> dbA_ID ` set (tbl_approved_users d)"
    if "a \<in> set (tbl_approved_users d)" "PgUUIDToValue (dbA_ID a) = uciApprovedUserID inp" for a
    using that key_eq_iff(2) [OF assms(1) that(1)] assms(4) by (metis image_eqI)
  then show ?thesis
    using assms by (auto simp: insert_user_def user_refused_def split: if_splits)
qed

lemma CreateUser_ok:
  assumes "db_inv d"
  shows "wp (Repository_CreateUser E inp) (\<lambda>r d'. db_inv d' \<and>
     writes (server_up E) (user_created inp) (user_refused inp) (auth_view_of d) r (auth_view_of d')) d"
proof -
  define u where "u n = \<lparr>dbU_ID = gen_random_uuid E n 0,
    dbU_ApprovedUserID = UUIDToPgtypeValue (uciApprovedUserID inp), dbU_Email = uciEmail inp,
    dbU_PasswordHash = uciPasswordHash inp, dbU_IsActive = uciIsActive inp,
    dbU_CreatedAt = Now E n, dbU_UpdatedAt = Now E n\<rparr>" for n
  have eff: "user_created inp (Some (user_row (u n))) (auth_view_of d) (auth_view_of d')"
    if "insert_user (u n) (sent d) = Inr d'" for n d'
    using insert_user_created [OF _ that, of inp] assms by (simp add: u_def)
  have ref: "user_refused inp (auth_view_of d) (DatabaseError e)"
    if "insert_user (u n) (sent d) = Inl e" for n e
    using insert_user_refused [OF _ that, of inp] assms by (simp add: u_def gen_random_uuid_def)
  show ?thesis
    unfolding Repository_CreateUser_def Queries_CreateUser_def wp_simps Let_def
    by (rule wp_statementI)
      (use assms in \<open>auto split: sum.splits simp: UserCreateInput_toCreateParams_def simp flip: u_def
        dest: eff ref db_inv_insert_user\<close>)
qed

lemma AssignRoleToUser_ok:
  assumes "db_inv d"
  shows "wp (Repository_AssignRoleToUser E uid rid) (\<lambda>r d'. db_inv d' \<and>
     writes (server_up E) (role_assigned uid rid) (role_refused uid rid) (auth_view_of d) r (auth_view_of d')) d"
proof -
  define m where "m n = \<lparr>dbUR_UserID = UUIDToPgtypeValue uid, dbUR_RoleID = UUIDToPgtypeValue rid,
    dbUR_CreatedAt = Now E n\<rparr>" for n
  have eff: "role_assigned uid rid () (auth_view_of d) (auth_view_of d')" if "insert_user_role (m n) (sent d) = Inr d'" for n d'
    using insert_user_roleD [OF that]
  proof (elim disjE conjE)
    assume d': "d' = sent d" and "(dbUR_UserID (m n), dbUR_RoleID (m n)) \<in>
        (\<lambda>r. (dbUR_UserID r, dbUR_RoleID r)) ` set (tbl_user_roles (sent d))"
    then obtain r where r: "r \<in> set (tbl_user_roles d)" "dbUR_UserID r = UUIDToPgtypeValue uid"
        "dbUR_RoleID r = UUIDToPgtypeValue rid"
      by (auto simp: m_def)
    then have "(uid, rid) \<in> v_members (auth_view_of d)"
      by (auto intro!: image_eqI [of _ _ r])
    then show ?thesis
      using db_inv_user_roles_fk [OF assms r(1)] db_inv_user_roles_role [OF assms r(1)] view_row_exists r
      by (simp only: role_assigned_def d' auth_view_roundtrips insert_absorb) simp
  next
    assume "d' = (sent d)\<lparr>tbl_user_roles := tbl_user_roles (sent d) @ [m n]\<rparr>"
      and "dbUR_UserID (m n) \<in> dbU_ID ` set (tbl_users (sent d))"
      and "dbUR_RoleID (m n) \<in> dbR_ID ` set (tbl_roles (sent d))"
    then show ?thesis
      using view_row_exists [of _ d] by (simp add: role_assigned_def auth_view_of_def m_def)
  qed
  have ref: "role_refused uid rid (auth_view_of d) (DatabaseError e)" if "insert_user_role (m n) (sent d) = Inl e" for n e
  proof -
    have "UUIDToPgtypeValue (PgUUIDToValue (dbU_ID u)) = dbU_ID u" if "u \<in> set (tbl_users d)" for u
      using db_inv_users_valid [OF assms that] valid_UUID_cases by simp
    moreover have "UUIDToPgtypeValue (PgUUIDToValue (dbR_ID u)) = dbR_ID u" if "u \<in> set (tbl_roles d)" for u
      using db_inv_roles_valid [OF assms that] valid_UUID_cases by simp
    ultimately show ?thesis
      using that by (auto simp: insert_user_role_def role_refused_def m_def split: if_splits)
  qed
  show ?thesis
    unfolding Repository_AssignRoleToUser_def Queries_AssignRole_def
    by (rule wp_statementI)
      (use assms in \<open>auto split: sum.splits simp flip: m_def dest: eff ref db_inv_insert_user_role\<close>)
qed

lemma insert_approved_rows_error:
  "insert_approved_rows as d = Inl e \<Longrightarrow> \<forall>a \<in> set as. UUID_Valid (dbA_ID a) \<Longrightarrow>
     e = UniqueViolation ''approved_users_pkey'' \<or>
     (e = UniqueViolation ''approved_users_email_key'' \<and> (\<not> distinct (map dbA_Email as) \<or>
        dbA_Email ` set as \<inter> dbA_Email ` set (tbl_approved_users d) \<noteq> {}))"
proof (induction as d rule: insert_approved_rows.induct)
  case (2 a as d)
  show ?case
  proof (cases "dbA_ID a \<in> dbA_ID ` set (tbl_approved_users d) \<or>
      dbA_Email a \<in> dbA_Email ` set (tbl_approved_users d)")
    case True
    then show ?thesis using "2.prems" by (auto split: if_splits)
  next
    case False
    with "2.prems" have "insert_approved_rows as (d\<lparr>tbl_approved_users := tbl_approved_users d @ [a]\<rparr>) = Inl e"
      by (auto split: if_splits)
    from "2.IH" [OF _ _ _ this] False "2.prems"(2) show ?thesis by auto
  qed
qed simp

lemma insert_approved_added:
  assumes "db_inv d" and ins: "insert_approved_users as d = Inr d'"
    and "\<And>a. a \<in> set as \<Longrightarrow> dbA_CreatedBy a = UUIDToPgtypeValue by"
    and "map (\<lambda>a. (dbA_Email a, dbA_FirstName a)) as = pairs"
  shows "approved_added pairs by (map (\<lambda>a. Some (approved_row a)) as) (auth_view_of d) (auth_view_of d')"
proof -
  note D = insert_approved_usersD [OF ins]
  have "distinct (map PgUUIDToValue (map dbA_ID as))"
    unfolding distinct_map using D(2,3)
    by (auto intro!: inj_onI simp: distinct_map PgUUIDToValue_inj)
  moreover have "PgUUIDToValue (dbA_ID a) \<noteq> PgUUIDToValue (dbA_ID b)" "dbA_Email a \<noteq> dbA_Email b"
    if "a \<in> set as" "b \<in> set (tbl_approved_users d)" for a b
    using D(2) [OF that(1)] D(5,6) that db_inv_approved_valid [OF assms(1) that(2)]
    by (auto simp: PgUUIDToValue_inj)
  ultimately show ?thesis
    unfolding approved_added_def using assms(3,4) D(4)
    by (intro exI [of _ "map approved_row as"])
      (auto simp: D(1) auth_view_of_def comp_def PgUUIDToPtr_def)
qed

lemma insert_approved_refused:
  assumes inv: "db_inv d" and "insert_approved_users as d = Inl e" and "\<And>a. a \<in> set as \<Longrightarrow> UUID_Valid (dbA_ID a)"
    and "\<And>a. a \<in> set as \<Longrightarrow> dbA_CreatedBy a = UUIDToPgtypeValue by"
  shows "approved_refused (map dbA_Email as) by (auth_view_of d) (DatabaseError e)"
proof (cases "insert_approved_rows as d")
  case (Inl x)
  with assms insert_approved_rows_error [OF Inl] show ?thesis
    by (auto simp: insert_approved_users_def approved_refused_def image_image)
next
  case (Inr d')
  with assms(2) obtain a where a: "a \<in> set as" "dbA_CreatedBy a \<notin> dbA_ID ` set (tbl_approved_users d')"
    and e: "e = ForeignKeyViolation ''approved_users_created_by_fkey''"
    by (auto simp: insert_approved_users_def split: if_splits)
  then have "UUIDToPgtypeValue by \<notin> dbA_ID ` set (tbl_approved_users d)"
    using insert_approved_rowsD [OF Inr] assms(4) by auto
  then have "PgUUIDToValue (dbA_ID b) \<noteq> by" if "b \<in> set (tbl_approved_users d)" for b
    using key_eq_iff(2) [OF inv that] that by (metis image_eqI)
  then show ?thesis
    using e by (simp add: approved_refused_def)
qed

text \<open>Arrays of one length are inserted row by row.\<close>

lemma unnest3_same_length:
  "length es = length fs \<Longrightarrow> length cs = length es \<Longrightarrow>
     \<exists>rows. unnest3 E n i es fs cs = Inr rows \<and>
       map (\<lambda>a. (dbA_Email a, dbA_FirstName a)) rows = zip es fs \<and> map dbA_Email rows = es \<and>
       map dbA_CreatedBy rows = cs \<and> (\<forall>a \<in> set rows. UUID_Valid (dbA_ID a))"
proof (induction es arbitrary: i fs cs)
  case (Cons e es)
  then obtain f fs' c cs' where eq: "fs = f # fs'" "cs = c # cs'" and len: "length es = length fs'" "length cs' = length es"
    by (cases fs; cases cs) auto
  from Cons.IH [OF len, of "Suc i"] obtain rows where "unnest3 E n (Suc i) es fs' cs' = Inr rows"
    "map (\<lambda>a. (dbA_Email a, dbA_FirstName a)) rows = zip es fs'" "map dbA_Email rows = es"
    "map dbA_CreatedBy rows = cs'" "\<forall>a \<in> set rows. UUID_Valid (dbA_ID a)" by blast
  then show ?case
    by (simp add: eq new_approved_user_def gen_random_uuid_def)
qed simp

lemma CreateApprovedUser_ok:
  assumes "db_inv d"
  shows "wp (Repository_CreateApprovedUser E inp) (\<lambda>r d'. db_inv d' \<and>
     writes (server_up E) (\<lambda>p. approved_added [(auciEmail inp, auciFirstName inp)] (auciCreatedBy inp) [p])
       (approved_refused [auciEmail inp] (auciCreatedBy inp)) (auth_view_of d) r (auth_view_of d')) d"
proof -
  define a where "a n = new_approved_user E n 0 (auciEmail inp) (auciFirstName inp)
    (UUIDToPgtypeValue (auciCreatedBy inp))" for n
  have eff: "approved_added [(auciEmail inp, auciFirstName inp)] (auciCreatedBy inp) [Some (approved_row (a n))]
      (auth_view_of d) (auth_view_of d')"
    if "insert_approved_users [a n] (sent d) = Inr d'" for n d'
    using insert_approved_added [OF _ that, of "auciCreatedBy inp"] assms
    by (simp add: a_def new_approved_user_def)
  have ref: "approved_refused [auciEmail inp] (auciCreatedBy inp) (auth_view_of d) (DatabaseError e)"
    if "insert_approved_users [a n] (sent d) = Inl e" for n e
    using insert_approved_refused [OF _ that, of "auciCreatedBy inp"] assms
    by (simp add: a_def new_approved_user_def gen_random_uuid_def)
  show ?thesis
    unfolding Repository_CreateApprovedUser_def Queries_CreateApprovedUser_def wp_simps Let_def
    by (rule wp_statementI)
      (use assms in \<open>auto split: sum.splits simp: ApprovedUserCreateInput_toCreateParams_def simp flip: a_def
        dest: eff ref db_inv_insert_approved_users\<close>)
qed

lemma BulkCreateApprovedUsers_ok:
  assumes "db_inv d"
  shows "wp (Repository_BulkCreateApprovedUsers E inp) (\<lambda>r d'. db_inv d' \<and>
     writes (server_up E) (approved_added (zip (bauiEmails inp) (bauiFirstNames inp)) (bauiCreatedBy inp))
       (\<lambda>v e. if length (bauiEmails inp) \<noteq> length (bauiFirstNames inp) then e = ErrInvalidInput
          else approved_refused (bauiEmails inp) (bauiCreatedBy inp) v e) (auth_view_of d) r (auth_view_of d')) d"
proof (cases "length (bauiEmails inp) = length (bauiFirstNames inp)")
  case False
  then show ?thesis
    using assms by (simp add: Repository_BulkCreateApprovedUsers_def wp_simps)
next
  case True
  let ?by = "UUIDToPgtypeValue (bauiCreatedBy inp)"
  define u where "u n = unnest3 E n 0 (bauiEmails inp) (bauiFirstNames inp) (replicate (length (bauiEmails inp)) ?by)" for n
  define as where "as n = projr (u n)" for n
  have rows: "u n = Inr (as n) \<and>
      map (\<lambda>a. (dbA_Email a, dbA_FirstName a)) (as n) = zip (bauiEmails inp) (bauiFirstNames inp) \<and>
      map dbA_Email (as n) = bauiEmails inp \<and>
      map dbA_CreatedBy (as n) = replicate (length (bauiEmails inp)) ?by \<and>
      (\<forall>a \<in> set (as n). UUID_Valid (dbA_ID a))" for n
    using unnest3_same_length [OF True, of "replicate (length (bauiEmails inp)) ?by" E n 0]
    by (auto simp: u_def as_def)
  then have unnest: "unnest3 E n 0 (bauiEmails inp) (bauiFirstNames inp)
      (replicate (length (bauiFirstNames inp)) ?by) = Inr (as n)"
    and pairs: "map (\<lambda>a. (dbA_Email a, dbA_FirstName a)) (as n) = zip (bauiEmails inp) (bauiFirstNames inp)"
    and emails: "map dbA_Email (as n) = bauiEmails inp"
    and by_: "map dbA_CreatedBy (as n) = replicate (length (bauiEmails inp)) ?by"
    and ids: "\<And>a. a \<in> set (as n) \<Longrightarrow> UUID_Valid (dbA_ID a)" for n
    using True by (simp_all add: u_def)
  have "dbA_CreatedBy a \<in> set (replicate (length (bauiEmails inp)) ?by)" if "a \<in> set (as n)" for n a
    using that by (metis by_ image_eqI set_map)
  then have creator: "dbA_CreatedBy a = ?by" if "a \<in> set (as n)" for n a
    using that by (auto split: if_splits)
  have eff: "approved_added (zip (bauiEmails inp) (bauiFirstNames inp)) (bauiCreatedBy inp)
      (map (\<lambda>a. Some (approved_row a)) (as n)) (auth_view_of d) (auth_view_of d')"
    if "insert_approved_users (as n) (sent d) = Inr d'" for n d'
    using insert_approved_added [OF _ that, of "bauiCreatedBy inp"] assms creator pairs by simp
  have ref: "approved_refused (bauiEmails inp) (bauiCreatedBy inp) (auth_view_of d) (DatabaseError e)"
    if "insert_approved_users (as n) (sent d) = Inl e" for n e
    using insert_approved_refused [OF _ that, of "bauiCreatedBy inp"] assms creator ids by (simp add: emails)
  show ?thesis
    unfolding Repository_BulkCreateApprovedUsers_def Queries_CreateApprovedUsersBulk_def wp_simps
    using True
    by (simp, intro wp_statementI)
      (use assms in \<open>auto split: sum.splits simp: BulkApprovedUserInput_toCreateParams_def approvedUsersFromDB_def
        unnest dest: eff ref db_inv_insert_approved_users\<close>)
qed

text \<open>Deleting an approved user, seen through the view.\<close>

lemma delete_approved_users_none:
  assumes "filter P (tbl_approved_users d) = []"
  shows "delete_approved_users P d = d"
  using assms
  by (simp add: delete_approved_users_def delete_users_def Let_def filter_empty_conv filter_id_conv)

lemma view_delete_approved:
  fixes key :: uuid
  assumes "db_inv d"
  defines "hit \<equiv> \<lambda>a. sql_eq (dbA_ID a) (UUIDToPgtypeValue key)"
  shows "auth_view_of (delete_approved_users hit d) = without_approved key (auth_view_of d)"
proof -
  let ?gone = "dbA_ID ` {b \<in> set (tbl_approved_users d). hit b}"
  have gone: "i \<in> ?gone \<longleftrightarrow> i = UUIDToPgtypeValue key" if "i \<in> dbA_ID ` set (tbl_approved_users d)" for i
    using that by (auto simp: hit_def)
  have hit: "hit a \<longleftrightarrow> ApprovedRow_ID (approved_row a) = key" if "a \<in> set (tbl_approved_users d)" for a
    using key_eq_iff(2) [OF assms(1) that] by (simp add: hit_def)
  have creator: "dbA_CreatedBy a \<in> ?gone \<longleftrightarrow> PgUUIDToPtr (dbA_CreatedBy a) = Some key"
    if "a \<in> set (tbl_approved_users d)" for a
  proof (cases "UUID_Valid (dbA_CreatedBy a)")
    case True
    with db_inv_approved_creator [OF assms(1) that] gone show ?thesis
      by (simp add: PgUUIDToPtr_def) (metis PgUUIDToValue_def PgUUIDToValue_eq_iff)
  next
    case False
    then have "dbA_CreatedBy a \<notin> ?gone"
      by (auto simp: hit_def)
    with False show ?thesis by (simp add: PgUUIDToPtr_def)
  qed
  have clear: "approved_row (if dbA_CreatedBy a \<in> ?gone then a\<lparr>dbA_CreatedBy := null_UUID\<rparr> else a) =
      clear_creator key (approved_row a)" if "a \<in> set (tbl_approved_users d)" for a
    using creator [OF that]
    by (simp add: clear_creator_def approved_row_def approvedUserRowFromDB_def null_UUID_def PgUUIDToPtr_def)
  have user: "dbU_ApprovedUserID u \<in> ?gone \<longleftrightarrow> UserRow_ApprovedUserID (user_row u) = key"
    if "u \<in> set (tbl_users d)" for u
    using gone [OF db_inv_users_fk [OF assms(1) that]] db_inv_users_approved_valid [OF assms(1) that]
    by (simp add: PgUUIDToValue_eq_iff)
  have member: "dbUR_UserID m \<notin> dbU_ID ` {u \<in> set (tbl_users d). dbU_ApprovedUserID u \<in> ?gone} \<longleftrightarrow>
      (\<exists>u \<in> set (tbl_users d). PgUUIDToValue (dbU_ID u) = PgUUIDToValue (dbUR_UserID m) \<and>
         UserRow_ApprovedUserID (user_row u) \<noteq> key)" (is "?L \<longleftrightarrow> ?R") if m: "m \<in> set (tbl_user_roles d)" for m
  proof -
    obtain u where u: "u \<in> set (tbl_users d)" "dbUR_UserID m = dbU_ID u"
      using db_inv_user_roles_fk [OF assms(1) m] by auto
    have "v = u" if "v \<in> set (tbl_users d)" "PgUUIDToValue (dbU_ID v) = PgUUIDToValue (dbU_ID u)" for v
      using that u db_inv_users_valid [OF assms(1)] db_inv_users_key [OF assms(1)]
      by (metis PgUUIDToValue_inj distinct_map_eq)
    then have "?R \<longleftrightarrow> UserRow_ApprovedUserID (user_row u) \<noteq> key"
      using u by auto
    moreover have "?L \<longleftrightarrow> dbU_ApprovedUserID u \<notin> ?gone"
      using u db_inv_users_key [OF assms(1)] by (auto dest: distinct_map_eq)
    ultimately show ?thesis using user [OF u(1)] by blast
  qed
  let ?d = "delete_approved_users hit d"
  have A: "v_approved (auth_view_of ?d) = v_approved (without_approved key (auth_view_of d))"
  proof -
    have "v_approved (auth_view_of ?d) =
        (\<lambda>a. clear_creator key (approved_row a)) ` {a \<in> set (tbl_approved_users d). \<not> hit a}"
      unfolding auth_view_simps delete_approved_users_simps set_map set_filter image_image
      by (rule image_cong) (simp_all add: clear)
    also have "\<dots> = clear_creator key ` {a \<in> v_approved (auth_view_of d). ApprovedRow_ID a \<noteq> key}"
      using hit by (auto simp: image_image)
    finally show ?thesis by (simp add: without_approved_def)
  qed
  have B: "v_users (auth_view_of ?d) = v_users (without_approved key (auth_view_of d))"
    using user by (auto simp: without_approved_def delete_approved_users_simps)
  have "v_members (auth_view_of ?d) = (\<lambda>m. (PgUUIDToValue (dbUR_UserID m), PgUUIDToValue (dbUR_RoleID m))) `
      {m \<in> set (tbl_user_roles d). \<exists>u \<in> set (tbl_users d).
         PgUUIDToValue (dbU_ID u) = PgUUIDToValue (dbUR_UserID m) \<and> UserRow_ApprovedUserID (user_row u) \<noteq> key}"
    unfolding auth_view_simps delete_approved_users_simps set_filter using member by (intro image_cong) blast+
  also have "\<dots> = v_members (without_approved key (auth_view_of d))"
    by (auto simp: without_approved_def)
  finally have C: "v_members (auth_view_of ?d) = v_members (without_approved key (auth_view_of d))" .
  have D: "v_roles (auth_view_of ?d) = v_roles (without_approved key (auth_view_of d))"
    by (simp add: without_approved_def delete_approved_users_simps)
  from A B C D show ?thesis by (intro auth_view.equality) simp_all
qed

lemma DeleteApprovedUser_ok:
  assumes "db_inv d"
  shows "wp (Repository_DeleteApprovedUser E key) (\<lambda>r d'. db_inv d' \<and>
     writes (server_up E) (approved_deleted key) (delete_refused key) (auth_view_of d) r (auth_view_of d')) d"
proof -
  define hit where "hit = (\<lambda>a :: db_ApprovedUser. sql_eq (dbA_ID a) (UUIDToPgtypeValue key))"
  have view: "auth_view_of (delete_approved_users hit (sent d)) = without_approved key (auth_view_of d)"
    using view_delete_approved [of "sent d" key] assms by (simp add: hit_def)
  have inv: "db_inv (delete_approved_users hit (sent d))"
    using assms by (simp add: db_inv_delete_approved_users)
  have hit_iff: "hit a \<longleftrightarrow> PgUUIDToValue (dbA_ID a) = key" if "a \<in> set (tbl_approved_users d)" for a
    using key_eq_iff(2) [OF assms that] by (simp add: hit_def)
  show ?thesis
  proof (cases "filter hit (tbl_approved_users d)")
    case Nil
    then have "delete_approved_users hit (sent d) = sent d"
      by (intro delete_approved_users_none) simp
    with Nil assms hit_iff show ?thesis
      unfolding Repository_DeleteApprovedUser_def Queries_DeleteApprovedUser_def wp_simps Let_def hit_def [symmetric]
      by (intro wp_statementI) (auto simp: delete_refused_def filter_empty_conv)
  next
    case (Cons a as)
    then have "a \<in> set (tbl_approved_users d)" "hit a"
      by (metis (mono_tags, lifting) filter_eq_ConsD in_set_conv_decomp)+
    then have "approved_deleted key () (auth_view_of d) (auth_view_of (delete_approved_users hit (sent d)))"
      using hit_iff by (auto simp: approved_deleted_def view)
    with Cons assms inv show ?thesis
      unfolding Repository_DeleteApprovedUser_def Queries_DeleteApprovedUser_def wp_simps Let_def hit_def [symmetric]
      by (intro wp_statementI) auto
  qed
qed

section \<open>The aggregate\<close>

lemma distinct_concat_map:
  "distinct xs \<Longrightarrow> (\<And>x. x \<in> set xs \<Longrightarrow> distinct (g x)) \<Longrightarrow>
   (\<And>x y. x \<in> set xs \<Longrightarrow> y \<in> set xs \<Longrightarrow> x \<noteq> y \<Longrightarrow> set (g x) \<inter> set (g y) = {}) \<Longrightarrow>
   distinct (concat (map g xs))"
proof (induction xs)
  case (Cons x xs)
  have "set (g x) \<inter> (\<Union>y \<in> set xs. set (g y)) = {}"
    using Cons.prems(1) Cons.prems(3) [of x] by (auto simp: disjoint_iff)
  with Cons show ?case by simp
qed simp

lemma distinct_role_names:
  assumes "db_inv d"
  shows "distinct (map dbR_Name (roles_of d uid))"
proof -
  let ?ms = "filter (\<lambda>m. sql_eq (dbUR_UserID m) uid) (tbl_user_roles d)"
  have pair: "m = m'" if "m \<in> set ?ms" "m' \<in> set ?ms" "dbUR_RoleID m = dbUR_RoleID m'" for m m'
  proof (rule distinct_map_eq [OF db_inv_user_roles_key [OF assms]])
    show "(dbUR_UserID m, dbUR_RoleID m) = (dbUR_UserID m', dbUR_RoleID m')"
      using that by (cases "dbUR_UserID m"; cases "dbUR_UserID m'") (auto simp: sql_eq_def)
  qed (use that in auto)
  have "distinct (roles_of d uid)"
    unfolding roles_of_def
  proof (rule distinct_concat_map)
    have "distinct (tbl_user_roles d)"
      using db_inv_user_roles_key [OF assms] by (simp add: distinct_map)
    then show "distinct ?ms" by simp
    have roles: "distinct (tbl_roles d)"
      using db_inv_roles_key [OF assms] by (simp add: distinct_map)
    then show "distinct (filter (\<lambda>r. sql_eq (dbR_ID r) (dbUR_RoleID m)) (tbl_roles d))" for m
      by simp
    show "set (filter (\<lambda>r. sql_eq (dbR_ID r) (dbUR_RoleID m)) (tbl_roles d)) \<inter>
        set (filter (\<lambda>r. sql_eq (dbR_ID r) (dbUR_RoleID m')) (tbl_roles d)) = {}"
      if "m \<in> set ?ms" "m' \<in> set ?ms" "m \<noteq> m'" for m m'
    proof -
      have "dbUR_RoleID m \<noteq> dbUR_RoleID m'" using pair that by blast
      then show ?thesis
        by (cases "dbUR_RoleID m"; cases "dbUR_RoleID m'") (auto simp: sql_eq_def)
    qed
  qed
  moreover have "set (roles_of d uid) \<subseteq> set (tbl_roles d)"
    by (auto simp: roles_of_def)
  moreover have "inj_on dbR_Name (set (tbl_roles d))"
    using db_inv_roles_name [OF assms] by (simp add: distinct_map)
  ultimately show ?thesis
    by (auto simp: distinct_map intro: inj_on_subset)
qed

lemma left_join_approved_Some:
  assumes "db_inv d" and "u \<in> set (tbl_users d)"
  obtains a as where "left_join_approved d u = Some a # as" and "a \<in> set (tbl_approved_users d)"
    and "dbA_ID a = dbU_ApprovedUserID u"
proof -
  obtain b where b: "b \<in> set (tbl_approved_users d)" "dbA_ID b = dbU_ApprovedUserID u"
    using db_inv_users_fk [OF assms] by auto
  have "filter (\<lambda>a. sql_eq (dbA_ID a) (dbU_ApprovedUserID u)) (tbl_approved_users d) \<noteq> []"
    using b db_inv_approved_valid [OF assms(1) b(1)] by (auto simp: filter_empty_conv sql_eq_def intro: bexI [of _ b])
  then obtain a as where cons: "filter (\<lambda>a. sql_eq (dbA_ID a) (dbU_ApprovedUserID u)) (tbl_approved_users d) = a # as"
    by (cases "filter (\<lambda>a. sql_eq (dbA_ID a) (dbU_ApprovedUserID u)) (tbl_approved_users d)") auto
  then have a: "a \<in> set (tbl_approved_users d)" "sql_eq (dbA_ID a) (dbU_ApprovedUserID u)"
    by (metis (mono_tags, lifting) filter_eq_ConsD in_set_conv_decomp)+
  show ?thesis
    by (rule that [of a "map Some as"])
      (use a db_inv_approved_valid [OF assms(1) a(1)] in \<open>simp_all add: left_join_approved_def cons sql_eq_iff\<close>)
qed

lemma GetUserWithRolesAndApproved_ok:
  assumes "db_inv d"
  shows "wp (Repository_GetUserWithRolesAndApproved E key) (\<lambda>r d'. db_inv d' \<and> auth_view_of d' = auth_view_of d \<and>
     lookup (server_up E) (aggregates (auth_view_of d) key) r) d"
proof (cases "filter (\<lambda>u. sql_eq (dbU_ID u) (UUIDToPgtypeValue key)) (tbl_users d)")
  case Nil
  then have "aggregates (auth_view_of d) key = {}"
    using key_eq_iff(1) [OF assms] by (auto simp: aggregates_def filter_empty_conv)
  with Nil assms show ?thesis
    unfolding Repository_GetUserWithRolesAndApproved_def Queries_GetUserWithRolesAndApproved_def wp_simps
    by (intro wp_selectI) simp_all
next
  case (Cons u us)
  then have u: "u \<in> set (tbl_users d)" "dbU_ID u = UUIDToPgtypeValue key"
    by (auto dest!: filter_eq_ConsD)
  have inv': "db_inv (sent d)" and u': "u \<in> set (tbl_users (sent d))" using assms u by simp_all
  obtain a as where join: "left_join_approved (sent d) u = Some a # as"
    and a: "a \<in> set (tbl_approved_users d)" "dbA_ID a = dbU_ApprovedUserID u"
    by (rule left_join_approved_Some [OF inv' u']) auto
  have valid: "UUID_Valid (dbA_ID a)" using db_inv_approved_valid [OF assms a(1)] .
  have roles: "roles_of (sent d) uid = roles_of d uid" for uid by (simp add: roles_of_def)
  let ?c = "\<lparr>uwcUser = Some (user_row u),
    uwcRoleNames = sort_key (pg_sortkey E) (map dbR_Name (roles_of d (UUIDToPgtypeValue key))),
    uwcApprovedUser = Some (approved_row a)\<rparr>"
  have "dbR_Name ` set (roles_of d (UUIDToPgtypeValue key)) = role_names_of (auth_view_of d) key"
    unfolding role_names_of_def set_roles_of [OF assms, symmetric] by (simp add: image_image)
  then have agg: "?c \<in> aggregates (auth_view_of d) key"
    using u a distinct_role_names [OF assms] unfolding aggregates_def mem_Collect_eq
    by (intro bexI [of _ "user_row u"] bexI [of _ "approved_row a"]) simp_all
  show ?thesis
    unfolding Repository_GetUserWithRolesAndApproved_def Queries_GetUserWithRolesAndApproved_def wp_simps
    by (intro wp_selectI) (use assms agg Cons join valid roles u(2) in \<open>simp_all add: Let_def wp_simps\<close>)
qed

section \<open>The contract is met\<close>

lemma Repository_simps [simp]:
  "repo_GetUserByEmail (Repository E) = Repository_GetUserByEmail E"
  "repo_GetUserByID (Repository E) = Repository_GetUserByID E"
  "repo_CreateUser (Repository E) = Repository_CreateUser E"
  "repo_ApprovedUserExists (Repository E) = Repository_ApprovedUserExists E"
  "repo_GetApprovedUserByID (Repository E) = Repository_GetApprovedUserByID E"
  "repo_GetUserRoles (Repository E) = Repository_GetUserRoles E"
  "repo_GetRoleByName (Repository E) = Repository_GetRoleByName E"
  "repo_AssignRoleToUser (Repository E) = Repository_AssignRoleToUser E"
  "repo_ListApprovedUsers (Repository E) = Repository_ListApprovedUsers E"
  "repo_CreateApprovedUser (Repository E) = Repository_CreateApprovedUser E"
  "repo_BulkCreateApprovedUsers (Repository E) = Repository_BulkCreateApprovedUsers E"
  "repo_DeleteApprovedUser (Repository E) = Repository_DeleteApprovedUser E"
  "repo_GetApprovedUserByEmail (Repository E) = Repository_GetApprovedUserByEmail E"
  "repo_GetUserWithRolesAndApproved (Repository E) = Repository_GetUserWithRolesAndApproved E"
  by (simp_all add: Repository_def)

lemma view_keys:
  assumes "db_inv d"
  shows "inj_on UserRow_Email (v_users (auth_view_of d))" and "inj_on UserRow_ID (v_users (auth_view_of d))"
    and "inj_on ApprovedRow_ID (v_approved (auth_view_of d))"
    and "inj_on ApprovedRow_Email (v_approved (auth_view_of d))"
    and "inj_on RoleRow_Name (v_roles (auth_view_of d))"
proof -
  have image: "inj_on g (f ` S)" if "inj_on (\<lambda>x. g (f x)) S" for f g and S
    using that by (auto simp: inj_on_def)
  have keyinj: "inj_on (\<lambda>x. PgUUIDToValue (f x)) (set xs)" if "distinct (map f xs)" "\<And>x. x \<in> set xs \<Longrightarrow> UUID_Valid (f x)" for f xs
    using that by (auto simp: distinct_map inj_on_def PgUUIDToValue_inj)
  note D = db_invD [OF assms]
  show "inj_on UserRow_Email (v_users (auth_view_of d))"
    using db_inv_users_email [OF assms] by (simp add: distinct_map image)
  show "inj_on UserRow_ID (v_users (auth_view_of d))"
    using keyinj [OF db_inv_users_key [OF assms]] db_inv_users_valid [OF assms] by (simp add: image)
  show "inj_on ApprovedRow_ID (v_approved (auth_view_of d))"
    using keyinj [OF db_inv_approved_key [OF assms]] db_inv_approved_valid [OF assms] by (simp add: image)
  show "inj_on ApprovedRow_Email (v_approved (auth_view_of d))"
    using db_inv_approved_email [OF assms] by (simp add: distinct_map image)
  show "inj_on RoleRow_Name (v_roles (auth_view_of d))"
    using db_inv_roles_name [OF assms] by (simp add: distinct_map image)
qed

interpretation auth_repo: user_repository "Repository E" db_inv auth_view_of "server_up E" for E
proof unfold_locales
  fix d :: db and u and uid rid :: uuid
  assume inv: "db_inv d"
  show "finite (v_roles (auth_view_of d))" by simp
  show "\<exists>a \<in> v_approved (auth_view_of d). ApprovedRow_ID a = UserRow_ApprovedUserID u"
    if u: "u \<in> v_users (auth_view_of d)"
  proof -
    obtain x where "x \<in> set (tbl_users d)" "u = user_row x" using u by auto
    with db_inv_users_fk [OF inv, of x] show ?thesis by auto
  qed
  show "\<exists>u \<in> v_users (auth_view_of d). UserRow_ID u = uid" if m: "(uid, rid) \<in> v_members (auth_view_of d)"
  proof -
    obtain x where "x \<in> set (tbl_user_roles d)" "uid = PgUUIDToValue (dbUR_UserID x)" using m by auto
    with db_inv_user_roles_fk [OF inv, of x] show ?thesis by auto
  qed
qed (simp_all only: Repository_simps view_keys GetUserByEmail_ok GetUserByID_ok CreateUser_ok
    ApprovedUserExists_ok GetApprovedUserByID_ok GetUserRoles_ok GetRoleByName_ok AssignRoleToUser_ok
    ListApprovedUsers_ok CreateApprovedUser_ok BulkCreateApprovedUsers_ok DeleteApprovedUser_ok
    GetApprovedUserByEmail_ok GetUserWithRolesAndApproved_ok)

end
