(* ===== verification/Demo.thy ===== *)
theory Demo
  imports Auth_Repository
begin

text \<open>
  A concrete world for evaluating the development: third-party packages for which the documented
  behaviour named in \<open>Auth_Service\<close> holds, a server that loses nothing and one that loses chosen
  messages, and a small database.
\<close>

section \<open>Packages\<close>

definition enc_str :: "string \<Rightarrow> string" where
  "enc_str s = concat (map (\<lambda>c. [CHR ''x'', c]) s) @ ''.''"

fun dec_str :: "string \<Rightarrow> (string \<times> string) option" where
  "dec_str [] = None"
| "dec_str (a # r) =
     (if a = CHR ''.'' then Some ([], r)
      else (case r of [] \<Rightarrow> None | c # r' \<Rightarrow> map_option (\<lambda>(s, t). (c # s, t)) (dec_str r')))"

lemma dec_enc_str [simp]: "dec_str (enc_str s @ t) = Some (s, t)"
  by (induction s) (simp_all add: enc_str_def)

definition demo_sign :: "signing_method \<Rightarrow> claims \<Rightarrow> string \<Rightarrow> go_error + string" where
  "demo_sign m claims secret =
     (case claims of
        [(k1, AnyString u), (k2, AnyString e), (k3, AnyInt t)] \<Rightarrow>
          if m = SigningMethodHS256 \<and> k1 = ''user_id'' \<and> k2 = ''email'' \<and> k3 = ''exp'' \<and> 0 \<le> t
          then Inr (enc_str secret @ enc_str u @ enc_str e @ replicate (nat t) (CHR ''1''))
          else Inl (ErrText ''unsupported claims'')
      | _ \<Rightarrow> Inl (ErrText ''unsupported claims''))"

definition demo_parse :: "go_time \<Rightarrow> string list \<Rightarrow> bool \<Rightarrow> (jwt_token \<Rightarrow> go_error + string) \<Rightarrow> string \<Rightarrow>
    go_error + jwt_token" where
  "demo_parse now methods required key tok =
     (case dec_str tok of None \<Rightarrow> Inl (ErrText ''malformed'') | Some (secret, r1) \<Rightarrow>
     (case dec_str r1 of None \<Rightarrow> Inl (ErrText ''malformed'') | Some (u, r2) \<Rightarrow>
     (case dec_str r2 of None \<Rightarrow> Inl (ErrText ''malformed'') | Some (e, r3) \<Rightarrow>
       (let t = \<lparr>tok_Method = SigningMethodHS256,
                 tok_Claims = MapClaims [(''user_id'', AnyString u), (''email'', AnyString e),
                   (''exp'', AnyInt (int (length r3)))],
                 tok_Valid = True\<rparr>
        in if ''HS256'' \<in> set methods \<and> key t = Inr secret \<and> now < int (length r3) * Second
           then Inr t else Inl (ErrText ''token is invalid'')))))"

definition demo_libs :: auth_libs where
  "demo_libs =
     \<lparr>uuid_Parse = (\<lambda>s. if set s \<subseteq> {CHR ''u''} then Inr (of_nat (length s)) else Inl (ErrText ''invalid UUID'')),
      uuid_String = (\<lambda>u. replicate (unat u) (CHR ''u'')),
      bcrypt_GenerateFromPassword = (\<lambda>n p cost. if 72 < length p then Inl (ErrText ''password length exceeds 72 bytes'')
        else Inr (CHR ''#'' # p)),
      bcrypt_CompareHashAndPassword = (\<lambda>h p. if h = CHR ''#'' # p then None else Some (ErrText ''mismatch'')),
      jwt_SignedString = demo_sign, jwt_Parse = demo_parse, time_Now = (\<lambda>n. int n * Second)\<rparr>"

lemma demo_signD:
  "demo_sign m claims secret = Inr tok \<Longrightarrow> \<exists>u e t. 0 \<le> t \<and>
     claims = [(''user_id'', AnyString u), (''email'', AnyString e), (''exp'', AnyInt t)] \<and>
     tok = enc_str secret @ enc_str u @ enc_str e @ replicate (nat t) (CHR ''1'')"
  by (auto simp: demo_sign_def split: list.splits prod.splits any.splits if_splits)

lemma demo_token_roundtrip: "token_roundtrip demo_libs"
  unfolding token_roundtrip_def
proof (intro allI impI)
  fix claims secret tok now e methods and key :: "jwt_token \<Rightarrow> go_error + string"
  assume sign: "jwt_SignedString demo_libs SigningMethodHS256 claims secret = Inr tok"
    and expiry: "map_of claims ''exp'' = Some (AnyInt e)" "now < e * Second"
    and key: "''HS256'' \<in> set methods" "\<forall>t. tok_Method t = SigningMethodHS256 \<longrightarrow> key t = Inr secret"
  from sign have "demo_sign SigningMethodHS256 claims secret = Inr tok" by (simp add: demo_libs_def)
  from demo_signD [OF this] obtain u m t where
    "0 \<le> t" "claims = [(''user_id'', AnyString u), (''email'', AnyString m), (''exp'', AnyInt t)]"
    "tok = enc_str secret @ enc_str u @ enc_str m @ replicate (nat t) (CHR ''1'')" by blast
  with expiry key show "\<exists>t claims'. jwt_Parse demo_libs now methods True key tok = Inr t \<and> tok_Valid t \<and>
      tok_Claims t = MapClaims claims' \<and>
      (\<forall>k s. map_of claims k = Some (AnyString s) \<longrightarrow> map_of claims' k = Some (AnyString s))"
    by (auto simp: demo_libs_def demo_parse_def)
qed

lemma demo_token_expires: "token_expires demo_libs"
  unfolding token_expires_def
proof (intro allI impI)
  fix claims secret tok now e methods and key :: "jwt_token \<Rightarrow> go_error + string"
  assume sign: "jwt_SignedString demo_libs SigningMethodHS256 claims secret = Inr tok"
    and expiry: "map_of claims ''exp'' = Some (AnyInt e)" "e * Second \<le> now"
  from sign have "demo_sign SigningMethodHS256 claims secret = Inr tok" by (simp add: demo_libs_def)
  from demo_signD [OF this] obtain u m t where
    "0 \<le> t" "claims = [(''user_id'', AnyString u), (''email'', AnyString m), (''exp'', AnyInt t)]"
    "tok = enc_str secret @ enc_str u @ enc_str m @ replicate (nat t) (CHR ''1'')" by blast
  with expiry show "\<exists>err. jwt_Parse demo_libs now methods True key tok = Inl err"
    by (auto simp: demo_libs_def demo_parse_def Let_def)
qed

lemma demo_uuid_roundtrip: "uuid_roundtrip demo_libs"
  by (auto simp: uuid_roundtrip_def demo_libs_def)

lemma demo_bcrypt_roundtrip: "bcrypt_roundtrip demo_libs"
  by (simp add: bcrypt_roundtrip_def demo_libs_def)

section \<open>Servers and data\<close>

definition demo_pg :: pg where
  "demo_pg = \<lparr>pg_now = (\<lambda>n. int n * Second), pg_uuid = (\<lambda>n i. of_nat (64 + 8 * n + i)),
     pg_delivery = (\<lambda>_. Delivered), pg_sortkey = (\<lambda>s. s)\<rparr>"

lemma demo_pg_up [simp]: "server_up demo_pg"
  by (simp add: server_up_def demo_pg_def)

definition demo_pg_losing :: "nat \<Rightarrow> pg" where
  "demo_pg_losing k = demo_pg\<lparr>pg_delivery := (\<lambda>n. if n = k then RequestLost else Delivered)\<rparr>"

abbreviation demo_ts :: pg_Timestamptz where
  "demo_ts \<equiv> \<lparr>Timestamptz_Time = 0, Timestamptz_Valid = True\<rparr>"

definition demo_db :: db where
  "demo_db =
     \<lparr>tbl_approved_users =
        [\<lparr>dbA_ID = UUIDToPgtypeValue 1, dbA_Email = ''ann@x.org'', dbA_FirstName = ''Ann'',
          dbA_CreatedBy = null_UUID, dbA_CreatedAt = demo_ts, dbA_UpdatedAt = demo_ts\<rparr>,
         \<lparr>dbA_ID = UUIDToPgtypeValue 2, dbA_Email = ''bob@x.org'', dbA_FirstName = ''Bob'',
          dbA_CreatedBy = UUIDToPgtypeValue 1, dbA_CreatedAt = demo_ts, dbA_UpdatedAt = demo_ts\<rparr>],
      tbl_users =
        [\<lparr>dbU_ID = UUIDToPgtypeValue 5, dbU_ApprovedUserID = UUIDToPgtypeValue 1,
          dbU_Email = ''ann@x.org'', dbU_PasswordHash = ''#secret-1'', dbU_IsActive = True,
          dbU_CreatedAt = demo_ts, dbU_UpdatedAt = demo_ts\<rparr>],
      tbl_roles =
        [\<lparr>dbR_ID = UUIDToPgtypeValue 10, dbR_Name = ''user'', dbR_Description = None, dbR_CreatedAt = demo_ts\<rparr>,
         \<lparr>dbR_ID = UUIDToPgtypeValue 11, dbR_Name = ''admin'', dbR_Description = None, dbR_CreatedAt = demo_ts\<rparr>],
      tbl_user_roles =
        [\<lparr>dbUR_UserID = UUIDToPgtypeValue 5, dbUR_RoleID = UUIDToPgtypeValue 11, dbUR_CreatedAt = demo_ts\<rparr>],
      tbl_todos =
        [\<lparr>dbT_ID = UUIDToPgtypeValue 20, dbT_UserID = UUIDToPgtypeValue 5, dbT_Title = ''Shop'',
          dbT_Description = None, dbT_IsCompleted = False, dbT_DueDate = null_Timestamptz,
          dbT_CreatedAt = demo_ts, dbT_UpdatedAt = demo_ts\<rparr>],
      roundtrips = 0\<rparr>"

lemma demo_db_inv [simp]: "db_inv demo_db"
  by (simp add: db_inv_def constraint_defs demo_db_def null_UUID_def)

lemma demo_roles: "role_names_of (auth_view_of demo_db) 5 = {''admin''}"
proof -
  have "{r \<in> v_roles (auth_view_of demo_db). (5, RoleRow_ID r) \<in> v_members (auth_view_of demo_db)} =
      {roleRowFromDB \<lparr>dbR_ID = UUIDToPgtypeValue 11, dbR_Name = ''admin'', dbR_Description = None,
         dbR_CreatedAt = demo_ts\<rparr>}"
    by (auto simp: demo_db_def)
  then show ?thesis by (simp add: role_names_of_def del: auth_view_simps)
qed

lemma demo_users: "u \<in> v_users (auth_view_of demo_db) \<Longrightarrow>
    UserRow_ID u = 5 \<and> UserRow_ApprovedUserID u = 1 \<and> UserRow_Email u = ''ann@x.org''"
  by (simp add: demo_db_def)

definition demo_state :: "db auth_state" where
  "demo_state = \<lparr>as_repo = demo_db, as_defaultUserRoleID = None, as_calls = 0\<rparr>"

lemma demo_state_inv [simp]: "db_inv (as_repo demo_state)"
  by (simp add: demo_state_def)

definition demo_service :: service where
  "demo_service = NewService ''k'' (3 * Second) 4"

text \<open>The token a login of the demonstration issues.\<close>

definition demo_token :: string where
  "demo_token = ''xk.xuxuxuxuxu.xaxnxnx@xxx.xoxrxg.111''"

end
