(* ===== verification/Auth_Correct.thy ===== *)
theory Auth_Correct
  imports Demo
begin

text \<open>
  What the authentication service promises, for the repository over the database: consequences of
  the contract's verification, with the statements written out over the tables' view.
\<close>

section \<open>Logging in\<close>

text \<open>C4. Login issues a signed token for the account with that e-mail exactly when the account
  exists, is active and the password matches its hash; every other case answers
  \<open>ErrInvalidCredentials\<close> alike. Nothing stored changes.\<close>

theorem Login_correct:
  assumes "db_inv (as_repo w)" and "server_up E"
    and "run_state (Service_Login L (Repository E) svc email password) w = (r, w')"
  shows "((\<exists>u. login_allowed L (auth_view_of (as_repo w)) email password u \<and>
             r = signed_token L svc (time_Now L (as_calls w)) u) \<or>
          ((\<forall>u. \<not> login_allowed L (auth_view_of (as_repo w)) email password u) \<and>
             r = Inl ErrInvalidCredentials)) \<and>
    auth_view_of (as_repo w') = auth_view_of (as_repo w) \<and> db_inv (as_repo w')"
  using wpD [OF auth_repo.Login_wp [OF assms(1)] assms(3)] assms(2)
  by (auto simp: login_answer_def)

theorem Login_correct_witness:
  "(\<exists>u. login_allowed demo_libs (auth_view_of demo_db) ''ann@x.org'' ''secret-1'' u) \<and>
   fst (run_state (Service_Login demo_libs (Repository demo_pg) demo_service ''ann@x.org'' ''wrong'') demo_state) =
     Inl ErrInvalidCredentials"
proof -
  obtain r w' where run: "run_state (Service_Login demo_libs (Repository demo_pg) demo_service
      ''ann@x.org'' ''secret-1'') demo_state = (r, w')" by force
  moreover have "fst (run_state (Service_Login demo_libs (Repository demo_pg) demo_service
      ''ann@x.org'' ''secret-1'') demo_state) \<noteq> Inl ErrInvalidCredentials" by code_simp
  ultimately have "r \<noteq> Inl ErrInvalidCredentials" by simp
  with Login_correct [OF demo_state_inv demo_pg_up run]
  have "\<exists>u. login_allowed demo_libs (auth_view_of demo_db) ''ann@x.org'' ''secret-1'' u"
    by (auto simp: demo_state_def)
  moreover have "fst (run_state (Service_Login demo_libs (Repository demo_pg) demo_service
      ''ann@x.org'' ''wrong'') demo_state) = Inl ErrInvalidCredentials" by code_simp
  ultimately show ?thesis by simp
qed

section \<open>Tokens\<close>

text \<open>C5. A token is accepted only for a stored, active account, and the user it yields carries that
  account's identity and exactly the roles the database holds for it at that moment, whatever the
  network does.\<close>

theorem GetUserFromToken_sound:
  assumes "db_inv (as_repo w)"
    and "run_state (Service_GetUserFromToken L (Repository E) svc tok) w = (Inr user, w')"
  shows "\<exists>u \<in> v_users (auth_view_of (as_repo w)).
     token_user_id L svc (time_Now L (as_calls w)) tok = Inr (UserRow_ID u) \<and>
     UserRow_IsActive u \<and> User_ID user = UserRow_ID u \<and>
     User_ApprovedUserID user = UserRow_ApprovedUserID u \<and>
     (\<forall>n. HasRole user n \<longleftrightarrow> n \<in> role_names_of (auth_view_of (as_repo w)) (UserRow_ID u))"
  using token_answer_genuine wpD [OF auth_repo.GetUserFromToken_wp [OF assms(1)] assms(2)]
  unfolding genuine_token_def by blast

theorem GetUserFromToken_sound_witness:
  "\<exists>user. fst (run_state (Service_GetUserFromToken demo_libs (Repository demo_pg) demo_service
      ''xk.xuxuxuxuxu.xaxnxnx@xxx.xoxrxg.111'') demo_state) = Inr user \<and>
     User_ID user = 5 \<and> HasRole user ''admin'' \<and> \<not> HasRole user ''user''"
proof -
  let ?run = "run_state (Service_GetUserFromToken demo_libs (Repository demo_pg) demo_service
      ''xk.xuxuxuxuxu.xaxnxnx@xxx.xoxrxg.111'') demo_state"
  have "\<not> isl (fst ?run)" by code_simp
  then obtain user w' where run: "?run = (Inr user, w')"
    by (metis isl_def prod.collapse sum.collapse(2))
  have demo: "auth_view_of (as_repo demo_state) = auth_view_of demo_db" by (simp add: demo_state_def)
  from GetUserFromToken_sound [OF demo_state_inv run] obtain u where
    u: "u \<in> v_users (auth_view_of demo_db)" "User_ID user = UserRow_ID u"
    "\<forall>n. HasRole user n \<longleftrightarrow> n \<in> role_names_of (auth_view_of demo_db) (UserRow_ID u)"
    unfolding demo by blast
  then have "UserRow_ID u = 5" using demo_users by blast
  with u have "User_ID user = 5" "HasRole user ''admin''" "\<not> HasRole user ''user''"
    by (simp_all add: demo_roles)
  with run show ?thesis by simp
qed

lemma live_token:
  assumes "db_inv (as_repo w)" and "server_up E"
    and "token_user_id L svc (time_Now L (as_calls w)) tok = Inr (UserRow_ID u)"
    and "u \<in> v_users (auth_view_of (as_repo w))" and "UserRow_IsActive u"
    and "run_state (Service_GetUserFromToken L (Repository E) svc tok) w = (r, w')"
  shows "\<exists>user. r = Inr user \<and> User_ID user = UserRow_ID u \<and>
     (\<forall>n. HasRole user n \<longleftrightarrow> n \<in> role_names_of (auth_view_of (as_repo w)) (UserRow_ID u))"
proof -
  from wpD [OF auth_repo.GetUserFromToken_wp [OF assms(1)] assms(6)] assms(2,3)
    auth_repo.aggregates_nonempty [OF assms(1,4)]
  obtain c u' where c: "c \<in> aggregates (auth_view_of (as_repo w)) (UserRow_ID u)" "uwcUser c = Some u'"
    and r: "r = (if UserRow_IsActive u' then Inr (userToDomain u' (uwcApprovedUser c) (uwcRoleNames c))
      else Inl ErrInvalidCredentials)"
    by (auto simp: token_answer_def)
  from c have "u' \<in> {u' \<in> v_users (auth_view_of (as_repo w)). UserRow_ID u' = UserRow_ID u}"
    and names: "set (uwcRoleNames c) = role_names_of (auth_view_of (as_repo w)) (UserRow_ID u)"
    by (auto simp: aggregates_def simp del: auth_view_simps)
  then have "u' = u" using auth_repo.user_by_id [OF assms(1,4)] by blast
  with r names assms(5) show ?thesis by simp
qed



text \<open>C18. Deleting an approved user ends the access of the accounts registered under it at once: a token
  such an account still holds, valid in itself, is answered with \<open>ErrUserNotFound\<close>.\<close>

theorem deleted_account_rejected:
  assumes "db_inv (as_repo w)" and "server_up E"
    and account: "u \<in> v_users (auth_view_of (as_repo w))" "UserRow_ApprovedUserID u = key"
    and del: "run_state (Service_DeleteApprovedUser (Repository E) key) w = (Inr (), w1)"
    and tok: "token_user_id L svc (time_Now L (as_calls w1)) tok = Inr (UserRow_ID u)"
    and run: "run_state (Service_GetUserFromToken L (Repository E) svc tok) w1 = (r, w2)"
  shows "r = Inl ErrUserNotFound"
proof -
  from wpD [OF auth_repo.DeleteApprovedUser_wp [OF assms(1)] del]
  have inv: "db_inv (as_repo w1)" and view: "auth_view_of (as_repo w1) = without_approved key (auth_view_of (as_repo w))"
    by (simp_all add: approved_deleted_def)
  have "UserRow_ID u' \<noteq> UserRow_ID u" if "u' \<in> v_users (auth_view_of (as_repo w1))" for u'
  proof
    assume "UserRow_ID u' = UserRow_ID u"
    moreover have "u' \<in> v_users (auth_view_of (as_repo w))" "UserRow_ApprovedUserID u' \<noteq> key"
      using that unfolding view without_approved_def by (simp_all del: auth_view_simps)
    ultimately show False
      using inj_onD [OF auth_repo.users_id [OF assms(1)]] account by blast
  qed
  then have "aggregates (auth_view_of (as_repo w1)) (UserRow_ID u) = {}"
    unfolding aggregates_def by blast
  with wpD [OF auth_repo.GetUserFromToken_wp [OF inv] run] tok assms(2) show ?thesis
    by (simp add: token_answer_def)
qed

theorem deleted_account_rejected_witness:
  "fst (run_state (Service_GetUserFromToken demo_libs (Repository demo_pg) demo_service demo_token)
     (snd (run_state (Service_DeleteApprovedUser (Repository demo_pg) 1) demo_state))) = Inl ErrUserNotFound"
proof -
  let ?del = "run_state (Service_DeleteApprovedUser (Repository demo_pg) 1) demo_state"
  define w1 where "w1 = snd ?del"
  have "fst ?del = Inr ()" by code_simp
  then have del: "?del = (Inr (), w1)" by (simp add: w1_def prod_eq_iff)
  obtain u where u: "u \<in> v_users (auth_view_of (as_repo demo_state))" "UserRow_ApprovedUserID u = 1" "UserRow_ID u = 5"
    by (simp add: demo_state_def demo_db_def)
  have "token_user_id demo_libs demo_service (time_Now demo_libs (as_calls w1)) demo_token = Inr 5"
    unfolding w1_def by code_simp
  with u(3) have tok: "token_user_id demo_libs demo_service (time_Now demo_libs (as_calls w1)) demo_token = Inr (UserRow_ID u)"
    by simp
  obtain r w2 where run: "run_state (Service_GetUserFromToken demo_libs (Repository demo_pg) demo_service demo_token) w1 = (r, w2)"
    by force
  from deleted_account_rejected [OF demo_state_inv demo_pg_up u(1,2) del tok run] run
  show ?thesis by (simp add: w1_def)
qed

text \<open>C19. A token past its expiry, and a token whose account is inactive, are refused with
  \<open>ErrInvalidCredentials\<close>.\<close>

theorem expired_or_inactive_rejected:
  assumes "db_inv (as_repo w)"
    and "run_state (Service_GetUserFromToken L (Repository E) svc tok) w = (r, w')"
    and "(token_expires L \<and> signed_token L svc issued u = Inr tok \<and>
           (issued + svc_jwtExpiry svc) div Second * Second \<le> time_Now L (as_calls w)) \<or>
         (server_up E \<and> u \<in> v_users (auth_view_of (as_repo w)) \<and> \<not> UserRow_IsActive u \<and>
           token_user_id L svc (time_Now L (as_calls w)) tok = Inr (UserRow_ID u))"
  shows "r = Inl ErrInvalidCredentials"
proof -
  note answer = wpD [OF auth_repo.GetUserFromToken_wp [OF assms(1)] assms(2)]
  from assms(3) show ?thesis
  proof (elim disjE conjE)
    assume "token_expires L" "signed_token L svc issued u = Inr tok"
      "(issued + svc_jwtExpiry svc) div Second * Second \<le> time_Now L (as_calls w)"
    with expired_token_rejected answer show ?thesis by (simp add: token_answer_def)
  next
    assume u: "server_up E" "u \<in> v_users (auth_view_of (as_repo w))" "\<not> UserRow_IsActive u"
      "token_user_id L svc (time_Now L (as_calls w)) tok = Inr (UserRow_ID u)"
    have "c \<in> aggregates (auth_view_of (as_repo w)) (UserRow_ID u) \<Longrightarrow> uwcUser c = Some u" for c
      using auth_repo.aggregates_user inj_onD [OF auth_repo.users_id [OF assms(1)]] u(2) by blast
    with answer u auth_repo.aggregates_nonempty [OF assms(1) u(2)] show ?thesis
      by (auto simp: token_answer_def)
  qed
qed

theorem expired_or_inactive_rejected_witness:
  "fst (run_state (Service_GetUserFromToken demo_libs (Repository demo_pg) demo_service demo_token)
     (demo_state\<lparr>as_calls := 3\<rparr>)) = Inl ErrInvalidCredentials"
proof -
  obtain u where u: "u \<in> v_users (auth_view_of demo_db)" "UserRow_ID u = 5" "UserRow_Email u = ''ann@x.org''"
    by (simp add: demo_db_def)
  have "demo_sign SigningMethodHS256 [(''user_id'', AnyString ''uuuuu''), (''email'', AnyString ''ann@x.org''), (''exp'', AnyInt 3)] ''k'' =
      Inr demo_token" by code_simp
  moreover have "replicate (unat (5 :: uuid)) (CHR ''u'') = ''uuuuu''" by code_simp
  ultimately have "signed_token demo_libs demo_service 0 u = Inr demo_token"
    using u by (simp add: token_claims_def demo_libs_def demo_service_def NewService_def)
  then have hyp: "(token_expires demo_libs \<and> signed_token demo_libs demo_service 0 u = Inr demo_token \<and>
         (0 + svc_jwtExpiry demo_service) div Second * Second \<le> time_Now demo_libs (as_calls (demo_state\<lparr>as_calls := 3\<rparr>))) \<or>
       (server_up demo_pg \<and> u \<in> v_users (auth_view_of (as_repo (demo_state\<lparr>as_calls := 3\<rparr>))) \<and> \<not> UserRow_IsActive u \<and>
         token_user_id demo_libs demo_service (time_Now demo_libs (as_calls (demo_state\<lparr>as_calls := 3\<rparr>))) demo_token = Inr (UserRow_ID u))"
    using demo_token_expires by (simp add: demo_libs_def demo_service_def NewService_def)
  obtain r w' where run: "run_state (Service_GetUserFromToken demo_libs (Repository demo_pg) demo_service demo_token)
      (demo_state\<lparr>as_calls := 3\<rparr>) = (r, w')" by force
  have "db_inv (as_repo (demo_state\<lparr>as_calls := 3\<rparr>))" by simp
  from expired_or_inactive_rejected [OF this run hyp] run show ?thesis by simp
qed

section \<open>Registering\<close>

text \<open>What a registration that answers a token leaves behind.\<close>

lemma registered_account:
  assumes "db_inv (as_repo w)"
    and "run_state (Service_Register L (Repository E) svc email password approvedID) w = (Inr tok, w')"
  shows "\<exists>u h. bcrypt_GenerateFromPassword L (as_calls w) password (svc_bcryptCost svc) = Inr h \<and>
     u \<in> v_users (auth_view_of (as_repo w')) \<and> u \<notin> v_users (auth_view_of (as_repo w)) \<and>
     UserRow_Email u = email \<and> UserRow_PasswordHash u = h \<and> UserRow_IsActive u \<and>
     signed_token L svc (time_Now L (Suc (as_calls w))) u = Inr tok \<and> db_inv (as_repo w')"
proof -
  let ?v = "auth_view_of (as_repo w)" and ?v' = "auth_view_of (as_repo w')"
  from wpD [OF auth_repo.Register_wp [OF assms(1)] assms(2)]
  have inv: "db_inv (as_repo w')"
    and ans: "register_answer L svc (server_up E) (as_calls w) email password approvedID ?v (as_defaultUserRoleID w)
      (Inr tok) ?v' (as_defaultUserRoleID w')" by blast+
  then obtain a where step: "account_step L svc (server_up E) (time_Now L) (as_calls w) a email password ?v (as_defaultUserRoleID w)
      (Inr tok) ?v' (as_defaultUserRoleID w')"
    by (auto simp: register_answer_def simp del: auth_view_simps split: sum.splits if_splits)
  then obtain h where h: "bcrypt_GenerateFromPassword L (as_calls w) password (svc_bcryptCost svc) = Inr h"
    by (auto simp: account_step_def split: sum.splits)
  from step h obtain u v1 rr where
    u: "user_created \<lparr>uciApprovedUserID = a, uciEmail = email, uciPasswordHash = h, uciIsActive = True\<rparr> (Some u) ?v v1"
    and role: "role_step (server_up E) v1 (as_defaultUserRoleID w) (UserRow_ID u) rr ?v' (as_defaultUserRoleID w')"
    and tok: "Inr tok = (case rr of Inl e \<Rightarrow> Inl e | Inr _ \<Rightarrow> signed_token L svc (time_Now L (Suc (as_calls w))) u)"
    by (auto simp: account_step_def Let_def)
  from tok have "rr = Inr ()" by (cases rr) auto
  with role have "v_users ?v' = v_users v1"
    by (auto simp: role_step_def role_assigned_def simp del: auth_view_simps split: if_splits)
  with h u tok inv \<open>rr = Inr ()\<close> show ?thesis
    by (auto simp: user_created_def simp del: auth_view_simps)
qed



text \<open>The checks of a registration, in the order the code makes them.\<close>

definition registration_refusal :: "auth_libs \<Rightarrow> auth_view \<Rightarrow> string \<Rightarrow> string \<Rightarrow> go_error option" where
  "registration_refusal L v email approvedID =
     (case uuid_Parse L approvedID of
        Inl _ \<Rightarrow> Some ErrInvalidCredentials
      | Inr a \<Rightarrow> if \<forall>x \<in> v_approved v. ApprovedRow_ID x \<noteq> a then Some ErrUserNotFound
          else if \<exists>u \<in> v_users v. UserRow_Email u = email then Some ErrUserAlreadyExists
          else None)"

text \<open>C20. A registration is refused, with the tables as they were, when the approved identifier does not
  parse (\<open>ErrInvalidCredentials\<close>), names no approved user (\<open>ErrUserNotFound\<close>), or the e-mail has an
  account already (\<open>ErrUserAlreadyExists\<close>), in that order.\<close>

theorem Register_refused:
  assumes "db_inv (as_repo w)" and "server_up E"
    and "run_state (Service_Register L (Repository E) svc email password approvedID) w = (r, w')"
    and "registration_refusal L (auth_view_of (as_repo w)) email approvedID = Some e"
  shows "r = Inl e \<and> auth_view_of (as_repo w') = auth_view_of (as_repo w)"
proof -
  have "register_answer L svc (server_up E) (as_calls w) email password approvedID (auth_view_of (as_repo w))
      (as_defaultUserRoleID w) r (auth_view_of (as_repo w')) (as_defaultUserRoleID w')"
    using wpD [OF auth_repo.Register_wp [OF assms(1)] assms(3)] by blast
  with assms(2,4) show ?thesis
    by (auto simp: register_answer_def registration_refusal_def simp del: auth_view_simps
        split: sum.splits if_splits)
qed

theorem Register_refused_witness:
  "fst (run_state (Service_Register demo_libs (Repository demo_pg) demo_service ''ann@x.org'' ''secret-2'' ''uu'') demo_state) =
     Inl ErrUserAlreadyExists"
proof -
  obtain r w' where run: "run_state (Service_Register demo_libs (Repository demo_pg) demo_service
      ''ann@x.org'' ''secret-2'' ''uu'') demo_state = (r, w')" by force
  have "registration_refusal demo_libs (auth_view_of (as_repo demo_state)) ''ann@x.org'' ''uu'' = Some ErrUserAlreadyExists"
    by (simp add: registration_refusal_def demo_libs_def demo_state_def demo_db_def)
  from Register_refused [OF demo_state_inv demo_pg_up run this] run show ?thesis by simp
qed

text \<open>C28. With the server up, a registration that passes the checks and whose password can be hashed goes
  through, provided the cached default role (if any) still exists: it answers the signing of the new
  account's token, and only a repeated random identifier can stop it.\<close>

theorem Register_completes:
  assumes "db_inv (as_repo w)" and "server_up E"
    and "run_state (Service_Register L (Repository E) svc email password approvedID) w = (r, w')"
    and "registration_refusal L (auth_view_of (as_repo w)) email approvedID = None"
    and "bcrypt_GenerateFromPassword L (as_calls w) password (svc_bcryptCost svc) = Inr h"
    and "\<And>i. as_defaultUserRoleID w = Some i \<Longrightarrow> i \<in> RoleRow_ID ` v_roles (auth_view_of (as_repo w))"
  shows "(\<exists>u \<in> v_users (auth_view_of (as_repo w')). UserRow_Email u = email \<and> UserRow_PasswordHash u = h \<and>
       UserRow_IsActive u \<and> r = signed_token L svc (time_Now L (Suc (as_calls w))) u) \<or>
     r = Inl (DatabaseError (UniqueViolation ''users_pkey''))"
proof -
  let ?v = "auth_view_of (as_repo w)" and ?v' = "auth_view_of (as_repo w')"
  have ans: "register_answer L svc True (as_calls w) email password approvedID ?v
      (as_defaultUserRoleID w) r ?v' (as_defaultUserRoleID w')"
    using wpD [OF auth_repo.Register_wp [OF assms(1)] assms(3)] assms(2) by simp
  from assms(4) ans obtain a where a: "\<exists>x \<in> v_approved ?v. ApprovedRow_ID x = a" "\<forall>u \<in> v_users ?v. UserRow_Email u \<noteq> email"
    and step: "account_step L svc True (time_Now L) (as_calls w) a email password ?v (as_defaultUserRoleID w) r ?v' (as_defaultUserRoleID w')"
    by (auto simp: register_answer_def registration_refusal_def simp del: auth_view_simps split: sum.splits if_splits)
  let ?inp = "\<lparr>uciApprovedUserID = a, uciEmail = email, uciPasswordHash = h, uciIsActive = True\<rparr>"
  from step assms(5) consider
      (refused) e where "r = Inl e" "user_refused ?inp ?v e"
    | (created) u v1 rr where "user_created ?inp (Some u) ?v v1"
        "role_step True v1 (as_defaultUserRoleID w) (UserRow_ID u) rr ?v' (as_defaultUserRoleID w')"
        "r = (case rr of Inl e \<Rightarrow> Inl e | Inr _ \<Rightarrow> signed_token L svc (time_Now L (Suc (as_calls w))) u)"
    by (auto simp: account_step_def Let_def)
  then show ?thesis
  proof cases
    case refused
    with a show ?thesis by (auto simp: user_refused_def simp del: auth_view_simps)
  next
    case created
    then have v1: "v1 = ?v\<lparr>v_users := insert u (v_users ?v)\<rparr>" and u: "UserRow_Email u = email" "UserRow_PasswordHash u = h" "UserRow_IsActive u"
      by (simp_all add: user_created_def)
    from created(2) obtain rid where rid: "default_role True v1 (as_defaultUserRoleID w) rid (as_defaultUserRoleID w')"
      and rr: "if rid = uuid_Nil then rr = Inr () \<and> ?v' = v1
        else writes True (role_assigned (UserRow_ID u) rid) (role_refused (UserRow_ID u) rid) v1 rr ?v'"
      unfolding role_step_def by blast
    have "rid = uuid_Nil \<or> rid \<in> RoleRow_ID ` v_roles ?v"
      using rid assms(6) by (auto simp: default_role_def v1 simp del: auth_view_simps split: if_splits)
    with rr have "rr = Inr () \<and> u \<in> v_users ?v'"
      by (cases rr) (auto simp: role_refused_def role_assigned_def v1 simp del: auth_view_simps split: if_splits)
    with created(3) u show ?thesis by (auto simp del: auth_view_simps)
  qed
qed

theorem Register_completes_witness:
  "\<exists>u \<in> v_users (auth_view_of (as_repo (snd (run_state (Service_Register demo_libs (Repository demo_pg) demo_service
     ''bob@x.org'' ''secret-2'' ''uu'') demo_state)))). UserRow_Email u = ''bob@x.org''"
proof -
  obtain r w' where run: "run_state (Service_Register demo_libs (Repository demo_pg) demo_service
      ''bob@x.org'' ''secret-2'' ''uu'') demo_state = (r, w')" by force
  have "registration_refusal demo_libs (auth_view_of (as_repo demo_state)) ''bob@x.org'' ''uu'' = None"
    by (simp add: registration_refusal_def demo_libs_def demo_state_def demo_db_def)
  moreover have "bcrypt_GenerateFromPassword demo_libs (as_calls demo_state) ''secret-2'' (svc_bcryptCost demo_service) = Inr ''#secret-2''"
    by (simp add: demo_libs_def)
  moreover have "as_defaultUserRoleID demo_state = Some i \<Longrightarrow> i \<in> RoleRow_ID ` v_roles (auth_view_of (as_repo demo_state))" for i
    by (simp add: demo_state_def)
  ultimately have "(\<exists>u \<in> v_users (auth_view_of (as_repo w')). UserRow_Email u = ''bob@x.org'') \<or>
      r = Inl (DatabaseError (UniqueViolation ''users_pkey''))"
    using Register_completes [OF demo_state_inv demo_pg_up run] by blast
  moreover have "fst (run_state (Service_Register demo_libs (Repository demo_pg) demo_service
      ''bob@x.org'' ''secret-2'' ''uu'') demo_state) \<noteq> Inl (DatabaseError (UniqueViolation ''users_pkey''))" by code_simp
  ultimately show ?thesis using run by simp
qed


text \<open>C31. An account registered with a password can log in with it: after a registration that answered a
  token, a login with the same e-mail and password answers the signing of a token for the account
  just created.\<close>

theorem Register_then_Login:
  assumes "db_inv (as_repo w)" and "server_up E" and "bcrypt_roundtrip L"
    and reg: "run_state (Service_Register L (Repository E) svc email password approvedID) w = (Inr tok, w1)"
    and login: "run_state (Service_Login L (Repository E) svc email password) w1 = (r, w2)"
  shows "\<exists>u \<in> v_users (auth_view_of (as_repo w1)). UserRow_Email u = email \<and>
     u \<notin> v_users (auth_view_of (as_repo w)) \<and>
     signed_token L svc (time_Now L (Suc (as_calls w))) u = Inr tok \<and>
     r = signed_token L svc (time_Now L (as_calls w1)) u"
proof -
  from registered_account [OF assms(1) reg] obtain u h where
    u: "u \<in> v_users (auth_view_of (as_repo w1))" "u \<notin> v_users (auth_view_of (as_repo w))"
      "UserRow_Email u = email" "UserRow_PasswordHash u = h" "UserRow_IsActive u"
      "signed_token L svc (time_Now L (Suc (as_calls w))) u = Inr tok"
    and h: "bcrypt_GenerateFromPassword L (as_calls w) password (svc_bcryptCost svc) = Inr h"
    and inv: "db_inv (as_repo w1)" by blast
  have allowed: "login_allowed L (auth_view_of (as_repo w1)) email password u"
    using u h assms(3) by (auto simp: login_allowed_def bcrypt_roundtrip_def simp del: auth_view_simps)
  have "u' = u" if "login_allowed L (auth_view_of (as_repo w1)) email password u'" for u'
    using that allowed inj_onD [OF auth_repo.users_email [OF inv]]
    unfolding login_allowed_def by metis
  with wpD [OF auth_repo.Login_wp [OF inv] login] assms(2) allowed
  have "r = signed_token L svc (time_Now L (as_calls w1)) u"
    unfolding login_answer_def by blast
  with u show ?thesis by blast
qed

theorem Register_then_Login_witness:
  "\<not> isl (fst (run_state (Service_Login demo_libs (Repository demo_pg) demo_service ''bob@x.org'' ''secret-2'')
     (snd (run_state (Service_Register demo_libs (Repository demo_pg) demo_service ''bob@x.org'' ''secret-2'' ''uu'') demo_state))))
   \<and> (\<exists>u. UserRow_Email u = ''bob@x.org'' \<and> \<not> isl (signed_token demo_libs demo_service (time_Now demo_libs 2) u))"
proof -
  let ?reg = "run_state (Service_Register demo_libs (Repository demo_pg) demo_service ''bob@x.org'' ''secret-2'' ''uu'') demo_state"
  define w1 where "w1 = snd ?reg"
  have "\<not> isl (fst ?reg)" by code_simp
  then obtain tok where reg: "?reg = (Inr tok, w1)"
    unfolding w1_def by (metis isl_def prod.collapse sum.collapse(2))
  have n: "as_calls w1 = 2" unfolding w1_def by code_simp
  obtain r w2 where login: "run_state (Service_Login demo_libs (Repository demo_pg) demo_service ''bob@x.org'' ''secret-2'') w1 = (r, w2)"
    by force
  have ok: "\<not> isl (fst (run_state (Service_Login demo_libs (Repository demo_pg) demo_service ''bob@x.org'' ''secret-2'') w1))"
    unfolding w1_def by code_simp
  from Register_then_Login [OF demo_state_inv demo_pg_up demo_bcrypt_roundtrip reg login]
  obtain u where "UserRow_Email u = ''bob@x.org''" "r = signed_token demo_libs demo_service (time_Now demo_libs (as_calls w1)) u"
    by blast
  moreover have "\<not> isl r" using ok login by simp
  ultimately have "UserRow_Email u = ''bob@x.org'' \<and> \<not> isl (signed_token demo_libs demo_service (time_Now demo_libs 2) u)"
    using n by simp
  with ok show ?thesis unfolding w1_def by blast
qed

section \<open>The approved users\<close>

text \<open>Creating an approved user either adds exactly one row, with a fresh identifier and an e-mail not
  yet approved and the given creator, or leaves the tables as they were; an e-mail already approved
  answers \<open>ErrApprovedEmailExists\<close>.\<close>

theorem CreateApprovedUser_correct:
  assumes "db_inv (as_repo w)" and "server_up E"
    and "run_state (Service_CreateApprovedUser (Repository E) email firstName by) w = (r, w')"
  shows "if email \<in> ApprovedRow_Email ` v_approved (auth_view_of (as_repo w))
     then r = Inl ErrApprovedEmailExists \<and> auth_view_of (as_repo w') = auth_view_of (as_repo w)
     else (\<exists>a. r = Inr (Some (ApprovedUser_of_row a)) \<and> ApprovedRow_Email a = email \<and>
             ApprovedRow_FirstName a = firstName \<and> ApprovedRow_CreatedBy a = Some by \<and>
             ApprovedRow_ID a \<notin> ApprovedRow_ID ` v_approved (auth_view_of (as_repo w)) \<and>
             auth_view_of (as_repo w') = (auth_view_of (as_repo w))
               \<lparr>v_approved := insert a (v_approved (auth_view_of (as_repo w)))\<rparr>) \<or>
          (\<exists>e. r = Inl e \<and> constraint_error e \<and> auth_view_of (as_repo w') = auth_view_of (as_repo w))"
proof (cases r)
  case (Inl e)
  with wpD [OF auth_repo.CreateApprovedUser_wp [OF assms(1)] assms(3)] assms(2) show ?thesis
    by (auto simp: create_approved_answer_def approved_refused_def constraint_error_def simp del: auth_view_simps)
next
  case (Inr p)
  with wpD [OF auth_repo.CreateApprovedUser_wp [OF assms(1)] assms(3)] obtain a where
    p: "p = Some (ApprovedUser_of_row a)"
    and "approved_added [(email, firstName)] by [Some a] (auth_view_of (as_repo w)) (auth_view_of (as_repo w'))"
    by (auto simp: create_approved_answer_def simp del: auth_view_simps)
  then have a: "ApprovedRow_Email a = email" "ApprovedRow_FirstName a = firstName" "ApprovedRow_CreatedBy a = Some by"
    "\<forall>b \<in> v_approved (auth_view_of (as_repo w)). ApprovedRow_ID a \<noteq> ApprovedRow_ID b \<and> ApprovedRow_Email a \<noteq> ApprovedRow_Email b"
    "auth_view_of (as_repo w') = (auth_view_of (as_repo w))\<lparr>v_approved := insert a (v_approved (auth_view_of (as_repo w)))\<rparr>"
    by (auto simp: approved_added_def simp del: auth_view_simps)
  then have "email \<notin> ApprovedRow_Email ` v_approved (auth_view_of (as_repo w))"
    "ApprovedRow_ID a \<notin> ApprovedRow_ID ` v_approved (auth_view_of (as_repo w))" by blast+
  with a p Inr show ?thesis by (simp del: auth_view_simps) blast
qed

theorem CreateApprovedUser_correct_witness:
  "fst (run_state (Service_CreateApprovedUser (Repository demo_pg) ''bob@x.org'' ''Bob'' 1) demo_state) =
     Inl ErrApprovedEmailExists"
proof -
  obtain r w' where run: "run_state (Service_CreateApprovedUser (Repository demo_pg) ''bob@x.org'' ''Bob'' 1) demo_state = (r, w')"
    by force
  have "''bob@x.org'' \<in> ApprovedRow_Email ` v_approved (auth_view_of (as_repo demo_state))"
    by (simp add: demo_state_def demo_db_def)
  with CreateApprovedUser_correct [OF demo_state_inv demo_pg_up run] run show ?thesis
    by (simp del: auth_view_simps)
qed

text \<open>C33. A bulk insertion of approved users is all or nothing: it adds one row per pair of e-mail and first
  name, in order, or none; in particular one e-mail listed twice or approved already adds nothing.
  Lists of different lengths answer \<open>ErrInvalidInput\<close>.\<close>

theorem BulkCreateApprovedUsers_all_or_nothing:
  assumes "db_inv (as_repo w)" and "server_up E"
    and "run_state (Service_BulkCreateApprovedUsers (Repository E) emails firstNames by) w = (r, w')"
  shows "case r of
      Inr ps \<Rightarrow> length emails = length firstNames \<and> distinct emails \<and>
        set emails \<inter> ApprovedRow_Email ` v_approved (auth_view_of (as_repo w)) = {} \<and>
        (\<exists>as. ps = map (\<lambda>a. Some (ApprovedUser_of_row a)) as \<and>
           map ApprovedRow_Email as = emails \<and> map ApprovedRow_FirstName as = firstNames \<and>
           (\<forall>a \<in> set as. ApprovedRow_CreatedBy a = Some by) \<and>
           auth_view_of (as_repo w') = (auth_view_of (as_repo w))
             \<lparr>v_approved := v_approved (auth_view_of (as_repo w)) \<union> set as\<rparr>)
    | Inl e \<Rightarrow> auth_view_of (as_repo w') = auth_view_of (as_repo w) \<and>
        (if length emails \<noteq> length firstNames then e = ErrInvalidInput else constraint_error e)"
proof (cases r)
  case (Inl e)
  with wpD [OF auth_repo.BulkCreateApprovedUsers_wp [OF assms(1)] assms(3)] assms(2) show ?thesis
    by (auto simp: bulk_answer_def approved_refused_def constraint_error_def simp del: auth_view_simps split: if_splits)
next
  case (Inr ps)
  with wpD [OF auth_repo.BulkCreateApprovedUsers_wp [OF assms(1)] assms(3)] obtain as where
    ps: "ps = map (\<lambda>a. Some (ApprovedUser_of_row a)) as" and len: "length emails = length firstNames"
    and added: "approved_added (zip emails firstNames) by (map Some as) (auth_view_of (as_repo w)) (auth_view_of (as_repo w'))"
    by (auto simp: bulk_answer_def simp del: auth_view_simps)
  from added have pairs: "map (\<lambda>a. (ApprovedRow_Email a, ApprovedRow_FirstName a)) as = zip emails firstNames"
    and rest: "auth_view_of (as_repo w') = (auth_view_of (as_repo w))\<lparr>v_approved := v_approved (auth_view_of (as_repo w)) \<union> set as\<rparr>"
      "\<forall>a \<in> set as. ApprovedRow_CreatedBy a = Some by" "distinct (map ApprovedRow_Email as)"
      "\<forall>a \<in> set as. \<forall>b \<in> v_approved (auth_view_of (as_repo w)). ApprovedRow_Email a \<noteq> ApprovedRow_Email b"
    by (auto simp: approved_added_def simp del: auth_view_simps)
  have emails: "map ApprovedRow_Email as = emails" and names: "map ApprovedRow_FirstName as = firstNames"
    using arg_cong [OF pairs, of "map fst"] arg_cong [OF pairs, of "map snd"] len
    by (simp_all add: comp_def)
  have "set emails \<inter> ApprovedRow_Email ` v_approved (auth_view_of (as_repo w)) = {}"
    using rest(4) unfolding emails [symmetric] by (auto simp del: auth_view_simps)
  with ps len emails names rest Inr show ?thesis by auto
qed

theorem BulkCreateApprovedUsers_all_or_nothing_witness:
  "isl (fst (run_state (Service_BulkCreateApprovedUsers (Repository demo_pg) [''eve@x.org'', ''bob@x.org''] [''Eve'', ''Bob''] 1) demo_state))
   \<and> auth_view_of (as_repo (snd (run_state (Service_BulkCreateApprovedUsers (Repository demo_pg)
       [''eve@x.org'', ''bob@x.org''] [''Eve'', ''Bob''] 1) demo_state))) = auth_view_of (as_repo demo_state)"
proof -
  obtain r w' where run: "run_state (Service_BulkCreateApprovedUsers (Repository demo_pg)
      [''eve@x.org'', ''bob@x.org''] [''Eve'', ''Bob''] 1) demo_state = (r, w')" by force
  have "''bob@x.org'' \<in> ApprovedRow_Email ` v_approved (auth_view_of (as_repo demo_state))"
    by (simp add: demo_state_def demo_db_def)
  with BulkCreateApprovedUsers_all_or_nothing [OF demo_state_inv demo_pg_up run] run show ?thesis
    by (cases r) (simp_all del: auth_view_simps)
qed

end
