(* ===== verification/Todo_Rows.thy ===== *)
theory Todo_Rows
  imports Queries
begin

text \<open>
  The row types of \<open>internal/todo/types.go\<close> and their conversions (\<open>convert.go\<close>, \<open>rowToDomain\<close> of
  \<open>service.go\<close>).
\<close>

record TodoRow =
  TodoRow_ID :: uuid
  TodoRow_UserID :: uuid
  TodoRow_Title :: string
  TodoRow_Description :: "string option"
  TodoRow_IsCompleted :: bool
  TodoRow_DueDate :: "go_time option"
  TodoRow_CreatedAt :: go_time
  TodoRow_UpdatedAt :: go_time

record TodoCreateInput =
  tciUserID :: uuid
  tciTitle :: string
  tciDescription :: "string option"
  tciIsCompleted :: bool
  tciDueDate :: "go_time option"

record TodoUpdateInput =
  tuiID :: uuid
  tuiTitle :: "string option"
  tuiDescription :: "string option"
  tuiIsCompleted :: "bool option"
  tuiDueDate :: "go_time option"

definition todoRowFromDB :: "db_Todo option \<Rightarrow> TodoRow option" where
  "todoRowFromDB p = (case p of
     None \<Rightarrow> None
   | Some t \<Rightarrow> Some
       \<lparr>TodoRow_ID = PgUUIDToValue (dbT_ID t), TodoRow_UserID = PgUUIDToValue (dbT_UserID t),
        TodoRow_Title = dbT_Title t, TodoRow_Description = dbT_Description t,
        TodoRow_IsCompleted = dbT_IsCompleted t, TodoRow_DueDate = PgTimestamptzToPtr (dbT_DueDate t),
        TodoRow_CreatedAt = Timestamptz_Time (dbT_CreatedAt t),
        TodoRow_UpdatedAt = Timestamptz_Time (dbT_UpdatedAt t)\<rparr>)"

definition todosFromDB :: "db_Todo list \<Rightarrow> TodoRow list" where
  "todosFromDB ts = map (\<lambda>t. the (todoRowFromDB (Some t))) ts"

definition dueDateToPg :: "go_time option \<Rightarrow> pg_Timestamptz" where
  "dueDateToPg t = (case t of
     None \<Rightarrow> null_Timestamptz
   | Some x \<Rightarrow> \<lparr>Timestamptz_Time = x, Timestamptz_Valid = True\<rparr>)"

definition TodoCreateInput_toCreateParams :: "TodoCreateInput \<Rightarrow> db_CreateTodoParams" where
  "TodoCreateInput_toCreateParams inp =
     \<lparr>ctUserID = UUIDToPgtypeValue (tciUserID inp), ctTitle = tciTitle inp,
      ctDescription = tciDescription inp, ctIsCompleted = tciIsCompleted inp,
      ctDueDate = dueDateToPg (tciDueDate inp)\<rparr>"

definition TodoUpdateInput_toUpdateParamsPartial :: "TodoUpdateInput \<Rightarrow> db_UpdateTodoPartialParams" where
  "TodoUpdateInput_toUpdateParamsPartial inp =
     \<lparr>upTitle = tuiTitle inp, upDescription = tuiDescription inp,
      upIsCompleted = tuiIsCompleted inp, upDueDate = dueDateToPg (tuiDueDate inp),
      upID = UUIDToPgtypeValue (tuiID inp)\<rparr>"

definition rowToDomain :: "TodoRow \<Rightarrow> Todo" where
  "rowToDomain r =
     \<lparr>Todo_ID = TodoRow_ID r, Todo_UserID = TodoRow_UserID r, Todo_Title = TodoRow_Title r,
      Todo_Description = TodoRow_Description r, Todo_IsCompleted = TodoRow_IsCompleted r,
      Todo_DueDate = TodoRow_DueDate r, Todo_CreatedAt = TodoRow_CreatedAt r,
      Todo_UpdatedAt = TodoRow_UpdatedAt r\<rparr>"

lemma PgTimestamptzToPtr_dueDateToPg [simp]: "PgTimestamptzToPtr (dueDateToPg t) = t"
  by (cases t) (simp_all add: dueDateToPg_def PgTimestamptzToPtr_def null_Timestamptz_def)

lemma dueDateToPg_valid [simp]: "Timestamptz_Valid (dueDateToPg t) \<longleftrightarrow> t \<noteq> None"
  by (cases t) (simp_all add: dueDateToPg_def null_Timestamptz_def)

definition todo_row :: "db_Todo \<Rightarrow> TodoRow" where
  "todo_row t = the (todoRowFromDB (Some t))"

lemma todo_row_Some [simp]: "todoRowFromDB (Some t) = Some (todo_row t)"
  by (simp add: todo_row_def todoRowFromDB_def)

lemma todo_row_simps [simp]:
  "TodoRow_ID (todo_row t) = PgUUIDToValue (dbT_ID t)"
  "TodoRow_UserID (todo_row t) = PgUUIDToValue (dbT_UserID t)"
  "TodoRow_Title (todo_row t) = dbT_Title t"
  "TodoRow_Description (todo_row t) = dbT_Description t"
  "TodoRow_IsCompleted (todo_row t) = dbT_IsCompleted t"
  "TodoRow_DueDate (todo_row t) = PgTimestamptzToPtr (dbT_DueDate t)"
  "TodoRow_CreatedAt (todo_row t) = Timestamptz_Time (dbT_CreatedAt t)"
  "TodoRow_UpdatedAt (todo_row t) = Timestamptz_Time (dbT_UpdatedAt t)"
  by (simp_all add: todo_row_def todoRowFromDB_def)

lemma rowToDomain_simps [simp]:
  "Todo_ID (rowToDomain r) = TodoRow_ID r" "Todo_UserID (rowToDomain r) = TodoRow_UserID r"
  "Todo_Title (rowToDomain r) = TodoRow_Title r"
  "Todo_Description (rowToDomain r) = TodoRow_Description r"
  "Todo_IsCompleted (rowToDomain r) = TodoRow_IsCompleted r"
  "Todo_DueDate (rowToDomain r) = TodoRow_DueDate r" "Todo_CreatedAt (rowToDomain r) = TodoRow_CreatedAt r"
  by (simp_all add: rowToDomain_def)

end
