(* ===== verification/Todo_Service.thy ===== *)
theory Todo_Service
  imports Todo_Rows
begin

text \<open>
  The todo service of \<open>internal/todo/service.go\<close> over the interface \<open>TodoRepository\<close>
  (\<open>interfaces.go\<close>), the contract of that interface, and the verification of the service against it.
\<close>

section \<open>Interface\<close>

record 's TodoRepository =
  trepo_GetTodoByID :: "uuid \<Rightarrow> ('s, go_error + TodoRow option) state"
  trepo_ListTodosByUserID :: "uuid \<Rightarrow> ('s, go_error + TodoRow list) state"
  trepo_CreateTodo :: "TodoCreateInput \<Rightarrow> ('s, go_error + TodoRow option) state"
  trepo_UpdateTodoPartial :: "TodoUpdateInput \<Rightarrow> ('s, go_error + TodoRow) state"
  trepo_DeleteTodo :: "uuid \<Rightarrow> ('s, go_error + unit) state"

section \<open>Operations\<close>

definition Todo_ListByUserID :: "'s TodoRepository \<Rightarrow> uuid \<Rightarrow> ('s, go_error + Todo list) state" where
  "Todo_ListByUserID R userID =
     tryE (trepo_ListTodosByUserID R userID) (\<lambda>rows. State_Monad.return (Inr (map rowToDomain rows)))"

definition Todo_GetByID :: "'s TodoRepository \<Rightarrow> uuid \<Rightarrow> uuid \<Rightarrow> ('s, go_error + Todo option) state" where
  "Todo_GetByID R todoID userID = do {
     r \<leftarrow> trepo_GetTodoByID R todoID;
     case r of
       Inl err \<Rightarrow> State_Monad.return (Inl ErrTodoNotFound)
     | Inr p \<Rightarrow> tryE (deref p) (\<lambda>row.
         if TodoRow_UserID row \<noteq> userID then State_Monad.return (Inl ErrTodoNotOwned)
         else State_Monad.return (Inr (Some (rowToDomain row))))
   }"

definition Todo_Create :: "'s TodoRepository \<Rightarrow> uuid \<Rightarrow> string \<Rightarrow> string option \<Rightarrow> go_time option \<Rightarrow>
    ('s, go_error + Todo option) state" where
  "Todo_Create R userID title description dueDate =
     (if title = '''' then State_Monad.return (Inl ErrInvalidTodoParams)
      else tryE (trepo_CreateTodo R
          \<lparr>tciUserID = userID, tciTitle = title, tciDescription = description,
           tciIsCompleted = False, tciDueDate = dueDate\<rparr>)
        (\<lambda>p. tryE (deref p) (\<lambda>row. State_Monad.return (Inr (Some (rowToDomain row))))))"

definition Todo_Update :: "'s TodoRepository \<Rightarrow> uuid \<Rightarrow> uuid \<Rightarrow> string option \<Rightarrow> string option \<Rightarrow>
    bool option \<Rightarrow> go_time option \<Rightarrow> ('s, go_error + Todo option) state" where
  "Todo_Update R todoID userID title description isCompleted dueDate =
     (if title = Some '''' then State_Monad.return (Inl ErrInvalidTodoParams)
      else do {
        r \<leftarrow> trepo_GetTodoByID R todoID;
        case r of
          Inl err \<Rightarrow> State_Monad.return (Inl ErrTodoNotFound)
        | Inr p \<Rightarrow> tryE (deref p) (\<lambda>existing.
            if TodoRow_UserID existing \<noteq> userID then State_Monad.return (Inl ErrTodoNotOwned)
            else tryE (trepo_UpdateTodoPartial R
                \<lparr>tuiID = todoID, tuiTitle = title, tuiDescription = description,
                 tuiIsCompleted = isCompleted, tuiDueDate = dueDate\<rparr>)
              (\<lambda>row. State_Monad.return (Inr (Some (rowToDomain row)))))
      })"

definition Todo_Delete :: "'s TodoRepository \<Rightarrow> uuid \<Rightarrow> uuid \<Rightarrow> ('s, go_error + unit) state" where
  "Todo_Delete R todoID userID = do {
     r \<leftarrow> trepo_GetTodoByID R todoID;
     case r of
       Inl err \<Rightarrow> State_Monad.return (Inl ErrTodoNotFound)
     | Inr p \<Rightarrow> tryE (deref p) (\<lambda>existing.
         if TodoRow_UserID existing \<noteq> userID then State_Monad.return (Inl ErrTodoNotOwned)
         else trepo_DeleteTodo R todoID)
   }"

section \<open>The contract of the repository\<close>

record todo_view =
  tv_todos :: "TodoRow set"
  tv_users :: "uuid set"

text \<open>The patched row: absent fields keep their value.\<close>

definition patched :: "TodoUpdateInput \<Rightarrow> go_time \<Rightarrow> TodoRow \<Rightarrow> TodoRow" where
  "patched inp now t = t
     \<lparr>TodoRow_Title := coalesce (tuiTitle inp) (TodoRow_Title t),
      TodoRow_Description := (case tuiDescription inp of None \<Rightarrow> TodoRow_Description t | Some x \<Rightarrow> Some x),
      TodoRow_IsCompleted := coalesce (tuiIsCompleted inp) (TodoRow_IsCompleted t),
      TodoRow_DueDate := (case tuiDueDate inp of None \<Rightarrow> TodoRow_DueDate t | Some x \<Rightarrow> Some x),
      TodoRow_UpdatedAt := now\<rparr>"

lemma patched_simps [simp]:
  "TodoRow_ID (patched inp now t) = TodoRow_ID t" "TodoRow_UserID (patched inp now t) = TodoRow_UserID t"
  "TodoRow_CreatedAt (patched inp now t) = TodoRow_CreatedAt t"
  by (simp_all add: patched_def)

definition todo_created :: "TodoCreateInput \<Rightarrow> TodoRow option \<Rightarrow> todo_view \<Rightarrow> todo_view \<Rightarrow> bool" where
  "todo_created inp p v v' \<longleftrightarrow> (\<exists>t. p = Some t \<and> v' = v\<lparr>tv_todos := insert t (tv_todos v)\<rparr> \<and>
     TodoRow_ID t \<notin> TodoRow_ID ` tv_todos v \<and> tciUserID inp \<in> tv_users v \<and>
     TodoRow_UserID t = tciUserID inp \<and> TodoRow_Title t = tciTitle inp \<and>
     TodoRow_Description t = tciDescription inp \<and> TodoRow_IsCompleted t = tciIsCompleted inp \<and>
     TodoRow_DueDate t = tciDueDate inp \<and> TodoRow_CreatedAt t = TodoRow_UpdatedAt t)"

definition todo_refused :: "TodoCreateInput \<Rightarrow> todo_view \<Rightarrow> go_error \<Rightarrow> bool" where
  "todo_refused inp v e \<longleftrightarrow>
     e = DatabaseError (UniqueViolation ''todos_pkey'') \<or>
     (e = DatabaseError (ForeignKeyViolation ''todos_user_id_fkey'') \<and> tciUserID inp \<notin> tv_users v)"

definition todo_updated :: "TodoUpdateInput \<Rightarrow> TodoRow \<Rightarrow> todo_view \<Rightarrow> todo_view \<Rightarrow> bool" where
  "todo_updated inp row v v' \<longleftrightarrow> (\<exists>t \<in> tv_todos v. \<exists>now. TodoRow_ID t = tuiID inp \<and> row = patched inp now t \<and>
     v' = v\<lparr>tv_todos := insert row (tv_todos v - {t})\<rparr>)"

definition update_refused :: "TodoUpdateInput \<Rightarrow> todo_view \<Rightarrow> go_error \<Rightarrow> bool" where
  "update_refused inp v e \<longleftrightarrow> e = ErrNoRows \<and> tuiID inp \<notin> TodoRow_ID ` tv_todos v"

definition without_todo :: "uuid \<Rightarrow> todo_view \<Rightarrow> todo_view" where
  "without_todo key v = v\<lparr>tv_todos := {t \<in> tv_todos v. TodoRow_ID t \<noteq> key}\<rparr>"

locale todo_repository =
  fixes R :: "'s TodoRepository"
    and inv :: "'s \<Rightarrow> bool"
    and view :: "'s \<Rightarrow> todo_view"
    and up :: bool
  assumes todos_id: "inv s \<Longrightarrow> inj_on TodoRow_ID (tv_todos (view s))"
    and todos_owner: "inv s \<Longrightarrow> t \<in> tv_todos (view s) \<Longrightarrow> TodoRow_UserID t \<in> tv_users (view s)"
    and GetTodoByID: "inv s \<Longrightarrow> wp (trepo_GetTodoByID R key) (\<lambda>r s'. inv s' \<and> view s' = view s \<and>
      lookup up {t \<in> tv_todos (view s). TodoRow_ID t = key} r) s"
    and ListTodosByUserID: "inv s \<Longrightarrow> wp (trepo_ListTodosByUserID R uid) (\<lambda>r s'. inv s' \<and> view s' = view s \<and>
      reads up (\<lambda>ts. set ts = {t \<in> tv_todos (view s). TodoRow_UserID t = uid} \<and> distinct ts \<and>
        sorted (rev (map TodoRow_CreatedAt ts))) r) s"
    and CreateTodo: "inv s \<Longrightarrow> wp (trepo_CreateTodo R tci) (\<lambda>r s'. inv s' \<and>
      writes up (todo_created tci) (todo_refused tci) (view s) r (view s')) s"
    and UpdateTodoPartial: "inv s \<Longrightarrow> wp (trepo_UpdateTodoPartial R tui) (\<lambda>r s'. inv s' \<and>
      writes up (todo_updated tui) (update_refused tui) (view s) r (view s')) s"
    and DeleteTodo: "inv s \<Longrightarrow> wp (trepo_DeleteTodo R key) (\<lambda>r s'. inv s' \<and>
      writes up (\<lambda>_ v v'. v' = without_todo key v) (\<lambda>v e. False) (view s) r (view s')) s"

section \<open>Answers of the service\<close>

text \<open>
  What a user may reach under an identifier: their own todo, another user's, or nothing. Without the
  server up, a failed lookup is answered like a missing todo.
\<close>

definition todo_at :: "todo_view \<Rightarrow> uuid \<Rightarrow> TodoRow \<Rightarrow> bool" where
  "todo_at v key t \<longleftrightarrow> t \<in> tv_todos v \<and> TodoRow_ID t = key"

definition own_todo_answer :: "bool \<Rightarrow> todo_view \<Rightarrow> uuid \<Rightarrow> uuid \<Rightarrow> (TodoRow \<Rightarrow> bool) \<Rightarrow> go_error + 'a \<Rightarrow> todo_view \<Rightarrow> bool" where
  "own_todo_answer up v key uid ok r v' \<longleftrightarrow>
     (\<exists>t. todo_at v key t \<and> TodoRow_UserID t = uid \<and> ok t) \<or>
     (\<exists>t. todo_at v key t \<and> TodoRow_UserID t \<noteq> uid \<and> r = Inl ErrTodoNotOwned \<and> v' = v) \<or>
     (r = Inl ErrTodoNotFound \<and> v' = v \<and> (up \<longrightarrow> (\<forall>t. \<not> todo_at v key t)))"

definition todo_mapped :: "go_error + TodoRow \<Rightarrow> go_error + Todo option" where
  "todo_mapped r = (case r of Inl e \<Rightarrow> Inl e | Inr row \<Rightarrow> Inr (Some (rowToDomain row)))"

lemma todo_mapped_simps [simp]:
  "todo_mapped (Inl e) = Inl e" "todo_mapped (Inr row) = Inr (Some (rowToDomain row))"
  by (simp_all add: todo_mapped_def)

context todo_repository
begin

lemma wp_own_todo:
  assumes "inv s"
    and own: "\<And>t s'. inv s' \<Longrightarrow> view s' = view s \<Longrightarrow> todo_at (view s) key t \<Longrightarrow> TodoRow_UserID t = uid \<Longrightarrow>
      wp (f t) (\<lambda>r s''. inv s'' \<and> ok t r (view s'')) s'"
  shows "wp (State_Monad.bind (trepo_GetTodoByID R key) (\<lambda>r. case r of
      Inl err \<Rightarrow> State_Monad.return (Inl ErrTodoNotFound)
    | Inr p \<Rightarrow> tryE (deref p) (\<lambda>t. if TodoRow_UserID t \<noteq> uid then State_Monad.return (Inl ErrTodoNotOwned) else f t)))
    (\<lambda>r s'. inv s' \<and> own_todo_answer up (view s) key uid (\<lambda>t. ok t r (view s')) r (view s')) s"
  unfolding wp_bind
proof (rule wp_lookupI [OF GetTodoByID [OF assms(1)]], goal_cases)
  case (1 t s')
  show ?case
  proof (cases "TodoRow_UserID t = uid")
    case True
    with 1 have "wp (f t) (\<lambda>r s''. inv s'' \<and> ok t r (view s'')) s'"
      by (intro own) (simp_all add: todo_at_def)
    then have "wp (f t) (\<lambda>r s''. inv s'' \<and>
        own_todo_answer up (view s) key uid (\<lambda>t. ok t r (view s'')) r (view s'')) s'"
      by (rule wp_mono) (use 1 True in \<open>auto simp: own_todo_answer_def todo_at_def\<close>)
    with True show ?thesis by (simp add: wp_tryE wp_deref)
  next
    case False
    with 1 show ?thesis
      by (auto simp: wp_simps own_todo_answer_def todo_at_def)
  qed
qed (auto simp: wp_simps own_todo_answer_def todo_at_def)

lemma ListByUserID_wp:
  assumes "inv s"
  shows "wp (Todo_ListByUserID R uid) (\<lambda>r s'. inv s' \<and> view s' = view s \<and>
    reads up (\<lambda>ts. \<exists>rows. ts = map rowToDomain rows \<and> distinct rows \<and>
      set rows = {t \<in> tv_todos (view s). TodoRow_UserID t = uid} \<and>
      sorted (rev (map TodoRow_CreatedAt rows))) r) s"
  unfolding Todo_ListByUserID_def wp_tryE
  by (rule wp_readI [OF ListTodosByUserID [OF assms]]) (auto simp: wp_simps)

lemma GetByID_wp:
  assumes "inv s"
  shows "wp (Todo_GetByID R key uid) (\<lambda>r s'. inv s' \<and> own_todo_answer up (view s) key uid
    (\<lambda>t. r = Inr (Some (rowToDomain t)) \<and> view s' = view s) r (view s')) s"
  unfolding Todo_GetByID_def
  by (rule wp_own_todo [OF assms, where ok = "\<lambda>t r v'. r = Inr (Some (rowToDomain t)) \<and> v' = view s"])
    (simp add: wp_simps)

lemma Create_wp:
  assumes "inv s"
  shows "wp (Todo_Create R uid title description dueDate) (\<lambda>r s'. inv s' \<and>
    (if title = '''' then r = Inl ErrInvalidTodoParams \<and> view s' = view s
     else \<exists>rr. r = todo_mapped rr \<and>
       (let inp = \<lparr>tciUserID = uid, tciTitle = title, tciDescription = description, tciIsCompleted = False,
          tciDueDate = dueDate\<rparr>
        in writes up (\<lambda>row. todo_created inp (Some row)) (todo_refused inp) (view s) rr (view s')))) s"
proof (cases "title = ''''")
  case True
  with assms show ?thesis by (simp add: Todo_Create_def wp_simps)
next
  case False
  show ?thesis
    unfolding Todo_Create_def
  proof (simp add: False wp_tryE, rule wp_writeI [OF CreateTodo [OF assms]], goal_cases)
    case (1 r s')
    show ?case
    proof (cases r)
      case (Inl e)
      with 1 show ?thesis
        by (auto intro!: exI [of _ "Inl e"] simp: todo_created_def)
    next
      case (Inr p)
      with 1 obtain t where "p = Some t" by (auto simp: todo_created_def)
      with 1 Inr show ?thesis
        by (auto simp: wp_simps intro!: exI [of _ "Inr t"])
    qed
  qed
qed

lemma Update_wp:
  assumes "inv s"
  shows "wp (Todo_Update R key uid title description isCompleted dueDate) (\<lambda>r s'. inv s' \<and>
    (if title = Some '''' then r = Inl ErrInvalidTodoParams \<and> view s' = view s
     else own_todo_answer up (view s) key uid
       (\<lambda>t. \<exists>rr. r = todo_mapped rr \<and>
          (let inp = \<lparr>tuiID = key, tuiTitle = title, tuiDescription = description, tuiIsCompleted = isCompleted,
             tuiDueDate = dueDate\<rparr>
           in writes up (todo_updated inp) (update_refused inp) (view s) rr (view s'))) r (view s'))) s"
proof (cases "title = Some ''''")
  case True
  with assms show ?thesis by (simp add: Todo_Update_def wp_simps)
next
  case False
  let ?inp = "\<lparr>tuiID = key, tuiTitle = title, tuiDescription = description, tuiIsCompleted = isCompleted,
    tuiDueDate = dueDate\<rparr>"
  let ?ok = "\<lambda>(t :: TodoRow) r v'. \<exists>rr. r = todo_mapped rr \<and>
    writes up (todo_updated ?inp) (update_refused ?inp) (view s) rr v'"
  show ?thesis
    unfolding Todo_Update_def Let_def if_not_P [OF False]
  proof (rule wp_own_todo [OF assms, where ok = ?ok], goal_cases)
    case (1 t s')
    show ?case
      unfolding wp_tryE
    proof (rule wp_writeI [OF UpdateTodoPartial [OF 1(1)]], goal_cases)
      case (1 r s'')
      with \<open>view s' = view s\<close> show ?case
        by (cases r) (auto simp: wp_simps simp del: writes_simps intro!: exI [of _ r])
    qed
  qed
qed

lemma Delete_wp:
  assumes "inv s"
  shows "wp (Todo_Delete R key uid) (\<lambda>r s'. inv s' \<and> own_todo_answer up (view s) key uid
    (\<lambda>t. writes up (\<lambda>_ v v'. v' = without_todo key v) (\<lambda>v e. False) (view s) r (view s')) r (view s')) s"
  unfolding Todo_Delete_def
proof (rule wp_own_todo [OF assms, where ok = "\<lambda>t r v'.
    writes up (\<lambda>_ v v'. v' = without_todo key v) (\<lambda>v e. False) (view s) r v'"], goal_cases)
  case (1 t s')
  from DeleteTodo [OF 1(1), of key] 1(2) show ?case by simp
qed

end

end
