(* ===== verification/Todo_Repository.thy ===== *)
theory Todo_Repository
  imports Todo_Service
begin

text \<open>
  The todo repository over the database, \<open>internal/todo/repository.go\<close>, and the proof that it meets
  the contract \<open>todo_repository\<close>.
\<close>

definition TodoRepository_GetTodoByID :: "pg \<Rightarrow> uuid \<Rightarrow> (db, go_error + TodoRow option) state" where
  "TodoRepository_GetTodoByID E key =
     tryE (Queries_GetTodoByID E (UUIDToPgtypeValue key))
       (\<lambda>t. State_Monad.return (Inr (todoRowFromDB (Some t))))"

definition TodoRepository_ListTodosByUserID :: "pg \<Rightarrow> uuid \<Rightarrow> (db, go_error + TodoRow list) state" where
  "TodoRepository_ListTodosByUserID E userID =
     tryE (Queries_ListTodosByUserID E (UUIDToPgtypeValue userID))
       (\<lambda>rows. State_Monad.return (Inr (todosFromDB rows)))"

definition TodoRepository_CreateTodo :: "pg \<Rightarrow> TodoCreateInput \<Rightarrow> (db, go_error + TodoRow option) state" where
  "TodoRepository_CreateTodo E inp =
     tryE (Queries_CreateTodo E (TodoCreateInput_toCreateParams inp))
       (\<lambda>t. State_Monad.return (Inr (todoRowFromDB (Some t))))"

definition TodoRepository_UpdateTodoPartial :: "pg \<Rightarrow> TodoUpdateInput \<Rightarrow> (db, go_error + TodoRow) state" where
  "TodoRepository_UpdateTodoPartial E inp =
     tryE (Queries_UpdateTodoPartial E (TodoUpdateInput_toUpdateParamsPartial inp))
       (\<lambda>updated. deref (todoRowFromDB (Some updated)))"

definition TodoRepository_DeleteTodo :: "pg \<Rightarrow> uuid \<Rightarrow> (db, go_error + unit) state" where
  "TodoRepository_DeleteTodo E key = Queries_DeleteTodo E (UUIDToPgtypeValue key)"

definition TodoRepository :: "pg \<Rightarrow> db TodoRepository" where
  "TodoRepository E =
     \<lparr>trepo_GetTodoByID = TodoRepository_GetTodoByID E,
      trepo_ListTodosByUserID = TodoRepository_ListTodosByUserID E,
      trepo_CreateTodo = TodoRepository_CreateTodo E,
      trepo_UpdateTodoPartial = TodoRepository_UpdateTodoPartial E,
      trepo_DeleteTodo = TodoRepository_DeleteTodo E\<rparr>"

section \<open>The view\<close>

definition todo_view_of :: "db \<Rightarrow> todo_view" where
  "todo_view_of d =
     \<lparr>tv_todos = todo_row ` set (tbl_todos d), tv_users = (PgUUIDToValue \<circ> dbU_ID) ` set (tbl_users d)\<rparr>"

lemma todo_view_simps [simp]:
  "tv_todos (todo_view_of d) = todo_row ` set (tbl_todos d)"
  "tv_users (todo_view_of d) = (\<lambda>u. PgUUIDToValue (dbU_ID u)) ` set (tbl_users d)"
  by (simp_all add: todo_view_of_def)

lemma todo_view_roundtrips [simp]: "todo_view_of (d\<lparr>roundtrips := n\<rparr>) = todo_view_of d"
  by (simp add: todo_view_of_def)

lemma todo_key_iff:
  assumes "db_inv d" and "t \<in> set (tbl_todos d)"
  shows "dbT_ID t = UUIDToPgtypeValue k \<longleftrightarrow> PgUUIDToValue (dbT_ID t) = k"
    and "dbT_UserID t = UUIDToPgtypeValue k \<longleftrightarrow> PgUUIDToValue (dbT_UserID t) = k"
  using db_inv_todos_valid [OF assms] db_inv_todos_owner_valid [OF assms]
  by (simp_all add: PgUUIDToValue_eq_iff)

text \<open>Different rows have different identifiers, so the conversion loses none.\<close>

lemma todo_row_id_inj:
  assumes "db_inv d" and "t \<in> set (tbl_todos d)" and "t' \<in> set (tbl_todos d)"
    and "TodoRow_ID (todo_row t) = TodoRow_ID (todo_row t')"
  shows "t = t'"
  using assms db_inv_todos_valid [OF assms(1)] db_inv_todos_key [OF assms(1)]
  by (simp add: PgUUIDToValue_inj) (metis distinct_map_eq)

lemma key_image:
  assumes "\<And>x. x \<in> S \<Longrightarrow> UUID_Valid (f x)"
  shows "UUIDToPgtypeValue k \<in> f ` S \<longleftrightarrow> k \<in> (\<lambda>x. PgUUIDToValue (f x)) ` S"
proof
  assume "UUIDToPgtypeValue k \<in> f ` S"
  then show "k \<in> (\<lambda>x. PgUUIDToValue (f x)) ` S"
    by (metis (no_types, lifting) PgUUIDToValue_of_Value imageE image_eqI)
next
  assume "k \<in> (\<lambda>x. PgUUIDToValue (f x)) ` S"
  then show "UUIDToPgtypeValue k \<in> f ` S"
    using assms valid_UUID_cases by (auto simp: image_iff)
qed

lemma image_update_one:
  assumes "t \<in> S" and "\<And>x. x \<in> S \<Longrightarrow> P x \<longleftrightarrow> x = t" and "\<And>x. x \<in> S \<Longrightarrow> f x = f t \<Longrightarrow> x = t"
  shows "f ` (\<lambda>x. if P x then g x else x) ` S = insert (f (g t)) (f ` S - {f t})"
proof -
  have "(\<lambda>x. if P x then g x else x) ` S = insert (g t) (S - {t})"
    using assms(1,2) by auto
  moreover have "f ` (S - {t}) = f ` S - {f t}"
    using assms(3) by auto
  ultimately show ?thesis by simp
qed

lemma GetTodoByID_ok:
  assumes "db_inv d"
  shows "wp (TodoRepository_GetTodoByID E key) (\<lambda>r d'. db_inv d' \<and> todo_view_of d' = todo_view_of d \<and>
    lookup (server_up E) {t \<in> tv_todos (todo_view_of d). TodoRow_ID t = key} r) d"
proof (cases "filter (\<lambda>t. sql_eq (dbT_ID t) (UUIDToPgtypeValue key)) (tbl_todos d)")
  case Nil
  with assms show ?thesis
    unfolding TodoRepository_GetTodoByID_def Queries_GetTodoByID_def wp_simps
    by (intro wp_selectI) (auto simp: filter_empty_conv todo_key_iff [OF assms])
next
  case (Cons t ts)
  then have "t \<in> set (tbl_todos d)" "dbT_ID t = UUIDToPgtypeValue key"
    by (auto dest!: filter_eq_ConsD)
  with assms Cons show ?thesis
    unfolding TodoRepository_GetTodoByID_def Queries_GetTodoByID_def wp_simps
    by (intro wp_selectI) auto
qed

lemma ListTodosByUserID_ok:
  assumes "db_inv d"
  shows "wp (TodoRepository_ListTodosByUserID E uid) (\<lambda>r d'. db_inv d' \<and> todo_view_of d' = todo_view_of d \<and>
    reads (server_up E) (\<lambda>ts. set ts = {t \<in> tv_todos (todo_view_of d). TodoRow_UserID t = uid} \<and> distinct ts \<and>
      sorted (rev (map TodoRow_CreatedAt ts))) r) d"
proof -
  let ?mine = "filter (\<lambda>t. sql_eq (dbT_UserID t) (UUIDToPgtypeValue uid)) (tbl_todos d)"
  let ?rows = "created_desc dbT_CreatedAt ?mine"
  have "distinct (tbl_todos d)"
    using db_inv_todos_key [OF assms] by (simp add: distinct_map)
  then have "distinct (map todo_row ?rows)"
    by (auto simp: created_desc_def distinct_map intro!: inj_onI dest: arg_cong [of _ _ TodoRow_ID]
        todo_row_id_inj [OF assms])
  moreover have "set (map todo_row ?rows) = {t \<in> tv_todos (todo_view_of d). TodoRow_UserID t = uid}"
    by (auto simp: created_desc_def todo_key_iff [OF assms])
  moreover have "map TodoRow_CreatedAt (map todo_row ?rows) = map (\<lambda>t. Timestamptz_Time (dbT_CreatedAt t)) ?rows"
    by simp
  then have "sorted (rev (map TodoRow_CreatedAt (map todo_row ?rows)))"
    using created_desc_sorted [of dbT_CreatedAt ?mine] by metis
  ultimately show ?thesis
    unfolding TodoRepository_ListTodosByUserID_def Queries_ListTodosByUserID_def wp_simps
    by (intro wp_selectI) (use assms in \<open>simp_all add: todosFromDB_def\<close>)
qed

lemma CreateTodo_ok:
  assumes "db_inv d"
  shows "wp (TodoRepository_CreateTodo E inp) (\<lambda>r d'. db_inv d' \<and>
    writes (server_up E) (todo_created inp) (todo_refused inp) (todo_view_of d) r (todo_view_of d')) d"
proof -
  define t where "t n = \<lparr>dbT_ID = gen_random_uuid E n 0, dbT_UserID = UUIDToPgtypeValue (tciUserID inp),
    dbT_Title = tciTitle inp, dbT_Description = tciDescription inp, dbT_IsCompleted = tciIsCompleted inp,
    dbT_DueDate = dueDateToPg (tciDueDate inp), dbT_CreatedAt = Now E n, dbT_UpdatedAt = Now E n\<rparr>" for n
  have owner: "UUIDToPgtypeValue u \<in> dbU_ID ` set (tbl_users d) \<longleftrightarrow> u \<in> tv_users (todo_view_of d)" for u
    using key_image [OF db_inv_users_valid [OF assms]] by simp
  have eff: "todo_created inp (Some (todo_row (t n))) (todo_view_of d) (todo_view_of d')"
    if "insert_todo (t n) (sent d) = Inr d'" for n d'
  proof -
    from insert_todoD [OF that] have d': "d' = (sent d)\<lparr>tbl_todos := tbl_todos d @ [t n]\<rparr>"
      and fresh: "UUID_Valid (dbT_ID (t n))" "dbT_ID (t n) \<notin> dbT_ID ` set (tbl_todos d)"
      and fk: "tciUserID inp \<in> tv_users (todo_view_of d)"
      by (simp_all add: t_def owner del: todo_view_simps)
    have "PgUUIDToValue (dbT_ID x) \<noteq> PgUUIDToValue (dbT_ID (t n))" if "x \<in> set (tbl_todos d)" for x
      using fresh that db_inv_todos_valid [OF assms that] by (metis PgUUIDToValue_inj image_eqI)
    then have "TodoRow_ID (todo_row (t n)) \<notin> TodoRow_ID ` tv_todos (todo_view_of d)"
      by (simp add: image_iff) metis
    with fk show ?thesis
      by (auto simp: todo_created_def d' todo_view_of_def t_def)
  qed
  have ref: "todo_refused inp (todo_view_of d) (DatabaseError e)" if "insert_todo (t n) (sent d) = Inl e" for n e
    using that owner by (auto simp: insert_todo_def todo_refused_def t_def gen_random_uuid_def
        simp del: todo_view_simps split: if_splits)
  show ?thesis
    unfolding TodoRepository_CreateTodo_def Queries_CreateTodo_def wp_simps Let_def
    by (rule wp_statementI)
      (use assms in \<open>auto split: sum.splits simp: TodoCreateInput_toCreateParams_def simp flip: t_def
        dest: eff ref db_inv_insert_todo\<close>)
qed

lemma DeleteTodo_ok:
  assumes "db_inv d"
  shows "wp (TodoRepository_DeleteTodo E key) (\<lambda>r d'. db_inv d' \<and>
    writes (server_up E) (\<lambda>_ v v'. v' = without_todo key v) (\<lambda>v e. False) (todo_view_of d) r (todo_view_of d')) d"
proof -
  let ?d = "(sent d)\<lparr>tbl_todos := filter (\<lambda>t. \<not> sql_eq (dbT_ID t) (UUIDToPgtypeValue key)) (tbl_todos (sent d))\<rparr>"
  have "db_inv ?d" using assms by (intro db_inv_filter_todos) simp
  moreover have "todo_view_of ?d = without_todo key (todo_view_of d)"
    by (auto simp: todo_view_of_def without_todo_def todo_key_iff [OF assms])
  ultimately show ?thesis
    unfolding TodoRepository_DeleteTodo_def Queries_DeleteTodo_def
    by (intro wp_statementI) (use assms in auto)
qed

lemma UpdateTodoPartial_ok:
  assumes "db_inv d"
  shows "wp (TodoRepository_UpdateTodoPartial E inp) (\<lambda>r d'. db_inv d' \<and>
    writes (server_up E) (todo_updated inp) (update_refused inp) (todo_view_of d) r (todo_view_of d')) d"
proof -
  let ?p = "TodoUpdateInput_toUpdateParamsPartial inp"
  define hit where "hit = (\<lambda>t :: db_Todo. sql_eq (dbT_ID t) (UUIDToPgtypeValue (tuiID inp)))"
  define upd where "upd n t = t\<lparr>dbT_Title := coalesce (upTitle ?p) (dbT_Title t),
       dbT_Description := (case upDescription ?p of None \<Rightarrow> dbT_Description t | Some x \<Rightarrow> Some x),
       dbT_IsCompleted := coalesce (upIsCompleted ?p) (dbT_IsCompleted t),
       dbT_DueDate := (if Timestamptz_Valid (upDueDate ?p) then upDueDate ?p else dbT_DueDate t),
       dbT_UpdatedAt := Now E n\<rparr>" for n and t :: db_Todo
  define d' where "d' n = (sent d)\<lparr>tbl_todos := map (\<lambda>t. if hit t then upd n t else t) (tbl_todos d)\<rparr>" for n
  have row: "todo_row (upd n t) = patched inp (pg_now E n) (todo_row t)" for n t
    by (cases "tuiDueDate inp"; cases "tuiDescription inp")
      (simp_all add: upd_def patched_def todo_row_def todoRowFromDB_def TodoUpdateInput_toUpdateParamsPartial_def
        Now_def dueDateToPg_def null_Timestamptz_def PgTimestamptzToPtr_def)
  have inv': "db_inv (d' n)" for n
    using db_inv_map_todos [of "sent d" "\<lambda>t. if hit t then upd n t else t"] assms
    by (simp add: d'_def upd_def)
  have hit: "hit t \<longleftrightarrow> TodoRow_ID (todo_row t) = tuiID inp" if "t \<in> set (tbl_todos d)" for t
    using that by (simp add: hit_def todo_key_iff [OF assms])
  have key: "upID ?p = UUIDToPgtypeValue (tuiID inp)"
    by (simp add: TodoUpdateInput_toUpdateParamsPartial_def)
  have run: "TodoRepository_UpdateTodoPartial E inp =
      tryE (query_row E (\<lambda>n d. Inr (map (upd n) (filter hit (tbl_todos d)),
        d\<lparr>tbl_todos := map (\<lambda>t. if hit t then upd n t else t) (tbl_todos d)\<rparr>))) (\<lambda>u. deref (Some (todo_row u)))"
    unfolding TodoRepository_UpdateTodoPartial_def Queries_UpdateTodoPartial_def update_todos_def Let_def
      key todo_row_Some hit_def upd_def [abs_def] by (rule refl)
  show ?thesis
  proof (cases "filter hit (tbl_todos d)")
    case Nil
    have "todo_view_of (d' n) = todo_view_of d" for n
    proof -
      have "map (\<lambda>t. if hit t then upd n t else t) (tbl_todos d) = tbl_todos d"
        using Nil by (intro map_idI) (auto simp: filter_empty_conv)
      then show ?thesis by (simp add: d'_def todo_view_of_def)
    qed
    moreover have "tuiID inp \<notin> TodoRow_ID ` tv_todos (todo_view_of d)"
      using Nil hit by (auto simp: filter_empty_conv)
    ultimately show ?thesis
      unfolding run wp_simps
      by (intro wp_statementI) (use assms Nil inv' in \<open>auto simp: update_refused_def simp flip: d'_def\<close>)
  next
    case (Cons t ts)
    then have t: "t \<in> set (tbl_todos d)" "hit t" by (auto dest!: filter_eq_ConsD)
    have only: "x = t" if "x \<in> set (tbl_todos d)" "hit x" for x
      using that t hit todo_row_id_inj [OF assms that(1) t(1)] by simp
    have "todo_row ` (\<lambda>x. if hit x then upd n x else x) ` set (tbl_todos d) =
        insert (todo_row (upd n t)) (todo_row ` set (tbl_todos d) - {todo_row t})" for n
    proof (rule image_update_one)
      show "hit x \<longleftrightarrow> x = t" if "x \<in> set (tbl_todos d)" for x
        using only that t by blast
      show "x = t" if "x \<in> set (tbl_todos d)" "todo_row x = todo_row t" for x
        using todo_row_id_inj [OF assms that(1) t(1)] that(2) by (simp only:)
    qed (rule t)
    then have view: "todo_view_of (d' n) = (todo_view_of d)
        \<lparr>tv_todos := insert (todo_row (upd n t)) (tv_todos (todo_view_of d) - {todo_row t})\<rparr>" for n
      by (simp add: d'_def todo_view_of_def)
    have eff: "todo_updated inp (todo_row (upd n t)) (todo_view_of d) (todo_view_of (d' n))" for n
      unfolding todo_updated_def view
      by (intro bexI [of _ "todo_row t"] exI [of _ "pg_now E n"]) (use t hit row in auto)
    show ?thesis
      unfolding run wp_simps
    proof (rule wp_statementI, goal_cases)
      case (3 x d2)
      then have "d2 = d' (roundtrips d)" "x = map (upd (roundtrips d)) (t # ts)"
        using Cons by (simp_all add: d'_def)
      with inv' eff show ?case by (auto simp: wp_deref)
    qed (use assms in simp_all)
  qed
qed

lemma TodoRepository_simps [simp]:
  "trepo_GetTodoByID (TodoRepository E) = TodoRepository_GetTodoByID E"
  "trepo_ListTodosByUserID (TodoRepository E) = TodoRepository_ListTodosByUserID E"
  "trepo_CreateTodo (TodoRepository E) = TodoRepository_CreateTodo E"
  "trepo_UpdateTodoPartial (TodoRepository E) = TodoRepository_UpdateTodoPartial E"
  "trepo_DeleteTodo (TodoRepository E) = TodoRepository_DeleteTodo E"
  by (simp_all add: TodoRepository_def)

interpretation todo_repo: todo_repository "TodoRepository E" db_inv todo_view_of "server_up E" for E
proof unfold_locales
  fix d :: db and t
  assume inv: "db_inv d"
  show "inj_on TodoRow_ID (tv_todos (todo_view_of d))"
  proof (rule inj_onI)
    fix x y
    assume "x \<in> tv_todos (todo_view_of d)" "y \<in> tv_todos (todo_view_of d)" and eq: "TodoRow_ID x = TodoRow_ID y"
    then obtain a b where "a \<in> set (tbl_todos d)" "b \<in> set (tbl_todos d)" "x = todo_row a" "y = todo_row b"
      by auto
    with todo_row_id_inj [OF inv] eq show "x = y" by metis
  qed
  show "TodoRow_UserID t \<in> tv_users (todo_view_of d)" if mem: "t \<in> tv_todos (todo_view_of d)"
  proof -
    obtain x where "x \<in> set (tbl_todos d)" "t = todo_row x" using mem by auto
    with db_inv_todos_fk [OF inv, of x] show ?thesis by auto
  qed
qed (simp_all only: TodoRepository_simps GetTodoByID_ok ListTodosByUserID_ok CreateTodo_ok
    UpdateTodoPartial_ok DeleteTodo_ok)

end
