(* ===== verification/Todo_Correct.thy ===== *)
theory Todo_Correct
  imports Todo_Repository Demo
begin

text \<open>
  What the todo service promises, for the repository over the database: a user sees exactly their own
  todos, changes only their own, and changes what was asked.
\<close>

section \<open>Reading\<close>

text \<open>Listing answers exactly the todos of the user, each once, the latest first.\<close>

theorem List_own_todos:
  assumes "db_inv d" and "run_state (Todo_ListByUserID (TodoRepository E) uid) d = (Inr ts, d')"
  shows "(\<exists>rows. ts = map rowToDomain rows \<and> distinct rows \<and>
       set rows = {t \<in> tv_todos (todo_view_of d). TodoRow_UserID t = uid}) \<and>
     sorted (rev (map Todo_CreatedAt ts)) \<and> todo_view_of d' = todo_view_of d"
proof -
  from wpD [OF todo_repo.ListByUserID_wp [OF assms(1)] assms(2)] obtain rows where
    "ts = map rowToDomain rows" "distinct rows" "set rows = {t \<in> tv_todos (todo_view_of d). TodoRow_UserID t = uid}"
    "sorted (rev (map TodoRow_CreatedAt rows))" "todo_view_of d' = todo_view_of d"
    by (auto simp del: todo_view_simps)
  then show ?thesis
    by (auto simp: comp_def simp del: todo_view_simps)
qed

theorem List_own_todos_witness:
  "\<exists>d' t. run_state (Todo_ListByUserID (TodoRepository demo_pg) 5) demo_db = (Inr [t], d') \<and> Todo_UserID t = 5"
proof -
  let ?run = "run_state (Todo_ListByUserID (TodoRepository demo_pg) 5) demo_db"
  have "map Todo_ID (projr (fst ?run)) = [20] \<and> \<not> isl (fst ?run)" by code_simp
  moreover obtain r d' where "?run = (r, d')" by force
  ultimately obtain t where run: "?run = (Inr [t], d')"
    by (cases r) (auto simp: map_eq_Cons_conv)
  from List_own_todos [OF demo_db_inv run] obtain rows where "[t] = map rowToDomain rows"
    "set rows = {t \<in> tv_todos (todo_view_of demo_db). TodoRow_UserID t = 5}"
    by (elim conjE exE) (rule that)
  then have "Todo_UserID t = 5" by (cases rows) auto
  with run show ?thesis by blast
qed

section \<open>Requests of several users\<close>

text \<open>The operations of the service as data, and the effect of one carried out for a user.\<close>

datatype todo_op =
    OpList
  | OpGet uuid
  | OpCreate string "string option" "go_time option"
  | OpUpdate uuid "string option" "string option" "bool option" "go_time option"
  | OpDelete uuid

fun perform :: "pg \<Rightarrow> uuid \<Rightarrow> todo_op \<Rightarrow> db \<Rightarrow> db" where
  "perform E uid OpList d = snd (run_state (Todo_ListByUserID (TodoRepository E) uid) d)"
| "perform E uid (OpGet key) d = snd (run_state (Todo_GetByID (TodoRepository E) key uid) d)"
| "perform E uid (OpCreate title description due) d =
     snd (run_state (Todo_Create (TodoRepository E) uid title description due) d)"
| "perform E uid (OpUpdate key title description completed due) d =
     snd (run_state (Todo_Update (TodoRepository E) key uid title description completed due) d)"
| "perform E uid (OpDelete key) d = snd (run_state (Todo_Delete (TodoRepository E) key uid) d)"

fun perform_all :: "pg \<Rightarrow> (uuid \<times> todo_op) list \<Rightarrow> db \<Rightarrow> db" where
  "perform_all E [] d = d"
| "perform_all E ((uid, op) # ops) d = perform_all E ops (perform E uid op d)"

lemma writes_rel:
  "writes up eff refused v r v' \<Longrightarrow> (\<And>x. eff x v v' \<Longrightarrow> P v v') \<Longrightarrow> P v v \<Longrightarrow> P v v'"
  by (cases r) auto

text \<open>Nothing changes for the others.\<close>

definition others_same :: "uuid \<Rightarrow> todo_view \<Rightarrow> todo_view \<Rightarrow> bool" where
  "others_same uid v v' \<longleftrightarrow> (\<forall>t. TodoRow_UserID t \<noteq> uid \<longrightarrow> t \<in> tv_todos v' \<longleftrightarrow> t \<in> tv_todos v)"

lemma others_same_refl [simp]: "others_same uid v v"
  by (simp add: others_same_def)

lemma others_same_create: "todo_created inp p v v' \<Longrightarrow> tciUserID inp = uid \<Longrightarrow> others_same uid v v'"
  by (auto simp: todo_created_def others_same_def)

lemma others_same_update:
  assumes "inj_on TodoRow_ID (tv_todos v)" and "todo_updated inp row v v'"
    and "todo_at v (tuiID inp) t" and "TodoRow_UserID t = uid"
  shows "others_same uid v v'"
proof -
  from assms(2) obtain t' now where t': "t' \<in> tv_todos v" "TodoRow_ID t' = tuiID inp"
    and v': "v' = v\<lparr>tv_todos := insert (patched inp now t') (tv_todos v - {t'})\<rparr>"
    unfolding todo_updated_def by auto
  have "t' = t"
    using assms(3) t' inj_onD [OF assms(1)] unfolding todo_at_def by auto
  with assms(4) show ?thesis unfolding v' by (auto simp: others_same_def)
qed

lemma others_same_delete:
  assumes "inj_on TodoRow_ID (tv_todos v)" and "todo_at v key t" and "TodoRow_UserID t = uid"
  shows "others_same uid v (without_todo key v)"
  using assms inj_onD [OF assms(1)] by (auto simp: others_same_def without_todo_def todo_at_def)

lemma own_todo_answer_rel:
  assumes "own_todo_answer up v key uid ok r v'" and "P v v"
    and "\<And>t. todo_at v key t \<Longrightarrow> TodoRow_UserID t = uid \<Longrightarrow> ok t \<Longrightarrow> P v v'"
  shows "P v v'"
  using assms by (auto simp: own_todo_answer_def)

lemma perform_wp:
  "(\<And>r d'. Q r d' \<Longrightarrow> db_inv d' \<and> others_same uid (todo_view_of d) (todo_view_of d')) \<Longrightarrow> wp m Q d \<Longrightarrow>
   db_inv (snd (run_state m d)) \<and> others_same uid (todo_view_of d) (todo_view_of (snd (run_state m d)))"
  by (auto simp: wp_def split: prod.splits)

lemma perform_others:
  assumes "db_inv d"
  shows "db_inv (perform E uid op d) \<and> others_same uid (todo_view_of d) (todo_view_of (perform E uid op d))"
proof (cases op)
  case OpList
  then show ?thesis
    by (simp only: perform.simps) (rule perform_wp [OF _ todo_repo.ListByUserID_wp [OF assms]], simp)
next
  case (OpGet key)
  show ?thesis
    unfolding OpGet perform.simps
  proof (rule perform_wp [OF _ todo_repo.GetByID_wp [OF assms]], goal_cases)
    case (1 r d')
    then show ?case by (auto elim: own_todo_answer_rel)
  qed
next
  case (OpCreate title description due)
  show ?thesis
    unfolding OpCreate perform.simps
  proof (rule perform_wp [OF _ todo_repo.Create_wp [OF assms]], goal_cases)
    case (1 r d')
    then show ?case
      by (auto simp: Let_def simp del: todo_view_simps split: if_splits elim!: writes_rel intro: others_same_create)
  qed
next
  case (OpUpdate key title description completed due)
  show ?thesis
    unfolding OpUpdate perform.simps
  proof (rule perform_wp [OF _ todo_repo.Update_wp [OF assms]], goal_cases)
    case (1 r d')
    then show ?case
      by (auto simp: Let_def simp del: todo_view_simps split: if_splits elim!: own_todo_answer_rel writes_rel
          intro: others_same_update [OF todo_repo.todos_id [OF assms]])
  qed
next
  case (OpDelete key)
  show ?thesis
    unfolding OpDelete perform.simps
  proof (rule perform_wp [OF _ todo_repo.Delete_wp [OF assms]], goal_cases)
    case (1 r d')
    then show ?case
      by (auto simp del: todo_view_simps elim!: own_todo_answer_rel writes_rel
          intro: others_same_delete [OF todo_repo.todos_id [OF assms]])
  qed
qed

text \<open>C13. Whatever sequence of operations other users perform, and whatever requests and replies get lost
  on the way, the todos of a user stay exactly as they are.\<close>

theorem todos_isolated:
  assumes "db_inv d" and "\<And>uid op. (uid, op) \<in> set ops \<Longrightarrow> uid \<noteq> me"
  shows "{t \<in> tv_todos (todo_view_of (perform_all E ops d)). TodoRow_UserID t = me} =
    {t \<in> tv_todos (todo_view_of d). TodoRow_UserID t = me}"
  using assms
proof (induction ops arbitrary: d)
  case (Cons p ops)
  obtain uid op where p: "p = (uid, op)" by (cases p)
  then have "uid \<noteq> me" using Cons.prems(2) [of uid op] by simp
  with perform_others [OF Cons.prems(1), of E uid op]
  have "db_inv (perform E uid op d)"
    and "{t \<in> tv_todos (todo_view_of (perform E uid op d)). TodoRow_UserID t = me} =
      {t \<in> tv_todos (todo_view_of d). TodoRow_UserID t = me}"
    by (auto simp: others_same_def simp del: todo_view_simps)
  moreover have "\<And>uid op. (uid, op) \<in> set ops \<Longrightarrow> uid \<noteq> me" using Cons.prems(2) by auto
  ultimately show ?case
    using Cons.IH p by simp
qed simp

theorem todos_isolated_witness:
  "{t \<in> tv_todos (todo_view_of (perform_all demo_pg [(7, OpDelete 20), (8, OpUpdate 20 (Some ''Mine'') None None None)] demo_db)).
     TodoRow_UserID t = 5} = {t \<in> tv_todos (todo_view_of demo_db). TodoRow_UserID t = 5}"
  by (rule todos_isolated) auto

section \<open>Changing\<close>

text \<open>C14. An update answers the patched todo: the fields given are the new ones, the fields absent keep
  their value, the owner and the creation time stay, and every other todo stays. It is refused, with
  nothing changed, as \<open>ErrInvalidTodoParams\<close> for an empty title, \<open>ErrTodoNotOwned\<close> for another user's
  todo, \<open>ErrTodoNotFound\<close> when there is none.\<close>

theorem Update_correct:
  assumes "db_inv d" and "server_up E"
    and "run_state (Todo_Update (TodoRepository E) key uid title description completed due) d = (r, d')"
  shows "if title = Some '''' then r = Inl ErrInvalidTodoParams \<and> todo_view_of d' = todo_view_of d
     else (\<exists>t now. let t' = patched \<lparr>tuiID = key, tuiTitle = title, tuiDescription = description,
               tuiIsCompleted = completed, tuiDueDate = due\<rparr> now t
             in todo_at (todo_view_of d) key t \<and> TodoRow_UserID t = uid \<and> r = Inr (Some (rowToDomain t')) \<and>
                tv_todos (todo_view_of d') = insert t' (tv_todos (todo_view_of d) - {t})) \<or>
          (\<exists>t. todo_at (todo_view_of d) key t \<and> TodoRow_UserID t \<noteq> uid \<and> r = Inl ErrTodoNotOwned \<and>
             todo_view_of d' = todo_view_of d) \<or>
          ((\<forall>t. \<not> todo_at (todo_view_of d) key t) \<and> r = Inl ErrTodoNotFound \<and> todo_view_of d' = todo_view_of d)"
proof (cases "title = Some ''''")
  case True
  with wpD [OF todo_repo.Update_wp [OF assms(1)] assms(3)] show ?thesis by (simp del: todo_view_simps)
next
  case False
  let ?inp = "\<lparr>tuiID = key, tuiTitle = title, tuiDescription = description, tuiIsCompleted = completed, tuiDueDate = due\<rparr>"
  from wpD [OF todo_repo.Update_wp [OF assms(1)] assms(3)] False assms(2)
  have "own_todo_answer True (todo_view_of d) key uid (\<lambda>t. \<exists>rr. r = todo_mapped rr \<and>
      writes True (todo_updated ?inp) (update_refused ?inp) (todo_view_of d) rr (todo_view_of d')) r (todo_view_of d')"
    by (simp add: Let_def del: todo_view_simps)
  then consider
      (own) t rr where "todo_at (todo_view_of d) key t" "TodoRow_UserID t = uid" "r = todo_mapped rr"
        "writes True (todo_updated ?inp) (update_refused ?inp) (todo_view_of d) rr (todo_view_of d')"
    | (other) t where "todo_at (todo_view_of d) key t" "TodoRow_UserID t \<noteq> uid" "r = Inl ErrTodoNotOwned"
        "todo_view_of d' = todo_view_of d"
    | (none) "\<forall>t. \<not> todo_at (todo_view_of d) key t" "r = Inl ErrTodoNotFound" "todo_view_of d' = todo_view_of d"
    unfolding own_todo_answer_def by blast
  then show ?thesis
  proof cases
    case own
    then obtain row where rr: "rr = Inr row"
      by (cases rr) (auto simp: update_refused_def todo_at_def simp del: todo_view_simps)
    with own obtain t' now where "t' \<in> tv_todos (todo_view_of d)" "TodoRow_ID t' = key" "row = patched ?inp now t'"
      "todo_view_of d' = (todo_view_of d)\<lparr>tv_todos := insert row (tv_todos (todo_view_of d) - {t'})\<rparr>"
      by (auto simp: todo_updated_def simp del: todo_view_simps)
    moreover from this own(1) have "t' = t"
      using inj_onD [OF todo_repo.todos_id [OF assms(1)]] unfolding todo_at_def by blast
    ultimately have "todo_at (todo_view_of d) key t \<and> TodoRow_UserID t = uid \<and> r = Inr (Some (rowToDomain (patched ?inp now t))) \<and>
        tv_todos (todo_view_of d') = insert (patched ?inp now t) (tv_todos (todo_view_of d) - {t})"
      using own rr by (simp del: todo_view_simps)
    with False show ?thesis unfolding Let_def by auto
  qed (use False in auto)
qed

theorem Update_correct_witness:
  "\<exists>t. fst (run_state (Todo_Update (TodoRepository demo_pg) 20 5 None (Some ''milk'') (Some True) None) demo_db) = Inr (Some t) \<and>
     Todo_Title t = ''Shop'' \<and> Todo_Description t = Some ''milk'' \<and> Todo_IsCompleted t"
proof -
  obtain r d' where run: "run_state (Todo_Update (TodoRepository demo_pg) 20 5 None (Some ''milk'') (Some True) None) demo_db = (r, d')"
    by force
  have one: "t = todo_row (hd (tbl_todos demo_db))" if "todo_at (todo_view_of demo_db) 20 t" for t
    using that by (simp add: todo_at_def demo_db_def)
  have row: "TodoRow_Title (todo_row (hd (tbl_todos demo_db))) = ''Shop''" "todo_at (todo_view_of demo_db) 20 (todo_row (hd (tbl_todos demo_db)))"
    by (simp_all add: todo_at_def demo_db_def)
  have owner: "TodoRow_UserID t = 5" if "todo_at (todo_view_of demo_db) 20 t" for t
    using one [OF that] by (simp add: demo_db_def)
  have title: "\<not> None = Some ([] :: string)" by simp
  obtain t now where "todo_at (todo_view_of demo_db) 20 t"
    "r = Inr (Some (rowToDomain (patched \<lparr>tuiID = 20, tuiTitle = None, tuiDescription = Some ''milk'',
       tuiIsCompleted = Some True, tuiDueDate = None\<rparr> now t)))"
    using Update_correct [OF demo_db_inv demo_pg_up run] row(2) owner unfolding if_not_P [OF title] Let_def by blast
  with one run row(1) show ?thesis by (simp add: patched_def coalesce_def)
qed

text \<open>A todo is created for the user who asks, open, with the title, description and due date given,
  under a fresh identifier, and nothing else changes; an empty title is refused.\<close>

theorem Create_correct:
  assumes "db_inv d" and "server_up E" and "uid \<in> tv_users (todo_view_of d)"
    and "run_state (Todo_Create (TodoRepository E) uid title description due) d = (r, d')"
  shows "if title = '''' then r = Inl ErrInvalidTodoParams \<and> todo_view_of d' = todo_view_of d
     else (\<exists>t. r = Inr (Some (rowToDomain t)) \<and> TodoRow_UserID t = uid \<and> TodoRow_Title t = title \<and>
             TodoRow_Description t = description \<and> \<not> TodoRow_IsCompleted t \<and> TodoRow_DueDate t = due \<and>
             TodoRow_ID t \<notin> TodoRow_ID ` tv_todos (todo_view_of d) \<and>
             tv_todos (todo_view_of d') = insert t (tv_todos (todo_view_of d))) \<or>
          (r = Inl (DatabaseError (UniqueViolation ''todos_pkey'')) \<and> todo_view_of d' = todo_view_of d)"
proof (cases "title = ''''")
  case True
  with wpD [OF todo_repo.Create_wp [OF assms(1)] assms(4)] show ?thesis by (simp del: todo_view_simps)
next
  case False
  let ?inp = "\<lparr>tciUserID = uid, tciTitle = title, tciDescription = description, tciIsCompleted = False, tciDueDate = due\<rparr>"
  from wpD [OF todo_repo.Create_wp [OF assms(1)] assms(4)] False assms(2) obtain rr where r: "r = todo_mapped rr"
    and w: "writes True (\<lambda>row. todo_created ?inp (Some row)) (todo_refused ?inp) (todo_view_of d) rr (todo_view_of d')"
    by (auto simp: Let_def simp del: todo_view_simps)
  show ?thesis
  proof (cases rr)
    case (Inl e)
    with r w assms(3) False show ?thesis by (auto simp: todo_refused_def simp del: todo_view_simps)
  next
    case (Inr t)
    with w have "todo_created ?inp (Some t) (todo_view_of d) (todo_view_of d')" by simp
    then have "TodoRow_UserID t = uid \<and> TodoRow_Title t = title \<and>
        TodoRow_Description t = description \<and> \<not> TodoRow_IsCompleted t \<and> TodoRow_DueDate t = due \<and>
        TodoRow_ID t \<notin> TodoRow_ID ` tv_todos (todo_view_of d) \<and>
        tv_todos (todo_view_of d') = insert t (tv_todos (todo_view_of d))"
      by (auto simp: todo_created_def simp del: todo_view_simps)
    with r Inr False show ?thesis by auto
  qed
qed

theorem Create_correct_witness:
  "\<exists>t. fst (run_state (Todo_Create (TodoRepository demo_pg) 5 ''Read'' None (Some 9)) demo_db) = Inr (Some t) \<and>
     Todo_UserID t = 5 \<and> Todo_Title t = ''Read'' \<and> Todo_DueDate t = Some 9"
proof -
  obtain r d' where run: "run_state (Todo_Create (TodoRepository demo_pg) 5 ''Read'' None (Some 9)) demo_db = (r, d')"
    by force
  have user: "5 \<in> tv_users (todo_view_of demo_db)" by (simp add: demo_db_def)
  have "\<not> isl (fst (run_state (Todo_Create (TodoRepository demo_pg) 5 ''Read'' None (Some 9)) demo_db))" by code_simp
  then have "\<not> isl r" using run by simp
  moreover have "(\<exists>t. r = Inr (Some (rowToDomain t)) \<and> TodoRow_UserID t = 5 \<and> TodoRow_Title t = ''Read'' \<and>
      TodoRow_DueDate t = Some 9) \<or> r = Inl (DatabaseError (UniqueViolation ''todos_pkey''))"
    using Create_correct [OF demo_db_inv demo_pg_up user run] unfolding if_not_P [OF list.distinct(2)] by blast
  ultimately show ?thesis using run by auto
qed

text \<open>C32. A deletion removes the user's own todo of that identifier and nothing else; another user's todo
  answers \<open>ErrTodoNotOwned\<close>, a missing one \<open>ErrTodoNotFound\<close>, with nothing changed. Reading one todo
  answers in the same cases.\<close>

theorem Delete_and_Get_correct:
  assumes "db_inv d" and "server_up E"
    and "run_state (Todo_Delete (TodoRepository E) key uid) d = (r, d')"
    and "run_state (Todo_GetByID (TodoRepository E) key uid) d = (g, d'')"
  shows "(\<exists>t. todo_at (todo_view_of d) key t \<and> TodoRow_UserID t = uid \<and> r = Inr () \<and>
       g = Inr (Some (rowToDomain t)) \<and>
       tv_todos (todo_view_of d') = tv_todos (todo_view_of d) - {t}) \<or>
     (\<exists>t. todo_at (todo_view_of d) key t \<and> TodoRow_UserID t \<noteq> uid \<and> r = Inl ErrTodoNotOwned \<and>
       g = Inl ErrTodoNotOwned \<and> todo_view_of d' = todo_view_of d) \<or>
     ((\<forall>t. \<not> todo_at (todo_view_of d) key t) \<and> r = Inl ErrTodoNotFound \<and> g = Inl ErrTodoNotFound \<and>
       todo_view_of d' = todo_view_of d)"
proof -
  have one: "t = t'" if "todo_at (todo_view_of d) key t" "todo_at (todo_view_of d) key t'" for t t'
    using that inj_onD [OF todo_repo.todos_id [OF assms(1)]] unfolding todo_at_def by blast
  then have gone: "tv_todos (without_todo key (todo_view_of d)) = tv_todos (todo_view_of d) - {t}"
    if "todo_at (todo_view_of d) key t" for t
    using that unfolding todo_at_def without_todo_def by auto
  have del: "own_todo_answer True (todo_view_of d) key uid (\<lambda>t. writes True
      (\<lambda>_ v v'. v' = without_todo key v) (\<lambda>v e. False) (todo_view_of d) r (todo_view_of d')) r (todo_view_of d')"
    using wpD [OF todo_repo.Delete_wp [OF assms(1)] assms(3)] assms(2) by (simp del: todo_view_simps)
  have get: "own_todo_answer True (todo_view_of d) key uid
      (\<lambda>t. g = Inr (Some (rowToDomain t)) \<and> todo_view_of d'' = todo_view_of d) g (todo_view_of d'')"
    using wpD [OF todo_repo.GetByID_wp [OF assms(1)] assms(4)] assms(2) by (simp del: todo_view_simps)
  consider (own) t where "todo_at (todo_view_of d) key t" "TodoRow_UserID t = uid"
    | (other) t where "todo_at (todo_view_of d) key t" "TodoRow_UserID t \<noteq> uid"
    | (none) "\<forall>t. \<not> todo_at (todo_view_of d) key t" by blast
  then show ?thesis
  proof cases
    case own
    with del one have "writes True (\<lambda>_ v v'. v' = without_todo key v) (\<lambda>v e. False) (todo_view_of d) r (todo_view_of d')"
      unfolding own_todo_answer_def by blast
    then have "r = Inr () \<and> todo_view_of d' = without_todo key (todo_view_of d)" by (cases r) auto
    moreover have "g = Inr (Some (rowToDomain t))"
      using get one own unfolding own_todo_answer_def by blast
    ultimately show ?thesis using own gone by auto
  next
    case other
    then have "r = Inl ErrTodoNotOwned \<and> todo_view_of d' = todo_view_of d"
      using del one unfolding own_todo_answer_def by blast
    moreover have "g = Inl ErrTodoNotOwned"
      using get one other unfolding own_todo_answer_def by blast
    ultimately show ?thesis using other by blast
  next
    case none
    then show ?thesis using del get unfolding own_todo_answer_def by blast
  qed
qed

theorem Delete_and_Get_correct_witness:
  "fst (run_state (Todo_Delete (TodoRepository demo_pg) 20 5) demo_db) = Inr () \<and>
   fst (run_state (Todo_Delete (TodoRepository demo_pg) 20 6) demo_db) = Inl ErrTodoNotOwned"
proof -
  have row: "todo_at (todo_view_of demo_db) 20 (todo_row (hd (tbl_todos demo_db)))"
    and one: "\<And>t. todo_at (todo_view_of demo_db) 20 t \<Longrightarrow> TodoRow_UserID t = 5"
    by (auto simp: todo_at_def demo_db_def)
  obtain r d' g d'' r' e' g' e'' where
    "run_state (Todo_Delete (TodoRepository demo_pg) 20 5) demo_db = (r, d')" "run_state (Todo_GetByID (TodoRepository demo_pg) 20 5) demo_db = (g, d'')"
    "run_state (Todo_Delete (TodoRepository demo_pg) 20 6) demo_db = (r', e')" "run_state (Todo_GetByID (TodoRepository demo_pg) 20 6) demo_db = (g', e'')"
    by force
  note runs = this
  have "r = Inr ()" using Delete_and_Get_correct [OF demo_db_inv demo_pg_up runs(1,2)] row one by blast
  moreover have "TodoRow_UserID t \<noteq> 6" if "todo_at (todo_view_of demo_db) 20 t" for t
    using one [OF that] by simp
  then have "r' = Inl ErrTodoNotOwned"
    using Delete_and_Get_correct [OF demo_db_inv demo_pg_up runs(3,4)] row by blast
  ultimately show ?thesis using runs by simp
qed

end
