(* ===== verification/Logging.thy ===== *)
theory Logging
  imports Prelude
begin

text \<open>
  The logger, \<open>internal/logging\<close>: levels with their order, the configuration \<open>New\<close> hands to zap, the
  fields of the trace. An entry is a call of a method of the logger; which entries zap writes, by its
  level and sampling, is zap's.

  Parameters: zap's two presets and what its \<open>Build\<close> answers; the span found in a context.
\<close>

section \<open>Levels\<close>

datatype zap_level =
    DebugLevel | InfoLevel | WarnLevel | ErrorLevel | DPanicLevel | PanicLevel | FatalLevel

fun level_number :: "zap_level \<Rightarrow> int" where
  "level_number DebugLevel = - 1"
| "level_number InfoLevel = 0"
| "level_number WarnLevel = 1"
| "level_number ErrorLevel = 2"
| "level_number DPanicLevel = 3"
| "level_number PanicLevel = 4"
| "level_number FatalLevel = 5"

lemma level_number_inject: "level_number a = level_number b \<longleftrightarrow> a = b"
  by (cases a; cases b) simp_all

instantiation zap_level :: linorder
begin

definition less_eq_zap_level :: "zap_level \<Rightarrow> zap_level \<Rightarrow> bool" where
  "less_eq_zap_level a b \<longleftrightarrow> level_number a \<le> level_number b"

definition less_zap_level :: "zap_level \<Rightarrow> zap_level \<Rightarrow> bool" where
  "less_zap_level a b \<longleftrightarrow> level_number a < level_number b"

instance
  by standard (auto simp: less_eq_zap_level_def less_zap_level_def level_number_inject)

end

definition parseLevel :: "string \<Rightarrow> string + zap_level" where
  "parseLevel level =
     (if level = ''debug'' then Inr DebugLevel
      else if level = ''info'' then Inr InfoLevel
      else if level = ''warn'' \<or> level = ''warning'' then Inr WarnLevel
      else if level = ''error'' then Inr ErrorLevel
      else if level = ''fatal'' then Inr FatalLevel
      else Inl (''unknown log level: '' @ level))"

section \<open>Building a logger\<close>

text \<open>\<open>zap.Config\<close>, as far as the code changes it; encoders are named by their functions.\<close>

record zap_config =
  zc_Level :: zap_level
  zc_EncodeLevel :: string
  zc_TimeKey :: string
  zc_EncodeTime :: string

record 'g zap_libs =
  zap_NewProductionConfig :: zap_config
  zap_NewDevelopmentConfig :: zap_config
  zap_Build :: "zap_config \<Rightarrow> zap_level \<Rightarrow> string + 'g"

definition logging_New :: "'g zap_libs \<Rightarrow> string \<Rightarrow> string \<Rightarrow> string + 'g" where
  "logging_New Z level format =
     (case parseLevel level of
        Inl err \<Rightarrow> Inl err
      | Inr zapLevel \<Rightarrow>
          let config = (if format = ''json'' then zap_NewProductionConfig Z
                else (zap_NewDevelopmentConfig Z)\<lparr>zc_EncodeLevel := ''CapitalColorLevelEncoder''\<rparr>);
              config = config\<lparr>zc_Level := zapLevel\<rparr>;
              config = config\<lparr>zc_TimeKey := ''timestamp'', zc_EncodeTime := ''ISO8601TimeEncoder''\<rparr>
          in (case zap_Build Z config ErrorLevel of
                Inl err \<Rightarrow> Inl (''failed to build logger: '' @ err)
              | Inr logger \<Rightarrow> Inr logger))"

section \<open>Entries\<close>

text \<open>A \<open>float64\<close>: not a number, an infinity (negative or not), or \<open>m * 2 ^ e\<close>.\<close>

datatype float64 = NaN | Infinite bool | Finite int int

datatype field =
    StringField string string
  | IntField string int
  | FloatField string float64
  | ErrorField go_error

record zap_entry =
  en_Level :: zap_level
  en_Message :: string
  en_Fields :: "field list"

abbreviation Debug :: "string \<Rightarrow> field list \<Rightarrow> zap_entry" where
  "Debug msg fs \<equiv> \<lparr>en_Level = DebugLevel, en_Message = msg, en_Fields = fs\<rparr>"

abbreviation Info :: "string \<Rightarrow> field list \<Rightarrow> zap_entry" where
  "Info msg fs \<equiv> \<lparr>en_Level = InfoLevel, en_Message = msg, en_Fields = fs\<rparr>"

abbreviation Warn :: "string \<Rightarrow> field list \<Rightarrow> zap_entry" where
  "Warn msg fs \<equiv> \<lparr>en_Level = WarnLevel, en_Message = msg, en_Fields = fs\<rparr>"

abbreviation Error :: "string \<Rightarrow> field list \<Rightarrow> zap_entry" where
  "Error msg fs \<equiv> \<lparr>en_Level = ErrorLevel, en_Message = msg, en_Fields = fs\<rparr>"

text \<open>A span: whether it records, its trace and its own identifier. The fields are those added by \<open>With\<close>.\<close>

record span =
  span_IsRecording :: bool
  span_TraceID :: string
  span_SpanID :: string

definition WithTraceContext :: "span \<Rightarrow> field list \<Rightarrow> field list" where
  "WithTraceContext span logger =
     (if \<not> span_IsRecording span then logger
      else logger @ [StringField ''trace_id'' (span_TraceID span), StringField ''span_id'' (span_SpanID span)])"

section \<open>Facts\<close>

lemma parseLevel_known:
  "isl (parseLevel l) \<longleftrightarrow> l \<notin> {''debug'', ''info'', ''warn'', ''warning'', ''error'', ''fatal''}"
  by (simp add: parseLevel_def)

text \<open>The configured level reaches zap whatever the format.\<close>

lemma logging_New_level:
  assumes "logging_New Z level format = Inr g"
  obtains c where "zap_Build Z c ErrorLevel = Inr g" and "parseLevel level = Inr (zc_Level c)"
    and "zc_TimeKey c = ''timestamp''" and "zc_EncodeTime c = ''ISO8601TimeEncoder''"
  using assms by (auto simp: logging_New_def Let_def split: sum.splits if_splits)

end
