(* ===== verification/Http.thy ===== *)
theory Http
  imports Domain Logging
begin

text \<open>
  The HTTP helpers of \<open>internal/http\<close> and the parts of \<open>net/http\<close> and \<open>encoding/json\<close> the program uses:
  requests, the response writer, JSON values.

  A request body is the JSON value a decoder finds in it and the number of bytes the decoder has to
  read to find it (or to find that there is none). Instants are encoded in UTC.
\<close>

section \<open>JSON\<close>

text \<open>\<open>JTime\<close> is the RFC 3339 text of an instant, as \<open>time.Time\<close> marshals; it occurs in responses only.\<close>

datatype json =
    JNull
  | JBool bool
  | JNum string
  | JStr string
  | JTime go_time
  | JList "json list"
  | JObj "(string \<times> json) list"

text \<open>\<open>time.Time.MarshalJSON\<close> fails outside the years 0 to 9999.\<close>

definition time_encodable :: "go_time \<Rightarrow> bool" where
  "time_encodable t \<longleftrightarrow> - 62167219200 * Second \<le> t \<and> t < 253402300800 * Second"

primrec encodable :: "json \<Rightarrow> bool" where
  "encodable JNull = True"
| "encodable (JBool b) = True"
| "encodable (JNum n) = True"
| "encodable (JStr s) = True"
| "encodable (JTime t) = time_encodable t"
| "encodable (JList xs) = list_all (\<lambda>b. b) (map encodable xs)"
| "encodable (JObj kvs) = list_all (\<lambda>p. snd p) (map (map_prod (\<lambda>k. k) encodable) kvs)"

lemma encodable_list [simp]: "encodable (JList xs) \<longleftrightarrow> (\<forall>x \<in> set xs. encodable x)"
  by (auto simp: list_all_iff)

lemma encodable_obj [simp]: "encodable (JObj kvs) \<longleftrightarrow> (\<forall>p \<in> set kvs. encodable (snd p))"
  by (auto simp: list_all_iff)

declare encodable.simps(6,7) [simp del]

section \<open>Strings\<close>

definition upper_char :: "char \<Rightarrow> char" where
  "upper_char c = (let n = of_char c :: nat in if 97 \<le> n \<and> n \<le> 122 then char_of (n - 32) else c)"

definition lower_char :: "char \<Rightarrow> char" where
  "lower_char c = (let n = of_char c :: nat in if 65 \<le> n \<and> n \<le> 90 then char_of (n + 32) else c)"

text \<open>\<open>textproto.CanonicalMIMEHeaderKey\<close> on header names: a letter is upper case at the start and after a hyphen.\<close>

fun canonical_from :: "bool \<Rightarrow> string \<Rightarrow> string" where
  "canonical_from up [] = []"
| "canonical_from up (c # s) =
     (if up then upper_char c else lower_char c) # canonical_from (c = CHR ''-'') s"

definition canonical_key :: "string \<Rightarrow> string" where
  "canonical_key k = canonical_from True k"

text \<open>
  \<open>strings.Split(s, sep)\<close> for a separator of one byte: the pieces between separators, at least one.
\<close>

fun split_on :: "char \<Rightarrow> string \<Rightarrow> string list" where
  "split_on sep [] = [[]]"
| "split_on sep (c # s) =
     (case split_on sep s of
        [] \<Rightarrow> [[c]]
      | p # ps \<Rightarrow> if c = sep then [] # p # ps else (c # p) # ps)"

lemma split_on_nonempty [simp]: "split_on sep s \<noteq> []"
  by (induction s) (auto split: list.splits)

text \<open>\<open>strings.Join\<close>.\<close>

fun join_with :: "string \<Rightarrow> string list \<Rightarrow> string" where
  "join_with sep [] = []"
| "join_with sep [s] = s"
| "join_with sep (s # ss) = s @ sep @ join_with sep ss"

lemma split_on_append:
  "sep \<notin> set s \<Longrightarrow> split_on sep (s @ sep # t) = s # split_on sep t"
  by (induction s) (auto split: list.splits)

lemma split_on_none: "sep \<notin> set s \<Longrightarrow> split_on sep s = [s]"
  by (induction s) auto

lemma split_on_join: "join_with [sep] (split_on sep s) = s"
proof (induction s)
  case (Cons c s)
  obtain p ps where "split_on sep s = p # ps" by (cases "split_on sep s") simp_all
  with Cons show ?case by (cases ps) auto
qed simp

lemma split_on_pieces: "p \<in> set (split_on sep s) \<Longrightarrow> sep \<notin> set p"
  by (induction s arbitrary: p) (auto split: list.splits if_splits)

text \<open>\<open>strconv.Itoa\<close>.\<close>

function digits :: "int \<Rightarrow> string" where
  "digits i = (if i < 10 then [char_of (48 + i)] else digits (i div 10) @ [char_of (48 + i mod 10)])"
  by auto
termination by (relation "measure nat") auto

declare digits.simps [simp del]

definition Itoa :: "int \<Rightarrow> string" where
  "Itoa i = (if i < 0 then CHR ''-'' # digits (- i) else digits i)"

section \<open>Requests\<close>

record body =
  body_Need :: nat
  body_Value :: "json option"

text \<open>
  The request with the values handlers read from its context: the URL parameters of the router, and
  what the middleware stores under \<open>CurrentUserKey\<close>, \<open>RequestIDKey\<close> and \<open>ClientIPKey\<close>.
  Header keys are canonical, as \<open>net/http\<close> stores them.
\<close>

record request =
  req_Method :: string
  req_Path :: string
  req_Header :: "(string \<times> string) list"
  req_RemoteAddr :: string
  req_Body :: body
  req_Params :: "(string \<times> string) list"
  ctx_User :: "User option"
  ctx_RequestID :: "string option"
  ctx_ClientIP :: "string option"

text \<open>\<open>Header.Get\<close>: the first value, empty when there is none.\<close>

definition header_Get :: "request \<Rightarrow> string \<Rightarrow> string" where
  "header_Get r k =
     (case map_of (req_Header r) (canonical_key k) of None \<Rightarrow> '''' | Some v \<Rightarrow> v)"

section \<open>Responses\<close>

text \<open>
  The writer of \<open>net/http\<close> inside the router's \<open>responseWriter\<close>, which notes the code of every call of
  \<open>WriteHeader\<close> made through it (\<open>res_Wrapped\<close>, 200 at first), sent or not.
\<close>

datatype chunk = ChunkJSON json | ChunkText string

record response =
  res_Header :: "(string \<times> string) list"
  res_Status :: "nat option"
  res_Body :: "chunk list"
  res_Wrapped :: nat

definition no_response :: response where
  "no_response = \<lparr>res_Header = [], res_Status = None, res_Body = [], res_Wrapped = 200\<rparr>"

text \<open>Headers are sent with the status; a later change of a header, or a second status, has no effect.\<close>

definition header_Set :: "string \<Rightarrow> string \<Rightarrow> response \<Rightarrow> response" where
  "header_Set k v w =
     (if res_Status w \<noteq> None then w
      else w\<lparr>res_Header := filter (\<lambda>p. fst p \<noteq> canonical_key k) (res_Header w) @ [(canonical_key k, v)]\<rparr>)"

definition header_Add :: "string \<Rightarrow> string \<Rightarrow> response \<Rightarrow> response" where
  "header_Add k v w =
     (if res_Status w \<noteq> None then w
      else w\<lparr>res_Header := res_Header w @ [(canonical_key k, v)]\<rparr>)"

definition WriteHeader :: "nat \<Rightarrow> response \<Rightarrow> response" where
  "WriteHeader code w =
     (let w = w\<lparr>res_Wrapped := code\<rparr>
      in if res_Status w \<noteq> None then w else w\<lparr>res_Status := Some code\<rparr>)"

text \<open>The first write sends 200 by itself, past the wrapper.\<close>

definition write_chunk :: "chunk \<Rightarrow> response \<Rightarrow> response" where
  "write_chunk c w =
     (let w = (if res_Status w \<noteq> None then w else w\<lparr>res_Status := Some 200\<rparr>)
      in w\<lparr>res_Body := res_Body w @ [c]\<rparr>)"

definition http_Error :: "string \<Rightarrow> nat \<Rightarrow> response \<Rightarrow> response" where
  "http_Error msg code w =
     write_chunk (ChunkText (msg @ [CHR 0x0A])) (WriteHeader code
       (header_Set ''X-Content-Type-Options'' ''nosniff''
         (header_Set ''Content-Type'' ''text/plain; charset=utf-8'' w)))"

text \<open>\<open>json.Encoder\<close> writes a value as a whole or not at all.\<close>

definition RespondJSON :: "nat \<Rightarrow> json \<Rightarrow> response \<Rightarrow> response" where
  "RespondJSON status v w =
     (let w' = WriteHeader status (header_Set ''Content-Type'' ''application/json'' w)
      in if encodable v then write_chunk (ChunkJSON v) w'
         else http_Error ''failed to encode response'' 500 w')"

definition RespondError :: "nat \<Rightarrow> string \<Rightarrow> response \<Rightarrow> response" where
  "RespondError status message w = RespondJSON status (JObj [(''detail'', JStr message)]) w"

section \<open>Decoding\<close>

definition DecodeJSON :: "nat \<Rightarrow> (json \<Rightarrow> 'a option) \<Rightarrow> request \<Rightarrow> go_error + 'a" where
  "DecodeJSON maxBytes unmarshal r =
     (if maxBytes < body_Need (req_Body r) then Inl ErrBodyTooLarge
      else case body_Value (req_Body r) of
             None \<Rightarrow> Inl (ErrText ''malformed JSON'')
           | Some v \<Rightarrow>
               (case unmarshal v of
                  None \<Rightarrow> Inl (ErrText ''JSON does not fit the type'')
                | Some x \<Rightarrow> Inr x))"

definition ParseDueDate :: "(string \<Rightarrow> go_error + go_time) \<Rightarrow> string option \<Rightarrow> go_error + go_time option" where
  "ParseDueDate time_Parse s =
     (case s of
        None \<Rightarrow> Inr None
      | Some x \<Rightarrow>
          if x = '''' then Inr None
          else (case time_Parse x of Inl err \<Rightarrow> Inl err | Inr t \<Rightarrow> Inr (Some t)))"

text \<open>\<open>chi.URLParam\<close> is empty for a missing parameter.\<close>

definition URLParam :: "request \<Rightarrow> string \<Rightarrow> string" where
  "URLParam r name = (case map_of (req_Params r) name of None \<Rightarrow> '''' | Some v \<Rightarrow> v)"

definition ParseUUIDParam :: "(string \<Rightarrow> go_error + uuid) \<Rightarrow> request \<Rightarrow> string \<Rightarrow> uuid \<times> bool" where
  "ParseUUIDParam parse r name =
     (let raw = URLParam r name
      in if raw = '''' then (uuid_Nil, False)
         else (case parse raw of Inl err \<Rightarrow> (uuid_Nil, False) | Inr i \<Rightarrow> (i, True)))"

section \<open>Handlers\<close>

text \<open>
  A handler runs on the state of the program, the response being written and the entries logged while the
  request is served; middleware maps a handler to a handler.
\<close>

record 'w exchange =
  ex_World :: 'w
  ex_Response :: response
  ex_Log :: "zap_entry list"

type_synonym 'w handler = "request \<Rightarrow> ('w exchange, unit) state"
type_synonym 'w middleware = "'w handler \<Rightarrow> 'w handler"

definition respond :: "(response \<Rightarrow> response) \<Rightarrow> ('w exchange, unit) state" where
  "respond f = State (\<lambda>x. ((), ex_Response_update f x))"

definition call_service :: "('w, 'a) state \<Rightarrow> ('w exchange, 'a) state" where
  "call_service m = zoom ex_World (\<lambda>w x. x\<lparr>ex_World := w\<rparr>) m"

definition log_entry :: "zap_entry \<Rightarrow> ('w exchange, unit) state" where
  "log_entry e = State (\<lambda>x. ((), x\<lparr>ex_Log := ex_Log x @ [e]\<rparr>))"

lemma run_log_entry [simp]: "run_state (log_entry e) x = ((), x\<lparr>ex_Log := ex_Log x @ [e]\<rparr>)"
  by (simp add: log_entry_def)

lemma wp_log_entry [wp_simps]: "wp (log_entry e) Q x \<longleftrightarrow> Q () (x\<lparr>ex_Log := ex_Log x @ [e]\<rparr>)"
  by (simp add: wp_def)

definition noted_status :: "('w exchange, nat) state" where
  "noted_status = State (\<lambda>x. (res_Wrapped (ex_Response x), x))"

lemma run_noted_status [simp]: "run_state noted_status x = (res_Wrapped (ex_Response x), x)"
  by (simp add: noted_status_def)

lemma wp_noted_status [wp_simps]: "wp noted_status Q x \<longleftrightarrow> Q (res_Wrapped (ex_Response x)) x"
  by (simp add: wp_def)

lemma update_response: "ex_Response_update f x = x\<lparr>ex_Response := f (ex_Response x)\<rparr>"
  by (cases x) simp

lemma wp_respond [wp_simps]: "wp (respond f) Q x \<longleftrightarrow> Q () (x\<lparr>ex_Response := f (ex_Response x)\<rparr>)"
  unfolding respond_def wp_def by (subst update_response) simp

lemma wp_call_service [wp_simps]:
  "wp (call_service m) Q x \<longleftrightarrow> wp m (\<lambda>r w. Q r (x\<lparr>ex_World := w\<rparr>)) (ex_World x)"
  by (simp add: call_service_def wp_zoom)

lemma run_unit: obtains x' where "run_state (m :: ('x, unit) state) x = ((), x')"
  using that [of "snd (run_state m x)"] by (cases "run_state m x") auto

lemma run_respond [simp]: "run_state (respond f) x = ((), x\<lparr>ex_Response := f (ex_Response x)\<rparr>)"
  unfolding respond_def by (subst update_response) simp

text \<open>For evaluation: the writer's operations act on a response whose fields are known.\<close>

lemma response_code [code]:
  "header_Set k v \<lparr>res_Header = h, res_Status = s, res_Body = b, res_Wrapped = c\<rparr> =
     \<lparr>res_Header = (if s \<noteq> None then h else filter (\<lambda>p. fst p \<noteq> canonical_key k) h @ [(canonical_key k, v)]),
      res_Status = s, res_Body = b, res_Wrapped = c\<rparr>"
  "header_Add k v \<lparr>res_Header = h, res_Status = s, res_Body = b, res_Wrapped = c\<rparr> =
     \<lparr>res_Header = (if s \<noteq> None then h else h @ [(canonical_key k, v)]), res_Status = s, res_Body = b,
      res_Wrapped = c\<rparr>"
  "WriteHeader code \<lparr>res_Header = h, res_Status = s, res_Body = b, res_Wrapped = c\<rparr> =
     \<lparr>res_Header = h, res_Status = (case s of None \<Rightarrow> Some code | Some c \<Rightarrow> Some c), res_Body = b,
      res_Wrapped = code\<rparr>"
  "write_chunk ch \<lparr>res_Header = h, res_Status = s, res_Body = b, res_Wrapped = c\<rparr> =
     \<lparr>res_Header = h, res_Status = (case s of None \<Rightarrow> Some 200 | Some c \<Rightarrow> Some c), res_Body = b @ [ch],
      res_Wrapped = c\<rparr>"
  by (simp_all add: header_Set_def header_Add_def WriteHeader_def write_chunk_def Let_def split: option.splits)

text \<open>The logger may be nil (\<open>None\<close>); no handler of the program calls this helper.\<close>

definition RespondInternalError :: "unit option \<Rightarrow> go_error \<Rightarrow> string \<Rightarrow> ('w exchange, unit) state" where
  "RespondInternalError logger err msg = do {
     (case logger of None \<Rightarrow> State_Monad.return () | Some _ \<Rightarrow> log_entry (Error msg [ErrorField err]));
     respond (RespondError 500 ''internal server error'')
   }"

section \<open>Facts about responses\<close>

lemma res_status_simps [simp]:
  "res_Status (header_Set k v w) = res_Status w" "res_Status (header_Add k v w) = res_Status w"
  "res_Body (header_Set k v w) = res_Body w" "res_Body (header_Add k v w) = res_Body w"
  "res_Body (WriteHeader c w) = res_Body w" "res_Header (WriteHeader c w) = res_Header w"
  "res_Header (write_chunk ch w) = res_Header w"
  "res_Body (write_chunk ch w) = res_Body w @ [ch]"
  "res_Wrapped (header_Set k v w) = res_Wrapped w" "res_Wrapped (header_Add k v w) = res_Wrapped w"
  "res_Wrapped (write_chunk ch w) = res_Wrapped w" "res_Wrapped (WriteHeader c w) = c"
  by (simp_all add: header_Set_def header_Add_def WriteHeader_def write_chunk_def Let_def)

lemma res_status_write [simp]:
  "res_Status (WriteHeader c w) = (case res_Status w of None \<Rightarrow> Some c | Some s \<Rightarrow> Some s)"
  "res_Status (write_chunk ch w) = (case res_Status w of None \<Rightarrow> Some 200 | Some s \<Rightarrow> Some s)"
  by (auto simp: WriteHeader_def write_chunk_def Let_def split: option.splits)

text \<open>What the helpers leave in a response that has no status yet.\<close>

lemma RespondJSON_status [simp]:
  "res_Status w = None \<Longrightarrow> res_Status (RespondJSON status v w) = Some status"
  by (simp add: RespondJSON_def http_Error_def Let_def)

lemma RespondJSON_body [simp]:
  "res_Body (RespondJSON status v w) = res_Body w @
     [if encodable v then ChunkJSON v else ChunkText (''failed to encode response'' @ [CHR 0x0A])]"
  by (simp add: RespondJSON_def http_Error_def Let_def)

lemma header_Set_same [simp]:
  "map_of (res_Header (header_Set k v w)) (canonical_key k) =
     (if res_Status w = None then Some v else map_of (res_Header w) (canonical_key k))"
  by (auto simp: header_Set_def map_add_def map_of_eq_None_iff split: option.splits)
    (auto simp: map_of_eq_None_iff dest!: map_of_SomeD)

lemma header_Set_other:
  "k' \<noteq> canonical_key k \<Longrightarrow> map_of (res_Header (header_Set k v w)) k' = map_of (res_Header w) k'"
proof -
  assume other: "k' \<noteq> canonical_key k"
  have "map_of (filter (\<lambda>p. fst p \<noteq> canonical_key k) h) k' = map_of h k'" for h :: "(string \<times> string) list"
    using other by (induction h) auto
  with other show ?thesis by (auto simp: header_Set_def map_add_def split: option.splits)
qed

lemma RespondJSON_header [simp]:
  "res_Status w = None \<Longrightarrow> res_Header (RespondJSON status v w) =
     res_Header (header_Set ''Content-Type'' ''application/json'' w)"
  by (simp add: RespondJSON_def http_Error_def Let_def header_Set_def)

lemma RespondError_simps [simp]:
  "res_Status w = None \<Longrightarrow> res_Status (RespondError status msg w) = Some status"
  "res_Body (RespondError status msg w) = res_Body w @ [ChunkJSON (JObj [(''detail'', JStr msg)])]"
  "res_Status w = None \<Longrightarrow> res_Header (RespondError status msg w) =
     res_Header (header_Set ''Content-Type'' ''application/json'' w)"
  by (simp_all add: RespondError_def)

end
