(* ===== verification/Validator.thy ===== *)
theory Validator
  imports Http
begin

text \<open>
  The request validation of \<open>internal/validator/validator.go\<close>, on Go strings: lists of bytes, ranged
  over as runes. A validator answers the message of its error, \<open>None\<close> for a nil error.

  Parameters: \<open>mail.ParseAddress\<close>, and the tables of package \<open>unicode\<close> beyond Latin-1.
\<close>

section \<open>Runes\<close>

text \<open>
  \<open>utf8.DecodeRuneInString\<close>: the rune and its width; a byte that starts no valid sequence is
  \<open>RuneError\<close> of width 1.
\<close>

definition byte :: "char \<Rightarrow> nat" where
  "byte c = of_char c"

abbreviation RuneError :: nat where
  "RuneError \<equiv> 0xFFFD"

definition is_cont :: "nat \<Rightarrow> bool" where
  "is_cont b \<longleftrightarrow> 0x80 \<le> b \<and> b \<le> 0xBF"

definition decode_rune :: "string \<Rightarrow> nat \<times> nat" where
  "decode_rune s =
     (let bs = map byte (take 4 s); b0 = (case bs of [] \<Rightarrow> 0 | b # _ \<Rightarrow> b);
          rest = tl bs; n = length rest
      in if b0 < 0x80 then (b0, 1)
         else if 0xC2 \<le> b0 \<and> b0 \<le> 0xDF then
           (if 1 \<le> n \<and> is_cont (rest ! 0)
            then ((b0 - 0xC0) * 64 + (rest ! 0 - 0x80), 2) else (RuneError, 1))
         else if 0xE0 \<le> b0 \<and> b0 \<le> 0xEF then
           (if 2 \<le> n \<and> is_cont (rest ! 0) \<and> is_cont (rest ! 1) \<and>
               (b0 = 0xE0 \<longrightarrow> 0xA0 \<le> rest ! 0) \<and> (b0 = 0xED \<longrightarrow> rest ! 0 \<le> 0x9F)
            then ((b0 - 0xE0) * 4096 + (rest ! 0 - 0x80) * 64 + (rest ! 1 - 0x80), 3)
            else (RuneError, 1))
         else if 0xF0 \<le> b0 \<and> b0 \<le> 0xF4 then
           (if 3 \<le> n \<and> is_cont (rest ! 0) \<and> is_cont (rest ! 1) \<and> is_cont (rest ! 2) \<and>
               (b0 = 0xF0 \<longrightarrow> 0x90 \<le> rest ! 0) \<and> (b0 = 0xF4 \<longrightarrow> rest ! 0 \<le> 0x8F)
            then ((b0 - 0xF0) * 262144 + (rest ! 0 - 0x80) * 4096 + (rest ! 1 - 0x80) * 64 +
                  (rest ! 2 - 0x80), 4)
            else (RuneError, 1))
         else (RuneError, 1))"

lemma decode_rune_width:
  assumes "decode_rune (c # s) = (r, n)"
  shows "1 \<le> n \<and> n \<le> Suc (length s)"
  using assms by (auto simp: decode_rune_def Let_def split: if_splits)

text \<open>The runes of a string, each with its bytes: \<open>for _, r := range s\<close>.\<close>

function rune_chunks :: "string \<Rightarrow> (nat \<times> string) list" where
  "rune_chunks [] = []"
| "rune_chunks (c # s) =
     (let (r, n) = decode_rune (c # s) in (r, take n (c # s)) # rune_chunks (drop (n - 1) s))"
  by pat_completeness auto
termination by (relation "measure length") auto

definition runes :: "string \<Rightarrow> nat list" where
  "runes s = map fst (rune_chunks s)"

lemma concat_rune_chunks [simp]: "concat (map snd (rune_chunks s)) = s"
proof (induction s rule: rune_chunks.induct)
  case (2 c s)
  obtain r n where rn: "decode_rune (c # s) = (r, n)" by force
  with decode_rune_width [OF rn] 2 show ?case
    by (cases n) auto
qed simp

lemma length_rune_chunks: "length (rune_chunks s) \<le> length s"
proof (induction s rule: rune_chunks.induct)
  case (2 c s)
  obtain r n where rn: "decode_rune (c # s) = (r, n)" by force
  with 2 [OF rn [symmetric] refl] show ?case by (auto intro: le_trans)
qed simp

text \<open>ASCII bytes are their own runes.\<close>

lemma decode_rune_ascii: "byte c < 0x80 \<Longrightarrow> decode_rune (c # s) = (byte c, 1)"
  by (simp add: decode_rune_def)

lemma runes_ascii: "(\<And>c. c \<in> set s \<Longrightarrow> byte c < 0x80) \<Longrightarrow> runes s = map byte s"
  by (induction s) (simp_all add: runes_def decode_rune_ascii)

section \<open>Classes of runes\<close>

record unicode =
  uni_IsUpper :: "nat \<Rightarrow> bool"
  uni_IsLower :: "nat \<Rightarrow> bool"
  uni_IsDigit :: "nat \<Rightarrow> bool"
  uni_IsLetter :: "nat \<Rightarrow> bool"

abbreviation MaxLatin1 :: nat where
  "MaxLatin1 \<equiv> 0xFF"

definition IsUpper :: "unicode \<Rightarrow> nat \<Rightarrow> bool" where
  "IsUpper U r =
     (if r \<le> MaxLatin1 then (0x41 \<le> r \<and> r \<le> 0x5A) \<or> (0xC0 \<le> r \<and> r \<le> 0xDE \<and> r \<noteq> 0xD7)
      else uni_IsUpper U r)"

definition IsLower :: "unicode \<Rightarrow> nat \<Rightarrow> bool" where
  "IsLower U r =
     (if r \<le> MaxLatin1 then (0x61 \<le> r \<and> r \<le> 0x7A) \<or> r = 0xB5 \<or> (0xDF \<le> r \<and> r \<noteq> 0xF7)
      else uni_IsLower U r)"

definition IsDigit :: "unicode \<Rightarrow> nat \<Rightarrow> bool" where
  "IsDigit U r = (if r \<le> MaxLatin1 then 0x30 \<le> r \<and> r \<le> 0x39 else uni_IsDigit U r)"

definition IsLetter :: "unicode \<Rightarrow> nat \<Rightarrow> bool" where
  "IsLetter U r =
     (if r \<le> MaxLatin1 then (0x41 \<le> r \<and> r \<le> 0x5A) \<or> (0x61 \<le> r \<and> r \<le> 0x7A) \<or>
        r = 0xAA \<or> r = 0xB5 \<or> r = 0xBA \<or> (0xC0 \<le> r \<and> r \<noteq> 0xD7 \<and> r \<noteq> 0xF7)
      else uni_IsLetter U r)"

definition IsSpace :: "nat \<Rightarrow> bool" where
  "IsSpace r \<longleftrightarrow> (0x09 \<le> r \<and> r \<le> 0x0D) \<or> r = 0x20 \<or> r = 0x85 \<or> r = 0xA0 \<or> r = 0x1680 \<or>
     (0x2000 \<le> r \<and> r \<le> 0x200A) \<or> r = 0x2028 \<or> r = 0x2029 \<or> r = 0x202F \<or> r = 0x205F \<or> r = 0x3000"

text \<open>\<open>strings.TrimSpace\<close>, on valid UTF-8 (the JSON decoder yields no other).\<close>

definition trim_ends :: "('a \<Rightarrow> bool) \<Rightarrow> 'a list \<Rightarrow> 'a list" where
  "trim_ends P xs = rev (dropWhile P (rev (dropWhile P xs)))"

definition TrimSpace :: "string \<Rightarrow> string" where
  "TrimSpace s = concat (map snd (trim_ends (\<lambda>c. IsSpace (fst c)) (rune_chunks s)))"

section \<open>Validators\<close>

abbreviation ErrEmailRequired :: string where "ErrEmailRequired \<equiv> ''email is required''"
abbreviation ErrEmailInvalid :: string where "ErrEmailInvalid \<equiv> ''invalid email format''"
abbreviation ErrPasswordRequired :: string where "ErrPasswordRequired \<equiv> ''password is required''"
abbreviation ErrPasswordTooShort :: string where
  "ErrPasswordTooShort \<equiv> ''password must be at least 8 characters''"
abbreviation ErrPasswordTooLong :: string where
  "ErrPasswordTooLong \<equiv> ''password must be at most 72 characters''"
abbreviation ErrPasswordNoUpper :: string where
  "ErrPasswordNoUpper \<equiv> ''password must contain at least one uppercase letter''"
abbreviation ErrPasswordNoLower :: string where
  "ErrPasswordNoLower \<equiv> ''password must contain at least one lowercase letter''"
abbreviation ErrPasswordNoDigit :: string where
  "ErrPasswordNoDigit \<equiv> ''password must contain at least one digit''"
abbreviation ErrTitleRequired :: string where "ErrTitleRequired \<equiv> ''title is required''"
abbreviation ErrTitleTooLong :: string where
  "ErrTitleTooLong \<equiv> ''title must be less than 500 characters''"
abbreviation ErrFirstNameRequired :: string where "ErrFirstNameRequired \<equiv> ''first name is required''"
abbreviation ErrFirstNameInvalid :: string where
  "ErrFirstNameInvalid \<equiv> ''first name contains invalid characters''"

record validator_libs =
  vl_unicode :: unicode
  mail_ParseAddress :: "string \<Rightarrow> bool"

definition ValidateEmail :: "validator_libs \<Rightarrow> string \<Rightarrow> string option" where
  "ValidateEmail V email =
     (let email = TrimSpace email
      in if email = '''' then Some ErrEmailRequired
         else if \<not> mail_ParseAddress V email then Some ErrEmailInvalid
         else None)"

text \<open>The loop over the runes: \<open>hasUpper\<close>, \<open>hasLower\<close>, \<open>hasDigit\<close>.\<close>

fun password_classes :: "unicode \<Rightarrow> nat list \<Rightarrow> bool \<times> bool \<times> bool \<Rightarrow> bool \<times> bool \<times> bool" where
  "password_classes U [] has = has"
| "password_classes U (r # rs) (up, low, dig) =
     password_classes U rs
       (if IsUpper U r then (True, low, dig)
        else if IsLower U r then (up, True, dig)
        else if IsDigit U r then (up, low, True)
        else (up, low, dig))"

definition ValidatePassword :: "validator_libs \<Rightarrow> string \<Rightarrow> string option" where
  "ValidatePassword V password =
     (if password = '''' then Some ErrPasswordRequired
      else if length password < 8 then Some ErrPasswordTooShort
      else if 72 < length password then Some ErrPasswordTooLong
      else (case password_classes (vl_unicode V) (runes password) (False, False, False) of
        (hasUpper, hasLower, hasDigit) \<Rightarrow>
          if \<not> hasUpper then Some ErrPasswordNoUpper
          else if \<not> hasLower then Some ErrPasswordNoLower
          else if \<not> hasDigit then Some ErrPasswordNoDigit
          else None))"

definition ValidateTitle :: "string \<Rightarrow> string option" where
  "ValidateTitle title =
     (let title = TrimSpace title
      in if title = '''' then Some ErrTitleRequired
         else if 500 < length title then Some ErrTitleTooLong
         else None)"

fun first_name_runes_ok :: "unicode \<Rightarrow> nat list \<Rightarrow> bool" where
  "first_name_runes_ok U [] = True"
| "first_name_runes_ok U (r # rs) =
     (if \<not> IsLetter U r \<and> r \<noteq> 0x20 \<and> r \<noteq> 0x2D \<and> r \<noteq> 0x27 then False
      else first_name_runes_ok U rs)"

definition ValidateFirstName :: "validator_libs \<Rightarrow> string \<Rightarrow> string option" where
  "ValidateFirstName V firstName =
     (let firstName = TrimSpace firstName
      in if firstName = '''' then Some ErrFirstNameRequired
         else if \<not> first_name_runes_ok (vl_unicode V) (runes firstName) then Some ErrFirstNameInvalid
         else None)"

text \<open>\<open>if err := v1; err != nil { return err }; return v2\<close>.\<close>

definition and_then :: "string option \<Rightarrow> string option \<Rightarrow> string option" where
  "and_then v1 v2 = (case v1 of Some err \<Rightarrow> Some err | None \<Rightarrow> v2)"

record val_RegisterRequest =
  vrEmail :: string
  vrPassword :: string
  vrApprovedID :: string

definition ValidateRegister :: "validator_libs \<Rightarrow> val_RegisterRequest \<Rightarrow> string option" where
  "ValidateRegister V r =
     and_then (ValidateEmail V (vrEmail r))
       (and_then (ValidatePassword V (vrPassword r))
         (if vrApprovedID r = '''' then Some ''approved_id is required'' else None))"

record val_LoginRequest =
  vlEmail :: string
  vlPassword :: string

definition ValidateLogin :: "validator_libs \<Rightarrow> val_LoginRequest \<Rightarrow> string option" where
  "ValidateLogin V r =
     and_then (ValidateEmail V (vlEmail r))
       (if vlPassword r = '''' then Some ErrPasswordRequired else None)"

definition ValidateCreateTodoTitle :: "string \<Rightarrow> string option" where
  "ValidateCreateTodoTitle title = ValidateTitle title"

definition ValidateUpdateTodoTitle :: "string option \<Rightarrow> string option" where
  "ValidateUpdateTodoTitle title =
     (case title of None \<Rightarrow> Some ErrTitleRequired | Some t \<Rightarrow> ValidateTitle t)"

record val_ApprovedUserRequest =
  vaEmail :: string
  vaFirstName :: string

definition ValidateApprovedUser :: "validator_libs \<Rightarrow> val_ApprovedUserRequest \<Rightarrow> string option" where
  "ValidateApprovedUser V r =
     and_then (ValidateEmail V (vaEmail r)) (ValidateFirstName V (vaFirstName r))"

section \<open>What the validators accept\<close>

lemma and_then_None [simp]: "and_then v1 v2 = None \<longleftrightarrow> v1 = None \<and> v2 = None"
  by (simp add: and_then_def split: option.splits)

lemma trim_ends_set: "set (trim_ends P xs) \<subseteq> set xs"
  by (auto simp: trim_ends_def dest!: set_dropWhileD)

lemma dropWhile_all: "(\<forall>x \<in> set (dropWhile P xs). P x) \<longleftrightarrow> (\<forall>x \<in> set xs. P x)"
  by (induction xs) auto

lemma trim_ends_Nil [simp]: "trim_ends P xs = [] \<longleftrightarrow> (\<forall>x \<in> set xs. P x)"
  using dropWhile_all [of P xs] by (simp add: trim_ends_def)

lemma password_classes_iff:
  "password_classes U rs (up, low, dig) =
     (up \<or> (\<exists>r \<in> set rs. IsUpper U r),
      low \<or> (\<exists>r \<in> set rs. \<not> IsUpper U r \<and> IsLower U r),
      dig \<or> (\<exists>r \<in> set rs. \<not> IsUpper U r \<and> \<not> IsLower U r \<and> IsDigit U r))"
  by (induction rs arbitrary: up low dig) auto

lemma first_name_runes_iff:
  "first_name_runes_ok U rs \<longleftrightarrow>
     (\<forall>r \<in> set rs. IsLetter U r \<or> r = 0x20 \<or> r = 0x2D \<or> r = 0x27)"
  by (induction rs) auto

lemma ValidatePassword_None:
  "ValidatePassword V p = None \<longleftrightarrow> 8 \<le> length p \<and> length p \<le> 72 \<and>
     (\<exists>r \<in> set (runes p). IsUpper (vl_unicode V) r) \<and>
     (\<exists>r \<in> set (runes p). \<not> IsUpper (vl_unicode V) r \<and> IsLower (vl_unicode V) r) \<and>
     (\<exists>r \<in> set (runes p). \<not> IsUpper (vl_unicode V) r \<and> \<not> IsLower (vl_unicode V) r \<and> IsDigit (vl_unicode V) r)"
  by (auto simp: ValidatePassword_def password_classes_iff)

end
