(* ===== verification/Config.thy ===== *)
theory Config
  imports Validator
begin

text \<open>
  The configuration, \<open>internal/config\<close>: reading and parsing the environment, defaults, validation.

  Parameters: the environment, and the standard library's \<open>time.ParseDuration\<close>, \<open>strconv.ParseFloat\<close> (a
  \<open>float64\<close> is handed on only, \<open>'f\<close>) and \<open>net.ParseCIDR\<close> (a network is its membership test). \<open>strconv.Atoi\<close>
  and \<open>strconv.ParseBool\<close> are written out.
\<close>

section \<open>Errors\<close>

text \<open>The errors of \<open>fmt.Errorf\<close>, with what they format.\<close>

datatype config_error =
    NotAnInteger string string
  | NotABoolean string string
  | NotADuration string string
  | NotAFloat string string
  | IsRequired string
  | SecretTooShort nat
  | InvalidPort int
  | WildcardWithCredentials

section \<open>The configuration\<close>

record 'ip ServerConfig =
  srv_Host :: string
  srv_Port :: int
  srv_MetricsPort :: int
  srv_ReadTimeout :: go_duration
  srv_WriteTimeout :: go_duration
  srv_IdleTimeout :: go_duration
  srv_ShutdownTimeout :: go_duration
  srv_TrustedProxies :: "('ip \<Rightarrow> bool) list"

record DatabaseConfig =
  dbc_URL :: string
  dbc_MaxConns :: "32 word"
  dbc_MinConns :: "32 word"
  dbc_ConnMaxLifetime :: go_duration

record AuthConfig =
  ac_JWTSecretKey :: string
  ac_JWTExpireMinutes :: int
  ac_BcryptCost :: int

record LoggingConfig =
  lg_Level :: string
  lg_Format :: string

record 'f ObservabilityConfig =
  ob_ServiceName :: string
  ob_ServiceVersion :: string
  ob_Environment :: string
  ob_OTLPEndpoint :: string
  ob_SamplingRatio :: 'f
  ob_TracingEnabled :: bool
  ob_OTLPInsecure :: bool

record rate_config =
  rl_Requests :: int
  rl_Duration :: go_duration

record cors_config =
  cors_AllowedOrigins :: "string list"
  cors_AllowedMethods :: "string list"
  cors_AllowedHeaders :: "string list"
  cors_AllowCredentials :: bool
  cors_MaxAge :: int

record SwaggerConfig =
  sw_Enabled :: bool

record ('ip, 'f) Config =
  Config_Server :: "'ip ServerConfig"
  Config_Database :: DatabaseConfig
  Config_Auth :: AuthConfig
  Config_Logging :: LoggingConfig
  Config_Observability :: "'f ObservabilityConfig"
  Config_RateLimit :: rate_config
  Config_CORS :: cors_config
  Config_Swagger :: SwaggerConfig

record ('ip, 'f) config_libs =
  os_Getenv :: "string \<Rightarrow> string"
  time_ParseDuration :: "string \<Rightarrow> go_duration option"
  strconv_ParseFloat :: "string \<Rightarrow> 'f option"
  float_one :: 'f
  net_ParseCIDR :: "string \<Rightarrow> ('ip \<Rightarrow> bool) option"

section \<open>Parsing numbers and booleans\<close>

fun decimal :: "int \<Rightarrow> string \<Rightarrow> int option" where
  "decimal n [] = Some n"
| "decimal n (c # s) =
     (if 0x30 \<le> byte c \<and> byte c \<le> 0x39 then decimal (n * 10 + (of_char c - 48)) s else None)"

text \<open>\<open>int\<close> has 64 bits.\<close>

definition int_fits :: "int \<Rightarrow> bool" where
  "int_fits i \<longleftrightarrow> - 9223372036854775808 \<le> i \<and> i \<le> 9223372036854775807"

definition Atoi :: "string \<Rightarrow> int option" where
  "Atoi s =
     (let neg = (case s of c # _ \<Rightarrow> c = CHR ''-'' | [] \<Rightarrow> False);
          t = (case s of c # t \<Rightarrow> if c = CHR ''-'' \<or> c = CHR ''+'' then t else s | [] \<Rightarrow> [])
      in if t = '''' then None
         else (case decimal 0 t of
             None \<Rightarrow> None
           | Some n \<Rightarrow> let i = (if neg then - n else n) in if int_fits i then Some i else None))"

definition ParseBool :: "string \<Rightarrow> bool option" where
  "ParseBool s =
     (if s \<in> {''1'', ''t'', ''T'', ''TRUE'', ''true'', ''True''} then Some True
      else if s \<in> {''0'', ''f'', ''F'', ''FALSE'', ''false'', ''False''} then Some False
      else None)"

section \<open>Reading the environment\<close>

definition getEnv :: "('ip, 'f) config_libs \<Rightarrow> string \<Rightarrow> string \<Rightarrow> string" where
  "getEnv L key defaultValue = (let v = os_Getenv L key in if v \<noteq> '''' then v else defaultValue)"

text \<open>The value and the error, as the functions return both.\<close>

definition getEnvOrError ::
    "('ip, 'f) config_libs \<Rightarrow> (string \<Rightarrow> 'a option) \<Rightarrow> (string \<Rightarrow> string \<Rightarrow> config_error) \<Rightarrow> string \<Rightarrow> 'a \<Rightarrow>
     'a \<times> config_error option" where
  "getEnvOrError L parse err key defaultValue =
     (let valueStr = os_Getenv L key
      in if valueStr = '''' then (defaultValue, None)
         else (case parse valueStr of None \<Rightarrow> (defaultValue, Some (err key valueStr)) | Some v \<Rightarrow> (v, None)))"

definition getEnvAsIntOrError :: "('ip, 'f) config_libs \<Rightarrow> string \<Rightarrow> int \<Rightarrow> int \<times> config_error option" where
  "getEnvAsIntOrError L = getEnvOrError L Atoi NotAnInteger"

definition getEnvAsBoolOrError :: "('ip, 'f) config_libs \<Rightarrow> string \<Rightarrow> bool \<Rightarrow> bool \<times> config_error option" where
  "getEnvAsBoolOrError L = getEnvOrError L ParseBool NotABoolean"

definition getEnvAsDurationOrError ::
    "('ip, 'f) config_libs \<Rightarrow> string \<Rightarrow> go_duration \<Rightarrow> go_duration \<times> config_error option" where
  "getEnvAsDurationOrError L = getEnvOrError L (time_ParseDuration L) NotADuration"

definition getEnvAsFloatOrError :: "('ip, 'f) config_libs \<Rightarrow> string \<Rightarrow> 'f \<Rightarrow> 'f \<times> config_error option" where
  "getEnvAsFloatOrError L = getEnvOrError L (strconv_ParseFloat L) NotAFloat"

text \<open>The loop over the parts of a comma-separated value keeps the trimmed ones that are not empty.\<close>

fun trimmed_parts :: "string list \<Rightarrow> string list" where
  "trimmed_parts [] = []"
| "trimmed_parts (part # parts) =
     (let trimmed = TrimSpace part
      in if trimmed \<noteq> '''' then trimmed # trimmed_parts parts else trimmed_parts parts)"

definition getCommaSeparatedEnv :: "('ip, 'f) config_libs \<Rightarrow> string \<Rightarrow> string list \<Rightarrow> string list" where
  "getCommaSeparatedEnv L key defaultValue =
     (let valueStr = os_Getenv L key
      in if valueStr = '''' then defaultValue
         else (let result = trimmed_parts (split_on (CHR '','') valueStr)
               in if length result = 0 then defaultValue else result))"

fun parse_cidrs :: "(string \<Rightarrow> ('ip \<Rightarrow> bool) option) \<Rightarrow> string list \<Rightarrow> ('ip \<Rightarrow> bool) list" where
  "parse_cidrs ParseCIDR [] = []"
| "parse_cidrs ParseCIDR (p # ps) =
     (let p = TrimSpace p
      in if p = '''' then parse_cidrs ParseCIDR ps
         else (case ParseCIDR p of
             None \<Rightarrow> parse_cidrs ParseCIDR ps
           | Some n \<Rightarrow> n # parse_cidrs ParseCIDR ps))"

definition parseTrustedProxies :: "('ip, 'f) config_libs \<Rightarrow> string \<Rightarrow> ('ip \<Rightarrow> bool) list" where
  "parseTrustedProxies L raw =
     (let raw = TrimSpace raw
      in if raw = '''' then [] else parse_cidrs (net_ParseCIDR L) (split_on (CHR '','') raw))"

section \<open>The parser that keeps its first error\<close>

type_synonym 'a parser = "(config_error option, 'a) state"

definition parser_get :: "(string \<Rightarrow> 'a \<Rightarrow> 'a \<times> config_error option) \<Rightarrow> string \<Rightarrow> 'a \<Rightarrow> 'a parser" where
  "parser_get get key defaultValue = State (\<lambda>p_err.
     if p_err \<noteq> None then (defaultValue, p_err)
     else (case get key defaultValue of (value, err) \<Rightarrow> (value, if err \<noteq> None then err else p_err)))"

definition parser_int :: "('ip, 'f) config_libs \<Rightarrow> string \<Rightarrow> int \<Rightarrow> int parser" where
  "parser_int L = parser_get (getEnvAsIntOrError L)"

definition parser_bool :: "('ip, 'f) config_libs \<Rightarrow> string \<Rightarrow> bool \<Rightarrow> bool parser" where
  "parser_bool L = parser_get (getEnvAsBoolOrError L)"

definition parser_duration :: "('ip, 'f) config_libs \<Rightarrow> string \<Rightarrow> go_duration \<Rightarrow> go_duration parser" where
  "parser_duration L = parser_get (getEnvAsDurationOrError L)"

definition parser_float :: "('ip, 'f) config_libs \<Rightarrow> string \<Rightarrow> 'f \<Rightarrow> 'f parser" where
  "parser_float L = parser_get (getEnvAsFloatOrError L)"

section \<open>Validation\<close>

definition Config_Validate :: "('ip, 'f) Config \<Rightarrow> config_error option" where
  "Config_Validate c =
     (let secret = ac_JWTSecretKey (Config_Auth c); port = srv_Port (Config_Server c)
      in if dbc_URL (Config_Database c) = '''' then Some (IsRequired ''DATABASE_URL'')
         else if secret = '''' then Some (IsRequired ''JWT_SECRET_KEY'')
         else if length secret < 32 then Some (SecretTooShort (length secret))
         else if port < 1 \<or> 65535 < port then Some (InvalidPort port)
         else if cors_AllowCredentials (Config_CORS c) \<and>
             list_ex (\<lambda>o'. o' = ''*'') (cors_AllowedOrigins (Config_CORS c))
           then Some WildcardWithCredentials
         else None)"

section \<open>Loading\<close>

text \<open>
  The fields in the order the composite literal lists them, which is the order of the calls.
  \<open>int32(...)\<close> wraps.
\<close>

definition load_fields :: "('ip, 'f) config_libs \<Rightarrow> ('ip, 'f) Config parser" where
  "load_fields L = do {
     port \<leftarrow> parser_int L ''SERVER_PORT'' 8080;
     metricsPort \<leftarrow> parser_int L ''METRICS_PORT'' 9464;
     readTimeout \<leftarrow> parser_duration L ''SERVER_READ_TIMEOUT'' (30 * Second);
     writeTimeout \<leftarrow> parser_duration L ''SERVER_WRITE_TIMEOUT'' (30 * Second);
     idleTimeout \<leftarrow> parser_duration L ''SERVER_IDLE_TIMEOUT'' (120 * Second);
     shutdownTimeout \<leftarrow> parser_duration L ''SERVER_SHUTDOWN_TIMEOUT'' (10 * Second);
     maxConns \<leftarrow> parser_int L ''DATABASE_MAX_CONNS'' 25;
     minConns \<leftarrow> parser_int L ''DATABASE_MIN_CONNS'' 2;
     connMaxLifetime \<leftarrow> parser_duration L ''DATABASE_CONN_MAX_LIFETIME'' (300 * Second);
     jwtExpireMinutes \<leftarrow> parser_int L ''JWT_EXPIRE_MINUTES'' 1440;
     bcryptCost \<leftarrow> parser_int L ''BCRYPT_COST'' 12;
     tracingEnabled \<leftarrow> parser_bool L ''TRACING_ENABLED'' True;
     samplingRatio \<leftarrow> parser_float L ''OTEL_TRACE_SAMPLING_RATIO'' (float_one L);
     otlpInsecure \<leftarrow> parser_bool L ''OTEL_EXPORTER_OTLP_INSECURE'' True;
     requests \<leftarrow> parser_int L ''RATE_LIMIT_REQUESTS'' 10;
     rateDuration \<leftarrow> parser_duration L ''RATE_LIMIT_DURATION'' (60 * Second);
     allowCredentials \<leftarrow> parser_bool L ''CORS_ALLOW_CREDENTIALS'' True;
     maxAge \<leftarrow> parser_int L ''CORS_MAX_AGE'' 3600;
     swaggerEnabled \<leftarrow> parser_bool L ''SWAGGER_ENABLED'' False;
     State_Monad.return
       \<lparr>Config_Server =
          \<lparr>srv_Host = getEnv L ''SERVER_HOST'' ''0.0.0.0'', srv_Port = port, srv_MetricsPort = metricsPort,
           srv_ReadTimeout = readTimeout, srv_WriteTimeout = writeTimeout, srv_IdleTimeout = idleTimeout,
           srv_ShutdownTimeout = shutdownTimeout,
           srv_TrustedProxies = parseTrustedProxies L (getEnv L ''TRUSTED_PROXIES'' '''')\<rparr>,
        Config_Database =
          \<lparr>dbc_URL = getEnv L ''DATABASE_URL'' '''', dbc_MaxConns = word_of_int maxConns,
           dbc_MinConns = word_of_int minConns, dbc_ConnMaxLifetime = connMaxLifetime\<rparr>,
        Config_Auth =
          \<lparr>ac_JWTSecretKey = getEnv L ''JWT_SECRET_KEY'' '''', ac_JWTExpireMinutes = jwtExpireMinutes,
           ac_BcryptCost = bcryptCost\<rparr>,
        Config_Logging =
          \<lparr>lg_Level = getEnv L ''LOG_LEVEL'' ''info'', lg_Format = getEnv L ''LOG_FORMAT'' ''json''\<rparr>,
        Config_Observability =
          \<lparr>ob_ServiceName = getEnv L ''SERVICE_NAME'' ''go-backend-template'',
           ob_ServiceVersion = getEnv L ''SERVICE_VERSION'' ''1.0.0'',
           ob_Environment = getEnv L ''ENVIRONMENT'' ''development'',
           ob_OTLPEndpoint = getEnv L ''OTEL_EXPORTER_OTLP_ENDPOINT'' ''http://localhost:4318'',
           ob_SamplingRatio = samplingRatio, ob_TracingEnabled = tracingEnabled,
           ob_OTLPInsecure = otlpInsecure\<rparr>,
        Config_RateLimit = \<lparr>rl_Requests = requests, rl_Duration = rateDuration\<rparr>,
        Config_CORS =
          \<lparr>cors_AllowedOrigins = getCommaSeparatedEnv L ''CORS_ALLOWED_ORIGINS'' [],
           cors_AllowedMethods = getCommaSeparatedEnv L ''CORS_ALLOWED_METHODS''
             [''GET'', ''POST'', ''PUT'', ''DELETE'', ''OPTIONS''],
           cors_AllowedHeaders = getCommaSeparatedEnv L ''CORS_ALLOWED_HEADERS''
             [''Accept'', ''Authorization'', ''Content-Type''],
           cors_AllowCredentials = allowCredentials, cors_MaxAge = maxAge\<rparr>,
        Config_Swagger = \<lparr>sw_Enabled = swaggerEnabled\<rparr>\<rparr>
   }"

text \<open>\<open>invalid configuration: %w\<close> wraps every error.\<close>

definition Load :: "('ip, 'f) config_libs \<Rightarrow> config_error + ('ip, 'f) Config" where
  "Load L =
     (case run_state (load_fields L) None of
        (cfg, Some err) \<Rightarrow> Inl err
      | (cfg, None) \<Rightarrow> (case Config_Validate cfg of Some err \<Rightarrow> Inl err | None \<Rightarrow> Inr cfg))"

end
