(* ===== verification/Api_Server.thy ===== *)
theory Api_Server
  imports Http
begin

text \<open>
  The generated server stubs, \<open>internal/api/server.gen.go\<close>: the interface the program implements, the
  default implementation, the wrapper that binds path parameters, the errors of binding, and the route
  table of the API description. \<open>bindUUID\<close> is the package's \<open>runtime.BindStyledParameterWithOptions\<close> at the
  type of identifiers: the text of its error, or the identifier. The embedded description itself
  (\<open>swaggerSpec\<close> and its loading) is the business of the request validator.
\<close>

section \<open>The interface\<close>

record 'w ServerInterface =
  si_ListApprovedUsers :: "'w handler"
  si_CreateApprovedUser :: "'w handler"
  si_BulkCreateApprovedUsers :: "'w handler"
  si_DeleteApprovedUser :: "uuid \<Rightarrow> 'w handler"
  si_LoginUser :: "'w handler"
  si_RegisterUser :: "'w handler"
  si_GetCurrentUser :: "'w handler"
  si_ListTodos :: "'w handler"
  si_CreateTodo :: "'w handler"
  si_DeleteTodo :: "uuid \<Rightarrow> 'w handler"
  si_GetTodo :: "uuid \<Rightarrow> 'w handler"
  si_UpdateTodo :: "uuid \<Rightarrow> 'w handler"

definition StatusNotImplemented :: "'w handler" where
  "StatusNotImplemented r = respond (WriteHeader 501)"

definition Unimplemented :: "'w ServerInterface" where
  "Unimplemented =
     \<lparr>si_ListApprovedUsers = StatusNotImplemented, si_CreateApprovedUser = StatusNotImplemented,
      si_BulkCreateApprovedUsers = StatusNotImplemented,
      si_DeleteApprovedUser = (\<lambda>_. StatusNotImplemented), si_LoginUser = StatusNotImplemented,
      si_RegisterUser = StatusNotImplemented, si_GetCurrentUser = StatusNotImplemented,
      si_ListTodos = StatusNotImplemented, si_CreateTodo = StatusNotImplemented,
      si_DeleteTodo = (\<lambda>_. StatusNotImplemented), si_GetTodo = (\<lambda>_. StatusNotImplemented),
      si_UpdateTodo = (\<lambda>_. StatusNotImplemented)\<rparr>"

section \<open>Errors of parameter binding\<close>

datatype param_error =
    UnescapedCookieParamError string
  | UnmarshalingParamError string string
  | RequiredParamError string
  | RequiredHeaderError string
  | InvalidParamFormatError string string
  | TooManyValuesForParamError string int

primrec param_Error :: "param_error \<Rightarrow> string" where
  "param_Error (UnescapedCookieParamError name) =
     ''error unescaping cookie parameter '' @ CHR 0x27 # name @ [CHR 0x27]"
| "param_Error (UnmarshalingParamError name err) =
     ''Error unmarshaling parameter '' @ name @ '' as JSON: '' @ err"
| "param_Error (RequiredParamError name) = ''Query argument '' @ name @ '' is required, but not found''"
| "param_Error (RequiredHeaderError name) =
     ''Header parameter '' @ name @ '' is required, but not found''"
| "param_Error (InvalidParamFormatError name err) =
     ''Invalid format for parameter '' @ name @ '': '' @ err"
| "param_Error (TooManyValuesForParamError name count) =
     ''Expected one value for '' @ name @ '', got '' @ Itoa count"

section \<open>The wrapper\<close>

record 'w ServerInterfaceWrapper =
  siw_Handler :: "'w ServerInterface"
  siw_HandlerMiddlewares :: "'w middleware list"
  siw_ErrorHandlerFunc :: "param_error \<Rightarrow> 'w handler"

text \<open>\<open>for _, middleware := range ... { handler = middleware(handler) }\<close>: the last is the outermost.\<close>

definition with_middlewares :: "'w ServerInterfaceWrapper \<Rightarrow> 'w handler \<Rightarrow> 'w handler" where
  "with_middlewares siw handler =
     fold (\<lambda>middleware handler. middleware handler) (siw_HandlerMiddlewares siw) handler"

definition with_id :: "(string \<Rightarrow> string + uuid) \<Rightarrow> 'w ServerInterfaceWrapper \<Rightarrow> (uuid \<Rightarrow> 'w handler) \<Rightarrow> 'w handler" where
  "with_id bindUUID siw h = (\<lambda>r.
     case bindUUID (URLParam r ''id'') of
       Inl err \<Rightarrow> siw_ErrorHandlerFunc siw (InvalidParamFormatError ''id'' err) r
     | Inr key \<Rightarrow> with_middlewares siw (h key) r)"

definition Wrapper_ListApprovedUsers :: "'w ServerInterfaceWrapper \<Rightarrow> 'w handler" where
  "Wrapper_ListApprovedUsers siw = with_middlewares siw (si_ListApprovedUsers (siw_Handler siw))"

definition Wrapper_CreateApprovedUser :: "'w ServerInterfaceWrapper \<Rightarrow> 'w handler" where
  "Wrapper_CreateApprovedUser siw = with_middlewares siw (si_CreateApprovedUser (siw_Handler siw))"

definition Wrapper_BulkCreateApprovedUsers :: "'w ServerInterfaceWrapper \<Rightarrow> 'w handler" where
  "Wrapper_BulkCreateApprovedUsers siw =
     with_middlewares siw (si_BulkCreateApprovedUsers (siw_Handler siw))"

definition Wrapper_DeleteApprovedUser :: "(string \<Rightarrow> string + uuid) \<Rightarrow> 'w ServerInterfaceWrapper \<Rightarrow> 'w handler" where
  "Wrapper_DeleteApprovedUser bindUUID siw = with_id bindUUID siw (si_DeleteApprovedUser (siw_Handler siw))"

definition Wrapper_LoginUser :: "'w ServerInterfaceWrapper \<Rightarrow> 'w handler" where
  "Wrapper_LoginUser siw = with_middlewares siw (si_LoginUser (siw_Handler siw))"

definition Wrapper_RegisterUser :: "'w ServerInterfaceWrapper \<Rightarrow> 'w handler" where
  "Wrapper_RegisterUser siw = with_middlewares siw (si_RegisterUser (siw_Handler siw))"

definition Wrapper_GetCurrentUser :: "'w ServerInterfaceWrapper \<Rightarrow> 'w handler" where
  "Wrapper_GetCurrentUser siw = with_middlewares siw (si_GetCurrentUser (siw_Handler siw))"

definition Wrapper_ListTodos :: "'w ServerInterfaceWrapper \<Rightarrow> 'w handler" where
  "Wrapper_ListTodos siw = with_middlewares siw (si_ListTodos (siw_Handler siw))"

definition Wrapper_CreateTodo :: "'w ServerInterfaceWrapper \<Rightarrow> 'w handler" where
  "Wrapper_CreateTodo siw = with_middlewares siw (si_CreateTodo (siw_Handler siw))"

definition Wrapper_DeleteTodo :: "(string \<Rightarrow> string + uuid) \<Rightarrow> 'w ServerInterfaceWrapper \<Rightarrow> 'w handler" where
  "Wrapper_DeleteTodo bindUUID siw = with_id bindUUID siw (si_DeleteTodo (siw_Handler siw))"

definition Wrapper_GetTodo :: "(string \<Rightarrow> string + uuid) \<Rightarrow> 'w ServerInterfaceWrapper \<Rightarrow> 'w handler" where
  "Wrapper_GetTodo bindUUID siw = with_id bindUUID siw (si_GetTodo (siw_Handler siw))"

definition Wrapper_UpdateTodo :: "(string \<Rightarrow> string + uuid) \<Rightarrow> 'w ServerInterfaceWrapper \<Rightarrow> 'w handler" where
  "Wrapper_UpdateTodo bindUUID siw = with_id bindUUID siw (si_UpdateTodo (siw_Handler siw))"

section \<open>The routes of the description\<close>

datatype endpoint =
    RegisterUser | LoginUser
  | ListTodos | CreateTodo | GetTodo | UpdateTodo | DeleteTodo | GetCurrentUser
  | ListApprovedUsers | CreateApprovedUser | BulkCreateApprovedUsers | DeleteApprovedUser

text \<open>The method of the wrapper for an operation.\<close>

definition operation :: "(string \<Rightarrow> string + uuid) \<Rightarrow> 'w ServerInterfaceWrapper \<Rightarrow> endpoint \<Rightarrow> 'w handler" where
  "operation bindUUID siw e =
     (case e of
        RegisterUser \<Rightarrow> Wrapper_RegisterUser siw
      | LoginUser \<Rightarrow> Wrapper_LoginUser siw
      | ListTodos \<Rightarrow> Wrapper_ListTodos siw
      | CreateTodo \<Rightarrow> Wrapper_CreateTodo siw
      | GetTodo \<Rightarrow> Wrapper_GetTodo bindUUID siw
      | UpdateTodo \<Rightarrow> Wrapper_UpdateTodo bindUUID siw
      | DeleteTodo \<Rightarrow> Wrapper_DeleteTodo bindUUID siw
      | GetCurrentUser \<Rightarrow> Wrapper_GetCurrentUser siw
      | ListApprovedUsers \<Rightarrow> Wrapper_ListApprovedUsers siw
      | CreateApprovedUser \<Rightarrow> Wrapper_CreateApprovedUser siw
      | BulkCreateApprovedUsers \<Rightarrow> Wrapper_BulkCreateApprovedUsers siw
      | DeleteApprovedUser \<Rightarrow> Wrapper_DeleteApprovedUser bindUUID siw)"

type_synonym 'w routes = "(string \<times> string \<times> 'w handler) list"

record 'w ChiServerOptions =
  opt_BaseURL :: string
  opt_BaseRouter :: "'w routes option"
  opt_Middlewares :: "'w middleware list"
  opt_ErrorHandlerFunc :: "(param_error \<Rightarrow> 'w handler) option"

text \<open>The operations in the order of the registrations.\<close>

definition spec_routes :: "(string \<times> string \<times> endpoint) list" where
  "spec_routes =
     [(''POST'', ''/auth/register'', RegisterUser), (''POST'', ''/auth/login'', LoginUser),
      (''GET'', ''/me'', GetCurrentUser),
      (''GET'', ''/todos'', ListTodos), (''POST'', ''/todos'', CreateTodo),
      (''DELETE'', ''/todos/{id}'', DeleteTodo), (''GET'', ''/todos/{id}'', GetTodo),
      (''PATCH'', ''/todos/{id}'', UpdateTodo),
      (''GET'', ''/admin/approved-users'', ListApprovedUsers),
      (''POST'', ''/admin/approved-users'', CreateApprovedUser),
      (''POST'', ''/admin/approved-users/bulk'', BulkCreateApprovedUsers),
      (''DELETE'', ''/admin/approved-users/{id}'', DeleteApprovedUser)]"

text \<open>The routes are registered on the base router, a fresh one by default.\<close>

definition HandlerWithOptions :: "(string \<Rightarrow> string + uuid) \<Rightarrow> 'w ServerInterface \<Rightarrow> 'w ChiServerOptions \<Rightarrow> 'w routes" where
  "HandlerWithOptions bindUUID si options =
     (let r = (case opt_BaseRouter options of None \<Rightarrow> [] | Some r \<Rightarrow> r);
          onError = (case opt_ErrorHandlerFunc options of
              None \<Rightarrow> (\<lambda>err r. respond (http_Error (param_Error err) 400))
            | Some f \<Rightarrow> f);
          wrapper = \<lparr>siw_Handler = si, siw_HandlerMiddlewares = opt_Middlewares options,
            siw_ErrorHandlerFunc = onError\<rparr>
      in r @ map (\<lambda>(m, p, e). (m, opt_BaseURL options @ p, operation bindUUID wrapper e)) spec_routes)"

definition no_options :: "'w ChiServerOptions" where
  "no_options = \<lparr>opt_BaseURL = '''', opt_BaseRouter = None, opt_Middlewares = [],
     opt_ErrorHandlerFunc = None\<rparr>"

definition Handler :: "(string \<Rightarrow> string + uuid) \<Rightarrow> 'w ServerInterface \<Rightarrow> 'w routes" where
  "Handler bindUUID si = HandlerWithOptions bindUUID si no_options"

definition HandlerFromMux :: "(string \<Rightarrow> string + uuid) \<Rightarrow> 'w ServerInterface \<Rightarrow> 'w routes \<Rightarrow> 'w routes" where
  "HandlerFromMux bindUUID si r = HandlerWithOptions bindUUID si (no_options\<lparr>opt_BaseRouter := Some r\<rparr>)"

definition HandlerFromMuxWithBaseURL ::
    "(string \<Rightarrow> string + uuid) \<Rightarrow> 'w ServerInterface \<Rightarrow> 'w routes \<Rightarrow> string \<Rightarrow> 'w routes" where
  "HandlerFromMuxWithBaseURL bindUUID si r baseURL =
     HandlerWithOptions bindUUID si (no_options\<lparr>opt_BaseURL := baseURL, opt_BaseRouter := Some r\<rparr>)"

section \<open>Facts\<close>

text \<open>The operations that take an identifier bindUUID it first; without middlewares the wrapper adds nothing else.\<close>

definition takes_id :: "endpoint \<Rightarrow> bool" where
  "takes_id e \<longleftrightarrow> e \<in> {DeleteApprovedUser, DeleteTodo, GetTodo, UpdateTodo}"

definition si_operation :: "'w ServerInterface \<Rightarrow> endpoint \<Rightarrow> uuid \<Rightarrow> 'w handler" where
  "si_operation si e = (\<lambda>key.
     (case e of
        RegisterUser \<Rightarrow> si_RegisterUser si
      | LoginUser \<Rightarrow> si_LoginUser si
      | ListTodos \<Rightarrow> si_ListTodos si
      | CreateTodo \<Rightarrow> si_CreateTodo si
      | GetTodo \<Rightarrow> si_GetTodo si key
      | UpdateTodo \<Rightarrow> si_UpdateTodo si key
      | DeleteTodo \<Rightarrow> si_DeleteTodo si key
      | GetCurrentUser \<Rightarrow> si_GetCurrentUser si
      | ListApprovedUsers \<Rightarrow> si_ListApprovedUsers si
      | CreateApprovedUser \<Rightarrow> si_CreateApprovedUser si
      | BulkCreateApprovedUsers \<Rightarrow> si_BulkCreateApprovedUsers si
      | DeleteApprovedUser \<Rightarrow> si_DeleteApprovedUser si key))"

lemmas wrapper_defs = Wrapper_ListApprovedUsers_def Wrapper_CreateApprovedUser_def
  Wrapper_BulkCreateApprovedUsers_def Wrapper_DeleteApprovedUser_def Wrapper_LoginUser_def
  Wrapper_RegisterUser_def Wrapper_GetCurrentUser_def Wrapper_ListTodos_def Wrapper_CreateTodo_def
  Wrapper_DeleteTodo_def Wrapper_GetTodo_def Wrapper_UpdateTodo_def

lemma operation_cases:
  "operation bindUUID siw e =
     (if takes_id e then with_id bindUUID siw (si_operation (siw_Handler siw) e)
      else with_middlewares siw (si_operation (siw_Handler siw) e key))"
  by (cases e) (simp_all add: operation_def takes_id_def si_operation_def wrapper_defs)

lemma with_no_middlewares [simp]:
  "siw_HandlerMiddlewares siw = [] \<Longrightarrow> with_middlewares siw h = h"
  by (simp add: with_middlewares_def)

end
