(* ===== verification/Middleware.thy ===== *)
theory Middleware
  imports Validator
begin

text \<open>
  The middleware of \<open>internal/middleware\<close> but the rate limiter: request identifiers, the client's
  address, bearer tokens, authentication, the admin check, security headers.

  The contract of \<open>AuthProvider\<close> is the locale \<open>auth_provider\<close>; the guards are verified against it.
  Parameters: \<open>net.ParseIP\<close>, the membership test of each trusted network, the readings of
  \<open>crypto/rand\<close> and of the clock.
\<close>

section \<open>Request identifiers\<close>

definition hex_digit :: "nat \<Rightarrow> char" where
  "hex_digit n = (if n < 10 then char_of (48 + n) else char_of (87 + n))"

text \<open>\<open>hex.EncodeToString\<close>.\<close>

fun hex_encode :: "string \<Rightarrow> string" where
  "hex_encode [] = []"
| "hex_encode (c # s) = hex_digit (byte c div 16) # hex_digit (byte c mod 16) # hex_encode s"

text \<open>\<open>fmt.Sprintf("%016x", n)\<close> of a non-negative \<open>int64\<close>: never more than 16 digits.\<close>

definition hex16 :: "64 word \<Rightarrow> string" where
  "hex16 n = map (\<lambda>i. hex_digit (unat n div 16 ^ (15 - i) mod 16)) [0..<16]"

definition GenerateRequestID :: "string option \<Rightarrow> go_time \<Rightarrow> string" where
  "GenerateRequestID rand now =
     (case rand of Some b \<Rightarrow> hex_encode b | None \<Rightarrow> hex16 (word_of_int now))"

section \<open>The address of the client\<close>

text \<open>\<open>net.SplitHostPort\<close>: the host, or \<open>None\<close> for an address it rejects.\<close>

definition SplitHostPort :: "string \<Rightarrow> string option" where
  "SplitHostPort s =
     (if CHR '':'' \<notin> set s then None
      else (case s of
          c # t \<Rightarrow>
            if c = CHR ''['' then
              (case dropWhile (\<lambda>d. d \<noteq> CHR '']'') t of
                 _ # d # port \<Rightarrow>
                   if d = CHR '':'' \<and> CHR '':'' \<notin> set port \<and> CHR ''['' \<notin> set t \<and> CHR '']'' \<notin> set port
                   then Some (takeWhile (\<lambda>d. d \<noteq> CHR '']'') t) else None
               | _ \<Rightarrow> None)
            else
              (let host = rev (tl (dropWhile (\<lambda>d. d \<noteq> CHR '':'') (rev s)))
               in if CHR '':'' \<in> set host \<or> CHR ''['' \<in> set s \<or> CHR '']'' \<in> set s then None
                  else Some host)
        | [] \<Rightarrow> None))"

definition remoteHost :: "string \<Rightarrow> string" where
  "remoteHost remoteAddr = (case SplitHostPort remoteAddr of None \<Rightarrow> remoteAddr | Some host \<Rightarrow> host)"

text \<open>
  A trusted network is its membership test. The loop returns at the first network holding the peer;
  without one the function falls through to the peer's own address.
\<close>

fun first_trusted :: "('ip \<Rightarrow> bool) list \<Rightarrow> 'ip \<Rightarrow> bool" where
  "first_trusted [] ip = False"
| "first_trusted (cidr # cidrs) ip = (if cidr ip then True else first_trusted cidrs ip)"

definition GetRealIP :: "(string \<Rightarrow> 'ip option) \<Rightarrow> ('ip \<Rightarrow> bool) list \<Rightarrow> request \<Rightarrow> string" where
  "GetRealIP ParseIP trustedProxies r =
     (let remote = remoteHost (req_RemoteAddr r);
          direct = (case SplitHostPort (req_RemoteAddr r) of
              None \<Rightarrow> req_RemoteAddr r | Some host \<Rightarrow> host)
      in if remote \<noteq> '''' \<and> trustedProxies \<noteq> [] then
           (let remote = (case SplitHostPort (req_RemoteAddr r) of None \<Rightarrow> remote | Some host \<Rightarrow> host)
            in case ParseIP remote of
                 None \<Rightarrow> direct
               | Some ip \<Rightarrow>
                   if first_trusted trustedProxies ip then
                     (let h = header_Get r ''X-Forwarded-For''
                      in if h \<noteq> '''' then TrimSpace (hd (split_on (CHR '','') h))
                         else (let h = header_Get r ''X-Real-IP''
                               in if h \<noteq> '''' then h else remote))
                   else direct)
         else direct)"

lemma first_trusted_iff: "first_trusted cidrs ip \<longleftrightarrow> (\<exists>cidr \<in> set cidrs. cidr ip)"
  by (induction cidrs) auto

section \<open>Security headers\<close>

text \<open>The policy quotes \<open>none\<close> with apostrophes, code 0x27.\<close>

definition csp :: string where
  "csp = ''default-src '' @ [CHR 0x27] @ ''none'' @ [CHR 0x27] @ ''; frame-ancestors '' @
     [CHR 0x27] @ ''none'' @ [CHR 0x27]"

definition SecurityHeaders :: "'w middleware" where
  "SecurityHeaders next = (\<lambda>r. do {
     respond (header_Set ''Strict-Transport-Security'' ''max-age=63072000; includeSubDomains'');
     respond (header_Set ''X-Content-Type-Options'' ''nosniff'');
     respond (header_Set ''X-Frame-Options'' ''DENY'');
     respond (header_Set ''Referrer-Policy'' ''no-referrer'');
     (if take 8 (req_Path r) \<noteq> ''/swagger''
      then respond (header_Set ''Content-Security-Policy'' csp)
      else State_Monad.return ());
     next r
   })"

section \<open>Tokens and users\<close>

text \<open>\<open>strings.EqualFold(s, "bearer")\<close>: none of the letters folds to a rune beyond ASCII.\<close>

definition equal_fold_bearer :: "string \<Rightarrow> bool" where
  "equal_fold_bearer s \<longleftrightarrow> map lower_char s = ''bearer''"

definition extractBearerToken :: "request \<Rightarrow> string" where
  "extractBearerToken r =
     (let authHeader = header_Get r ''Authorization''
      in if authHeader = '''' then ''''
         else (case split_on (CHR '' '') authHeader of
             [scheme, token] \<Rightarrow> if equal_fold_bearer scheme then token else ''''
           | _ \<Rightarrow> ''''))"

definition UserFromContext :: "request \<Rightarrow> User option" where
  "UserFromContext r = ctx_User r"

definition RequestIDFromContext :: "request \<Rightarrow> string \<times> bool" where
  "RequestIDFromContext r = (case ctx_RequestID r of None \<Rightarrow> ('''', False) | Some i \<Rightarrow> (i, True))"

definition ClientIPFromContext :: "request \<Rightarrow> string" where
  "ClientIPFromContext r = (case ctx_ClientIP r of None \<Rightarrow> '''' | Some ip \<Rightarrow> ip)"

text \<open>\<open>AuthProvider\<close> is its one method, answering a user pointer.\<close>

type_synonym 'w AuthProvider = "string \<Rightarrow> ('w, go_error + User option) state"

definition RequireAuth :: "'w AuthProvider \<Rightarrow> 'w middleware" where
  "RequireAuth authSvc next = (\<lambda>r.
     let token = extractBearerToken r
     in if token = '''' then respond (RespondError 401 ''missing authorization header'')
        else do {
          res \<leftarrow> call_service (authSvc token);
          case res of
            Inl err \<Rightarrow> respond (RespondError 401 ''could not validate credentials'')
          | Inr user \<Rightarrow>
              (case user of
                 None \<Rightarrow> respond (RespondError 401 ''could not validate credentials'')
               | Some u \<Rightarrow> next (r\<lparr>ctx_User := Some u\<rparr>))
        })"

definition RequireAdmin :: "'w AuthProvider \<Rightarrow> 'w middleware" where
  "RequireAdmin authSvc next = RequireAuth authSvc (\<lambda>r.
     case UserFromContext r of
       None \<Rightarrow> respond (RespondError 401 ''could not validate credentials'')
     | Some user \<Rightarrow>
         if \<not> HasRole user ''admin'' then respond (RespondError 403 ''admin role required'')
         else next r)"

section \<open>The contract of the provider, and the guards\<close>

text \<open>
  \<open>genuine w token user\<close>: the token entitles to act as that user, in state \<open>w\<close>. Looking a token up
  changes nothing in view.
\<close>

locale auth_provider =
  fixes get :: "'w AuthProvider"
    and inv :: "'w \<Rightarrow> bool"
    and view :: "'w \<Rightarrow> 'v"
    and genuine :: "'w \<Rightarrow> string \<Rightarrow> User \<Rightarrow> bool"
  assumes provider: "inv w \<Longrightarrow> wp (get token) (\<lambda>r w'. inv w' \<and> view w' = view w \<and>
    (\<forall>u. r = Inr (Some u) \<longrightarrow> genuine w token u)) w"
begin

lemma RequireAuth_wp:
  assumes "inv (ex_World x)"
    and refused: "\<And>w' msg. inv w' \<Longrightarrow> view w' = view (ex_World x) \<Longrightarrow>
      Q () (x\<lparr>ex_World := w', ex_Response := RespondError 401 msg (ex_Response x)\<rparr>)"
    and passed: "\<And>w' u. inv w' \<Longrightarrow> view w' = view (ex_World x) \<Longrightarrow>
      genuine (ex_World x) (extractBearerToken r) u \<Longrightarrow> extractBearerToken r \<noteq> '''' \<Longrightarrow>
      wp (next (r\<lparr>ctx_User := Some u\<rparr>)) Q (x\<lparr>ex_World := w'\<rparr>)"
  shows "wp (RequireAuth get next r) Q x"
proof (cases "extractBearerToken r = ''''")
  case True
  with refused [of "ex_World x"] assms(1) show ?thesis
    by (simp add: RequireAuth_def wp_simps)
next
  case False
  have "wp (get (extractBearerToken r)) (\<lambda>res w'.
      wp (case res of
            Inl err \<Rightarrow> respond (RespondError 401 ''could not validate credentials'')
          | Inr user \<Rightarrow> (case user of
                 None \<Rightarrow> respond (RespondError 401 ''could not validate credentials'')
               | Some u \<Rightarrow> next (r\<lparr>ctx_User := Some u\<rparr>))) Q (x\<lparr>ex_World := w'\<rparr>)) (ex_World x)"
    by (rule wp_mono [OF provider [OF assms(1)]])
      (use refused passed False in \<open>auto simp: wp_simps split: sum.splits option.splits\<close>)
  with False show ?thesis
    by (simp add: RequireAuth_def wp_bind wp_call_service)
qed

lemma RequireAdmin_wp:
  assumes "inv (ex_World x)"
    and refused: "\<And>w' code msg. inv w' \<Longrightarrow> view w' = view (ex_World x) \<Longrightarrow> code \<in> {401, 403} \<Longrightarrow>
      Q () (x\<lparr>ex_World := w', ex_Response := RespondError code msg (ex_Response x)\<rparr>)"
    and passed: "\<And>w' u. inv w' \<Longrightarrow> view w' = view (ex_World x) \<Longrightarrow>
      genuine (ex_World x) (extractBearerToken r) u \<Longrightarrow> HasRole u ''admin'' \<Longrightarrow>
      wp (next (r\<lparr>ctx_User := Some u\<rparr>)) Q (x\<lparr>ex_World := w'\<rparr>)"
  shows "wp (RequireAdmin get next r) Q x"
  unfolding RequireAdmin_def
  by (rule RequireAuth_wp [OF assms(1)])
    (use refused passed in \<open>auto simp: wp_simps UserFromContext_def\<close>)

end

section \<open>Facts about addresses and tokens\<close>

text \<open>A bearer token has no space, and is read from \<open>Bearer <token>\<close> whatever the case of the scheme.\<close>

lemma extractBearerToken_reads:
  assumes "header_Get r ''Authorization'' = scheme @ CHR '' '' # token"
    and "map lower_char scheme = ''bearer''" and "CHR '' '' \<notin> set token"
  shows "extractBearerToken r = token"
proof -
  have space: "lower_char (CHR '' '') = CHR '' ''" by code_simp
  have "CHR '' '' \<notin> set scheme"
  proof
    assume "CHR '' '' \<in> set scheme"
    then have "lower_char (CHR '' '') \<in> set (map lower_char scheme)" by (simp del: set_map add: set_map)
    then show False unfolding assms(2) space by simp
  qed
  with assms show ?thesis
    by (simp add: extractBearerToken_def equal_fold_bearer_def split_on_append split_on_none)
qed

lemma extractBearerToken_sound:
  assumes "extractBearerToken r = token" and "token \<noteq> ''''"
  shows "\<exists>scheme. header_Get r ''Authorization'' = scheme @ CHR '' '' # token \<and>
    map lower_char scheme = ''bearer'' \<and> CHR '' '' \<notin> set token"
proof -
  from assms obtain scheme where parts: "split_on (CHR '' '') (header_Get r ''Authorization'') = [scheme, token]"
    and bearer: "map lower_char scheme = ''bearer''"
    by (auto simp: extractBearerToken_def equal_fold_bearer_def Let_def split: list.splits if_splits)
  have "header_Get r ''Authorization'' = scheme @ CHR '' '' # token"
    using arg_cong [OF parts, of "join_with [CHR '' '']"] by (simp add: split_on_join)
  moreover have "CHR '' '' \<notin> set token"
    by (rule split_on_pieces [of token _ "header_Get r ''Authorization''"]) (simp add: parts)
  ultimately show ?thesis using bearer by (intro exI [of _ scheme] conjI)
qed

end
