(* ===== verification/Api.thy ===== *)
theory Api
  imports Http
begin

text \<open>
  The wire types of \<open>internal/api/types.gen.go\<close>: how \<open>encoding/json\<close> fills a request type from a JSON
  value with unknown fields disallowed, and how a response type is encoded.

  Parameters: the \<open>UnmarshalJSON\<close> methods of \<open>openapi_types.Email\<close> (of the value it is given, null
  included) and of \<open>time.Time\<close> (of the text of a JSON string).
\<close>

record json_libs =
  Email_UnmarshalJSON :: "json \<Rightarrow> string option"
  Time_UnmarshalJSON :: "string \<Rightarrow> go_time option"

section \<open>Filling a struct\<close>

text \<open>
  The key of an object member names a field exactly or else up to case folding; the folding of
  \<open>encoding/json\<close> also identifies the two non-ASCII runes that fold to ASCII letters (U+017F to S, U+212A to K).
\<close>

fun fold_name :: "string \<Rightarrow> string" where
  "fold_name [] = []"
| "fold_name (c # s) =
     (case s of
        d # s' \<Rightarrow>
          if c = CHR 0xC5 \<and> d = CHR 0xBF then CHR ''S'' # fold_name s'
          else (case s' of
              e # s'' \<Rightarrow>
                if c = CHR 0xE2 \<and> d = CHR 0x84 \<and> e = CHR 0xAA then CHR ''K'' # fold_name s''
                else upper_char c # fold_name s
            | [] \<Rightarrow> upper_char c # fold_name s)
      | [] \<Rightarrow> [upper_char c])"

type_synonym 'r fields = "(string \<times> (json \<Rightarrow> 'r \<Rightarrow> 'r option)) list"

definition find_field :: "'r fields \<Rightarrow> string \<Rightarrow> (json \<Rightarrow> 'r \<Rightarrow> 'r option) option" where
  "find_field fs key =
     (case map_of fs key of
        Some setter \<Rightarrow> Some setter
      | None \<Rightarrow> map_option snd (find (\<lambda>f. fold_name (fst f) = fold_name key) fs))"

fun unmarshal_members :: "'r fields \<Rightarrow> (string \<times> json) list \<Rightarrow> 'r \<Rightarrow> 'r option" where
  "unmarshal_members fs [] r = Some r"
| "unmarshal_members fs ((key, v) # kvs) r =
     (case find_field fs key of
        None \<Rightarrow> None
      | Some setter \<Rightarrow> (case setter v r of None \<Rightarrow> None | Some r' \<Rightarrow> unmarshal_members fs kvs r'))"

text \<open>null leaves a struct as it is; a value that is not an object does not fit.\<close>

definition unmarshal_struct :: "'r fields \<Rightarrow> 'r \<Rightarrow> json \<Rightarrow> 'r option" where
  "unmarshal_struct fs r v =
     (case v of JNull \<Rightarrow> Some r | JObj kvs \<Rightarrow> unmarshal_members fs kvs r | _ \<Rightarrow> None)"

text \<open>The elements of an array are decoded into the elements the slice has, then into new ones.\<close>

fun unmarshal_elems :: "(json \<Rightarrow> 'r \<Rightarrow> 'r option) \<Rightarrow> 'r \<Rightarrow> json list \<Rightarrow> 'r list \<Rightarrow> 'r list option" where
  "unmarshal_elems dec zero [] old = Some []"
| "unmarshal_elems dec zero (v # vs) old =
     (case dec v (case old of [] \<Rightarrow> zero | x # _ \<Rightarrow> x) of
        None \<Rightarrow> None
      | Some x \<Rightarrow> map_option ((#) x) (unmarshal_elems dec zero vs (tl old)))"

definition set_string :: "(string \<Rightarrow> 'r \<Rightarrow> 'r) \<Rightarrow> json \<Rightarrow> 'r \<Rightarrow> 'r option" where
  "set_string put v r = (case v of JStr s \<Rightarrow> Some (put s r) | JNull \<Rightarrow> Some r | _ \<Rightarrow> None)"

definition set_string_ptr :: "(string option \<Rightarrow> 'r \<Rightarrow> 'r) \<Rightarrow> json \<Rightarrow> 'r \<Rightarrow> 'r option" where
  "set_string_ptr put v r =
     (case v of JStr s \<Rightarrow> Some (put (Some s) r) | JNull \<Rightarrow> Some (put None r) | _ \<Rightarrow> None)"

definition set_bool_ptr :: "(bool option \<Rightarrow> 'r \<Rightarrow> 'r) \<Rightarrow> json \<Rightarrow> 'r \<Rightarrow> 'r option" where
  "set_bool_ptr put v r =
     (case v of JBool b \<Rightarrow> Some (put (Some b) r) | JNull \<Rightarrow> Some (put None r) | _ \<Rightarrow> None)"

definition set_time_ptr :: "json_libs \<Rightarrow> (go_time option \<Rightarrow> 'r \<Rightarrow> 'r) \<Rightarrow> json \<Rightarrow> 'r \<Rightarrow> 'r option" where
  "set_time_ptr J put v r =
     (case v of
        JStr s \<Rightarrow> map_option (\<lambda>t. put (Some t) r) (Time_UnmarshalJSON J s)
      | JNull \<Rightarrow> Some (put None r)
      | _ \<Rightarrow> None)"

definition set_email :: "json_libs \<Rightarrow> (string \<Rightarrow> 'r \<Rightarrow> 'r) \<Rightarrow> json \<Rightarrow> 'r \<Rightarrow> 'r option" where
  "set_email J put v r = map_option (\<lambda>s. put s r) (Email_UnmarshalJSON J v)"

text \<open>Every member of an accepted object names a declared field.\<close>

lemma find_field_name:
  "find_field fs key = Some setter \<Longrightarrow> \<exists>f \<in> set fs. fst f = key \<or> fold_name (fst f) = fold_name key"
proof (cases "map_of fs key")
  case None
  assume "find_field fs key = Some setter"
  with None obtain f where "find (\<lambda>f. fold_name (fst f) = fold_name key) fs = Some f"
    by (auto simp: find_field_def)
  then show ?thesis by (auto dest: find_SomeD)
next
  case (Some x)
  then have "(key, x) \<in> set fs" by (rule map_of_SomeD)
  then show ?thesis by force
qed

lemma unmarshal_members_known:
  "unmarshal_members fs kvs r = Some r' \<Longrightarrow> (key, v) \<in> set kvs \<Longrightarrow>
     \<exists>f \<in> set fs. fst f = key \<or> fold_name (fst f) = fold_name key"
  by (induction kvs arbitrary: r) (auto split: option.splits dest: find_field_name)

section \<open>Request types\<close>

record api_ApprovedUserRequest =
  aur_Email :: string
  aur_FirstName :: string

definition zero_ApprovedUserRequest :: api_ApprovedUserRequest where
  "zero_ApprovedUserRequest = \<lparr>aur_Email = '''', aur_FirstName = ''''\<rparr>"

definition fields_ApprovedUserRequest :: "json_libs \<Rightarrow> api_ApprovedUserRequest fields" where
  "fields_ApprovedUserRequest J =
     [(''email'', set_email J (\<lambda>s r. r\<lparr>aur_Email := s\<rparr>)),
      (''first_name'', set_string (\<lambda>s r. r\<lparr>aur_FirstName := s\<rparr>))]"

definition unmarshal_ApprovedUserRequest :: "json_libs \<Rightarrow> json \<Rightarrow> api_ApprovedUserRequest option" where
  "unmarshal_ApprovedUserRequest J =
     unmarshal_struct (fields_ApprovedUserRequest J) zero_ApprovedUserRequest"

record api_BulkApprovedUserRequest =
  bulk_Users :: "api_ApprovedUserRequest list"

definition set_users :: "json_libs \<Rightarrow> json \<Rightarrow> api_BulkApprovedUserRequest \<Rightarrow> api_BulkApprovedUserRequest option" where
  "set_users J v r =
     (case v of
        JNull \<Rightarrow> Some (r\<lparr>bulk_Users := []\<rparr>)
      | JList vs \<Rightarrow>
          map_option (\<lambda>us. r\<lparr>bulk_Users := us\<rparr>)
            (unmarshal_elems (\<lambda>v x. unmarshal_struct (fields_ApprovedUserRequest J) x v)
              zero_ApprovedUserRequest vs (bulk_Users r))
      | _ \<Rightarrow> None)"

definition unmarshal_BulkApprovedUserRequest :: "json_libs \<Rightarrow> json \<Rightarrow> api_BulkApprovedUserRequest option" where
  "unmarshal_BulkApprovedUserRequest J = unmarshal_struct [(''users'', set_users J)] \<lparr>bulk_Users = []\<rparr>"

record api_CreateTodoRequest =
  ctr_Description :: "string option"
  ctr_DueDate :: "go_time option"
  ctr_Title :: string

definition unmarshal_CreateTodoRequest :: "json_libs \<Rightarrow> json \<Rightarrow> api_CreateTodoRequest option" where
  "unmarshal_CreateTodoRequest J = unmarshal_struct
     [(''description'', set_string_ptr (\<lambda>x r. r\<lparr>ctr_Description := x\<rparr>)),
      (''due_date'', set_time_ptr J (\<lambda>x r. r\<lparr>ctr_DueDate := x\<rparr>)),
      (''title'', set_string (\<lambda>x r. r\<lparr>ctr_Title := x\<rparr>))]
     \<lparr>ctr_Description = None, ctr_DueDate = None, ctr_Title = ''''\<rparr>"

record api_UpdateTodoRequest =
  utr_Description :: "string option"
  utr_DueDate :: "go_time option"
  utr_IsCompleted :: "bool option"
  utr_Title :: "string option"

definition unmarshal_UpdateTodoRequest :: "json_libs \<Rightarrow> json \<Rightarrow> api_UpdateTodoRequest option" where
  "unmarshal_UpdateTodoRequest J = unmarshal_struct
     [(''description'', set_string_ptr (\<lambda>x r. r\<lparr>utr_Description := x\<rparr>)),
      (''due_date'', set_time_ptr J (\<lambda>x r. r\<lparr>utr_DueDate := x\<rparr>)),
      (''is_completed'', set_bool_ptr (\<lambda>x r. r\<lparr>utr_IsCompleted := x\<rparr>)),
      (''title'', set_string_ptr (\<lambda>x r. r\<lparr>utr_Title := x\<rparr>))]
     \<lparr>utr_Description = None, utr_DueDate = None, utr_IsCompleted = None, utr_Title = None\<rparr>"

record api_LoginRequest =
  lgr_Email :: string
  lgr_Password :: string

definition unmarshal_LoginRequest :: "json_libs \<Rightarrow> json \<Rightarrow> api_LoginRequest option" where
  "unmarshal_LoginRequest J = unmarshal_struct
     [(''email'', set_email J (\<lambda>x r. r\<lparr>lgr_Email := x\<rparr>)),
      (''password'', set_string (\<lambda>x r. r\<lparr>lgr_Password := x\<rparr>))]
     \<lparr>lgr_Email = '''', lgr_Password = ''''\<rparr>"

record api_RegisterRequest =
  rgr_ApprovedId :: string
  rgr_Email :: string
  rgr_Password :: string

definition unmarshal_RegisterRequest :: "json_libs \<Rightarrow> json \<Rightarrow> api_RegisterRequest option" where
  "unmarshal_RegisterRequest J = unmarshal_struct
     [(''approved_id'', set_string (\<lambda>x r. r\<lparr>rgr_ApprovedId := x\<rparr>)),
      (''email'', set_email J (\<lambda>x r. r\<lparr>rgr_Email := x\<rparr>)),
      (''password'', set_string (\<lambda>x r. r\<lparr>rgr_Password := x\<rparr>))]
     \<lparr>rgr_ApprovedId = '''', rgr_Email = '''', rgr_Password = ''''\<rparr>"

section \<open>Response types\<close>

text \<open>A nil pointer is encoded as null.\<close>

definition json_ptr :: "('a \<Rightarrow> json) \<Rightarrow> 'a option \<Rightarrow> json" where
  "json_ptr f p = (case p of None \<Rightarrow> JNull | Some x \<Rightarrow> f x)"

record api_ApprovedUserResponse =
  apr_CreatedAt :: go_time
  apr_Email :: string
  apr_FirstName :: string
  apr_Id :: string
  apr_UpdatedAt :: go_time

definition json_ApprovedUserResponse :: "api_ApprovedUserResponse \<Rightarrow> json" where
  "json_ApprovedUserResponse x = JObj
     [(''created_at'', JTime (apr_CreatedAt x)), (''email'', JStr (apr_Email x)),
      (''first_name'', JStr (apr_FirstName x)), (''id'', JStr (apr_Id x)),
      (''updated_at'', JTime (apr_UpdatedAt x))]"

record api_AuthResponse =
  authr_Token :: string
  authr_TokenType :: string

definition json_AuthResponse :: "api_AuthResponse \<Rightarrow> json" where
  "json_AuthResponse x =
     JObj [(''token'', JStr (authr_Token x)), (''token_type'', JStr (authr_TokenType x))]"

record api_TodoResponse =
  tdr_CreatedAt :: go_time
  tdr_Description :: "string option"
  tdr_DueDate :: "go_time option"
  tdr_Id :: string
  tdr_IsCompleted :: bool
  tdr_Title :: string
  tdr_UpdatedAt :: go_time
  tdr_UserId :: string

definition json_TodoResponse :: "api_TodoResponse \<Rightarrow> json" where
  "json_TodoResponse x = JObj
     [(''created_at'', JTime (tdr_CreatedAt x)),
      (''description'', json_ptr JStr (tdr_Description x)),
      (''due_date'', json_ptr JTime (tdr_DueDate x)), (''id'', JStr (tdr_Id x)),
      (''is_completed'', JBool (tdr_IsCompleted x)), (''title'', JStr (tdr_Title x)),
      (''updated_at'', JTime (tdr_UpdatedAt x)), (''user_id'', JStr (tdr_UserId x))]"

record api_UserResponse =
  usr_CreatedAt :: go_time
  usr_Email :: string
  usr_FirstName :: string
  usr_Id :: string
  usr_IsActive :: bool
  usr_Roles :: "string list"

definition json_UserResponse :: "api_UserResponse \<Rightarrow> json" where
  "json_UserResponse x = JObj
     [(''created_at'', JTime (usr_CreatedAt x)), (''email'', JStr (usr_Email x)),
      (''first_name'', JStr (usr_FirstName x)), (''id'', JStr (usr_Id x)),
      (''is_active'', JBool (usr_IsActive x)), (''roles'', JList (map JStr (usr_Roles x)))]"

lemma encodable_responses [simp]:
  "encodable (json_AuthResponse a)"
  "encodable (json_UserResponse u) \<longleftrightarrow> time_encodable (usr_CreatedAt u)"
  "encodable (json_ApprovedUserResponse p) \<longleftrightarrow>
     time_encodable (apr_CreatedAt p) \<and> time_encodable (apr_UpdatedAt p)"
  "encodable (json_TodoResponse t) \<longleftrightarrow>
     time_encodable (tdr_CreatedAt t) \<and> time_encodable (tdr_UpdatedAt t) \<and>
     (\<forall>d. tdr_DueDate t = Some d \<longrightarrow> time_encodable d)"
  by (auto simp: json_AuthResponse_def json_UserResponse_def json_ApprovedUserResponse_def
      json_TodoResponse_def json_ptr_def split: option.splits)

end
