(* ===== verification/Auth_Handler.thy ===== *)
theory Auth_Handler
  imports Middleware Api Auth_Service
begin

text \<open>
  The HTTP handlers of \<open>internal/auth/handler.go\<close>, over any service of the interfaces \<open>AuthService\<close>
  and \<open>ApprovedUserAdminService\<close> (\<open>interfaces.go\<close>). An error of a service is logged before it is
  answered.
\<close>

section \<open>Interfaces\<close>

record 'w AuthService =
  auth_Register :: "string \<Rightarrow> string \<Rightarrow> string \<Rightarrow> ('w, go_error + string) state"
  auth_Login :: "string \<Rightarrow> string \<Rightarrow> ('w, go_error + string) state"
  auth_GetUserFromToken :: "'w AuthProvider"

record 'w ApprovedUserAdminService =
  admin_ListApprovedUsers :: "('w, go_error + ApprovedUser option list) state"
  admin_CreateApprovedUser :: "string \<Rightarrow> string \<Rightarrow> uuid \<Rightarrow> ('w, go_error + ApprovedUser option) state"
  admin_BulkCreateApprovedUsers ::
    "string list \<Rightarrow> string list \<Rightarrow> uuid \<Rightarrow> ('w, go_error + ApprovedUser option list) state"
  admin_DeleteApprovedUser :: "uuid \<Rightarrow> ('w, go_error + unit) state"

record http_libs =
  hl_json :: json_libs
  hl_validator :: validator_libs
  hl_uuid_String :: "uuid \<Rightarrow> string"

section \<open>Bodies\<close>

definition maxBodyBytes :: nat where
  "maxBodyBytes = 1048576"

definition decodeJSONBody :: "(json \<Rightarrow> 'a option) \<Rightarrow> request \<Rightarrow> go_error + 'a" where
  "decodeJSONBody unmarshal r = DecodeJSON maxBodyBytes unmarshal r"

definition writeDecodeError :: "go_error \<Rightarrow> response \<Rightarrow> response" where
  "writeDecodeError err =
     (if err = ErrBodyTooLarge then RespondError 413 ''request body too large''
      else RespondError 400 ''invalid request body'')"

section \<open>Registration and login\<close>

definition Handler_RegisterUser :: "http_libs \<Rightarrow> 'w AuthService \<Rightarrow> 'w handler" where
  "Handler_RegisterUser H A r =
     (case decodeJSONBody (unmarshal_RegisterRequest (hl_json H)) r of
        Inl err \<Rightarrow> respond (writeDecodeError err)
      | Inr req \<Rightarrow>
          (case ValidateRegister (hl_validator H)
              \<lparr>vrEmail = rgr_Email req, vrPassword = rgr_Password req, vrApprovedID = rgr_ApprovedId req\<rparr> of
             Some err \<Rightarrow> respond (RespondError 400 err)
           | None \<Rightarrow> do {
               res \<leftarrow> call_service (auth_Register A (rgr_Email req) (rgr_Password req) (rgr_ApprovedId req));
               case res of
                 Inl err \<Rightarrow> do {
                   log_entry (Error ''register failed'' [ErrorField err]);
                   respond
                     (if err = ErrUserNotFound then RespondError 404 ''approved user not found''
                      else if err = ErrInvalidCredentials then RespondError 400 ''invalid approved_id format''
                      else if err = ErrUserAlreadyExists then RespondError 409 ''user already exists''
                      else RespondError 500 ''internal server error'')
                 }
               | Inr token \<Rightarrow>
                   respond (RespondJSON 201 (json_AuthResponse
                     \<lparr>authr_Token = token, authr_TokenType = ''bearer''\<rparr>))
             }))"

definition Handler_LoginUser :: "http_libs \<Rightarrow> 'w AuthService \<Rightarrow> 'w handler" where
  "Handler_LoginUser H A r =
     (case decodeJSONBody (unmarshal_LoginRequest (hl_json H)) r of
        Inl err \<Rightarrow> respond (writeDecodeError err)
      | Inr req \<Rightarrow>
          (case ValidateLogin (hl_validator H) \<lparr>vlEmail = lgr_Email req, vlPassword = lgr_Password req\<rparr> of
             Some err \<Rightarrow> respond (RespondError 400 err)
           | None \<Rightarrow> do {
               res \<leftarrow> call_service (auth_Login A (lgr_Email req) (lgr_Password req));
               case res of
                 Inl err \<Rightarrow> do {
                   log_entry (Error ''login failed'' [ErrorField err]);
                   respond
                     (if err = ErrInvalidCredentials then RespondError 401 ''invalid credentials''
                      else RespondError 500 ''internal server error'')
                 }
               | Inr token \<Rightarrow>
                   respond (RespondJSON 200 (json_AuthResponse
                     \<lparr>authr_Token = token, authr_TokenType = ''bearer''\<rparr>))
             }))"

section \<open>The current user\<close>

definition user_response :: "http_libs \<Rightarrow> User \<Rightarrow> api_UserResponse" where
  "user_response H user =
     \<lparr>usr_CreatedAt = User_CreatedAt user,
      usr_Email = (case User_ApprovedUser user of None \<Rightarrow> '''' | Some a \<Rightarrow> ApprovedUser_Email a),
      usr_FirstName = (case User_ApprovedUser user of None \<Rightarrow> '''' | Some a \<Rightarrow> ApprovedUser_FirstName a),
      usr_Id = hl_uuid_String H (User_ID user), usr_IsActive = User_IsActive user,
      usr_Roles = map Role_Name (User_Roles user)\<rparr>"

definition Handler_GetCurrentUser :: "http_libs \<Rightarrow> 'w handler" where
  "Handler_GetCurrentUser H r =
     (case UserFromContext r of
        None \<Rightarrow> respond (RespondError 401 ''unauthorized'')
      | Some user \<Rightarrow> respond (RespondJSON 200 (json_UserResponse (user_response H user))))"

section \<open>Approved users\<close>

definition toApprovedUserResponse :: "http_libs \<Rightarrow> ApprovedUser option \<Rightarrow> api_ApprovedUserResponse option" where
  "toApprovedUserResponse H p = (case p of
     None \<Rightarrow> None
   | Some au \<Rightarrow> Some
       \<lparr>apr_CreatedAt = ApprovedUser_CreatedAt au, apr_Email = ApprovedUser_Email au,
        apr_FirstName = ApprovedUser_FirstName au, apr_Id = hl_uuid_String H (ApprovedUser_ID au),
        apr_UpdatedAt = ApprovedUser_UpdatedAt au\<rparr>)"

definition toApprovedUserResponses ::
  "http_libs \<Rightarrow> ApprovedUser option list \<Rightarrow> api_ApprovedUserResponse option list" where
  "toApprovedUserResponses H aus = map (toApprovedUserResponse H) aus"

definition Handler_ListApprovedUsers :: "http_libs \<Rightarrow> 'w ApprovedUserAdminService \<Rightarrow> 'w handler" where
  "Handler_ListApprovedUsers H D r = do {
     res \<leftarrow> call_service (admin_ListApprovedUsers D);
     case res of
       Inl err \<Rightarrow> do {
         log_entry (Error ''list approved users failed'' [ErrorField err]);
         respond (RespondError 500 ''internal server error'')
       }
     | Inr users \<Rightarrow>
         respond (RespondJSON 200 (JList (map (json_ptr json_ApprovedUserResponse)
           (toApprovedUserResponses H users))))
   }"

definition Handler_CreateApprovedUser :: "http_libs \<Rightarrow> 'w ApprovedUserAdminService \<Rightarrow> 'w handler" where
  "Handler_CreateApprovedUser H D r =
     (case decodeJSONBody (unmarshal_ApprovedUserRequest (hl_json H)) r of
        Inl err \<Rightarrow> respond (writeDecodeError err)
      | Inr req \<Rightarrow>
          (case ValidateApprovedUser (hl_validator H)
              \<lparr>vaEmail = aur_Email req, vaFirstName = aur_FirstName req\<rparr> of
             Some err \<Rightarrow> respond (RespondError 400 err)
           | None \<Rightarrow>
               (case UserFromContext r of
                  None \<Rightarrow> respond (RespondError 401 ''unauthorized'')
                | Some creator \<Rightarrow> do {
                    res \<leftarrow> call_service (admin_CreateApprovedUser D (aur_Email req) (aur_FirstName req)
                      (User_ApprovedUserID creator));
                    case res of
                      Inl err \<Rightarrow> do {
                        log_entry (Error ''create approved user failed'' [ErrorField err]);
                        respond
                          (if err = ErrApprovedEmailExists
                           then RespondError 409 ''Email already in approved list''
                           else RespondError 500 ''internal server error'')
                      }
                    | Inr approvedUser \<Rightarrow>
                        respond (RespondJSON 201 (json_ptr json_ApprovedUserResponse
                          (toApprovedUserResponse H approvedUser)))
                  })))"

text \<open>The validation loop stops at the first user it rejects.\<close>

fun validate_users :: "validator_libs \<Rightarrow> api_ApprovedUserRequest list \<Rightarrow> string option" where
  "validate_users V [] = None"
| "validate_users V (u # us) =
     (case ValidateApprovedUser V \<lparr>vaEmail = aur_Email u, vaFirstName = aur_FirstName u\<rparr> of
        Some err \<Rightarrow> Some err
      | None \<Rightarrow> validate_users V us)"

definition Handler_BulkCreateApprovedUsers :: "http_libs \<Rightarrow> 'w ApprovedUserAdminService \<Rightarrow> 'w handler" where
  "Handler_BulkCreateApprovedUsers H D r =
     (case decodeJSONBody (unmarshal_BulkApprovedUserRequest (hl_json H)) r of
        Inl err \<Rightarrow> respond (writeDecodeError err)
      | Inr req \<Rightarrow>
          if length (bulk_Users req) = 0 then respond (RespondError 400 ''users array is required'')
          else (case validate_users (hl_validator H) (bulk_Users req) of
             Some err \<Rightarrow> respond (RespondError 400 err)
           | None \<Rightarrow>
               (case UserFromContext r of
                  None \<Rightarrow> respond (RespondError 401 ''unauthorized'')
                | Some creator \<Rightarrow> do {
                    res \<leftarrow> call_service (admin_BulkCreateApprovedUsers D
                      (map aur_Email (bulk_Users req)) (map aur_FirstName (bulk_Users req))
                      (User_ApprovedUserID creator));
                    case res of
                      Inl err \<Rightarrow> do {
                        log_entry (Error ''bulk create approved users failed'' [ErrorField err]);
                        respond (RespondError 500 ''internal server error'')
                      }
                    | Inr users \<Rightarrow>
                        respond (RespondJSON 201 (JList (map (json_ptr json_ApprovedUserResponse)
                          (toApprovedUserResponses H users))))
                  })))"

definition Handler_DeleteApprovedUser :: "'w ApprovedUserAdminService \<Rightarrow> uuid \<Rightarrow> 'w handler" where
  "Handler_DeleteApprovedUser D key r = do {
     res \<leftarrow> call_service (admin_DeleteApprovedUser D key);
     case res of
       Inl err \<Rightarrow> do {
         log_entry (Error ''delete approved user failed'' [ErrorField err]);
         respond
           (if err = ErrApprovedUserNotFound then RespondError 404 ''approved user not found''
            else RespondError 500 ''internal server error'')
       }
     | Inr _ \<Rightarrow> respond (WriteHeader 204)
   }"

lemma validate_users_iff:
  "validate_users V us = None \<longleftrightarrow>
     (\<forall>u \<in> set us. ValidateApprovedUser V \<lparr>vaEmail = aur_Email u, vaFirstName = aur_FirstName u\<rparr> = None)"
  by (induction us) (auto split: option.splits)

section \<open>The shape of the answers\<close>

text \<open>
  A handler answers once, with one of its documented statuses: without a body for 204, with a
  \<open>detail\<close> object for an error, with one JSON value otherwise (or, if the value holds a date that has
  no JSON form, the text of that failure).
\<close>

definition answer_shape :: "nat set \<Rightarrow> response \<Rightarrow> bool" where
  "answer_shape codes w \<longleftrightarrow> (\<exists>code \<in> codes. res_Status w = Some code \<and>
     (if code = 204 then res_Body w = []
      else if 400 \<le> code then \<exists>msg. res_Body w = [ChunkJSON (JObj [(''detail'', JStr msg)])]
      else \<exists>c. res_Body w = [c] \<and> ((\<exists>v. c = ChunkJSON v) \<or>
        c = ChunkText (''failed to encode response'' @ [CHR 0x0A]))) \<and>
     (code \<noteq> 204 \<longrightarrow> map_of (res_Header w) ''Content-Type'' = Some ''application/json''))"

text \<open>A response whose status and body are still to be written, of which the wrapper has noted nothing.\<close>

definition open_response :: "response \<Rightarrow> bool" where
  "open_response w \<longleftrightarrow> res_Status w = None \<and> res_Body w = [] \<and> res_Wrapped w = 200"

lemma content_type_key: "canonical_key ''Content-Type'' = ''Content-Type''"
  by code_simp

lemma answer_shape_error:
  "open_response w \<Longrightarrow> code \<in> codes \<Longrightarrow> 400 \<le> code \<Longrightarrow> answer_shape codes (RespondError code msg w)"
  using header_Set_same [of "''Content-Type''" "''application/json''" w]
  by (auto simp: answer_shape_def open_response_def content_type_key intro!: bexI [of _ code])

lemma answer_shape_json:
  "open_response w \<Longrightarrow> code \<in> codes \<Longrightarrow> code < 400 \<Longrightarrow> code \<noteq> 204 \<Longrightarrow>
   answer_shape codes (RespondJSON code v w)"
  using header_Set_same [of "''Content-Type''" "''application/json''" w]
  by (auto simp: answer_shape_def open_response_def content_type_key intro!: bexI [of _ code])

lemma answer_shape_no_content:
  "open_response w \<Longrightarrow> 204 \<in> codes \<Longrightarrow> answer_shape codes (WriteHeader 204 w)"
  by (auto simp: answer_shape_def open_response_def intro!: bexI [of _ 204])

lemma answer_shape_decode:
  "open_response w \<Longrightarrow> {400, 413} \<subseteq> codes \<Longrightarrow> answer_shape codes (writeDecodeError err w)"
  by (simp add: writeDecodeError_def answer_shape_error)

lemmas answer_shapes = answer_shape_error answer_shape_json answer_shape_no_content answer_shape_decode

text \<open>
  What a handler logs and leaves in a response that was open, whatever the services answer, with the
  rules for the forms handlers are written in.
\<close>

definition answers :: "(zap_entry list \<Rightarrow> response \<Rightarrow> bool) \<Rightarrow> ('w exchange, unit) state \<Rightarrow> bool" where
  "answers P m \<longleftrightarrow> (\<forall>x x'. open_response (ex_Response x) \<longrightarrow> run_state m x = ((), x') \<longrightarrow>
     (\<exists>l. ex_Log x' = ex_Log x @ l \<and> P l (ex_Response x')))"

lemma answersD:
  assumes "answers P m" and "open_response (ex_Response x)" and "run_state m x = (u, x')"
  obtains l where "ex_Log x' = ex_Log x @ l" and "P l (ex_Response x')"
  using assms unfolding answers_def by (metis unit.exhaust)

lemma answersI:
  "(\<And>x x'. open_response (ex_Response x) \<Longrightarrow> run_state m x = ((), x') \<Longrightarrow>
     \<exists>l. ex_Log x' = ex_Log x @ l \<and> P l (ex_Response x')) \<Longrightarrow> answers P m"
  by (simp add: answers_def)

lemma answers_respond: "(\<And>w. open_response w \<Longrightarrow> P [] (f w)) \<Longrightarrow> answers P (respond f)"
  by (rule answersI) auto

lemma answers_call:
  assumes "\<And>res. answers P (k res)"
  shows "answers P (State_Monad.bind (call_service m) k)"
proof (rule answersI)
  fix x x'
  assume x: "open_response (ex_Response x)" and run: "run_state (State_Monad.bind (call_service m) k) x = ((), x')"
  obtain res w where "run_state m (ex_World x) = (res, w)" by force
  with run have "run_state (k res) (x\<lparr>ex_World := w\<rparr>) = ((), x')" by (simp add: call_service_def)
  from answersD [OF assms _ this] x show "\<exists>l. ex_Log x' = ex_Log x @ l \<and> P l (ex_Response x')" by auto
qed

lemma answers_log:
  assumes "answers (\<lambda>l. P (e # l)) m"
  shows "answers P (State_Monad.bind (log_entry e) (\<lambda>_. m))"
proof (rule answersI)
  fix x x'
  assume x: "open_response (ex_Response x)" and run: "run_state (State_Monad.bind (log_entry e) (\<lambda>_. m)) x = ((), x')"
  from run have "run_state m (x\<lparr>ex_Log := ex_Log x @ [e]\<rparr>) = ((), x')" by simp
  from answersD [OF assms _ this] x obtain l where "ex_Log x' = ex_Log x @ [e] @ l" "P (e # l) (ex_Response x')"
    by auto
  then show "\<exists>l. ex_Log x' = ex_Log x @ l \<and> P l (ex_Response x')" by auto
qed

lemma answers_set:
  assumes "answers P m" and "\<And>w. open_response w \<Longrightarrow> open_response (f w)"
  shows "answers P (State_Monad.bind (respond f) (\<lambda>_. m))"
proof (rule answersI)
  fix x x'
  assume x: "open_response (ex_Response x)" and run: "run_state (State_Monad.bind (respond f) (\<lambda>_. m)) x = ((), x')"
  from run have "run_state m (x\<lparr>ex_Response := f (ex_Response x)\<rparr>) = ((), x')" by simp
  from answersD [OF assms(1) _ this] x assms(2) show "\<exists>l. ex_Log x' = ex_Log x @ l \<and> P l (ex_Response x')" by auto
qed

lemma answers_cases:
  "(\<And>e. res = Inl e \<Longrightarrow> answers P (f e)) \<Longrightarrow> (\<And>v. res = Inr v \<Longrightarrow> answers P (g v)) \<Longrightarrow>
   answers P (case res of Inl e \<Rightarrow> f e | Inr v \<Rightarrow> g v)"
  "(p = None \<Longrightarrow> answers P n) \<Longrightarrow> (\<And>v. p = Some v \<Longrightarrow> answers P (h v)) \<Longrightarrow>
   answers P (case p of None \<Rightarrow> n | Some v \<Rightarrow> h v)"
  "(b \<Longrightarrow> answers P m) \<Longrightarrow> (\<not> b \<Longrightarrow> answers P m') \<Longrightarrow> answers P (if b then m else m')"
  by (simp_all split: sum.split option.split)

lemma answers_mono: "answers P m \<Longrightarrow> (\<And>l w. P l w \<Longrightarrow> Q l w) \<Longrightarrow> answers Q m"
  unfolding answers_def by blast

lemmas answers_rules = answers_call answers_log answers_cases answers_respond

abbreviation shaped :: "nat set \<Rightarrow> ('w exchange, unit) state \<Rightarrow> bool" where
  "shaped codes \<equiv> answers (\<lambda>_. answer_shape codes)"

end
