(* ===== verification/Todo_Handler.thy ===== *)
theory Todo_Handler
  imports Auth_Handler Todo_Service
begin

text \<open>
  The HTTP handlers of \<open>internal/todo/handler.go\<close>, over any service of the interface \<open>TodoService\<close>
  (\<open>interfaces.go\<close>). \<open>toTodoResponse\<close> reads through its argument, which the service never answers as nil:
  a nil one is a panic, here the recovered answer 500 (\<open>respond_todo\<close>).
\<close>

record 'w TodoService =
  todo_ListByUserID :: "uuid \<Rightarrow> ('w, go_error + Todo list) state"
  todo_GetByID :: "uuid \<Rightarrow> uuid \<Rightarrow> ('w, go_error + Todo option) state"
  todo_Create :: "uuid \<Rightarrow> string \<Rightarrow> string option \<Rightarrow> go_time option \<Rightarrow> ('w, go_error + Todo option) state"
  todo_Update :: "uuid \<Rightarrow> uuid \<Rightarrow> string option \<Rightarrow> string option \<Rightarrow> bool option \<Rightarrow> go_time option \<Rightarrow>
    ('w, go_error + Todo option) state"
  todo_Delete :: "uuid \<Rightarrow> uuid \<Rightarrow> ('w, go_error + unit) state"

definition toTodoResponse :: "http_libs \<Rightarrow> Todo \<Rightarrow> api_TodoResponse" where
  "toTodoResponse H todo =
     \<lparr>tdr_CreatedAt = Todo_CreatedAt todo, tdr_Description = Todo_Description todo,
      tdr_DueDate = Todo_DueDate todo, tdr_Id = hl_uuid_String H (Todo_ID todo),
      tdr_IsCompleted = Todo_IsCompleted todo, tdr_Title = Todo_Title todo,
      tdr_UpdatedAt = Todo_UpdatedAt todo, tdr_UserId = hl_uuid_String H (Todo_UserID todo)\<rparr>"

definition respond_todo :: "http_libs \<Rightarrow> nat \<Rightarrow> Todo option \<Rightarrow> ('w exchange, unit) state" where
  "respond_todo H code p =
     (case p of
        None \<Rightarrow> respond (RespondError 500 ''internal server error'')
      | Some todo \<Rightarrow> respond (RespondJSON code (json_TodoResponse (toTodoResponse H todo))))"

definition Handler_ListTodos :: "http_libs \<Rightarrow> 'w TodoService \<Rightarrow> 'w handler" where
  "Handler_ListTodos H T r =
     (case UserFromContext r of
        None \<Rightarrow> respond (RespondError 401 ''unauthorized'')
      | Some user \<Rightarrow> do {
          res \<leftarrow> call_service (todo_ListByUserID T (User_ID user));
          case res of
            Inl err \<Rightarrow> respond (RespondError 500 ''internal server error'')
          | Inr todos \<Rightarrow>
              respond (RespondJSON 200 (JList (map (\<lambda>t. json_TodoResponse (toTodoResponse H t)) todos)))
        })"

text \<open>The decoding errors of the two handlers that read a body.\<close>

definition todo_decode_error :: "go_error \<Rightarrow> response \<Rightarrow> response" where
  "todo_decode_error err =
     (if err = ErrBodyTooLarge then RespondError 413 ''request body too large''
      else RespondError 400 ''invalid request body'')"

definition Handler_CreateTodo :: "http_libs \<Rightarrow> 'w TodoService \<Rightarrow> 'w handler" where
  "Handler_CreateTodo H T r =
     (case UserFromContext r of
        None \<Rightarrow> respond (RespondError 401 ''unauthorized'')
      | Some user \<Rightarrow>
          (case DecodeJSON 1048576 (unmarshal_CreateTodoRequest (hl_json H)) r of
             Inl err \<Rightarrow> respond (todo_decode_error err)
           | Inr req \<Rightarrow> do {
               res \<leftarrow> call_service (todo_Create T (User_ID user) (ctr_Title req) (ctr_Description req)
                 (ctr_DueDate req));
               case res of
                 Inl err \<Rightarrow>
                   respond
                     (if err = ErrInvalidTodoParams then RespondError 400 ''invalid todo parameters''
                      else RespondError 500 ''internal server error'')
               | Inr todo \<Rightarrow> respond_todo H 201 todo
             }))"

definition Handler_GetTodo :: "http_libs \<Rightarrow> 'w TodoService \<Rightarrow> uuid \<Rightarrow> 'w handler" where
  "Handler_GetTodo H T key r =
     (case UserFromContext r of
        None \<Rightarrow> respond (RespondError 401 ''unauthorized'')
      | Some user \<Rightarrow> do {
          res \<leftarrow> call_service (todo_GetByID T key (User_ID user));
          case res of
            Inl err \<Rightarrow>
              respond
                (if err = ErrTodoNotFound \<or> err = ErrTodoNotOwned then RespondError 404 ''todo not found''
                 else RespondError 500 ''internal server error'')
          | Inr todo \<Rightarrow> respond_todo H 200 todo
        })"

definition Handler_UpdateTodo :: "http_libs \<Rightarrow> 'w TodoService \<Rightarrow> uuid \<Rightarrow> 'w handler" where
  "Handler_UpdateTodo H T key r =
     (case UserFromContext r of
        None \<Rightarrow> respond (RespondError 401 ''unauthorized'')
      | Some user \<Rightarrow>
          (case DecodeJSON 1048576 (unmarshal_UpdateTodoRequest (hl_json H)) r of
             Inl err \<Rightarrow> respond (todo_decode_error err)
           | Inr req \<Rightarrow> do {
               res \<leftarrow> call_service (todo_Update T key (User_ID user) (utr_Title req) (utr_Description req)
                 (utr_IsCompleted req) (utr_DueDate req));
               case res of
                 Inl err \<Rightarrow>
                   respond
                     (if err = ErrTodoNotFound \<or> err = ErrTodoNotOwned then RespondError 404 ''todo not found''
                      else if err = ErrInvalidTodoParams then RespondError 400 ''invalid todo parameters''
                      else RespondError 500 ''internal server error'')
               | Inr todo \<Rightarrow> respond_todo H 200 todo
             }))"

definition Handler_DeleteTodo :: "'w TodoService \<Rightarrow> uuid \<Rightarrow> 'w handler" where
  "Handler_DeleteTodo T key r =
     (case UserFromContext r of
        None \<Rightarrow> respond (RespondError 401 ''unauthorized'')
      | Some user \<Rightarrow> do {
          res \<leftarrow> call_service (todo_Delete T key (User_ID user));
          case res of
            Inl err \<Rightarrow>
              respond
                (if err = ErrTodoNotFound \<or> err = ErrTodoNotOwned then RespondError 404 ''todo not found''
                 else RespondError 500 ''internal server error'')
          | Inr _ \<Rightarrow> respond (WriteHeader 204)
        })"

lemma shaped_respond_todo:
  "code \<in> codes \<Longrightarrow> 500 \<in> codes \<Longrightarrow> code < 400 \<Longrightarrow> code \<noteq> 204 \<Longrightarrow> shaped codes (respond_todo H code p)"
  by (auto simp: respond_todo_def intro!: answers_rules answer_shapes)

lemma answer_shape_todo_decode:
  "open_response w \<Longrightarrow> {400, 413} \<subseteq> codes \<Longrightarrow> answer_shape codes (todo_decode_error err w)"
  by (simp add: todo_decode_error_def answer_shape_error)

end
