(* ===== verification/Rate_Limit.thy ===== *)
theory Rate_Limit
  imports Middleware
begin

text \<open>
  The rate limiter of \<open>internal/middleware/ratelimit.go\<close>: a token bucket per client address, with a
  sweep of idle buckets that a request may start in the background.

  Parameters: the constructor and \<open>Allow\<close> of \<open>golang.org/x/time/rate\<close>, and the clock. The state holds the
  variables of the closure, the number of readings taken from the clock and the number of
  sweeps started and not yet run; a sweep is a step of its own, taken at any later time.
\<close>

section \<open>State\<close>

record 'l limiter_libs =
  rate_NewLimiter :: "int \<Rightarrow> int \<Rightarrow> 'l"
  rate_Allow :: "go_time \<Rightarrow> 'l \<Rightarrow> bool \<times> 'l"
  rate_Now :: "nat \<Rightarrow> go_time"

record 'l entry =
  en_limiter :: 'l
  en_lastSeen :: int

record 'l limits =
  lim_buckets :: "string \<Rightarrow> 'l entry option"
  lim_opsSince :: int
  lim_lastSweep :: int
  lim_readings :: nat
  lim_pending :: nat

definition no_limits :: "'l limits" where
  "no_limits = \<lparr>lim_buckets = (\<lambda>_. None), lim_opsSince = 0, lim_lastSweep = 0, lim_readings = 0,
     lim_pending = 0\<rparr>"

record limit_config =
  lc_rps :: int
  lc_burst :: int
  lc_idleTimeout :: go_duration

text \<open>The defaults for arguments that are not positive.\<close>

definition limit_defaults :: "int \<Rightarrow> int \<Rightarrow> go_duration \<Rightarrow> limit_config" where
  "limit_defaults rps burst idleTimeout =
     (let rps = (if rps \<le> 0 then 1 else rps);
          burst = (if burst \<le> 0 then rps else burst);
          idleTimeout = (if idleTimeout \<le> 0 then 600 * Second else idleTimeout)
      in \<lparr>lc_rps = rps, lc_burst = burst, lc_idleTimeout = idleTimeout\<rparr>)"

abbreviation sweepEvery :: int where
  "sweepEvery \<equiv> 4096"

section \<open>Steps\<close>

definition limiter_now :: "'l limiter_libs \<Rightarrow> ('l limits, go_time) state" where
  "limiter_now R = State (\<lambda>s. (rate_Now R (lim_readings s), s\<lparr>lim_readings := Suc (lim_readings s)\<rparr>))"

definition mkEntry :: "'l limiter_libs \<Rightarrow> limit_config \<Rightarrow> ('l limits, 'l entry) state" where
  "mkEntry R C = do {
     t \<leftarrow> limiter_now R;
     State_Monad.return \<lparr>en_limiter = rate_NewLimiter R (lc_rps C) (lc_burst C), en_lastSeen = t\<rparr>
   }"

definition sweep :: "'l limiter_libs \<Rightarrow> limit_config \<Rightarrow> ('l limits, unit) state" where
  "sweep R C = do {
     t \<leftarrow> limiter_now R;
     State (\<lambda>s. ((), s\<lparr>lim_buckets := (\<lambda>ip. case lim_buckets s ip of
         None \<Rightarrow> None
       | Some e \<Rightarrow> if en_lastSeen e < t - lc_idleTimeout C then None else Some e)\<rparr>));
     t' \<leftarrow> limiter_now R;
     State (\<lambda>s. ((), s\<lparr>lim_lastSweep := t', lim_opsSince := 0, lim_pending := lim_pending s - 1\<rparr>))
   }"

text \<open>Every 4096 requests or after a minute a sweep is started.\<close>

definition sweep_due :: "'l limiter_libs \<Rightarrow> ('l limits, bool) state" where
  "sweep_due R = do {
     ops \<leftarrow> State (\<lambda>s. (lim_opsSince s + 1, s\<lparr>lim_opsSince := lim_opsSince s + 1\<rparr>));
     if sweepEvery \<le> ops then State_Monad.return True
     else do {
       t \<leftarrow> limiter_now R;
       State (\<lambda>s. (60 * Second < t - lim_lastSweep s, s))
     }
   }"

text \<open>The bucket of the address: the stored one, else the new entry, which is stored.\<close>

definition LoadOrStore :: "string \<Rightarrow> 'l entry \<Rightarrow> ('l limits, 'l entry) state" where
  "LoadOrStore ip new = State (\<lambda>s.
     case lim_buckets s ip of
       Some e \<Rightarrow> (e, s)
     | None \<Rightarrow> (new, s\<lparr>lim_buckets := (lim_buckets s)(ip \<mapsto> new)\<rparr>))"

definition set_bucket :: "string \<Rightarrow> 'l entry \<Rightarrow> ('l limits, unit) state" where
  "set_bucket ip e = State (\<lambda>s. ((), s\<lparr>lim_buckets := (lim_buckets s)(ip \<mapsto> e)\<rparr>))"

definition admit :: "'l limiter_libs \<Rightarrow> limit_config \<Rightarrow> string \<Rightarrow> ('l limits, bool) state" where
  "admit R C ip = do {
     due \<leftarrow> sweep_due R;
     (if due then State (\<lambda>s. ((), s\<lparr>lim_pending := Suc (lim_pending s)\<rparr>)) else State_Monad.return ());
     new \<leftarrow> mkEntry R C;
     e \<leftarrow> LoadOrStore ip new;
     t \<leftarrow> limiter_now R;
     set_bucket ip (e\<lparr>en_lastSeen := t\<rparr>);
     t' \<leftarrow> limiter_now R;
     (case rate_Allow R t' (en_limiter e) of (ok, l) \<Rightarrow> do {
        set_bucket ip (e\<lparr>en_lastSeen := t, en_limiter := l\<rparr>);
        State_Monad.return ok })
   }"

section \<open>The middleware\<close>

text \<open>
  \<open>take_token\<close> is \<open>admit\<close> on the limiter's part of the world. The refusal is written as bytes; they are the
  JSON object shown.
\<close>

definition limit_key :: "request \<Rightarrow> string" where
  "limit_key r =
     (let ip = ClientIPFromContext r
      in if ip = '''' then GetRealIP (\<lambda>_. None :: unit option) [] r else ip)"

definition RateLimit :: "(string \<Rightarrow> ('w, bool) state) \<Rightarrow> 'w middleware" where
  "RateLimit take_token next = (\<lambda>r. do {
     ok \<leftarrow> call_service (take_token (limit_key r));
     if \<not> ok then do {
       respond (header_Set ''Retry-After'' ''1'');
       respond (header_Set ''Content-Type'' ''application/json'');
       respond (WriteHeader 429);
       respond (write_chunk (ChunkJSON (JObj [(''detail'', JStr ''rate limit exceeded'')])))
     } else next r
   })"

section \<open>Facts\<close>

lemmas limiter_defs = limiter_now_def mkEntry_def sweep_due_def LoadOrStore_def set_bucket_def

text \<open>A request of one address leaves the buckets of the others alone.\<close>

lemma admit_other:
  assumes "ip' \<noteq> ip" and "run_state (admit R C ip) s = (ok, s')"
  shows "lim_buckets s' ip' = lim_buckets s ip'"
  using assms unfolding admit_def limiter_defs
  by (auto split: prod.splits option.splits if_splits)

text \<open>A sweep drops a bucket exactly when it has been idle for longer than the timeout.\<close>

lemma sweep_buckets:
  assumes "run_state (sweep R C) s = (u, s')"
  shows "lim_buckets s' ip = (case lim_buckets s ip of None \<Rightarrow> None
    | Some e \<Rightarrow> if en_lastSeen e < rate_Now R (lim_readings s) - lc_idleTimeout C then None else Some e)"
  using assms unfolding sweep_def limiter_now_def by auto

text \<open>After a request its address has a bucket, seen at a reading taken during the request.\<close>

lemma admit_seen:
  assumes "run_state (admit R C ip) s = (ok, s')"
  shows "\<exists>e n. lim_buckets s' ip = Some e \<and> en_lastSeen e = rate_Now R n \<and>
    lim_readings s \<le> n \<and> n < lim_readings s'"
  using assms unfolding admit_def limiter_defs
  by (auto split: prod.splits option.splits if_splits) (intro exI conjI, rule refl, simp, simp)+

end
