(* ===== verification/Spec.thy ===== *)
theory Spec
  imports Http
begin

text \<open>
  The embedded API description: the functions at the end of \<open>internal/api/server.gen.go\<close>, and the pages
  of \<open>internal/router/openapi_spec.go\<close>, \<open>swagger.go\<close> and \<open>swagger_stub.go\<close>.

  Parameters: the embedded text and page, base64, deflate, kin-openapi's loader, YAML. A loaded description is the
  JSON value it describes.
\<close>

record spec_libs =
  swaggerSpec :: "string list"
  base64_DecodeString :: "string \<Rightarrow> string + string"
  flate_ReadFrom :: "string \<Rightarrow> string + string"
  flate_Close :: "string \<Rightarrow> string option"
  path_Clean :: "string \<Rightarrow> string"
  openapi3_LoadFromData :: "(string \<Rightarrow> string + string) \<Rightarrow> string \<Rightarrow> string + json"
  yaml_Marshal :: "json \<Rightarrow> string + string"
  swaggerui_IndexHTML :: "string option"

section \<open>Loading\<close>

definition decodeSpec :: "spec_libs \<Rightarrow> string + string" where
  "decodeSpec L =
     (let encoded = concat (swaggerSpec L)
      in case base64_DecodeString L encoded of
           Inl err \<Rightarrow> Inl (''error base64 decoding spec: '' @ err)
         | Inr compressed \<Rightarrow>
             (case flate_ReadFrom L compressed of
                Inl err \<Rightarrow> Inl (''read flate: '' @ err)
              | Inr buf \<Rightarrow>
                  (case flate_Close L compressed of
                     Some err \<Rightarrow> Inl (''close flate reader: '' @ err)
                   | None \<Rightarrow> Inr buf)))"

text \<open>The cache answers what the first decoding gave.\<close>

definition decodeSpecCached :: "spec_libs \<Rightarrow> unit \<Rightarrow> string + string" where
  "decodeSpecCached L = (let data = decodeSpec L in (\<lambda>_. data))"

definition rawSpec :: "spec_libs \<Rightarrow> unit \<Rightarrow> string + string" where
  "rawSpec L = decodeSpecCached L"

definition PathToRawSpec :: "spec_libs \<Rightarrow> string \<Rightarrow> string \<rightharpoonup> (unit \<Rightarrow> string + string)" where
  "PathToRawSpec L pathToFile =
     (if 0 < length pathToFile then Map.empty(pathToFile \<mapsto> rawSpec L) else Map.empty)"

text \<open>The reader of external references, by the text of their URL.\<close>

definition read_reference :: "spec_libs \<Rightarrow> (string \<rightharpoonup> (unit \<Rightarrow> string + string)) \<Rightarrow> string \<Rightarrow> string + string" where
  "read_reference L resolvePath url =
     (let pathToFile = path_Clean L url
      in case resolvePath pathToFile of
           None \<Rightarrow> Inl (''path not found: '' @ pathToFile)
         | Some getSpec \<Rightarrow> getSpec ())"

definition GetSpec :: "spec_libs \<Rightarrow> string + json" where
  "GetSpec L =
     (let resolvePath = PathToRawSpec L ''''
      in case rawSpec L () of
           Inl err \<Rightarrow> Inl err
         | Inr specData \<Rightarrow> openapi3_LoadFromData L (read_reference L resolvePath) specData)"

definition GetSpecJSON :: "spec_libs \<Rightarrow> string + string" where
  "GetSpecJSON L = rawSpec L ()"

definition GetSwagger :: "spec_libs \<Rightarrow> string + json" where
  "GetSwagger L = GetSpec L"

section \<open>Pages\<close>

definition openapi_page :: "spec_libs \<Rightarrow> 'w handler" where
  "openapi_page L r =
     (case GetSpec L of
        Inl err \<Rightarrow> respond (http_Error ''spec unavailable'' 500)
      | Inr swagger \<Rightarrow>
          (case yaml_Marshal L swagger of
             Inl err \<Rightarrow> respond (http_Error ''spec marshal failed'' 500)
           | Inr out \<Rightarrow> do {
               respond (header_Set ''Content-Type'' ''application/yaml'');
               respond (write_chunk (ChunkText out))
             }))"

definition swagger_page :: "string \<Rightarrow> 'w handler" where
  "swagger_page index r = do {
     respond (header_Set ''Content-Type'' ''text/html; charset=utf-8'');
     respond (write_chunk (ChunkText index))
   }"

type_synonym 'w routes = "(string \<times> string \<times> 'w handler) list"

text \<open>The page exists only in builds with the tag \<open>swagger\<close>; without it the function is the stub.\<close>

definition mountSwagger :: "spec_libs \<Rightarrow> bool \<Rightarrow> 'w routes" where
  "mountSwagger L enabled =
     (case swaggerui_IndexHTML L of
        None \<Rightarrow> []
      | Some index \<Rightarrow> if \<not> enabled then [] else [(''GET'', ''/swagger'', swagger_page index)])"

definition mountOpenAPISpec :: "spec_libs \<Rightarrow> 'w routes" where
  "mountOpenAPISpec L = [(''GET'', ''/openapi.yaml'', openapi_page L)]"

text \<open>The lines of \<open>New\<close> that mount them.\<close>

definition page_routes :: "spec_libs \<Rightarrow> bool \<Rightarrow> 'w routes" where
  "page_routes L swaggerEnabled =
     mountSwagger L swaggerEnabled @ (if swaggerEnabled then mountOpenAPISpec L else [])"

section \<open>Facts\<close>

text \<open>The description refers to nothing outside itself: every external reference is refused.\<close>

lemma GetSpec_closed:
  "GetSpec L = (case decodeSpec L of Inl err \<Rightarrow> Inl err
     | Inr data \<Rightarrow> openapi3_LoadFromData L (\<lambda>url. Inl (''path not found: '' @ path_Clean L url)) data)"
proof -
  have refs: "read_reference L Map.empty = (\<lambda>url. Inl (''path not found: '' @ path_Clean L url))"
    by (simp add: fun_eq_iff read_reference_def)
  have none: "PathToRawSpec L '''' = Map.empty" by (simp add: PathToRawSpec_def)
  show ?thesis unfolding GetSpec_def rawSpec_def decodeSpecCached_def Let_def none refs ..
qed

lemma wp_page:
  assumes "(m, p, h) \<in> set (page_routes L enabled)" and "\<And>f. Q () (x\<lparr>ex_Response := f (ex_Response x)\<rparr>)"
  shows "wp (h r) Q x"
proof -
  have "wp (openapi_page L r) Q x"
    unfolding openapi_page_def
    using assms(2) assms(2) [of "\<lambda>w. write_chunk _ (header_Set _ _ w)"]
    by (auto simp: wp_simps split: sum.split)
  moreover have "wp (swagger_page index r) Q x" for index
    using assms(2) [of "\<lambda>w. write_chunk _ (header_Set _ _ w)"] by (simp add: swagger_page_def wp_simps)
  ultimately show ?thesis
    using assms(1) by (auto simp: page_routes_def mountSwagger_def mountOpenAPISpec_def split: if_splits option.splits)
qed

end
