(* ===== verification/Router.thy ===== *)
theory Router
  imports Config Api_Server Auth_Handler Todo_Handler Rate_Limit Spec Auth_Repository Todo_Repository
begin

text \<open>
  The server as \<open>internal/router/router.go\<close>, \<open>apiserver.go\<close> and the generated
  \<open>internal/api/server.gen.go\<close> put it together, on the services and repositories wired by
  \<open>cmd/api/main.go\<close>: the route table, the order of the middleware, CORS, the root and health
  endpoints, and the binding of path parameters.

  Parameters, the fields of \<open>env\<close>: the packages of the services, the database server, the matching of
  paths against the route table and the answers to unmatched requests (chi), the request validator
  generated from the API description (kin-openapi, nethttp-middleware), the parsing of a path parameter
  (oapi-codegen runtime), the rate limiter's package, what the embedded description is loaded with.
  The request timeout shows as a lost statement (\<open>pg_delivery\<close>).
\<close>

section \<open>The world of the server\<close>

record 'l app =
  app_auth :: "db auth_state"
  app_limits :: "'l limits"
  app_requests :: nat

definition on_auth :: "(db auth_state, 'a) state \<Rightarrow> ('l app, 'a) state" where
  "on_auth m = zoom app_auth (\<lambda>s w. w\<lparr>app_auth := s\<rparr>) m"

definition on_db :: "(db, 'a) state \<Rightarrow> ('l app, 'a) state" where
  "on_db m = on_auth (on_repo m)"

definition on_limits :: "('l limits, 'a) state \<Rightarrow> ('l app, 'a) state" where
  "on_limits m = zoom app_limits (\<lambda>s w. w\<lparr>app_limits := s\<rparr>) m"

abbreviation app_db :: "'l app \<Rightarrow> db" where
  "app_db w \<equiv> as_repo (app_auth w)"

datatype routed = Routed nat "(string \<times> string) list" | RouteNotFound | RouteMethodNotAllowed

record ('ip, 'l) env =
  env_pg :: pg
  env_libs :: auth_libs
  env_http :: http_libs
  env_limiter :: "'l limiter_libs"
  env_spec :: spec_libs
  env_ParseIP :: "string \<Rightarrow> 'ip option"
  env_rand :: "nat \<Rightarrow> string option"
  env_clock :: "nat \<Rightarrow> go_time"
  env_route :: "(string \<times> string) list \<Rightarrow> string \<Rightarrow> string \<Rightarrow> routed"
  env_NotFound :: "response \<Rightarrow> response"
  env_MethodNotAllowed :: "response \<Rightarrow> response"
  env_OapiValidate :: "request \<Rightarrow> (string \<times> nat) option"
  env_BindUUID :: "string \<Rightarrow> string + uuid"

record 'ip config =
  cfg_service :: service
  cfg_cors :: cors_config
  cfg_rate :: rate_config
  cfg_trusted :: "('ip \<Rightarrow> bool) list"
  cfg_swagger :: bool

section \<open>Wiring of the services\<close>

definition auth_service :: "('ip, 'l) env \<Rightarrow> 'ip config \<Rightarrow> 'l app AuthService" where
  "auth_service E C =
     (let L = env_libs E; R = Repository (env_pg E); svc = cfg_service C
      in \<lparr>auth_Register = (\<lambda>email password approvedID.
            on_auth (Service_Register L R svc email password approvedID)),
          auth_Login = (\<lambda>email password. on_auth (Service_Login L R svc email password)),
          auth_GetUserFromToken = (\<lambda>token.
            on_auth (tryE (Service_GetUserFromToken L R svc token)
              (\<lambda>user. State_Monad.return (Inr (Some user)))))\<rparr>)"

definition admin_service :: "('ip, 'l) env \<Rightarrow> 'l app ApprovedUserAdminService" where
  "admin_service E =
     (let R = Repository (env_pg E)
      in \<lparr>admin_ListApprovedUsers = on_auth (Service_ListApprovedUsers R),
          admin_CreateApprovedUser = (\<lambda>email firstName by.
            on_auth (Service_CreateApprovedUser R email firstName by)),
          admin_BulkCreateApprovedUsers = (\<lambda>emails firstNames by.
            on_auth (Service_BulkCreateApprovedUsers R emails firstNames by)),
          admin_DeleteApprovedUser = (\<lambda>key. on_auth (Service_DeleteApprovedUser R key))\<rparr>)"

definition todo_service :: "('ip, 'l) env \<Rightarrow> 'l app TodoService" where
  "todo_service E =
     (let R = TodoRepository (env_pg E)
      in \<lparr>todo_ListByUserID = (\<lambda>uid. on_db (Todo_ListByUserID R uid)),
          todo_GetByID = (\<lambda>key uid. on_db (Todo_GetByID R key uid)),
          todo_Create = (\<lambda>uid title description due. on_db (Todo_Create R uid title description due)),
          todo_Update = (\<lambda>key uid title description completed due.
            on_db (Todo_Update R key uid title description completed due)),
          todo_Delete = (\<lambda>key uid. on_db (Todo_Delete R key uid))\<rparr>)"

section \<open>Root endpoints\<close>

text \<open>\<open>json.Encoder\<close> sorts the keys of a map. The handler sets no status: the first write sends 200.\<close>

definition rootHandler :: "'w handler" where
  "rootHandler r = do {
     respond (header_Set ''Content-Type'' ''application/json'');
     respond (write_chunk (ChunkJSON (JObj [(''status'', JStr ''running''), (''version'', JStr ''1.0.0'')])))
   }"

text \<open>\<open>checkDB\<close> is \<open>pool.Ping\<close>; a nil function means no check. \<open>database\<close> is omitted when empty.\<close>

definition healthHandlerWithDB :: "('w, go_error + unit) state option \<Rightarrow> 'w handler" where
  "healthHandlerWithDB checkDB r = do {
     respond (header_Set ''Content-Type'' ''application/json'');
     case checkDB of
       None \<Rightarrow> do {
         respond (WriteHeader 200);
         respond (write_chunk (ChunkJSON (JObj [(''status'', JStr ''healthy'')])))
       }
     | Some check \<Rightarrow> do {
         res \<leftarrow> call_service check;
         case res of
           Inl err \<Rightarrow> do {
             respond (WriteHeader 503);
             respond (write_chunk (ChunkJSON (JObj
               [(''status'', JStr ''unhealthy''), (''database'', JStr ''disconnected'')])))
           }
         | Inr _ \<Rightarrow> do {
             respond (WriteHeader 200);
             respond (write_chunk (ChunkJSON (JObj
               [(''status'', JStr ''healthy''), (''database'', JStr ''connected'')])))
           }
       }
   }"

text \<open>A ping is a round trip to the database.\<close>

definition pool_Ping :: "pg \<Rightarrow> (db, go_error + unit) state" where
  "pool_Ping E = statement E (select (\<lambda>_. ()))"

section \<open>Middleware of the router\<close>

definition next_request :: "('l app, nat) state" where
  "next_request = State (\<lambda>w. (app_requests w, w\<lparr>app_requests := Suc (app_requests w)\<rparr>))"

definition requestIDMiddleware :: "('ip, 'l) env \<Rightarrow> 'l app middleware" where
  "requestIDMiddleware E next = (\<lambda>r. do {
     n \<leftarrow> call_service next_request;
     let requestID = GenerateRequestID (env_rand E n) (env_clock E n);
     respond (header_Set ''X-Request-ID'' requestID);
     next (r\<lparr>ctx_RequestID := Some requestID\<rparr>)
   })"

definition realIPMiddleware :: "('ip, 'l) env \<Rightarrow> 'ip config \<Rightarrow> 'w middleware" where
  "realIPMiddleware E C next = (\<lambda>r.
     next (r\<lparr>ctx_ClientIP := Some (GetRealIP (env_ParseIP E) (cfg_trusted C) r)\<rparr>))"

text \<open>
  The two entries of a request. No middleware starts a span, so the context has none that records. The
  status is what the wrapper has noted.
\<close>

definition no_span :: span where
  "no_span = \<lparr>span_IsRecording = False, span_TraceID = '''', span_SpanID = ''''\<rparr>"

definition loggerMiddleware :: "'w middleware" where
  "loggerMiddleware next = (\<lambda>r.
     let log = WithTraceContext no_span [];
         request_fields = [StringField ''method'' (req_Method r), StringField ''path'' (req_Path r)]
     in do {
       log_entry (Debug ''request started'' (log @ request_fields));
       respond (\<lambda>w. w\<lparr>res_Wrapped := 200\<rparr>);
       next r;
       status \<leftarrow> noted_status;
       log_entry (Debug ''request completed'' (log @ request_fields @ [IntField ''status'' (int status)]))
     })"

definition isValidOrigin :: "string \<Rightarrow> string list \<Rightarrow> bool" where
  "isValidOrigin origin allowedOrigins =
     (if origin = '''' then False else origin \<in> set allowedOrigins)"

text \<open>The headers, in the order they are set.\<close>

definition cors_headers :: "cors_config \<Rightarrow> string \<Rightarrow> bool \<Rightarrow> response \<Rightarrow> response" where
  "cors_headers C origin valid w =
     (let methods = join_with '', '' (cors_AllowedMethods C);
          headers = join_with '', '' (cors_AllowedHeaders C);
          methods = (if methods = '''' then ''GET, POST, PUT, PATCH, DELETE, OPTIONS'' else methods);
          headers = (if headers = '''' then ''Accept, Authorization, Content-Type'' else headers);
          maxAge = (if cors_MaxAge C = 0 then 3600 else cors_MaxAge C);
          w = header_Add ''Vary'' ''Origin'' w;
          w = (if valid then
                 (let w = header_Set ''Access-Control-Allow-Origin'' origin w
                  in if cors_AllowCredentials C
                     then header_Set ''Access-Control-Allow-Credentials'' ''true'' w else w)
               else w);
          w = header_Set ''Access-Control-Allow-Methods'' methods w;
          w = header_Set ''Access-Control-Allow-Headers'' headers w
      in header_Set ''Access-Control-Max-Age'' (Itoa maxAge) w)"

definition corsMiddleware :: "cors_config \<Rightarrow> 'w middleware" where
  "corsMiddleware C next = (\<lambda>r.
     let origin = header_Get r ''Origin'';
         valid = isValidOrigin origin (cors_AllowedOrigins C)
     in do {
       respond (cors_headers C origin valid);
       if req_Method r = ''OPTIONS'' then
         (if \<not> valid then respond (WriteHeader 403) else respond (WriteHeader 204))
       else next r
     })"

text \<open>
  The conversion of the configured rate goes through \<open>float64\<close> and truncates; a quotient below 1, and the
  infinite one of a zero duration (whose conversion is negative on amd64), become 1.
\<close>

definition limit_args :: "rate_config \<Rightarrow> limit_config" where
  "limit_args cfg =
     (let ratePerSec = (if rl_Duration cfg \<le> 0 then 1
            else if rl_Requests cfg * Second < rl_Duration cfg then 1
            else rl_Requests cfg * Second div rl_Duration cfg)
      in limit_defaults ratePerSec (rl_Requests cfg) (600 * Second))"

definition rateLimitMiddleware :: "('ip, 'l) env \<Rightarrow> rate_config \<Rightarrow> 'l app middleware" where
  "rateLimitMiddleware E cfg =
     (if rl_Requests cfg \<le> 0 then (\<lambda>next. next)
      else RateLimit (\<lambda>ip. on_limits (admit (env_limiter E) (limit_args cfg) ip)))"

definition openAPIValidationErrorHandler :: "string \<Rightarrow> nat \<Rightarrow> response \<Rightarrow> response" where
  "openAPIValidationErrorHandler message statusCode = RespondError statusCode message"

text \<open>Without a loadable description (\<open>swagger == nil\<close>) there is no validator.\<close>

definition oapiMiddleware :: "('ip, 'l) env \<Rightarrow> 'w middleware" where
  "oapiMiddleware E =
     (case GetSpec (env_spec E) of
        Inl err \<Rightarrow> (\<lambda>next. next)
      | Inr swagger \<Rightarrow> (\<lambda>next r.
          case env_OapiValidate E r of
            Some (message, statusCode) \<Rightarrow> respond (openAPIValidationErrorHandler message statusCode)
          | None \<Rightarrow> next r))"

section \<open>Routes\<close>

datatype guard = Public | Authenticated | AdminOnly

definition api_routes :: "(guard \<times> string \<times> string \<times> endpoint) list" where
  "api_routes =
     [(Public, ''POST'', ''/auth/register'', RegisterUser),
      (Public, ''POST'', ''/auth/login'', LoginUser),
      (Authenticated, ''GET'', ''/todos'', ListTodos),
      (Authenticated, ''POST'', ''/todos'', CreateTodo),
      (Authenticated, ''GET'', ''/todos/{id}'', GetTodo),
      (Authenticated, ''PATCH'', ''/todos/{id}'', UpdateTodo),
      (Authenticated, ''DELETE'', ''/todos/{id}'', DeleteTodo),
      (Authenticated, ''GET'', ''/me'', GetCurrentUser),
      (AdminOnly, ''GET'', ''/admin/approved-users'', ListApprovedUsers),
      (AdminOnly, ''POST'', ''/admin/approved-users'', CreateApprovedUser),
      (AdminOnly, ''POST'', ''/admin/approved-users/bulk'', BulkCreateApprovedUsers),
      (AdminOnly, ''DELETE'', ''/admin/approved-users/{id}'', DeleteApprovedUser)]"

text \<open>\<open>apiServer\<close> hands each operation to its handler.\<close>

definition apiServer :: "('ip, 'l) env \<Rightarrow> 'ip config \<Rightarrow> 'l app ServerInterface" where
  "apiServer E C =
     (let H = env_http E; A = auth_service E C; D = admin_service E; T = todo_service E
      in \<lparr>si_ListApprovedUsers = Handler_ListApprovedUsers H D,
          si_CreateApprovedUser = Handler_CreateApprovedUser H D,
          si_BulkCreateApprovedUsers = Handler_BulkCreateApprovedUsers H D,
          si_DeleteApprovedUser = Handler_DeleteApprovedUser D,
          si_LoginUser = Handler_LoginUser H A,
          si_RegisterUser = Handler_RegisterUser H A,
          si_GetCurrentUser = Handler_GetCurrentUser H,
          si_ListTodos = Handler_ListTodos H T,
          si_CreateTodo = Handler_CreateTodo H T,
          si_DeleteTodo = Handler_DeleteTodo T,
          si_GetTodo = Handler_GetTodo H T,
          si_UpdateTodo = Handler_UpdateTodo H T\<rparr>)"

text \<open>The wrapper \<open>New\<close> makes: no middlewares of its own, errors in the format of the API.\<close>

definition api_wrapper :: "('ip, 'l) env \<Rightarrow> 'ip config \<Rightarrow> 'l app ServerInterfaceWrapper" where
  "api_wrapper E C =
     \<lparr>siw_Handler = apiServer E C, siw_HandlerMiddlewares = [],
      siw_ErrorHandlerFunc = (\<lambda>err r. respond (openAPIValidationErrorHandler (param_Error err) 400))\<rparr>"

definition endpoint_handler :: "('ip, 'l) env \<Rightarrow> 'ip config \<Rightarrow> endpoint \<Rightarrow> 'l app handler" where
  "endpoint_handler E C e = operation (env_BindUUID E) (api_wrapper E C) e"

fun guard_middleware :: "('ip, 'l) env \<Rightarrow> 'ip config \<Rightarrow> guard \<Rightarrow> 'l app middleware" where
  "guard_middleware E C Public = (\<lambda>next. next)"
| "guard_middleware E C Authenticated = RequireAuth (auth_GetUserFromToken (auth_service E C))"
| "guard_middleware E C AdminOnly = RequireAdmin (auth_GetUserFromToken (auth_service E C))"

text \<open>Dispatch over a table of routes, by the router's matching.\<close>

definition dispatch :: "('ip, 'l) env \<Rightarrow> (string \<times> string \<times> 'w handler) list \<Rightarrow> 'w handler" where
  "dispatch E table = (\<lambda>r.
     case env_route E (map (\<lambda>(m, p, h). (m, p)) table) (req_Method r) (req_Path r) of
       RouteNotFound \<Rightarrow> respond (env_NotFound E)
     | RouteMethodNotAllowed \<Rightarrow> respond (env_MethodNotAllowed E)
     | Routed i params \<Rightarrow>
         if i < length table then snd (snd (table ! i)) (r\<lparr>req_Params := params\<rparr>)
         else respond (env_NotFound E))"

definition chain :: "'w middleware list \<Rightarrow> 'w handler \<Rightarrow> 'w handler" where
  "chain ms h = foldr (\<lambda>m h. m h) ms h"

text \<open>The group under \<open>/api/v1\<close>, and the whole server.\<close>

definition api_group :: "('ip, 'l) env \<Rightarrow> 'ip config \<Rightarrow> 'l app handler" where
  "api_group E C =
     chain [rateLimitMiddleware E (cfg_rate C), oapiMiddleware E]
       (dispatch E (map (\<lambda>(g, m, p, e). (m, ''/api/v1'' @ p,
         guard_middleware E C g (endpoint_handler E C e))) api_routes))"

definition server_routes :: "('ip, 'l) env \<Rightarrow> 'ip config \<Rightarrow> 'l app routes" where
  "server_routes E C =
     [(''GET'', ''/'', rootHandler),
      (''GET'', ''/health'', healthHandlerWithDB (Some (on_db (pool_Ping (env_pg E)))))] @
     page_routes (env_spec E) (cfg_swagger C) @
     [(''*'', ''/api/v1/*'', api_group E C)]"

definition server :: "('ip, 'l) env \<Rightarrow> 'ip config \<Rightarrow> 'l app handler" where
  "server E C =
     chain [requestIDMiddleware E, realIPMiddleware E C, loggerMiddleware, SecurityHeaders,
         corsMiddleware (cfg_cors C)]
       (dispatch E (server_routes E C))"

text \<open>Serving one request: the response starts empty. \<open>request_log\<close> is what it logs.\<close>

definition serve :: "('ip, 'l) env \<Rightarrow> 'ip config \<Rightarrow> request \<Rightarrow> ('l app, response) state" where
  "serve E C r = State (\<lambda>w.
     let (u, x) = run_state (server E C r) \<lparr>ex_World = w, ex_Response = no_response, ex_Log = []\<rparr>
     in (ex_Response x, ex_World x))"

definition request_log :: "('ip, 'l) env \<Rightarrow> 'ip config \<Rightarrow> request \<Rightarrow> 'l app \<Rightarrow> zap_entry list" where
  "request_log E C r w =
     ex_Log (snd (run_state (server E C r) \<lparr>ex_World = w, ex_Response = no_response, ex_Log = []\<rparr>))"

section \<open>Reasoning about the parts of the world\<close>

lemma wp_on_auth [wp_simps]:
  "wp (on_auth m) Q w \<longleftrightarrow> wp m (\<lambda>r s. Q r (w\<lparr>app_auth := s\<rparr>)) (app_auth w)"
  by (simp add: on_auth_def wp_zoom)

lemma wp_on_db [wp_simps]:
  "wp (on_db m) Q w \<longleftrightarrow> wp m (\<lambda>r d. Q r (w\<lparr>app_auth := (app_auth w)\<lparr>as_repo := d\<rparr>\<rparr>)) (app_db w)"
  by (simp add: on_db_def wp_simps)

lemma wp_on_limits [wp_simps]:
  "wp (on_limits m) Q w \<longleftrightarrow> wp m (\<lambda>r s. Q r (w\<lparr>app_limits := s\<rparr>)) (app_limits w)"
  by (simp add: on_limits_def wp_zoom)

lemma wp_next_request [wp_simps]:
  "wp next_request Q w \<longleftrightarrow> Q (app_requests w) (w\<lparr>app_requests := Suc (app_requests w)\<rparr>)"
  by (simp add: next_request_def wp_def)

lemma wp_serve:
  "wp (serve E C r) Q w \<longleftrightarrow>
     wp (server E C r) (\<lambda>_ x. Q (ex_Response x) (ex_World x)) \<lparr>ex_World = w, ex_Response = no_response, ex_Log = []\<rparr>"
  by (simp add: serve_def wp_def split: prod.splits)

lemma wp_dispatch:
  assumes "\<And>m p h params. (m, p, h) \<in> set table \<Longrightarrow> wp (h (r\<lparr>req_Params := params\<rparr>)) Q x"
    and "\<And>f. Q () (x\<lparr>ex_Response := f (ex_Response x)\<rparr>)"
  shows "wp (dispatch E table r) Q x"
proof -
  have "wp (snd (snd (table ! i)) (r\<lparr>req_Params := params\<rparr>)) Q x" if "i < length table" for i params
    using assms(1) nth_mem [OF that] by (metis prod.collapse)
  then show ?thesis by (simp add: dispatch_def wp_simps assms(2) split: routed.split)
qed

lemma chain_simps [simp]: "chain [] h = h" "chain (m # ms) h = m (chain ms h)"
  by (simp_all add: chain_def)

end
