(* ===== verification/Server.thy ===== *)
theory Server
  imports Router Todo_Correct
begin

text \<open>
  How a request passes through the server: which statements each operation can send, and that every
  change of the data goes through a route, behind the guard of the route.
\<close>

section \<open>What statements may change\<close>

definition reads_only :: "db \<Rightarrow> db \<Rightarrow> bool" where
  "reads_only d d' \<longleftrightarrow> d' = d\<lparr>roundtrips := roundtrips d'\<rparr>"

definition keeps_todos :: "db \<Rightarrow> db \<Rightarrow> bool" where
  "keeps_todos d d' \<longleftrightarrow> tbl_todos d' = tbl_todos d"

definition keeps_accounts :: "db \<Rightarrow> db \<Rightarrow> bool" where
  "keeps_accounts d d' \<longleftrightarrow> tbl_users d' = tbl_users d \<and> tbl_approved_users d' = tbl_approved_users d \<and>
     tbl_roles d' = tbl_roles d \<and> tbl_user_roles d' = tbl_user_roles d"

lemma table_rels [simp]:
  "reflp reads_only" "transp reads_only" "reflp keeps_todos" "transp keeps_todos"
  "reflp keeps_accounts" "transp keeps_accounts"
  by (auto simp: reads_only_def keeps_todos_def keeps_accounts_def reflp_def transp_def)
    (metis db.cases db.select_convs(6) db.update_convs(6))

lemma table_rels_refl [simp]: "reads_only d d" "keeps_todos d d" "keeps_accounts d d"
  by (simp_all add: reads_only_def keeps_todos_def keeps_accounts_def)

lemma table_rels_roundtrips [simp]:
  "reads_only d (d\<lparr>roundtrips := n\<rparr>)" "keeps_todos d (d\<lparr>roundtrips := n\<rparr>)"
  "keeps_accounts d (d\<lparr>roundtrips := n\<rparr>)"
  by (simp_all add: reads_only_def keeps_todos_def keeps_accounts_def)

lemma reads_only_views:
  assumes "reads_only d d'"
  shows "auth_view_of d' = auth_view_of d" "todo_view_of d' = todo_view_of d" "db_inv d' \<longleftrightarrow> db_inv d"
    "keeps_todos d d'" "keeps_accounts d d'"
  using assms unfolding reads_only_def
  by (metis auth_view_roundtrips, metis todo_view_roundtrips, metis db_inv_roundtrips,
      metis table_rels_roundtrips(2), metis table_rels_roundtrips(3))

lemma keeps_todos_view: "keeps_todos d d' \<Longrightarrow> tv_todos (todo_view_of d') = tv_todos (todo_view_of d)"
  by (simp add: keeps_todos_def)

lemma keeps_accounts_view: "keeps_accounts d d' \<Longrightarrow> auth_view_of d' = auth_view_of d"
  by (simp add: keeps_accounts_def auth_view_of_def)

text \<open>The statements of each kind.\<close>

lemma io_select [io_intros]:
  "state_io_rel reads_only (statement E (select f))" "state_io_rel reads_only (query_row E (select g))"
  by (rule io_statement, simp_all add: select_def) (rule io_query_row, simp_all add: select_def)

lemma io_weaken: "state_io_rel P m \<Longrightarrow> (\<And>d d'. P d d' \<Longrightarrow> Q d d') \<Longrightarrow> state_io_rel Q m"
  by (auto simp: state_io_rel_def)

lemma io_reads_keep:
  assumes "state_io_rel reads_only m"
  shows "state_io_rel keeps_todos m" "state_io_rel keeps_accounts m"
  by (rule io_weaken [OF assms], simp add: reads_only_views)+

lemmas io_select_keep [io_intros] = io_select [THEN io_reads_keep(1)] io_select [THEN io_reads_keep(2)]

lemma io_account_statements [io_intros]:
  "state_io_rel keeps_todos (Queries_CreateUser E cu)"
  "state_io_rel keeps_todos (Queries_AssignRole E ar)"
  "state_io_rel keeps_todos (Queries_CreateApprovedUser E ca)"
  "state_io_rel keeps_todos (Queries_CreateApprovedUsersBulk E cb)"
  unfolding Queries_CreateUser_def Queries_AssignRole_def Queries_CreateApprovedUser_def
    Queries_CreateApprovedUsersBulk_def
  by (rule io_query_row io_statement;
      auto simp: keeps_todos_def Let_def split: sum.splits
        dest!: insert_userD insert_user_roleD insert_approved_usersD(1))+

lemma io_todo_statements [io_intros]:
  "state_io_rel keeps_accounts (Queries_CreateTodo E ct)"
  "state_io_rel keeps_accounts (Queries_DeleteTodo E key)"
  "state_io_rel keeps_accounts (update_todos E key upd)"
  unfolding Queries_CreateTodo_def Queries_DeleteTodo_def update_todos_def
  by (rule io_query_row io_statement;
      auto simp: keeps_accounts_def Let_def split: sum.splits dest!: insert_todoD)+

section \<open>What the operations may change\<close>

lemmas repository_reads = Repository_GetUserByEmail_def Repository_GetApprovedUserByEmail_def
  Repository_GetUserWithRolesAndApproved_def Repository_ListApprovedUsers_def
  Repository_ApprovedUserExists_def Repository_GetRoleByName_def Queries_GetUserByEmail_def
  Queries_GetApprovedUserByEmail_def Queries_GetUserWithRolesAndApproved_def
  Queries_ListApprovedUsers_def Queries_ApprovedUserExists_def Queries_GetRoleByName_def

lemma io_repository_reads [io_intros]:
  "state_io_rel reads_only (Repository_GetUserByEmail E email)"
  "state_io_rel reads_only (Repository_GetApprovedUserByEmail E email)"
  "state_io_rel reads_only (Repository_GetUserWithRolesAndApproved E key)"
  "state_io_rel reads_only (Repository_ListApprovedUsers E)"
  "state_io_rel reads_only (Repository_ApprovedUserExists E key)"
  "state_io_rel reads_only (Repository_GetRoleByName E name)"
  unfolding repository_reads Let_def
  by (intro io_intros table_rels)+

lemma io_repository_writes [io_intros]:
  "state_io_rel keeps_todos (Repository_CreateUser E uci)"
  "state_io_rel keeps_todos (Repository_AssignRoleToUser E uid rid)"
  "state_io_rel keeps_todos (Repository_CreateApprovedUser E aci)"
  "state_io_rel keeps_todos (Repository_BulkCreateApprovedUsers E bai)"
  unfolding Repository_CreateUser_def Repository_AssignRoleToUser_def
    Repository_CreateApprovedUser_def Repository_BulkCreateApprovedUsers_def
  by (intro io_intros table_rels)+

lemma io_todo_repository [io_intros]:
  "state_io_rel reads_only (TodoRepository_GetTodoByID E key)"
  "state_io_rel reads_only (TodoRepository_ListTodosByUserID E uid)"
  "state_io_rel keeps_accounts (TodoRepository_CreateTodo E tci)"
  "state_io_rel keeps_accounts (TodoRepository_UpdateTodoPartial E tui)"
  "state_io_rel keeps_accounts (TodoRepository_DeleteTodo E key)"
  unfolding TodoRepository_GetTodoByID_def TodoRepository_ListTodosByUserID_def
    TodoRepository_CreateTodo_def TodoRepository_UpdateTodoPartial_def TodoRepository_DeleteTodo_def
    Queries_GetTodoByID_def Queries_ListTodosByUserID_def Queries_UpdateTodoPartial_def
  by (intro io_intros table_rels)+


text \<open>Relations on the tables, lifted to the states around them.\<close>

definition at_repo :: "('s \<Rightarrow> 's \<Rightarrow> bool) \<Rightarrow> 's auth_state \<Rightarrow> 's auth_state \<Rightarrow> bool" where
  "at_repo P w w' \<longleftrightarrow> P (as_repo w) (as_repo w')"

definition at_db :: "(db \<Rightarrow> db \<Rightarrow> bool) \<Rightarrow> 'l app \<Rightarrow> 'l app \<Rightarrow> bool" where
  "at_db P w w' \<longleftrightarrow> P (app_db w) (app_db w')"

definition at_world :: "('w \<Rightarrow> 'w \<Rightarrow> bool) \<Rightarrow> 'w exchange \<Rightarrow> 'w exchange \<Rightarrow> bool" where
  "at_world P x x' \<longleftrightarrow> P (ex_World x) (ex_World x')"

lemma lifted_rels [simp]:
  "reflp P \<Longrightarrow> reflp (at_repo P)" "transp P \<Longrightarrow> transp (at_repo P)"
  "reflp Q \<Longrightarrow> reflp (at_db Q)" "transp Q \<Longrightarrow> transp (at_db Q)"
  "reflp R \<Longrightarrow> reflp (at_world R)" "transp R \<Longrightarrow> transp (at_world R)"
  by (auto simp: at_repo_def at_db_def at_world_def reflp_def transp_def)

lemma io_on_repo [io_intros]: "state_io_rel P m \<Longrightarrow> state_io_rel (at_repo P) (on_repo m)"
  unfolding on_repo_def by (erule io_zoom) (simp add: at_repo_def)

lemma io_auth_state [io_intros]:
  "reflp P \<Longrightarrow> state_io_rel (at_repo P) next_call"
  "reflp P \<Longrightarrow> state_io_rel (at_repo P) DefaultUserRoleID"
  "reflp P \<Longrightarrow> state_io_rel (at_repo P) (SetDefaultUserRoleID i)"
  by (auto simp: state_io_rel_def at_repo_def next_call_def DefaultUserRoleID_def
      SetDefaultUserRoleID_def reflp_def)

lemma io_on_auth [io_intros]: "state_io_rel (at_repo P) m \<Longrightarrow> state_io_rel (at_db P) (on_auth m)"
  unfolding on_auth_def by (erule io_zoom) (simp add: at_repo_def at_db_def)

lemma io_on_db [io_intros]: "state_io_rel P m \<Longrightarrow> state_io_rel (at_db P) (on_db m)"
  unfolding on_db_def by (intro io_intros)

lemma io_exchange [io_intros]:
  "state_io_rel S m \<Longrightarrow> state_io_rel (at_world S) (call_service m)"
  "reflp S \<Longrightarrow> state_io_rel (at_world S) (respond f)"
  "reflp S \<Longrightarrow> state_io_rel (at_world S) (log_entry e)"
  unfolding call_service_def
  by (erule io_zoom, simp add: at_world_def) (auto simp: state_io_rel_def at_world_def reflp_def)

lemma repository_simps [simp]:
  "repo_GetUserByEmail (Repository E) = Repository_GetUserByEmail E"
  "repo_CreateUser (Repository E) = Repository_CreateUser E"
  "repo_ApprovedUserExists (Repository E) = Repository_ApprovedUserExists E"
  "repo_GetRoleByName (Repository E) = Repository_GetRoleByName E"
  "repo_AssignRoleToUser (Repository E) = Repository_AssignRoleToUser E"
  "repo_ListApprovedUsers (Repository E) = Repository_ListApprovedUsers E"
  "repo_CreateApprovedUser (Repository E) = Repository_CreateApprovedUser E"
  "repo_BulkCreateApprovedUsers (Repository E) = Repository_BulkCreateApprovedUsers E"
  "repo_GetApprovedUserByEmail (Repository E) = Repository_GetApprovedUserByEmail E"
  "repo_GetUserWithRolesAndApproved (Repository E) = Repository_GetUserWithRolesAndApproved E"
  "trepo_GetTodoByID (TodoRepository E) = TodoRepository_GetTodoByID E"
  "trepo_ListTodosByUserID (TodoRepository E) = TodoRepository_ListTodosByUserID E"
  "trepo_CreateTodo (TodoRepository E) = TodoRepository_CreateTodo E"
  "trepo_UpdateTodoPartial (TodoRepository E) = TodoRepository_UpdateTodoPartial E"
  "trepo_DeleteTodo (TodoRepository E) = TodoRepository_DeleteTodo E"
  by (simp_all add: Repository_def TodoRepository_def)

lemma io_auth_service [io_intros]:
  "state_io_rel (at_repo reads_only) (Service_Login L (Repository E) svc email password)"
  "state_io_rel (at_repo reads_only) (Service_GetUserFromToken L (Repository E) svc token)"
  "state_io_rel (at_repo reads_only) (Service_ListApprovedUsers (Repository E))"
  unfolding Service_Login_def Service_GetUserFromToken_def Service_ListApprovedUsers_def
    issue_token_def repository_simps
  by (intro io_intros lifted_rels table_rels)+

lemma io_repository_reads_keep [io_intros]:
  "state_io_rel keeps_todos (Repository_GetUserByEmail E email)"
  "state_io_rel keeps_todos (Repository_GetApprovedUserByEmail E email)"
  "state_io_rel keeps_todos (Repository_ApprovedUserExists E key)"
  "state_io_rel keeps_todos (Repository_GetRoleByName E name)"
  by (rule io_reads_keep(1), rule io_repository_reads)+

lemma io_auth_service_writes [io_intros]:
  "state_io_rel (at_repo keeps_todos) (Service_Register L (Repository E) svc email password approvedID)"
  "state_io_rel (at_repo keeps_todos) (Service_CreateApprovedUser (Repository E) email firstName by)"
  "state_io_rel (at_repo keeps_todos) (Service_BulkCreateApprovedUsers (Repository E) emails firstNames by)"
  unfolding Service_Register_def Service_CreateApprovedUser_def Service_BulkCreateApprovedUsers_def
    assignDefaultRole_def issue_token_def repository_simps
  by (intro io_intros lifted_rels table_rels)+

lemma io_todo_repository_reads_keep [io_intros]:
  "state_io_rel keeps_accounts (TodoRepository_GetTodoByID E key)"
  by (rule io_reads_keep(2), rule io_todo_repository)

lemma io_todo_service [io_intros]:
  "state_io_rel reads_only (Todo_ListByUserID (TodoRepository E) uid)"
  "state_io_rel reads_only (Todo_GetByID (TodoRepository E) key uid)"
  "state_io_rel keeps_accounts (Todo_Create (TodoRepository E) uid title description due)"
  "state_io_rel keeps_accounts (Todo_Update (TodoRepository E) key uid title' description completed due)"
  "state_io_rel keeps_accounts (Todo_Delete (TodoRepository E) key uid)"
  unfolding Todo_ListByUserID_def Todo_GetByID_def Todo_Create_def Todo_Update_def Todo_Delete_def
    repository_simps
  by (intro io_intros lifted_rels table_rels)+

section \<open>What the handlers may change\<close>

lemma io_provider [io_intros]:
  "state_io_rel (at_db reads_only) (auth_GetUserFromToken (auth_service E C) token)"
  unfolding auth_service_def Let_def AuthService.select_convs
  by (intro io_intros lifted_rels table_rels)

lemma io_handlers_read:
  "state_io_rel (at_world (at_db reads_only)) (Handler_LoginUser H (auth_service E C) r)"
  "state_io_rel (at_world (at_db reads_only)) (Handler_GetCurrentUser H r)"
  "state_io_rel (at_world (at_db reads_only)) (Handler_ListApprovedUsers H (admin_service E) r)"
  "state_io_rel (at_world (at_db reads_only)) (Handler_ListTodos H (todo_service E) r)"
  "state_io_rel (at_world (at_db reads_only)) (Handler_GetTodo H (todo_service E) key r)"
  unfolding Handler_LoginUser_def Handler_GetCurrentUser_def Handler_ListApprovedUsers_def
    Handler_ListTodos_def Handler_GetTodo_def respond_todo_def auth_service_def admin_service_def
    todo_service_def Let_def AuthService.select_convs ApprovedUserAdminService.select_convs
    TodoService.select_convs
  by (intro io_intros lifted_rels table_rels)+

lemma io_handlers_keep_todos:
  "state_io_rel (at_world (at_db keeps_todos)) (Handler_RegisterUser H (auth_service E C) r)"
  "state_io_rel (at_world (at_db keeps_todos)) (Handler_CreateApprovedUser H (admin_service E) r)"
  "state_io_rel (at_world (at_db keeps_todos)) (Handler_BulkCreateApprovedUsers H (admin_service E) r)"
  unfolding Handler_RegisterUser_def Handler_CreateApprovedUser_def Handler_BulkCreateApprovedUsers_def
    auth_service_def admin_service_def Let_def AuthService.select_convs
    ApprovedUserAdminService.select_convs
  by (intro io_intros lifted_rels table_rels)+

lemma io_handlers_keep_accounts:
  "state_io_rel (at_world (at_db keeps_accounts)) (Handler_CreateTodo H (todo_service E) r)"
  "state_io_rel (at_world (at_db keeps_accounts)) (Handler_UpdateTodo H (todo_service E) key r)"
  "state_io_rel (at_world (at_db keeps_accounts)) (Handler_DeleteTodo (todo_service E) key r)"
  unfolding Handler_CreateTodo_def Handler_UpdateTodo_def Handler_DeleteTodo_def respond_todo_def
    todo_service_def Let_def TodoService.select_convs
  by (intro io_intros lifted_rels table_rels)+


section \<open>Through the middleware\<close>

text \<open>What middleware may add to a request and leave of it.\<close>

definition same_request :: "request \<Rightarrow> request \<Rightarrow> bool" where
  "same_request r r1 \<longleftrightarrow> req_Method r1 = req_Method r \<and> req_Path r1 = req_Path r \<and>
     req_Header r1 = req_Header r \<and> req_Body r1 = req_Body r \<and> ctx_User r1 = ctx_User r"

lemma same_request_refl [simp]: "same_request r r"
  by (simp add: same_request_def)

lemma same_request_trans: "same_request r r1 \<Longrightarrow> same_request r1 r2 \<Longrightarrow> same_request r r2"
  by (simp add: same_request_def)

lemma same_request_step [simp]:
  "same_request r (r1\<lparr>ctx_RequestID := i\<rparr>) \<longleftrightarrow> same_request r r1"
  "same_request r (r1\<lparr>ctx_ClientIP := ip\<rparr>) \<longleftrightarrow> same_request r r1"
  "same_request r (r1\<lparr>req_Params := ps\<rparr>) \<longleftrightarrow> same_request r r1"
  by (simp_all add: same_request_def)

lemma same_request_token: "same_request r r1 \<Longrightarrow> extractBearerToken r1 = extractBearerToken r"
  by (simp add: same_request_def extractBearerToken_def header_Get_def)

text \<open>
  Middleware passes requests on: it either answers by itself, with the state of the services as it
  was, or hands the same request to the next handler, with that state as it was and the response
  still open. Stated as a rule for the weakest precondition.
\<close>

text \<open>What is logged is left out of view.\<close>

definition logless :: "(unit \<Rightarrow> 'w exchange \<Rightarrow> bool) \<Rightarrow> bool" where
  "logless Q \<longleftrightarrow> (\<forall>u x l. Q u (x\<lparr>ex_Log := l\<rparr>) = Q u x)"

lemma loglessD: "logless Q \<Longrightarrow> Q u (x\<lparr>ex_Log := l\<rparr>) \<longleftrightarrow> Q u x"
  by (simp add: logless_def)

definition passes :: "'l app middleware \<Rightarrow> bool" where
  "passes m \<longleftrightarrow> (\<forall>next r x Q. logless Q \<longrightarrow> open_response (ex_Response x) \<longrightarrow>
     (\<forall>x'. app_auth (ex_World x') = app_auth (ex_World x) \<longrightarrow> Q () x') \<longrightarrow>
     (\<forall>r1 x1. same_request r r1 \<longrightarrow> app_auth (ex_World x1) = app_auth (ex_World x) \<longrightarrow>
        open_response (ex_Response x1) \<longrightarrow> wp (next r1) Q x1) \<longrightarrow>
     wp (m next r) Q x)"

lemma passesD:
  assumes "passes m" and "open_response (ex_Response x)"
    and "\<And>x'. app_auth (ex_World x') = app_auth (ex_World x) \<Longrightarrow> Q () x'"
    and "\<And>r1 x1. same_request r r1 \<Longrightarrow> app_auth (ex_World x1) = app_auth (ex_World x) \<Longrightarrow>
      open_response (ex_Response x1) \<Longrightarrow> wp (next r1) Q x1"
    and "logless Q"
  shows "wp (m next r) Q x"
  using assms unfolding passes_def by blast

lemma passes_chain: "(\<And>m. m \<in> set ms \<Longrightarrow> passes m) \<Longrightarrow> passes (chain ms)"
proof (induction ms)
  case Nil
  show ?case
    unfolding passes_def chain_simps by auto
next
  case (Cons m ms)
  then have m: "passes m" and ms: "passes (chain ms)" by simp_all
  show ?case
    unfolding passes_def chain_simps
  proof (intro allI impI)
    fix "next" :: "'a app handler" and r and x :: "'a app exchange" and Q
    assume Q: "logless Q" and x: "open_response (ex_Response x)"
      and stop: "\<forall>x'. app_auth (ex_World x') = app_auth (ex_World x) \<longrightarrow> Q () x'"
      and step: "\<forall>r1 x1. same_request r r1 \<longrightarrow> app_auth (ex_World x1) = app_auth (ex_World x) \<longrightarrow>
        open_response (ex_Response x1) \<longrightarrow> wp (next r1) Q x1"
    show "wp (m (chain ms next) r) Q x"
    proof (rule passesD [OF m x], goal_cases)
      case (2 r1 x1)
      show ?case
        by (rule passesD [OF ms 2(3)]) (use 2 Q stop step same_request_trans in auto)
    qed (use Q stop in blast)+
  qed
qed

lemma open_header [simp]:
  "open_response (header_Set k v w) \<longleftrightarrow> open_response w"
  "open_response (header_Add k v w) \<longleftrightarrow> open_response w"
  by (simp_all add: open_response_def)

lemma passes_requestID: "passes (requestIDMiddleware E)"
  unfolding passes_def requestIDMiddleware_def by (simp add: wp_simps Let_def)

lemma passes_realIP: "passes (realIPMiddleware E C)"
  unfolding passes_def realIPMiddleware_def by (auto simp: wp_simps)

lemma wp_loggerMiddleware:
  assumes "logless Q"
  shows "wp (loggerMiddleware next r) Q x \<longleftrightarrow> wp (next r) Q (x\<lparr>
    ex_Log := ex_Log x @ [Debug ''request started'' [StringField ''method'' (req_Method r), StringField ''path'' (req_Path r)]],
    ex_Response := (ex_Response x)\<lparr>res_Wrapped := 200\<rparr>\<rparr>)"
proof -
  have "wp (State_Monad.bind noted_status (\<lambda>status. log_entry (e status))) Q = Q ()" for e
    by (rule ext) (simp add: wp_simps loglessD [OF assms])
  then show ?thesis
    by (simp add: loggerMiddleware_def Let_def wp_simps WithTraceContext_def no_span_def)
qed

lemma open_wrapped [simp]: "open_response w \<Longrightarrow> open_response (w\<lparr>res_Wrapped := 200\<rparr>)"
  by (simp add: open_response_def)

lemma passes_logger: "passes loggerMiddleware"
  unfolding passes_def by (auto simp: wp_loggerMiddleware)

lemma passes_SecurityHeaders: "passes SecurityHeaders"
  unfolding passes_def SecurityHeaders_def by (auto simp: wp_simps)

lemma open_cors [simp]: "open_response (cors_headers K origin valid w) \<longleftrightarrow> open_response w"
  by (simp add: cors_headers_def Let_def)

lemma passes_cors: "passes (corsMiddleware K)"
  unfolding passes_def corsMiddleware_def by (auto simp: wp_simps Let_def)

lemma passes_oapi: "passes (oapiMiddleware E)"
  unfolding passes_def oapiMiddleware_def by (auto simp: wp_simps split: option.splits sum.splits)

lemma passes_rateLimit: "passes (rateLimitMiddleware E K)"
proof (cases "rl_Requests K \<le> 0")
  case True
  then show ?thesis by (auto simp: passes_def rateLimitMiddleware_def)
next
  case False
  have "wp (RateLimit (\<lambda>ip. on_limits (admit (env_limiter E) (limit_args K) ip)) next r) Q x"
    if "\<forall>x'. app_auth (ex_World x') = app_auth (ex_World x) \<longrightarrow> Q () x'"
      and "\<forall>r1 x1. same_request r r1 \<longrightarrow> app_auth (ex_World x1) = app_auth (ex_World x) \<longrightarrow>
        open_response (ex_Response x1) \<longrightarrow> wp (next r1) Q x1"
      and "open_response (ex_Response x)" for "next" r x Q
    unfolding RateLimit_def wp_bind wp_call_service wp_on_limits
    by (rule wpI) (use that in \<open>auto simp: wp_simps\<close>)
  with False show ?thesis unfolding passes_def rateLimitMiddleware_def by auto
qed

section \<open>Through the routes\<close>

text \<open>The request leaves the data as it is, up to the count of statements.\<close>

definition idle :: "'l app exchange \<Rightarrow> 'l app exchange \<Rightarrow> bool" where
  "idle x x' \<longleftrightarrow> (\<exists>d. reads_only (app_db (ex_World x)) d \<and>
     app_auth (ex_World x') = (app_auth (ex_World x))\<lparr>as_repo := d\<rparr>)"

lemma idle_same: "app_auth (ex_World x') = app_auth (ex_World x) \<Longrightarrow> idle x x'"
  unfolding idle_def by (rule exI [of _ "app_db (ex_World x)"]) simp

definition api_paths :: "(string \<times> string) list" where
  "api_paths = map (\<lambda>(g, m, p, e). (m, ''/api/v1'' @ p)) api_routes"

definition routes_to :: "('ip, 'l) env \<Rightarrow> request \<Rightarrow> guard \<Rightarrow> endpoint \<Rightarrow> (string \<times> string) list \<Rightarrow> bool" where
  "routes_to E r g e params \<longleftrightarrow> (\<exists>i m p. i < length api_routes \<and> api_routes ! i = (g, m, p, e) \<and>
     env_route E api_paths (req_Method r) (req_Path r) = Routed i params)"

lemma io_ping: "state_io_rel reads_only (pool_Ping E)"
  unfolding pool_Ping_def by (rule io_select)

lemma api_group_wp:
  assumes "open_response (ex_Response x)"
    and stop: "\<And>x'. app_auth (ex_World x') = app_auth (ex_World x) \<Longrightarrow> Q () x'"
    and route: "\<And>g e params r1 x1. routes_to E r g e params \<Longrightarrow> same_request r r1 \<Longrightarrow>
      req_Params r1 = params \<Longrightarrow> app_auth (ex_World x1) = app_auth (ex_World x) \<Longrightarrow>
      open_response (ex_Response x1) \<Longrightarrow> wp (guard_middleware E C g (endpoint_handler E C e) r1) Q x1"
    and logless: "logless Q"
  shows "wp (api_group E C r) Q x"
  unfolding api_group_def
proof (rule passesD [OF passes_chain assms(1)], goal_cases)
  case (3 r1 x1)
  let ?table = "map (\<lambda>(g, m, p, e). (m, ''/api/v1'' @ p, guard_middleware E C g (endpoint_handler E C e))) api_routes"
  have paths: "map (\<lambda>(m, p, h). (m, p)) ?table = api_paths"
    by (simp add: api_paths_def comp_def case_prod_beta')
  show ?case
  proof (cases "env_route E api_paths (req_Method r1) (req_Path r1)")
    case (Routed i params)
    show ?thesis
    proof (cases "i < length api_routes")
      case True
      obtain g m p e where entry: "api_routes ! i = (g, m, p, e)" by (cases "api_routes ! i")
      have "routes_to E r g e params"
        using 3(1) Routed True entry unfolding routes_to_def same_request_def by auto
      then have "wp (guard_middleware E C g (endpoint_handler E C e) (r1\<lparr>req_Params := params\<rparr>)) Q x1"
        by (rule route) (use 3 in simp_all)
      with Routed True entry show ?thesis
        unfolding dispatch_def paths by simp
    next
      case False
      with Routed 3 stop show ?thesis unfolding dispatch_def paths by (simp add: wp_simps)
    qed
  next
    case RouteNotFound
    with 3 stop show ?thesis unfolding dispatch_def paths by (simp add: wp_simps)
  next
    case RouteMethodNotAllowed
    with 3 stop show ?thesis unfolding dispatch_def paths by (simp add: wp_simps)
  qed
qed (use stop logless passes_rateLimit passes_oapi in auto)

lemma server_wp:
  fixes E :: "('ip, 'l) env"
  assumes "open_response (ex_Response x)"
    and stop: "\<And>x'. idle x x' \<Longrightarrow> Q () x'"
    and route: "\<And>g e params r1 x1. routes_to E r g e params \<Longrightarrow> same_request r r1 \<Longrightarrow>
      req_Params r1 = params \<Longrightarrow> app_auth (ex_World x1) = app_auth (ex_World x) \<Longrightarrow>
      open_response (ex_Response x1) \<Longrightarrow> wp (guard_middleware E C g (endpoint_handler E C e) r1) Q x1"
    and logless: "logless Q"
  shows "wp (server E C r) Q x"
  unfolding server_def
proof (rule passesD [OF passes_chain assms(1)], goal_cases)
  case (3 r1 x1)
  have stop': "Q () x'" if "app_auth (ex_World x') = app_auth (ex_World x1)" for x'
    using that 3(2) by (intro stop idle_same) simp
  have root: "wp (rootHandler r2) Q x1" for r2
    unfolding rootHandler_def by (simp add: wp_simps stop')
  have ping: "wp (pool_Ping (env_pg E)) (\<lambda>res d. reads_only (app_db (ex_World x1)) d) (app_db (ex_World x1))"
    by (rule wpI) (rule io_run [OF io_ping])
  have health: "wp (healthHandlerWithDB (Some (on_db (pool_Ping (env_pg E)))) r2) Q x1" for r2
  proof -
    have "Q () x'" if "reads_only (app_db (ex_World x1)) d"
        "app_auth (ex_World x') = (app_auth (ex_World x1))\<lparr>as_repo := d\<rparr>" for d x'
      by (rule stop) (use that 3(2) in \<open>auto simp: idle_def\<close>)
    then show ?thesis
      by (simp add: healthHandlerWithDB_def wp_bind wp_respond wp_call_service wp_on_db,
          intro wp_mono [OF ping]) (auto simp: wp_simps split: sum.splits)
  qed
  have api: "wp (api_group E C (r1\<lparr>req_Params := params\<rparr>)) Q x1" for params
  proof (rule api_group_wp [OF 3(3)])
    show "Q () x'" if "app_auth (ex_World x') = app_auth (ex_World x1)" for x'
      using that by (rule stop')
  next
    fix g e params' r2 and x2 :: "'l app exchange"
    assume "routes_to E (r1\<lparr>req_Params := params\<rparr>) g e params'" "same_request (r1\<lparr>req_Params := params\<rparr>) r2"
      "req_Params r2 = params'" "app_auth (ex_World x2) = app_auth (ex_World x1)" "open_response (ex_Response x2)"
    moreover from this 3(1) have "routes_to E r g e params'" "same_request r r2"
      by (auto simp: routes_to_def same_request_def)
    ultimately show "wp (guard_middleware E C g (endpoint_handler E C e) r2) Q x2"
      using 3(2) by (intro route) simp_all
  qed (rule logless)
  show ?case
  proof (rule wp_dispatch)
    fix m p h params
    assume "(m, p, h) \<in> set (server_routes E C)"
    then consider "h = rootHandler" | "h = healthHandlerWithDB (Some (on_db (pool_Ping (env_pg E))))"
      | "(m, p, h) \<in> set (page_routes (env_spec E) (cfg_swagger C))" | "h = api_group E C"
      unfolding server_routes_def by auto
    then show "wp (h (r1\<lparr>req_Params := params\<rparr>)) Q x1"
      by cases (simp_all add: root health api wp_page stop')
  qed (simp add: stop')
qed (use stop logless idle_same passes_requestID passes_realIP passes_logger passes_SecurityHeaders passes_cors in auto)

section \<open>The constraints are kept\<close>

abbreviation keeps_inv :: "db \<Rightarrow> db \<Rightarrow> bool" where
  "keeps_inv \<equiv> keeps db_inv"

lemmas io_keeps_queries [io_intros] = keeps_mutating_queries keeps_select

lemma reads_only_keeps_inv: "state_io_rel reads_only m \<Longrightarrow> state_io_rel keeps_inv m"
  by (erule io_weaken) (simp add: keeps_def reads_only_views)

lemmas io_reads_keep_inv [io_intros] = io_repository_reads [THEN reads_only_keeps_inv]
  io_todo_repository(1,2) [THEN reads_only_keeps_inv]

lemma repository_simps_delete [simp]:
  "repo_DeleteApprovedUser (Repository E) = Repository_DeleteApprovedUser E"
  by (simp add: Repository_def)

lemma io_repository_keeps_inv [io_intros]:
  "state_io_rel keeps_inv (Repository_CreateUser E uci)"
  "state_io_rel keeps_inv (Repository_AssignRoleToUser E uid rid)"
  "state_io_rel keeps_inv (Repository_CreateApprovedUser E aci)"
  "state_io_rel keeps_inv (Repository_BulkCreateApprovedUsers E bai)"
  "state_io_rel keeps_inv (Repository_DeleteApprovedUser E key)"
  "state_io_rel keeps_inv (TodoRepository_CreateTodo E tci)"
  "state_io_rel keeps_inv (TodoRepository_UpdateTodoPartial E tui)"
  "state_io_rel keeps_inv (TodoRepository_DeleteTodo E key)"
  unfolding Repository_CreateUser_def Repository_AssignRoleToUser_def Repository_CreateApprovedUser_def
    Repository_BulkCreateApprovedUsers_def Repository_DeleteApprovedUser_def
    TodoRepository_CreateTodo_def TodoRepository_UpdateTodoPartial_def TodoRepository_DeleteTodo_def
  by (intro io_intros reflp_keeps transp_keeps)+

lemma io_services_keep_inv [io_intros]:
  "state_io_rel (at_repo keeps_inv) (Service_Register L (Repository E) svc email password approvedID)"
  "state_io_rel (at_repo keeps_inv) (Service_Login L (Repository E) svc email password)"
  "state_io_rel (at_repo keeps_inv) (Service_GetUserFromToken L (Repository E) svc token)"
  "state_io_rel (at_repo keeps_inv) (Service_ListApprovedUsers (Repository E))"
  "state_io_rel (at_repo keeps_inv) (Service_CreateApprovedUser (Repository E) email firstName by)"
  "state_io_rel (at_repo keeps_inv) (Service_BulkCreateApprovedUsers (Repository E) emails firstNames by)"
  "state_io_rel (at_repo keeps_inv) (Service_DeleteApprovedUser (Repository E) key)"
  unfolding Service_Register_def Service_Login_def Service_GetUserFromToken_def
    Service_ListApprovedUsers_def Service_CreateApprovedUser_def Service_BulkCreateApprovedUsers_def
    Service_DeleteApprovedUser_def assignDefaultRole_def issue_token_def repository_simps
    repository_simps_delete
  by (intro io_intros lifted_rels reflp_keeps transp_keeps)+

lemma io_todo_service_keeps_inv [io_intros]:
  "state_io_rel keeps_inv (Todo_ListByUserID (TodoRepository E) uid)"
  "state_io_rel keeps_inv (Todo_GetByID (TodoRepository E) key uid)"
  "state_io_rel keeps_inv (Todo_Create (TodoRepository E) uid title description due)"
  "state_io_rel keeps_inv (Todo_Update (TodoRepository E) key uid title' description completed due)"
  "state_io_rel keeps_inv (Todo_Delete (TodoRepository E) key uid)"
  unfolding Todo_ListByUserID_def Todo_GetByID_def Todo_Create_def Todo_Update_def Todo_Delete_def
    repository_simps
  by (intro io_intros lifted_rels reflp_keeps transp_keeps)+

lemmas handler_defs = Handler_RegisterUser_def Handler_LoginUser_def Handler_GetCurrentUser_def
  Handler_ListApprovedUsers_def Handler_CreateApprovedUser_def Handler_BulkCreateApprovedUsers_def
  Handler_DeleteApprovedUser_def Handler_ListTodos_def Handler_CreateTodo_def Handler_GetTodo_def
  Handler_UpdateTodo_def Handler_DeleteTodo_def respond_todo_def

lemmas wiring_defs = auth_service_def admin_service_def todo_service_def Let_def
  AuthService.select_convs ApprovedUserAdminService.select_convs TodoService.select_convs

lemma io_apiServer_keeps_inv:
  "state_io_rel (at_world (at_db keeps_inv)) (si_operation (apiServer E C) e key r)"
  by (cases e; simp only: si_operation_def apiServer_def ServerInterface.select_convs Let_def endpoint.case
      handler_defs wiring_defs)
    (intro io_intros lifted_rels reflp_keeps transp_keeps)+

lemma endpoint_handler_cases:
  "endpoint_handler E C e r =
     (if takes_id e then
        (case env_BindUUID E (URLParam r ''id'') of
           Inl err \<Rightarrow> respond (openAPIValidationErrorHandler (param_Error (InvalidParamFormatError ''id'' err)) 400)
         | Inr key \<Rightarrow> si_operation (apiServer E C) e key r)
      else si_operation (apiServer E C) e uuid_Nil r)"
  by (simp add: endpoint_handler_def operation_cases [of _ _ _ uuid_Nil] with_id_def api_wrapper_def
      split: sum.split)

text \<open>A relation kept by the handler of an operation is kept by its guarded endpoint.\<close>

lemma io_endpoint:
  assumes "reflp P" and "\<And>key r. state_io_rel (at_world P) (si_operation (apiServer E C) e key r)"
  shows "state_io_rel (at_world P) (endpoint_handler E C e r)"
  unfolding endpoint_handler_cases
  by (auto intro!: io_exchange io_if io_case_sum assms split: sum.split)

lemma io_guard:
  assumes "reflp P" and "transp P" and "\<And>w w'. at_db reads_only w w' \<Longrightarrow> P w w'"
    and "\<And>r. state_io_rel (at_world P) (h r)"
  shows "state_io_rel (at_world P) (guard_middleware E C g h r)"
proof -
  have lookup: "state_io_rel P (auth_GetUserFromToken (auth_service E C) token)" for token
    using io_provider [of E C token] assms(3) unfolding state_io_rel_def by blast
  show ?thesis
    by (cases g; simp only: guard_middleware.simps RequireAdmin_def RequireAuth_def Let_def)
      (intro io_intros lookup lifted_rels assms)+
qed

section \<open>The provider of the guards\<close>

definition app_now :: "('ip, 'l) env \<Rightarrow> 'l app \<Rightarrow> go_time" where
  "app_now E w = time_Now (env_libs E) (as_calls (app_auth w))"

text \<open>The token of a request entitles to act as the user.\<close>

definition acts_as :: "('ip, 'l) env \<Rightarrow> 'ip config \<Rightarrow> 'l app \<Rightarrow> request \<Rightarrow> User \<Rightarrow> bool" where
  "acts_as E C w r user \<longleftrightarrow> genuine_token (env_libs E) (cfg_service C) (app_now E w)
     (auth_view_of (app_db w)) (extractBearerToken r) user"

definition tables :: "db \<Rightarrow> db" where
  "tables d = d\<lparr>roundtrips := 0\<rparr>"

lemma reads_only_tables: "reads_only d d' \<longleftrightarrow> tables d' = tables d"
  unfolding reads_only_def tables_def by (cases d; cases d') auto

interpretation provider: auth_provider "auth_GetUserFromToken (auth_service E C)"
  "\<lambda>w. db_inv (app_db w)" "\<lambda>w. tables (app_db w)"
  "\<lambda>w token user. genuine_token (env_libs E) (cfg_service C) (app_now E w) (auth_view_of (app_db w)) token user"
  for E C
proof
  fix w :: "'a app" and token
  let ?m = "Service_GetUserFromToken (env_libs E) (Repository (env_pg E)) (cfg_service C) token"
  assume inv: "db_inv (app_db w)"
  have "wp ?m (\<lambda>r s. db_inv (as_repo s) \<and> reads_only (app_db w) (as_repo s) \<and>
      (\<forall>u. r = Inr u \<longrightarrow> genuine_token (env_libs E) (cfg_service C) (app_now E w) (auth_view_of (app_db w)) token u))
    (app_auth w)"
  proof (rule wpI)
    fix r s'
    assume run: "run_state ?m (app_auth w) = (r, s')"
    have "reads_only (app_db w) (as_repo s')"
      using io_run [OF io_auth_service(2) run] by (simp add: at_repo_def)
    moreover from this inv have "db_inv (as_repo s')" by (simp add: reads_only_views)
    moreover have "\<forall>u. r = Inr u \<longrightarrow> genuine_token (env_libs E) (cfg_service C) (app_now E w) (auth_view_of (app_db w)) token u"
      using wpD [OF auth_repo.GetUserFromToken_wp [OF inv] run] by (auto simp: app_now_def intro: token_answer_genuine)
    ultimately show "db_inv (as_repo s') \<and> reads_only (app_db w) (as_repo s') \<and>
      (\<forall>u. r = Inr u \<longrightarrow> genuine_token (env_libs E) (cfg_service C) (app_now E w) (auth_view_of (app_db w)) token u)"
      by blast
  qed
  then show "wp (auth_GetUserFromToken (auth_service E C) token) (\<lambda>r w'. db_inv (app_db w') \<and>
      tables (app_db w') = tables (app_db w) \<and>
      (\<forall>u. r = Inr (Some u) \<longrightarrow> genuine_token (env_libs E) (cfg_service C) (app_now E w) (auth_view_of (app_db w)) token u)) w"
    unfolding auth_service_def Let_def AuthService.select_convs wp_on_auth wp_tryE
    by (rule wp_mono) (auto simp: wp_simps reads_only_tables split: sum.splits)
qed

section \<open>The owner of the todos\<close>

definition owner_only :: "uuid \<Rightarrow> db \<Rightarrow> db \<Rightarrow> bool" where
  "owner_only uid d d' \<longleftrightarrow>
     (db_inv d \<longrightarrow> db_inv d' \<and> others_same uid (todo_view_of d) (todo_view_of d'))"

lemma owner_only_rel [simp]: "reflp (owner_only uid)" "transp (owner_only uid)"
  by (auto simp: owner_only_def others_same_def reflp_def transp_def)

lemma io_owner_only [io_intros]:
  "state_io_rel (owner_only uid) (Todo_Create (TodoRepository E) uid title description due)"
  "state_io_rel (owner_only uid) (Todo_Update (TodoRepository E) key uid title' description completed due)"
  "state_io_rel (owner_only uid) (Todo_Delete (TodoRepository E) key uid)"
proof -
  show "state_io_rel (owner_only uid) (Todo_Create (TodoRepository E) uid title description due)"
    using perform_others [of _ E uid "OpCreate title description due"]
    by (auto simp: state_io_rel_def owner_only_def simp del: todo_view_simps)
  show "state_io_rel (owner_only uid) (Todo_Update (TodoRepository E) key uid title' description completed due)"
    using perform_others [of _ E uid "OpUpdate key title' description completed due"]
    by (auto simp: state_io_rel_def owner_only_def simp del: todo_view_simps)
  show "state_io_rel (owner_only uid) (Todo_Delete (TodoRepository E) key uid)"
    using perform_others [of _ E uid "OpDelete key"]
    by (auto simp: state_io_rel_def owner_only_def simp del: todo_view_simps)
qed

lemma io_todo_handlers_owner:
  assumes "ctx_User r = Some u"
  shows "state_io_rel (at_world (at_db (owner_only (User_ID u)))) (Handler_CreateTodo H (todo_service E) r)"
    and "state_io_rel (at_world (at_db (owner_only (User_ID u)))) (Handler_UpdateTodo H (todo_service E) key r)"
    and "state_io_rel (at_world (at_db (owner_only (User_ID u)))) (Handler_DeleteTodo (todo_service E) key r)"
  unfolding Handler_CreateTodo_def Handler_UpdateTodo_def Handler_DeleteTodo_def respond_todo_def
    wiring_defs UserFromContext_def assms option.case
  by (intro io_intros lifted_rels owner_only_rel)+

section \<open>Endpoints\<close>

lemma routes_to_cases:
  assumes "routes_to E r g e params"
  shows "(g = Public \<and> e \<in> {RegisterUser, LoginUser}) \<or>
    (g = Authenticated \<and> e \<in> {ListTodos, CreateTodo, GetTodo, UpdateTodo, DeleteTodo, GetCurrentUser}) \<or>
    (g = AdminOnly \<and> e \<in> {ListApprovedUsers, CreateApprovedUser, BulkCreateApprovedUsers, DeleteApprovedUser})"
proof -
  from assms obtain m p where "(g, m, p, e) \<in> set api_routes"
    unfolding routes_to_def by (metis nth_mem)
  then show ?thesis by (auto simp: api_routes_def)
qed

lemma io_endpoint_reads:
  "e \<in> {LoginUser, GetCurrentUser, ListApprovedUsers, ListTodos, GetTodo} \<Longrightarrow>
   state_io_rel (at_world (at_db reads_only)) (endpoint_handler E C e r)"
  by (rule io_endpoint) (auto simp: si_operation_def apiServer_def Let_def io_handlers_read)

lemma io_endpoint_keeps_todos:
  "e \<in> {RegisterUser, CreateApprovedUser, BulkCreateApprovedUsers} \<Longrightarrow>
   state_io_rel (at_world (at_db keeps_todos)) (endpoint_handler E C e r)"
  by (rule io_endpoint) (auto simp: si_operation_def apiServer_def Let_def io_handlers_keep_todos)

lemma io_endpoint_keeps_accounts:
  "e \<in> {CreateTodo, UpdateTodo, DeleteTodo} \<Longrightarrow>
   state_io_rel (at_world (at_db keeps_accounts)) (endpoint_handler E C e r)"
  by (rule io_endpoint) (auto simp: si_operation_def apiServer_def Let_def io_handlers_keep_accounts)

lemma io_endpoint_owner:
  assumes "ctx_User r = Some u" and "e \<in> {CreateTodo, UpdateTodo, DeleteTodo}"
  shows "state_io_rel (at_world (at_db (owner_only (User_ID u)))) (endpoint_handler E C e r)"
  unfolding endpoint_handler_cases
  using assms by (auto simp: si_operation_def apiServer_def Let_def io_todo_handlers_owner [OF assms(1)]
      intro!: io_exchange io_if io_case_sum split: sum.split)

section \<open>Whole requests\<close>

lemma open_no_response [simp]: "open_response (ex_Response \<lparr>ex_World = w, ex_Response = no_response, ex_Log = []\<rparr>)"
  by (simp add: open_response_def no_response_def)

lemma idle_tables: "idle x x' \<Longrightarrow> tables (app_db (ex_World x')) = tables (app_db (ex_World x))"
  by (auto simp: idle_def reads_only_tables)

lemma tables_views:
  assumes "tables d' = tables d"
  shows "auth_view_of d' = auth_view_of d" "todo_view_of d' = todo_view_of d" "db_inv d' \<longleftrightarrow> db_inv d"
  using reads_only_views(1-3) [of d d'] assms by (simp_all add: reads_only_tables)

text \<open>A fact about the answer and the world after a request, from one about the exchange.\<close>

lemma serve_wpD:
  assumes "run_state (serve E C r) w = (res, w')"
    and "wp (server E C r) (\<lambda>_ x. Q (ex_Response x) (ex_World x)) \<lparr>ex_World = w, ex_Response = no_response, ex_Log = []\<rparr>"
  shows "Q res w'"
  using wpD [of "serve E C r" Q w res w'] assms by (simp add: wp_serve)

lemma acts_as_same:
  assumes "same_request r r1" and "app_auth w1 = app_auth w"
  shows "acts_as E C w1 r1 u \<longleftrightarrow> acts_as E C w r u"
  using assms by (simp add: acts_as_def app_now_def same_request_token)

text \<open>
  A guard answers by itself without touching the tables, or lets the request pass for a user it may act
  as; the administrators' guard only for one with the role.
\<close>

lemma guard_wp:
  fixes x :: "'l app exchange"
  assumes "db_inv (app_db (ex_World x))"
    and stop: "\<And>x'. tables (app_db (ex_World x')) = tables (app_db (ex_World x)) \<Longrightarrow> Q () x'"
    and public: "g = Public \<Longrightarrow> wp (h r) Q x"
    and user: "\<And>u w'. g \<noteq> Public \<Longrightarrow> db_inv (app_db w') \<Longrightarrow>
      tables (app_db w') = tables (app_db (ex_World x)) \<Longrightarrow> acts_as E C (ex_World x) r u \<Longrightarrow>
      (g = AdminOnly \<Longrightarrow> HasRole u ''admin'') \<Longrightarrow>
      wp (h (r\<lparr>ctx_User := Some u\<rparr>)) Q (x\<lparr>ex_World := w'\<rparr>)"
  shows "wp (guard_middleware E C g h r) Q x"
proof (cases g)
  case Public
  with public show ?thesis by simp
next
  case Authenticated
  show ?thesis
    unfolding Authenticated guard_middleware.simps
    by (rule provider.RequireAuth_wp [OF assms(1)])
      (use Authenticated stop user in \<open>auto simp: acts_as_def\<close>)
next
  case AdminOnly
  show ?thesis
    unfolding AdminOnly guard_middleware.simps
    by (rule provider.RequireAdmin_wp [OF assms(1)])
      (use AdminOnly stop user in \<open>auto simp: acts_as_def\<close>)
qed

end
