(* ===== verification/Demo_Server.thy ===== *)
theory Demo_Server
  imports Demo Router
begin

text \<open>
  A concrete environment for the server: the packages, database server and tables of \<open>Demo\<close>, a router
  that matches paths segment by segment, a limiter whose bucket never refills, a request validator
  that accepts everything.
\<close>

fun match_segments :: "string list \<Rightarrow> string list \<Rightarrow> (string \<times> string) list option" where
  "match_segments [] [] = Some []"
| "match_segments [] (s # ss) = None"
| "match_segments (p # ps) ss =
     (if p = ''*'' then Some []
      else case ss of
        [] \<Rightarrow> None
      | s # ss' \<Rightarrow>
          if p = ''{id}'' then map_option ((#) (''id'', s)) (match_segments ps ss')
          else if p = s then match_segments ps ss' else None)"

definition match_path :: "string \<Rightarrow> string \<Rightarrow> (string \<times> string) list option" where
  "match_path pattern path = match_segments (split_on (CHR ''/'') pattern) (split_on (CHR ''/'') path)"

fun find_route :: "nat \<Rightarrow> (string \<times> string) list \<Rightarrow> string \<Rightarrow> string \<Rightarrow> bool \<Rightarrow> routed" where
  "find_route i [] m p seen = (if seen then RouteMethodNotAllowed else RouteNotFound)"
| "find_route i ((m', pattern) # rs) m p seen =
     (case match_path pattern p of
        None \<Rightarrow> find_route (Suc i) rs m p seen
      | Some params \<Rightarrow>
          if m' = m \<or> m' = ''*'' then Routed i params else find_route (Suc i) rs m p True)"

definition demo_http :: http_libs where
  "demo_http =
     \<lparr>hl_json =
        \<lparr>Email_UnmarshalJSON = (\<lambda>v. case v of JStr s \<Rightarrow> if CHR ''@'' \<in> set s then Some s else None | _ \<Rightarrow> None),
         Time_UnmarshalJSON = (\<lambda>s. if s = ''9999-12-31T23:59:59-01:00'' then Some (253402304399 * Second) else None)\<rparr>,
      hl_validator =
        \<lparr>vl_unicode = \<lparr>uni_IsUpper = (\<lambda>_. False), uni_IsLower = (\<lambda>_. False), uni_IsDigit = (\<lambda>_. False),
           uni_IsLetter = (\<lambda>_. False)\<rparr>,
         mail_ParseAddress = (\<lambda>s. CHR ''@'' \<in> set s)\<rparr>,
      hl_uuid_String = uuid_String demo_libs\<rparr>"

definition demo_env :: "(unit, int) env" where
  "demo_env =
     \<lparr>env_pg = demo_pg, env_libs = demo_libs, env_http = demo_http,
      env_limiter = \<lparr>rate_NewLimiter = (\<lambda>r b. b), rate_Allow = (\<lambda>t n. (0 < n, n - 1)),
        rate_Now = (\<lambda>n. int n * Second)\<rparr>,
      env_spec = \<lparr>swaggerSpec = [''{}''], base64_DecodeString = Inr, flate_ReadFrom = Inr, flate_Close = (\<lambda>_. None),
        path_Clean = (\<lambda>p. p), openapi3_LoadFromData = (\<lambda>_ _. Inr (JObj [])), yaml_Marshal = (\<lambda>_. Inr ''{}''),
        swaggerui_IndexHTML = None\<rparr>,
      env_ParseIP = (\<lambda>_. None), env_rand = (\<lambda>n. Some (replicate 16 (CHR ''a''))), env_clock = (\<lambda>n. int n),
      env_route = (\<lambda>table m p. find_route 0 table m p False),
      env_NotFound = http_Error ''404 page not found'' 404, env_MethodNotAllowed = WriteHeader 405,
      env_OapiValidate = (\<lambda>_. None),
      env_BindUUID = (\<lambda>s. case uuid_Parse demo_libs s of Inl _ \<Rightarrow> Inl ''not a UUID'' | Inr u \<Rightarrow> Inr u)\<rparr>"

definition demo_config :: "unit config" where
  "demo_config =
     \<lparr>cfg_service = demo_service,
      cfg_cors = \<lparr>cors_AllowedOrigins = [''https://a.org''],
        cors_AllowedMethods = [''GET'', ''POST'', ''PUT'', ''DELETE'', ''OPTIONS''],
        cors_AllowedHeaders = [], cors_AllowCredentials = True, cors_MaxAge = 3600\<rparr>,
      cfg_rate = \<lparr>rl_Requests = 10, rl_Duration = 60 * Second\<rparr>,
      cfg_trusted = [], cfg_swagger = False\<rparr>"

definition demo_request :: "string \<Rightarrow> string \<Rightarrow> string \<Rightarrow> json option \<Rightarrow> request" where
  "demo_request m p token v =
     \<lparr>req_Method = m, req_Path = p,
      req_Header = (if token = '''' then [] else [(''Authorization'', ''Bearer '' @ token)]),
      req_RemoteAddr = ''10.0.0.7:4711'', req_Body = \<lparr>body_Need = 10, body_Value = v\<rparr>, req_Params = [],
      ctx_User = None, ctx_RequestID = None, ctx_ClientIP = None\<rparr>"

definition demo_app :: "int app" where
  "demo_app = \<lparr>app_auth = demo_state, app_limits = no_limits, app_requests = 0\<rparr>"

lemma demo_app_inv [simp]: "db_inv (app_db demo_app)"
  by (simp add: demo_app_def)

end
