(* ===== verification/Http_Correct.thy ===== *)
theory Http_Correct
  imports Server Demo_Server "HOL-Library.Multiset"
begin

text \<open>
  What the HTTP layer promises piece by piece: the answers of the operations, the refusal of bad
  bodies, credentials, client addresses, the password policy, the route table.
\<close>

section \<open>Answers of the operations\<close>

fun answer_codes :: "endpoint \<Rightarrow> nat set" where
  "answer_codes RegisterUser = {201, 400, 404, 409, 413, 500}"
| "answer_codes LoginUser = {200, 400, 401, 413, 500}"
| "answer_codes GetCurrentUser = {200, 401}"
| "answer_codes ListApprovedUsers = {200, 500}"
| "answer_codes CreateApprovedUser = {201, 400, 401, 409, 413, 500}"
| "answer_codes BulkCreateApprovedUsers = {201, 400, 401, 413, 500}"
| "answer_codes DeleteApprovedUser = {204, 404, 500}"
| "answer_codes ListTodos = {200, 401, 500}"
| "answer_codes CreateTodo = {201, 400, 401, 413, 500}"
| "answer_codes GetTodo = {200, 401, 404, 500}"
| "answer_codes UpdateTodo = {200, 400, 401, 404, 413, 500}"
| "answer_codes DeleteTodo = {204, 401, 404, 500}"

lemma auth_shaped:
  "shaped (answer_codes RegisterUser) (Handler_RegisterUser H A r)"
  "shaped (answer_codes LoginUser) (Handler_LoginUser H A r)"
  "shaped (answer_codes GetCurrentUser) (Handler_GetCurrentUser H r)"
  "shaped (answer_codes ListApprovedUsers) (Handler_ListApprovedUsers H D r)"
  "shaped (answer_codes CreateApprovedUser) (Handler_CreateApprovedUser H D r)"
  "shaped (answer_codes BulkCreateApprovedUsers) (Handler_BulkCreateApprovedUsers H D r)"
  "shaped (answer_codes DeleteApprovedUser) (Handler_DeleteApprovedUser D key r)"
  by (auto simp: Handler_RegisterUser_def intro!: answers_rules answer_shapes)[1]
    (auto simp: Handler_LoginUser_def intro!: answers_rules answer_shapes,
     auto simp: Handler_GetCurrentUser_def intro!: answers_rules answer_shapes,
     auto simp: Handler_ListApprovedUsers_def intro!: answers_rules answer_shapes,
     auto simp: Handler_CreateApprovedUser_def intro!: answers_rules answer_shapes,
     auto simp: Handler_BulkCreateApprovedUsers_def intro!: answers_rules answer_shapes,
     auto simp: Handler_DeleteApprovedUser_def intro!: answers_rules answer_shapes)

lemma todo_shaped:
  "shaped (answer_codes ListTodos) (Handler_ListTodos H T r)"
  "shaped (answer_codes CreateTodo) (Handler_CreateTodo H T r)"
  "shaped (answer_codes GetTodo) (Handler_GetTodo H T key r)"
  "shaped (answer_codes UpdateTodo) (Handler_UpdateTodo H T key r)"
  "shaped (answer_codes DeleteTodo) (Handler_DeleteTodo T key r)"
  by (auto simp: Handler_ListTodos_def Handler_CreateTodo_def Handler_GetTodo_def
      Handler_UpdateTodo_def Handler_DeleteTodo_def
      intro!: answers_rules shaped_respond_todo answer_shapes answer_shape_todo_decode)

lemma operation_shaped: "shaped (answer_codes e) (si_operation (apiServer E C) e key r)"
  by (cases e; simp only: si_operation_def apiServer_def ServerInterface.select_convs Let_def
      endpoint.case auth_shaped todo_shaped)

lemma shaped_mono: "shaped codes m \<Longrightarrow> codes \<subseteq> codes' \<Longrightarrow> shaped codes' m"
  by (erule answers_mono) (auto simp: answer_shape_def)

lemma endpoint_shaped:
  "shaped (answer_codes e \<union> (if takes_id e then {400} else {})) (endpoint_handler E C e r)"
  unfolding endpoint_handler_cases
  by (auto intro!: answers_rules answer_shape_error shaped_mono [OF operation_shaped]
      simp: openAPIValidationErrorHandler_def)

text \<open>
  C22. Whatever the services answer, an operation answers exactly once, with one of its statuses: 204
  without a body, an error with a \<open>detail\<close> object, anything else with one JSON value (or the text of
  its failed encoding); a malformed identifier is a 400.
\<close>

theorem endpoint_answers_once:
  assumes "open_response (ex_Response x)" and "run_state (endpoint_handler E C e r) x = (u, x')"
  shows "answer_shape (answer_codes e \<union> (if takes_id e then {400} else {})) (ex_Response x')"
  using endpoint_shaped assms by (rule answersD)

theorem endpoint_answers_once_witness:
  "\<exists>x'. run_state (endpoint_handler demo_env demo_config GetCurrentUser
      (demo_request ''GET'' ''/api/v1/me'' '''' None)) \<lparr>ex_World = demo_app, ex_Response = no_response, ex_Log = []\<rparr> = ((), x') \<and>
    answer_shape {200, 401} (ex_Response x')"
proof -
  let ?run = "run_state (endpoint_handler demo_env demo_config GetCurrentUser
    (demo_request ''GET'' ''/api/v1/me'' '''' None)) \<lparr>ex_World = demo_app, ex_Response = no_response, ex_Log = []\<rparr>"
  obtain x' where "?run = ((), x')" by (rule run_unit)
  with endpoint_answers_once [OF open_no_response this] show ?thesis
    by (simp add: takes_id_def)
qed

section \<open>Bodies\<close>

text \<open>The members an operation's body may have, for the operations that read one.\<close>

fun body_fields :: "endpoint \<Rightarrow> string list option" where
  "body_fields RegisterUser = Some [''approved_id'', ''email'', ''password'']"
| "body_fields LoginUser = Some [''email'', ''password'']"
| "body_fields CreateApprovedUser = Some [''email'', ''first_name'']"
| "body_fields BulkCreateApprovedUsers = Some [''users'']"
| "body_fields CreateTodo = Some [''description'', ''due_date'', ''title'']"
| "body_fields UpdateTodo = Some [''description'', ''due_date'', ''is_completed'', ''title'']"
| "body_fields e = None"

definition bad_body :: "string list \<Rightarrow> request \<Rightarrow> bool" where
  "bad_body names r \<longleftrightarrow>
     1048576 < body_Need (req_Body r) \<or>
     (case body_Value (req_Body r) of
        None \<Rightarrow> True
      | Some JNull \<Rightarrow> False
      | Some (JObj kvs) \<Rightarrow>
          list_ex (\<lambda>(k, v). list_all (\<lambda>f. f \<noteq> k \<and> fold_name f \<noteq> fold_name k) names) kvs
      | Some v \<Rightarrow> True)"

lemma decode_bad_body:
  assumes "bad_body (map fst fs) r"
  shows "\<exists>err. DecodeJSON 1048576 (unmarshal_struct fs z) r = Inl err \<and>
    (err = ErrBodyTooLarge \<longleftrightarrow> 1048576 < body_Need (req_Body r))"
proof -
  have "unmarshal_members fs kvs z = None"
    if "list_ex (\<lambda>(k, v). list_all (\<lambda>f. f \<noteq> k \<and> fold_name f \<noteq> fold_name k) (map fst fs)) kvs" for kvs
  proof (rule ccontr)
    assume "unmarshal_members fs kvs z \<noteq> None"
    then obtain z' where z': "unmarshal_members fs kvs z = Some z'" by auto
    from that obtain k v where "(k, v) \<in> set kvs"
      and none: "\<And>f. f \<in> set fs \<Longrightarrow> fst f \<noteq> k \<and> fold_name (fst f) \<noteq> fold_name k"
      by (auto simp: list_ex_iff list_all_iff)
    with unmarshal_members_known [OF z'] show False by blast
  qed
  with assms show ?thesis
    by (auto simp: bad_body_def DecodeJSON_def unmarshal_struct_def split: option.splits json.splits)
qed

definition decode_refused :: "(json \<Rightarrow> 'a option) \<Rightarrow> request \<Rightarrow> bool" where
  "decode_refused unmarshal r \<longleftrightarrow> (\<exists>err. DecodeJSON 1048576 unmarshal r = Inl err \<and>
     (err = ErrBodyTooLarge \<longleftrightarrow> 1048576 < body_Need (req_Body r)))"

lemma decode_refused_struct:
  "bad_body (map fst fs) r \<Longrightarrow> decode_refused (unmarshal_struct fs z) r"
  unfolding decode_refused_def by (rule decode_bad_body)

lemma decoders_refuse:
  "bad_body [''approved_id'', ''email'', ''password''] r \<Longrightarrow> decode_refused (unmarshal_RegisterRequest J) r"
  "bad_body [''email'', ''password''] r \<Longrightarrow> decode_refused (unmarshal_LoginRequest J) r"
  "bad_body [''email'', ''first_name''] r \<Longrightarrow> decode_refused (unmarshal_ApprovedUserRequest J) r"
  "bad_body [''users''] r \<Longrightarrow> decode_refused (unmarshal_BulkApprovedUserRequest J) r"
  "bad_body [''description'', ''due_date'', ''title''] r \<Longrightarrow> decode_refused (unmarshal_CreateTodoRequest J) r"
  "bad_body [''description'', ''due_date'', ''is_completed'', ''title''] r \<Longrightarrow>
     decode_refused (unmarshal_UpdateTodoRequest J) r"
  unfolding unmarshal_RegisterRequest_def unmarshal_LoginRequest_def unmarshal_ApprovedUserRequest_def
    fields_ApprovedUserRequest_def unmarshal_BulkApprovedUserRequest_def unmarshal_CreateTodoRequest_def
    unmarshal_UpdateTodoRequest_def
  by (rule decode_refused_struct; simp only: list.map fst_conv)+

definition decode_failure :: "request \<Rightarrow> response \<Rightarrow> response" where
  "decode_failure r =
     (if 1048576 < body_Need (req_Body r) then RespondError 413 ''request body too large''
      else RespondError 400 ''invalid request body'')"

lemma decode_refusedD:
  "decode_refused U r \<Longrightarrow> \<exists>err. decodeJSONBody U r = Inl err \<and> DecodeJSON 1048576 U r = Inl err \<and>
     writeDecodeError err = decode_failure r \<and> todo_decode_error err = decode_failure r"
  unfolding decode_refused_def decodeJSONBody_def maxBodyBytes_def writeDecodeError_def
    todo_decode_error_def decode_failure_def by metis


text \<open>A user, and a body that tries to set the owner of a todo.\<close>

definition demo_user :: "uuid \<Rightarrow> User" where
  "demo_user i =
     \<lparr>User_ID = i, User_ApprovedUserID = 1, User_HashedPassword = '''', User_IsActive = True,
      User_CreatedAt = 0, User_UpdatedAt = 0, User_ApprovedUser = None, User_Roles = []\<rparr>"

definition foreign_owner_request :: request where
  "foreign_owner_request =
     (demo_request ''POST'' ''/api/v1/todos'' ''''
        (Some (JObj [(''title'', JStr ''Shop''), (''user_id'', JStr ''u'')])))\<lparr>ctx_User := Some (demo_user 5)\<rparr>"


section \<open>Other users' todos\<close>

text \<open>
  C15. Reading, changing or deleting a todo of another user is answered exactly like a missing todo, 404
  \<open>todo not found\<close>, with no todo changed: the answer does not tell that the todo exists.
\<close>

theorem foreign_todo_looks_missing:
  fixes x :: "'l app exchange"
  assumes "db_inv (app_db (ex_World x))" and "server_up (env_pg E)" and "ctx_User r = Some u"
    and "\<And>t. todo_at (todo_view_of (app_db (ex_World x))) key t \<Longrightarrow> TodoRow_UserID t \<noteq> User_ID u"
    and "e = GetTodo \<or> e = DeleteTodo \<or>
      e = UpdateTodo \<and> (\<exists>req. DecodeJSON 1048576 (unmarshal_UpdateTodoRequest (hl_json (env_http E))) r = Inr req \<and>
        utr_Title req \<noteq> Some '''')"
    and "run_state (si_operation (apiServer E C) e key r) x = ((), x')"
  shows "ex_Response x' = RespondError 404 ''todo not found'' (ex_Response x) \<and>
    todo_view_of (app_db (ex_World x')) = todo_view_of (app_db (ex_World x))"
proof -
  let ?v = "todo_view_of (app_db (ex_World x))"
  have missing: "(r = Inl ErrTodoNotFound \<or> r = Inl ErrTodoNotOwned) \<and> v' = ?v"
    if "own_todo_answer True ?v key (User_ID u) ok r v'" for ok and r :: "go_error + 'z" and v'
    using that assms(4) unfolding own_todo_answer_def by blast
  have up: "server_up (env_pg E) = True" using assms(2) by simp
  note laws = todo_repo.GetByID_wp [OF assms(1), where E = "env_pg E", unfolded up]
    todo_repo.Delete_wp [OF assms(1), where E = "env_pg E", unfolded up]
    todo_repo.Update_wp [OF assms(1), where E = "env_pg E", unfolded up]
  have "wp (si_operation (apiServer E C) e key r) (\<lambda>_ x'.
      ex_Response x' = RespondError 404 ''todo not found'' (ex_Response x) \<and>
      todo_view_of (app_db (ex_World x')) = ?v) x"
    using assms(5)
  proof (elim disjE conjE exE)
    assume "e = GetTodo"
    then show ?thesis
      by (simp add: si_operation_def apiServer_def Let_def Handler_GetTodo_def UserFromContext_def assms(3)
          todo_service_def wp_bind wp_call_service wp_on_db del: todo_view_simps,
        intro wp_mono [OF laws(1)])
        (auto dest!: missing simp: wp_simps simp del: todo_view_simps)
  next
    assume "e = DeleteTodo"
    then show ?thesis
      by (simp add: si_operation_def apiServer_def Let_def Handler_DeleteTodo_def UserFromContext_def assms(3)
          todo_service_def wp_bind wp_call_service wp_on_db del: todo_view_simps,
        intro wp_mono [OF laws(2)])
        (auto dest!: missing simp: wp_simps simp del: todo_view_simps)
  next
    fix req
    assume "e = UpdateTodo" and req: "DecodeJSON 1048576 (unmarshal_UpdateTodoRequest (hl_json (env_http E))) r = Inr req"
      "utr_Title req \<noteq> Some ''''"
    then show ?thesis
      by (simp add: si_operation_def apiServer_def Let_def Handler_UpdateTodo_def UserFromContext_def assms(3)
          todo_service_def wp_bind wp_call_service wp_on_db req del: todo_view_simps,
        intro wp_mono [OF laws(3)])
        (auto dest!: missing simp: wp_simps simp del: todo_view_simps)
  qed
  from wpD [OF this assms(6)] show ?thesis .
qed

theorem foreign_todo_looks_missing_witness:
  "ex_Response (snd (run_state (si_operation (apiServer demo_env demo_config) GetTodo 20
      ((demo_request ''GET'' ''/api/v1/todos/x'' '''' None)\<lparr>ctx_User := Some (demo_user 6)\<rparr>))
      \<lparr>ex_World = demo_app, ex_Response = no_response, ex_Log = []\<rparr>)) =
   RespondError 404 ''todo not found'' no_response"
proof -
  let ?r = "(demo_request ''GET'' ''/api/v1/todos/x'' '''' None)\<lparr>ctx_User := Some (demo_user 6)\<rparr>"
  let ?x = "\<lparr>ex_World = demo_app, ex_Response = no_response, ex_Log = []\<rparr>"
  have up: "server_up (env_pg demo_env)" by (simp add: demo_env_def)
  have user: "ctx_User ?r = Some (demo_user 6)" by simp
  have db: "app_db (ex_World ?x) = demo_db" by (simp add: demo_app_def demo_state_def)
  have "TodoRow_UserID t \<noteq> User_ID (demo_user 6)" if "todo_at (todo_view_of demo_db) 20 t" for t
    using that by (auto simp: todo_at_def demo_db_def demo_user_def)
  then have foreign: "TodoRow_UserID t \<noteq> User_ID (demo_user 6)"
    if "todo_at (todo_view_of (app_db (ex_World ?x))) 20 t" for t
    using that unfolding db .
  obtain x' where run: "run_state (si_operation (apiServer demo_env demo_config) GetTodo 20 ?r) ?x = ((), x')"
    by (rule run_unit)
  have inv: "db_inv (app_db (ex_World ?x))" by simp
  from foreign_todo_looks_missing [OF inv up user foreign disjI1 [OF refl] run] run show ?thesis by simp
qed

section \<open>Credentials and addresses\<close>

text \<open>
  A bearer token is read from a request exactly when its \<open>Authorization\<close> header is the scheme
  \<open>bearer\<close> in any case, one space, and a non-empty token without a space; the token is that text.
\<close>

theorem bearer_token_iff:
  assumes "token \<noteq> ''''"
  shows "extractBearerToken r = token \<longleftrightarrow> CHR '' '' \<notin> set token \<and>
    (\<exists>scheme. header_Get r ''Authorization'' = scheme @ CHR '' '' # token \<and> map lower_char scheme = ''bearer'')"
proof
  assume "extractBearerToken r = token"
  from extractBearerToken_sound [OF this assms] show "CHR '' '' \<notin> set token \<and>
    (\<exists>scheme. header_Get r ''Authorization'' = scheme @ CHR '' '' # token \<and> map lower_char scheme = ''bearer'')"
    by (elim exE conjE) (intro conjI exI)
next
  assume "CHR '' '' \<notin> set token \<and>
    (\<exists>scheme. header_Get r ''Authorization'' = scheme @ CHR '' '' # token \<and> map lower_char scheme = ''bearer'')"
  then show "extractBearerToken r = token" by (elim conjE exE) (rule extractBearerToken_reads)
qed

theorem bearer_token_iff_witness:
  "extractBearerToken (demo_request ''GET'' ''/'' ''abc'' None) = ''abc''"
proof -
  have "header_Get (demo_request ''GET'' ''/'' ''abc'' None) ''Authorization'' = ''Bearer'' @ CHR '' '' # ''abc''"
    "map lower_char ''Bearer'' = ''bearer''" by code_simp+
  then show ?thesis
    by (subst bearer_token_iff) auto
qed

text \<open>
  C37. The address of a client is the peer's own address, whatever the request says, unless the peer lies
  in a trusted network; only then the first entry of \<open>X-Forwarded-For\<close>, or else \<open>X-Real-IP\<close>, is taken.
\<close>

theorem client_address:
  "GetRealIP ParseIP trusted r =
    (let peer = remoteHost (req_RemoteAddr r); forwarded = header_Get r ''X-Forwarded-For'';
         real = header_Get r ''X-Real-IP''
     in if peer \<noteq> '''' \<and> (case ParseIP peer of None \<Rightarrow> False | Some ip \<Rightarrow> list_ex (\<lambda>cidr. cidr ip) trusted)
        then if forwarded \<noteq> '''' then TrimSpace (takeWhile (\<lambda>c. c \<noteq> CHR '','') forwarded)
             else if real \<noteq> '''' then real else peer
        else peer)"
proof -
  have first: "hd (split_on sep s) = takeWhile (\<lambda>c. c \<noteq> sep) s" for sep s
    by (induction s) (auto split: list.splits)
  have trusted_ex: "first_trusted cidrs ip = list_ex (\<lambda>cidr. cidr ip) cidrs" for cidrs and ip :: 'a
    by (induction cidrs) auto
  define forwarded where "forwarded = header_Get r ''X-Forwarded-For''"
  define real where "real = header_Get r ''X-Real-IP''"
  define peer where "peer = remoteHost (req_RemoteAddr r)"
  have hosts: "(case SplitHostPort (req_RemoteAddr r) of None \<Rightarrow> req_RemoteAddr r | Some host \<Rightarrow> host) = peer"
    "(case SplitHostPort (req_RemoteAddr r) of None \<Rightarrow> peer | Some host \<Rightarrow> host) = peer"
    by (auto simp: peer_def remoteHost_def split: option.split)
  have *: "GetRealIP ParseIP trusted r = (if peer \<noteq> '''' \<and> trusted \<noteq> [] then
     (case ParseIP peer of None \<Rightarrow> peer
      | Some ip \<Rightarrow> if first_trusted trusted ip then (if forwarded \<noteq> '''' then TrimSpace (hd (split_on (CHR '','') forwarded)) else if real \<noteq> '''' then real else peer) else peer) else peer)"
    unfolding GetRealIP_def Let_def peer_def [symmetric] hosts forwarded_def [symmetric] real_def [symmetric] ..
  show ?thesis
    unfolding * Let_def peer_def [symmetric] forwarded_def [symmetric] real_def [symmetric] first
    by (cases "ParseIP peer"; cases "trusted = []"; simp flip: trusted_ex)
qed

section \<open>Text\<close>

text \<open>
  Decoding a string into runes consumes it from the front, one to four bytes for each rune, and loses
  nothing: the bytes of the runes are the string. The loop over a string of n bytes ends after at most n
  rounds, and ASCII text has exactly n runes, its bytes.
\<close>

theorem runes_of_string:
  "concat (map snd (rune_chunks s)) = s \<and> length (runes s) \<le> length s \<and>
   (\<forall>(r, bytes) \<in> set (rune_chunks s). bytes \<noteq> [] \<and> length bytes \<le> 4) \<and>
   ((\<forall>c \<in> set s. byte c < 0x80) \<longrightarrow> runes s = map byte s)"
proof -
  have width: "n \<le> 4" if "decode_rune t = (r, n)" for t r n
    using that by (auto simp: decode_rune_def Let_def split: if_splits)
  have "\<forall>(r, bytes) \<in> set (rune_chunks s). bytes \<noteq> [] \<and> length bytes \<le> 4"
  proof (induction s rule: rune_chunks.induct)
    case (2 c s)
    obtain r n where rn: "decode_rune (c # s) = (r, n)" by force
    with 2 [OF rn [symmetric] refl] decode_rune_width [OF rn] width [OF rn] show ?case
      by (cases n) auto
  qed simp
  then show ?thesis
    using length_rune_chunks [of s] runes_ascii [of s] by (auto simp: runes_def)
qed

theorem runes_of_string_witness:
  "runes ''abc'' = map byte ''abc'' \<and> length (runes (''Gr'' @ [CHR 0xC3, CHR 0xBC] @ ''n'')) \<le> 5"
proof -
  have "\<forall>c \<in> set ''abc''. byte c < 0x80" by code_simp
  then show ?thesis
    using runes_of_string [of "''abc''"] runes_of_string [of "''Gr'' @ [CHR 0xC3, CHR 0xBC] @ ''n''"] by simp
qed

text \<open>
  The password policy: a password is accepted exactly when it has 8 to 72 bytes (the bound of
  bcrypt), an upper-case letter, a lower-case letter and a digit.
\<close>

theorem password_policy:
  "ValidatePassword V p = None \<longleftrightarrow> 8 \<le> length p \<and> length p \<le> 72 \<and>
     (let U = vl_unicode V; rs = runes p
      in list_ex (IsUpper U) rs \<and> list_ex (\<lambda>r. \<not> IsUpper U r \<and> IsLower U r) rs \<and>
         list_ex (\<lambda>r. \<not> IsUpper U r \<and> \<not> IsLower U r \<and> IsDigit U r) rs)"
  unfolding ValidatePassword_None Let_def list_ex_iff by blast

section \<open>Routes\<close>

text \<open>
  The hand-written route table registers exactly the operations of the API description, each once,
  under the method and path the generated \<open>HandlerWithOptions\<close> uses.
\<close>

theorem routes_equal_spec:
  "mset (map (\<lambda>(g, m, p, e). (m, p, operation bindUUID (api_wrapper E C) e)) api_routes) =
   mset (HandlerWithOptions bindUUID (apiServer E C) (no_options\<lparr>opt_ErrorHandlerFunc :=
     Some (siw_ErrorHandlerFunc (api_wrapper E C))\<rparr>))"
proof -
  let ?entry = "\<lambda>(m, p, e). (m, p, operation bindUUID (api_wrapper E C) e)"
  have "mset (map (\<lambda>(g, m, p, e). (m, p, e)) api_routes) = mset spec_routes"
    by (simp add: api_routes_def spec_routes_def)
  from arg_cong [OF this, of "image_mset ?entry"] show ?thesis
    by (simp add: HandlerWithOptions_def no_options_def api_wrapper_def case_prod_beta' comp_def
        flip: mset_map)
qed

section \<open>The configured rate\<close>

text \<open>
  The limiter's arguments from the configuration: a bucket holds the configured number of requests
  and fills by at least one a second; above that it fills at no more than the configured rate. A
  configured rate below one request a second is raised to it: the default of ten a minute admits sixty.
\<close>

theorem configured_rate:
  assumes "0 < rl_Requests cfg"
  shows "lc_burst (limit_args cfg) = rl_Requests cfg \<and> lc_idleTimeout (limit_args cfg) = 600 * Second \<and>
    1 \<le> lc_rps (limit_args cfg) \<and>
    (1 < lc_rps (limit_args cfg) \<longrightarrow>
       lc_rps (limit_args cfg) * rl_Duration cfg \<le> rl_Requests cfg * Second \<and>
       rl_Requests cfg * Second < (lc_rps (limit_args cfg) + 1) * rl_Duration cfg) \<and>
    (rl_Requests cfg * Second < rl_Duration cfg \<longrightarrow> lc_rps (limit_args cfg) = 1)"
proof (cases "0 < rl_Duration cfg \<and> rl_Duration cfg \<le> rl_Requests cfg * Second")
  case True
  let ?q = "rl_Requests cfg * Second div rl_Duration cfg"
  from True have q: "1 \<le> ?q" by (simp add: pos_imp_zdiv_pos_iff int_one_le_iff_zero_less)
  then have rps: "lc_rps (limit_args cfg) = ?q"
    using True by (simp add: limit_args_def limit_defaults_def Let_def)
  have "?q * rl_Duration cfg \<le> rl_Requests cfg * Second"
    "rl_Requests cfg * Second < (?q + 1) * rl_Duration cfg"
    using True by (simp_all add: minus_mod_eq_div_mult [symmetric] distrib_right)
  with assms q rps True show ?thesis
    by (simp add: limit_args_def limit_defaults_def Let_def)
next
  case False
  then have "lc_rps (limit_args cfg) = 1"
    by (auto simp: limit_args_def limit_defaults_def Let_def)
  with assms show ?thesis
    by (simp add: limit_args_def limit_defaults_def Let_def)
qed

theorem configured_rate_witness:
  "lc_rps (limit_args \<lparr>rl_Requests = 10, rl_Duration = 60 * Second\<rparr>) = 1 \<and>
   lc_rps (limit_args \<lparr>rl_Requests = 300, rl_Duration = 60 * Second\<rparr>) * (60 * Second) \<le> 300 * Second"
proof -
  have "lc_rps (limit_args \<lparr>rl_Requests = 300, rl_Duration = 60 * Second\<rparr>) = 5" by code_simp
  with configured_rate [of "\<lparr>rl_Requests = 10, rl_Duration = 60 * Second\<rparr>"]
    configured_rate [of "\<lparr>rl_Requests = 300, rl_Duration = 60 * Second\<rparr>"] show ?thesis by simp
qed

section \<open>A date without a JSON form\<close>

text \<open>
  C40. A todo whose due date lies beyond the year 9999 is created with status 201 and the text of a failed
  encoding as its body, and from then on the list of the user's todos answers 200 with that text
  instead of the todos.
\<close>

theorem due_date_poisons_list:
  assumes "UserFromContext r = Some u" and "run_state (todo_ListByUserID T (User_ID u)) w = (Inr ts, w')"
    and "t \<in> set ts" and "Todo_DueDate t = Some d" and "253402300800 * Second \<le> d"
  shows "run_state (Handler_ListTodos H T r) \<lparr>ex_World = w, ex_Response = no_response, ex_Log = []\<rparr> =
    ((), \<lparr>ex_World = w', ex_Response =
      \<lparr>res_Header = [(''Content-Type'', ''application/json'')], res_Status = Some 200,
       res_Body = [ChunkText (''failed to encode response'' @ [CHR 0x0A])], res_Wrapped = 500\<rparr>, ex_Log = []\<rparr>)"
proof -
  have "\<not> encodable (json_TodoResponse (toTodoResponse H t))"
    using assms(4,5) by (simp add: json_TodoResponse_def toTodoResponse_def json_ptr_def time_encodable_def)
  with assms(3) have "\<not> encodable (JList (map (\<lambda>t. json_TodoResponse (toTodoResponse H t)) ts))"
    by auto
  then show ?thesis
    using assms(1,2)
    by (simp add: Handler_ListTodos_def call_service_def RespondJSON_def http_Error_def header_Set_def
        WriteHeader_def write_chunk_def no_response_def content_type_key Let_def)
qed

theorem due_date_poisons_list_witness:
  "res_Body (ex_Response (snd (run_state
     (Handler_ListTodos demo_http (todo_service demo_env)
        ((demo_request ''GET'' ''/api/v1/todos'' '''' None)\<lparr>ctx_User := Some (demo_user 5)\<rparr>))
     \<lparr>ex_World = snd (run_state (todo_Create (todo_service demo_env) 5 ''Late'' None
        (Some (253402304399 * Second))) demo_app), ex_Response = no_response, ex_Log = []\<rparr>))) =
   [ChunkText (''failed to encode response'' @ [CHR 0x0A])]"
proof -
  let ?r = "(demo_request ''GET'' ''/api/v1/todos'' '''' None)\<lparr>ctx_User := Some (demo_user 5)\<rparr>"
  let ?late = "253402304399 * Second"
  let ?w = "snd (run_state (todo_Create (todo_service demo_env) 5 ''Late'' None (Some ?late)) demo_app)"
  let ?list = "run_state (todo_ListByUserID (todo_service demo_env) (User_ID (demo_user 5))) ?w"
  have "\<not> isl (fst ?list) \<and> list_ex (\<lambda>t. Todo_DueDate t = Some ?late) (projr (fst ?list))"
    by code_simp
  then obtain ts t where ts: "?list = (Inr ts, snd ?list)" and t: "t \<in> set ts" "Todo_DueDate t = Some ?late"
    by (cases "fst ?list") (auto simp: list_ex_iff prod_eq_iff)
  have "UserFromContext ?r = Some (demo_user 5)" by (simp add: UserFromContext_def)
  from due_date_poisons_list [OF this ts t] show ?thesis by simp
qed

end
