(* ===== verification/Headers.thy ===== *)
theory Headers
  imports Server
begin

text \<open>
  What handlers leave of the headers the middleware has set: the handlers of the program set
  \<open>Content-Type\<close> and \<open>Retry-After\<close>, and \<open>http.Error\<close> sets \<open>X-Content-Type-Options\<close> to the value it has.
\<close>

section \<open>Relations on the response\<close>

definition at_response :: "(response \<Rightarrow> response \<Rightarrow> bool) \<Rightarrow> 'w exchange \<Rightarrow> 'w exchange \<Rightarrow> bool" where
  "at_response P x x' \<longleftrightarrow> P (ex_Response x) (ex_Response x')"

lemma at_response_rel [simp]:
  "reflp P \<Longrightarrow> reflp (at_response P)" "transp P \<Longrightarrow> transp (at_response P)"
  unfolding at_response_def by (auto simp: reflp_def transp_def)

lemma io_call_response [io_intros]: "reflp P \<Longrightarrow> state_io_rel (at_response P) (call_service m)"
  by (auto simp: state_io_rel_def at_response_def call_service_def reflp_def split: prod.splits)

lemma io_respond_response [io_intros]:
  "(\<And>w. P w (f w)) \<Longrightarrow> state_io_rel (at_response P) (respond f)"
  by (simp add: state_io_rel_def at_response_def)

lemma io_log_response [io_intros]:
  "reflp P \<Longrightarrow> state_io_rel (at_response P) (log_entry e)"
  "reflp P \<Longrightarrow> state_io_rel (at_response P) noted_status"
  by (auto simp: state_io_rel_def at_response_def reflp_def)

section \<open>Kept headers\<close>

definition handler_headers :: "string list" where
  "handler_headers = [''Content-Type'', ''Retry-After'']"

definition same_headers :: "response \<Rightarrow> response \<Rightarrow> bool" where
  "same_headers w w' \<longleftrightarrow>
     (\<forall>k. k \<notin> set handler_headers \<and> k \<noteq> ''X-Content-Type-Options'' \<longrightarrow>
        map_of (res_Header w') k = map_of (res_Header w) k) \<and>
     (map_of (res_Header w) ''X-Content-Type-Options'' = Some ''nosniff'' \<longrightarrow>
        map_of (res_Header w') ''X-Content-Type-Options'' = Some ''nosniff'')"

lemma same_headers_rel [simp]: "reflp same_headers" "transp same_headers"
  unfolding same_headers_def reflp_def transp_def by auto

lemma same_headers_trans: "same_headers w w1 \<Longrightarrow> same_headers w1 w2 \<Longrightarrow> same_headers w w2"
  by (rule transpD [OF same_headers_rel(2)])

lemma header_keys:
  "canonical_key ''Content-Type'' = ''Content-Type''" "canonical_key ''Retry-After'' = ''Retry-After''"
  "canonical_key ''X-Content-Type-Options'' = ''X-Content-Type-Options''"
  by code_simp+

lemma same_headers_refl [simp]: "same_headers w w"
  by (simp add: same_headers_def)

lemma same_headers_write [simp]:
  "same_headers w (WriteHeader c w')  \<longleftrightarrow> same_headers w w'"
  "same_headers w (write_chunk ch w') \<longleftrightarrow> same_headers w w'"
  "same_headers w (w'\<lparr>res_Wrapped := c\<rparr>) \<longleftrightarrow> same_headers w w'"
  by (simp_all add: same_headers_def)

lemma same_headers_Set:
  assumes "canonical_key k \<in> set handler_headers \<or> canonical_key k = ''X-Content-Type-Options'' \<and> v = ''nosniff''"
    and "same_headers w w'"
  shows "same_headers w (header_Set k v w')"
proof -
  have "map_of (res_Header (header_Set k v w')) k' =
      (if k' = canonical_key k \<and> res_Status w' = None then Some v else map_of (res_Header w') k')" for k'
    by (cases "k' = canonical_key k") (auto simp: header_Set_other)
  note upd = this
  have other: "''X-Content-Type-Options'' \<notin> set handler_headers" by (simp add: handler_headers_def)
  show ?thesis
    unfolding same_headers_def
  proof (intro conjI allI impI)
    fix k'
    assume k': "k' \<notin> set handler_headers \<and> k' \<noteq> ''X-Content-Type-Options''"
    with assms(1) have "k' \<noteq> canonical_key k" by metis
    with k' assms(2) show "map_of (res_Header (header_Set k v w')) k' = map_of (res_Header w) k'"
      unfolding same_headers_def upd by metis
  next
    assume "map_of (res_Header w) ''X-Content-Type-Options'' = Some ''nosniff''"
    with assms(2) have "map_of (res_Header w') ''X-Content-Type-Options'' = Some ''nosniff''"
      unfolding same_headers_def by metis
    with assms(1) other show "map_of (res_Header (header_Set k v w')) ''X-Content-Type-Options'' = Some ''nosniff''"
      unfolding upd by metis
  qed
qed

lemma same_headers_http_Error [simp]: "same_headers w w' \<Longrightarrow> same_headers w (http_Error msg c w')"
proof -
  assume "same_headers w w'"
  then have "same_headers w (header_Set ''Content-Type'' ''text/plain; charset=utf-8'' w')"
    by (rule same_headers_Set [rotated]) (simp add: header_keys handler_headers_def)
  then have "same_headers w (header_Set ''X-Content-Type-Options'' ''nosniff''
      (header_Set ''Content-Type'' ''text/plain; charset=utf-8'' w'))"
    by (rule same_headers_Set [rotated]) (simp add: header_keys)
  then show ?thesis
    unfolding http_Error_def same_headers_write .
qed

lemma same_headers_RespondJSON [simp]: "same_headers w (RespondJSON status v w)"
  by (simp add: RespondJSON_def Let_def same_headers_Set header_keys handler_headers_def)

lemma same_headers_RespondError [simp]: "same_headers w (RespondError status msg w)"
  by (simp add: RespondError_def)

lemma same_headers_errors [simp]:
  "same_headers w (writeDecodeError err w)"
  "same_headers w (todo_decode_error err w)" "same_headers w (openAPIValidationErrorHandler msg code w)"
  by (simp_all add: writeDecodeError_def todo_decode_error_def
      openAPIValidationErrorHandler_def)

section \<open>The handlers\<close>

abbreviation keeps_headers :: "('w exchange, unit) state \<Rightarrow> bool" where
  "keeps_headers m \<equiv> state_io_rel (at_response same_headers) m"

lemmas header_rules = io_intros at_response_rel same_headers_rel

lemma headers_si_operation:
  "keeps_headers (si_operation (apiServer E C) e key r)"
  by (cases e; simp only: si_operation_def apiServer_def ServerInterface.select_convs Let_def endpoint.case
      handler_defs)
    (intro header_rules; simp)+

lemma headers_endpoint: "keeps_headers (endpoint_handler E C e r)"
  unfolding endpoint_handler_cases
  by (auto intro!: header_rules headers_si_operation split: sum.split)

lemma headers_guard:
  "(\<And>r. keeps_headers (h r)) \<Longrightarrow> keeps_headers (guard_middleware E C g h r)"
  by (cases g; simp only: guard_middleware.simps RequireAdmin_def RequireAuth_def Let_def)
    (intro header_rules; simp)+

text \<open>The router's own answers keep the headers, too, by assumption.\<close>

definition router_keeps_headers :: "('ip, 'l) env \<Rightarrow> bool" where
  "router_keeps_headers E \<longleftrightarrow>
     (\<forall>w. same_headers w (env_NotFound E w) \<and> same_headers w (env_MethodNotAllowed E w))"

lemma headers_dispatch:
  assumes "router_keeps_headers E" and "\<And>m p h r. (m, p, h) \<in> set table \<Longrightarrow> keeps_headers (h r)"
  shows "keeps_headers (dispatch E table r)"
proof -
  have "keeps_headers (snd (snd (table ! i)) r')" if "i < length table" for i r'
    using assms(2) nth_mem [OF that] by (metis prod.collapse)
  with assms(1) show ?thesis
    unfolding dispatch_def router_keeps_headers_def
    by (auto intro!: header_rules split: routed.split)
qed

lemma headers_RateLimit:
  "(\<And>r. keeps_headers (next r)) \<Longrightarrow> keeps_headers (rateLimitMiddleware E K next r)"
  unfolding rateLimitMiddleware_def RateLimit_def
  by (auto intro!: header_rules same_headers_Set simp: header_keys handler_headers_def)

lemma headers_oapi: "(\<And>r. keeps_headers (next r)) \<Longrightarrow> keeps_headers (oapiMiddleware E next r)"
  unfolding oapiMiddleware_def by (auto intro!: header_rules split: option.split sum.split)

lemma headers_api_group:
  assumes "router_keeps_headers E"
  shows "keeps_headers (api_group E C r)"
  unfolding api_group_def chain_simps
  by (intro headers_RateLimit headers_oapi headers_dispatch [OF assms])
    (auto intro: headers_guard headers_endpoint)

lemma headers_root:
  "keeps_headers (rootHandler r)" "keeps_headers (healthHandlerWithDB checkDB r)"
  unfolding rootHandler_def healthHandlerWithDB_def
  by (auto intro!: header_rules same_headers_Set simp: header_keys handler_headers_def split: option.split)

lemma headers_pages:
  "(m, p, h) \<in> set (page_routes L enabled) \<Longrightarrow> keeps_headers (h r)"
  by (auto simp: page_routes_def mountSwagger_def mountOpenAPISpec_def swagger_page_def openapi_page_def
      header_keys handler_headers_def intro!: header_rules same_headers_Set
      split: if_splits option.splits sum.split)

lemma headers_server_routes:
  "router_keeps_headers E \<Longrightarrow> keeps_headers (dispatch E (server_routes E C) r)"
  by (rule headers_dispatch)
    (auto simp: server_routes_def intro: headers_root headers_pages headers_api_group)

section \<open>The headers of every response\<close>

lemma header_Set_lookup:
  "map_of (res_Header (header_Set k v w)) k' =
     (if k' = canonical_key k \<and> res_Status w = None then Some v else map_of (res_Header w) k')"
  by (cases "k' = canonical_key k") (auto simp: header_Set_other)

lemma header_Add_lookup:
  "map_of (res_Header (header_Add k v w)) k' =
     (case map_of (res_Header w) k' of
        Some v' \<Rightarrow> Some v'
      | None \<Rightarrow> if k' = canonical_key k \<and> res_Status w = None then Some v else None)"
  by (auto simp: header_Add_def map_add_def split: option.split)

definition security_headers :: "string \<Rightarrow> response \<Rightarrow> response" where
  "security_headers p w =
     (if take 8 p \<noteq> ''/swagger'' then header_Set ''Content-Security-Policy'' csp else (\<lambda>w. w))
       (header_Set ''Referrer-Policy'' ''no-referrer''
         (header_Set ''X-Frame-Options'' ''DENY''
           (header_Set ''X-Content-Type-Options'' ''nosniff''
             (header_Set ''Strict-Transport-Security'' ''max-age=63072000; includeSubDomains'' w))))"

text \<open>The response as the middleware leaves it before routing.\<close>

definition base_response :: "('ip, 'l) env \<Rightarrow> 'ip config \<Rightarrow> request \<Rightarrow> 'l app \<Rightarrow> response" where
  "base_response E C r w =
     (let n = app_requests w; origin = header_Get r ''Origin''
      in cors_headers (cfg_cors C) origin (isValidOrigin origin (cors_AllowedOrigins (cfg_cors C)))
           (security_headers (req_Path r)
             (header_Set ''X-Request-ID'' (GenerateRequestID (env_rand E n) (env_clock E n)) no_response)))"

lemma header_Get_ctx [simp]:
  "header_Get (r\<lparr>ctx_RequestID := i\<rparr>) k = header_Get r k"
  "header_Get (r\<lparr>ctx_ClientIP := ip\<rparr>) k = header_Get r k"
  by (simp_all add: header_Get_def)

lemma fresh_wrapper [simp]:
  "(header_Set k v w)\<lparr>res_Wrapped := c\<rparr> = header_Set k v (w\<lparr>res_Wrapped := c\<rparr>)"
  "no_response\<lparr>res_Wrapped := 200\<rparr> = no_response"
  by (simp_all add: header_Set_def no_response_def)

lemma wp_SecurityHeaders:
  "wp (SecurityHeaders next r) Q x \<longleftrightarrow>
     wp (next r) Q (x\<lparr>ex_Response := security_headers (req_Path r) (ex_Response x)\<rparr>)"
  by (simp add: SecurityHeaders_def security_headers_def wp_simps)

lemma server_headers:
  fixes w :: "'l app"
  assumes "router_keeps_headers E" and "run_state (serve E C r) w = (res, w')"
  shows "same_headers (base_response E C r w) res"
    and "req_Method r = ''OPTIONS'' \<Longrightarrow> app_auth w' = app_auth w \<and> res_Body res = [] \<and>
      res_Status res = Some (if isValidOrigin (header_Get r ''Origin'') (cors_AllowedOrigins (cfg_cors C))
        then 204 else 403)"
proof -
  have dispatch: "wp (dispatch E (server_routes E C) r1) (\<lambda>_ x. same_headers B (ex_Response x)) x1"
    if "same_headers B (ex_Response x1)" for B r1 and x1 :: "'l app exchange"
  proof (rule wpI)
    fix u x2
    assume run: "run_state (dispatch E (server_routes E C) r1) x1 = (u, x2)"
    from io_run [OF headers_server_routes [OF assms(1)] this] that show "same_headers B (ex_Response x2)"
      unfolding at_response_def by (rule same_headers_trans [rotated])
  qed
  show "same_headers (base_response E C r w) res"
    by (rule serve_wpD [OF assms(2), where Q = "\<lambda>res _. same_headers (base_response E C r w) res"])
      (simp add: server_def requestIDMiddleware_def realIPMiddleware_def corsMiddleware_def
        wp_loggerMiddleware [unfolded logless_def] wp_SecurityHeaders wp_simps Let_def dispatch base_response_def)
  assume "req_Method r = ''OPTIONS''"
  then show "app_auth w' = app_auth w \<and> res_Body res = [] \<and>
      res_Status res = Some (if isValidOrigin (header_Get r ''Origin'') (cors_AllowedOrigins (cfg_cors C)) then 204 else 403)"
    by (intro serve_wpD [OF assms(2), where Q = "\<lambda>res w'. app_auth w' = app_auth w \<and> res_Body res = [] \<and>
          res_Status res = Some (if isValidOrigin (header_Get r ''Origin'') (cors_AllowedOrigins (cfg_cors C)) then 204 else 403)"])
      (simp add: server_def requestIDMiddleware_def realIPMiddleware_def corsMiddleware_def
        wp_loggerMiddleware [unfolded logless_def] wp_SecurityHeaders wp_simps Let_def security_headers_def
        cors_headers_def no_response_def)
qed

lemma header_names:
  "canonical_key ''X-Request-ID'' = ''X-Request-Id''"
  "canonical_key ''Strict-Transport-Security'' = ''Strict-Transport-Security''"
  "canonical_key ''X-Frame-Options'' = ''X-Frame-Options''"
  "canonical_key ''Referrer-Policy'' = ''Referrer-Policy''"
  "canonical_key ''Content-Security-Policy'' = ''Content-Security-Policy''"
  "canonical_key ''Vary'' = ''Vary''"
  "canonical_key ''Access-Control-Allow-Origin'' = ''Access-Control-Allow-Origin''"
  "canonical_key ''Access-Control-Allow-Credentials'' = ''Access-Control-Allow-Credentials''"
  "canonical_key ''Access-Control-Allow-Methods'' = ''Access-Control-Allow-Methods''"
  "canonical_key ''Access-Control-Allow-Headers'' = ''Access-Control-Allow-Headers''"
  "canonical_key ''Access-Control-Max-Age'' = ''Access-Control-Max-Age''"
  by code_simp+

lemmas header_lookups = header_Set_lookup header_Add_lookup header_keys header_names

lemma base_response_headers:
  "map_of (res_Header (base_response E C r w)) ''Strict-Transport-Security'' = Some ''max-age=63072000; includeSubDomains''"
  "map_of (res_Header (base_response E C r w)) ''X-Content-Type-Options'' = Some ''nosniff''"
  "map_of (res_Header (base_response E C r w)) ''X-Frame-Options'' = Some ''DENY''"
  "map_of (res_Header (base_response E C r w)) ''Referrer-Policy'' = Some ''no-referrer''"
  "map_of (res_Header (base_response E C r w)) ''Content-Security-Policy'' =
     (if take 8 (req_Path r) = ''/swagger'' then None else Some csp)"
  "map_of (res_Header (base_response E C r w)) ''X-Request-Id'' =
     Some (GenerateRequestID (env_rand E (app_requests w)) (env_clock E (app_requests w)))"
  "map_of (res_Header (base_response E C r w)) ''Vary'' = Some ''Origin''"
  "map_of (res_Header (base_response E C r w)) ''Access-Control-Allow-Origin'' =
     (if isValidOrigin (header_Get r ''Origin'') (cors_AllowedOrigins (cfg_cors C))
      then Some (header_Get r ''Origin'') else None)"
  "map_of (res_Header (base_response E C r w)) ''Access-Control-Allow-Credentials'' =
     (if isValidOrigin (header_Get r ''Origin'') (cors_AllowedOrigins (cfg_cors C)) \<and>
        cors_AllowCredentials (cfg_cors C) then Some ''true'' else None)"
  by (simp_all add: base_response_def cors_headers_def security_headers_def Let_def header_lookups
      no_response_def)

end
