(* ===== verification/Server_Correct.thy ===== *)
theory Server_Correct
  imports Headers Demo_Server
begin

text \<open>
  What the server promises as a whole, whatever requests it is sent and whatever messages to the
  database are lost.
\<close>

section \<open>Steps of the server\<close>

text \<open>The server serves a request, or a sweep of the rate limiter that was started runs.\<close>

inductive server_step :: "('ip, 'l) env \<Rightarrow> 'ip config \<Rightarrow> 'l app \<Rightarrow> 'l app \<Rightarrow> bool"
  for E :: "('ip, 'l) env" and C :: "'ip config" where
  request: "run_state (serve E C r) w = (res, w') \<Longrightarrow> server_step E C w w'"
| sweep: "0 < lim_pending (app_limits w) \<Longrightarrow>
    run_state (on_limits (sweep (env_limiter E) (limit_args (cfg_rate C)))) w = ((), w') \<Longrightarrow>
    server_step E C w w'"

lemma server_step_request: "server_step E C w (snd (run_state (serve E C r) w))"
  by (rule server_step.request [OF surjective_pairing])

lemma serve_keeps_inv:
  assumes "run_state (serve E C r) w = (res, w')" and "db_inv (app_db w)"
  shows "db_inv (app_db w')"
proof (rule serve_wpD [OF assms(1), of "\<lambda>_ w'. db_inv (app_db w')"], rule server_wp [OF open_no_response], goal_cases)
  case (1 x')
  then show ?case using tables_views(3) [OF idle_tables [OF 1]] assms(2) by simp
next
  case (2 g e params r1 x1)
  have "state_io_rel (at_world (at_db keeps_inv)) (guard_middleware E C g (endpoint_handler E C e) r1)"
    by (rule io_guard) (auto simp: at_db_def keeps_def reads_only_views intro!: io_endpoint io_apiServer_keeps_inv)
  with 2 assms(2) show ?case
    by (intro wpI) (auto dest!: io_run simp: at_world_def at_db_def keeps_def)
qed (simp add: logless_def)

lemma sweep_keeps_tables:
  "run_state (on_limits m) w = (u, w') \<Longrightarrow> app_auth w' = app_auth w"
  by (auto simp: on_limits_def split: prod.splits)



text \<open>A request without credentials to delete a todo.\<close>

definition anon_delete :: request where
  "anon_delete = demo_request ''DELETE'' (''/api/v1/todos/'' @ uuid_String demo_libs 20) '''' None"

lemma anon_delete_routed: "routes_to demo_env anon_delete g e params \<Longrightarrow> e = DeleteTodo"
proof -
  assume "routes_to demo_env anon_delete g e params"
  moreover have "env_route demo_env api_paths (req_Method anon_delete) (req_Path anon_delete) =
      Routed 6 [(''id'', uuid_String demo_libs 20)]"
    by code_simp
  ultimately show ?thesis by (auto simp: routes_to_def api_routes_def)
qed

lemma anon_delete_nobody: "\<not> acts_as demo_env demo_config demo_app anon_delete u"
proof -
  have "isl (token_user_id demo_libs demo_service (app_now demo_env demo_app) (extractBearerToken anon_delete))"
    by code_simp
  then show ?thesis
    by (auto simp: acts_as_def genuine_token_def demo_env_def demo_config_def)
qed

section \<open>Who may change what\<close>

definition is_todo_write :: "endpoint \<Rightarrow> bool" where
  "is_todo_write e \<longleftrightarrow> e \<in> {CreateTodo, UpdateTodo, DeleteTodo}"

definition is_admin_write :: "endpoint \<Rightarrow> bool" where
  "is_admin_write e \<longleftrightarrow> e \<in> {CreateApprovedUser, BulkCreateApprovedUsers, DeleteApprovedUser}"

text \<open>The requests that are let through to change data, by what they entitle to.\<close>

definition entitled :: "('ip, 'l) env \<Rightarrow> 'ip config \<Rightarrow> 'l app \<Rightarrow> request \<Rightarrow> endpoint \<Rightarrow> bool" where
  "entitled E C w r e \<longleftrightarrow> e = RegisterUser \<or> is_todo_write e \<and> (\<exists>u. acts_as E C w r u) \<or>
     is_admin_write e \<and> (\<exists>u. acts_as E C w r u \<and> HasRole u ''admin'')"

text \<open>
  To show something of the world after a request: it holds when the tables are as they were, and after
  every endpoint that can be reached, entered with those tables and, behind a guard, for a user the
  request may act as.
\<close>

lemma serve_rule:
  fixes E :: "('ip, 'l) env" and w :: "'l app"
  assumes run: "run_state (serve E C r) w = (res, w')" and inv: "db_inv (app_db w)"
    and same: "\<And>w1. tables (app_db w1) = tables (app_db w) \<Longrightarrow> P w1"
    and endpoint: "\<And>g e params r1 x1 u x2. routes_to E r g e params \<Longrightarrow>
      e \<notin> {LoginUser, GetCurrentUser, ListApprovedUsers, ListTodos, GetTodo} \<Longrightarrow>
      tables (app_db (ex_World x1)) = tables (app_db w) \<Longrightarrow> db_inv (app_db (ex_World x1)) \<Longrightarrow>
      (g \<noteq> Public \<Longrightarrow> acts_as E C w r u \<and> ctx_User r1 = Some u) \<Longrightarrow>
      (g = AdminOnly \<Longrightarrow> HasRole u ''admin'') \<Longrightarrow>
      run_state (endpoint_handler E C e r1) x1 = ((), x2) \<Longrightarrow> P (ex_World x2)"
  shows "P w'"
proof (rule serve_wpD [OF run, of "\<lambda>_. P"], rule server_wp [OF open_no_response], goal_cases)
  case (1 x')
  then show ?case using idle_tables [OF 1] by (simp add: same)
next
  case (2 g e params r1 x1)
  have as: "acts_as E C (ex_World x1) r1 u \<longleftrightarrow> acts_as E C w r u" for u
    by (rule acts_as_same) (use 2 in simp_all)
  have db: "app_db (ex_World x1) = app_db w" using 2 by simp
  show ?case
  proof (cases "e \<in> {LoginUser, GetCurrentUser, ListApprovedUsers, ListTodos, GetTodo}")
    case True
    have "state_io_rel (at_world (at_db reads_only)) (guard_middleware E C g (endpoint_handler E C e) r1)"
      by (rule io_guard) (auto simp: at_db_def intro!: io_endpoint_reads [OF True])
    with db show ?thesis
      by (intro wpI same) (auto dest!: io_run simp: at_world_def at_db_def reads_only_tables)
  next
    case False
    show ?thesis
    proof (rule guard_wp)
      show "db_inv (app_db (ex_World x1))" using db inv by simp
    next
      fix x' :: "'l app exchange"
      assume "tables (app_db (ex_World x')) = tables (app_db (ex_World x1))"
      with db same show "P (ex_World x')" by simp
    next
      assume "g = Public"
      then show "wp (endpoint_handler E C e r1) (\<lambda>_ x. P (ex_World x)) x1"
        by (intro wpI) (rule endpoint [OF 2(1) False], use db inv in auto)
    next
      fix u and w1 :: "'l app"
      assume "g \<noteq> Public" "db_inv (app_db w1)" "tables (app_db w1) = tables (app_db (ex_World x1))"
        "acts_as E C (ex_World x1) r1 u" "g = AdminOnly \<Longrightarrow> HasRole u ''admin''"
      then show "wp (endpoint_handler E C e (r1\<lparr>ctx_User := Some u\<rparr>)) (\<lambda>_ x. P (ex_World x)) (x1\<lparr>ex_World := w1\<rparr>)"
        by (intro wpI) (rule endpoint [OF 2(1) False, where u = u], use db as in auto)
    qed
  qed
qed (simp add: logless_def)

lemma route_entitled:
  assumes "routes_to E r g e params" and "e \<notin> {LoginUser, GetCurrentUser, ListApprovedUsers, ListTodos, GetTodo}"
    and "g \<noteq> Public \<Longrightarrow> acts_as E C w r u" and "g = AdminOnly \<Longrightarrow> HasRole u ''admin''"
  shows "entitled E C w r e"
  using routes_to_cases [OF assms(1)] assms(2-4)
  unfolding entitled_def is_todo_write_def is_admin_write_def by auto

text \<open>
  C2. A request that changes the tables is a registration, or an operation on todos with the genuine
  token of an active account, or an operation on approved users with the genuine token of an account
  that has the role \<open>admin\<close> in the database. Every other request leaves the tables as they are.
\<close>

theorem access_control:
  fixes w :: "'l app"
  assumes "db_inv (app_db w)" and "run_state (serve E C r) w = (res, w')"
  shows "tables (app_db w') = tables (app_db w) \<or>
    (\<exists>g e params. routes_to E r g e params \<and> entitled E C w r e)"
proof (cases "\<exists>g e params. routes_to E r g e params \<and> entitled E C w r e")
  case False
  have "tables (app_db w') = tables (app_db w)"
  proof (rule serve_rule [OF assms(2,1)])
    fix g e params r1 u and x1 x2 :: "'l app exchange"
    assume "routes_to E r g e params" "e \<notin> {LoginUser, GetCurrentUser, ListApprovedUsers, ListTodos, GetTodo}"
      "g \<noteq> Public \<Longrightarrow> acts_as E C w r u \<and> ctx_User r1 = Some u" "g = AdminOnly \<Longrightarrow> HasRole u ''admin''"
    then have "entitled E C w r e" by (intro route_entitled) auto
    with False \<open>routes_to E r g e params\<close> show "tables (app_db (ex_World x2)) = tables (app_db w)" by blast
  qed
  then show ?thesis ..
qed simp

theorem access_control_witness:
  "tables (app_db (snd (run_state (serve demo_env demo_config anon_delete) demo_app))) =
   tables (app_db demo_app)"
proof -
  have "\<not> entitled demo_env demo_config demo_app anon_delete e"
    if "routes_to demo_env anon_delete g e params" for g e params
    using anon_delete_routed [OF that] anon_delete_nobody
    by (simp add: entitled_def is_todo_write_def is_admin_write_def)
  with access_control [OF demo_app_inv surjective_pairing, of demo_env demo_config anon_delete]
  show ?thesis by blast
qed

text \<open>
  C6. The todos of a user change only by a request on todos with a genuine token of that user, or by an
  administrator deleting an approved user.
\<close>

theorem todos_of_user_safe:
  fixes w :: "'l app"
  assumes "db_inv (app_db w)" and "run_state (serve E C r) w = (res, w')"
  shows "{t \<in> tv_todos (todo_view_of (app_db w')). TodoRow_UserID t = me} =
      {t \<in> tv_todos (todo_view_of (app_db w)). TodoRow_UserID t = me} \<or>
    (\<exists>g e params u. routes_to E r g e params \<and> is_todo_write e \<and> acts_as E C w r u \<and> User_ID u = me) \<or>
    (\<exists>g params u. routes_to E r g DeleteApprovedUser params \<and> acts_as E C w r u \<and> HasRole u ''admin'')"
    (is "?same w' \<or> ?own \<or> ?admin")
proof (cases "?own \<or> ?admin")
  case False
  have "?same w'"
  proof (rule serve_rule [OF assms(2,1), where P = ?same])
    fix w1 :: "'l app"
    assume "tables (app_db w1) = tables (app_db w)"
    then have "todo_view_of (app_db w1) = todo_view_of (app_db w)" by (rule tables_views)
    then show "?same w1" by (simp only:)
  next
    fix g e params r1 u and x1 x2 :: "'l app exchange"
    assume route: "routes_to E r g e params"
      and e: "e \<notin> {LoginUser, GetCurrentUser, ListApprovedUsers, ListTodos, GetTodo}"
      and x1: "tables (app_db (ex_World x1)) = tables (app_db w)" "db_inv (app_db (ex_World x1))"
      and user: "g \<noteq> Public \<Longrightarrow> acts_as E C w r u \<and> ctx_User r1 = Some u" "g = AdminOnly \<Longrightarrow> HasRole u ''admin''"
      and step: "run_state (endpoint_handler E C e r1) x1 = ((), x2)"
    note view = tables_views(2) [OF x1(1)]
    have "entitled E C w r e" by (rule route_entitled [OF route e]) (use user in auto)
    have "is_todo_write e \<Longrightarrow> acts_as E C w r u \<and> ctx_User r1 = Some u" "e = DeleteApprovedUser \<Longrightarrow> g = AdminOnly"
      using routes_to_cases [OF route] user(1) unfolding is_todo_write_def by auto
    with e False route user consider
        (keep) "e \<in> {RegisterUser, CreateApprovedUser, BulkCreateApprovedUsers}"
      | (own) "e \<in> {CreateTodo, UpdateTodo, DeleteTodo}" "ctx_User r1 = Some u" "User_ID u \<noteq> me"
      by (cases e) (simp_all add: is_todo_write_def, blast+)
    then show "?same (ex_World x2)"
    proof cases
      case keep
      from io_run [OF io_endpoint_keeps_todos [OF keep] step] show ?thesis
        unfolding view [symmetric] by (simp add: at_world_def at_db_def keeps_todos_view del: todo_view_simps)
    next
      case own
      from io_run [OF io_endpoint_owner [OF own(2,1)] step] x1(2) own(3) show ?thesis
        unfolding view [symmetric]
        by (auto simp: at_world_def at_db_def owner_only_def others_same_def simp del: todo_view_simps)
    qed
  qed
  then show ?thesis ..
qed auto

theorem todos_of_user_safe_witness:
  "{t \<in> tv_todos (todo_view_of (app_db (snd (run_state (serve demo_env demo_config anon_delete) demo_app)))).
      TodoRow_UserID t = 5} =
   {t \<in> tv_todos (todo_view_of (app_db demo_app)). TodoRow_UserID t = 5}"
  using todos_of_user_safe [OF demo_app_inv surjective_pairing, of demo_env demo_config anon_delete 5]
    anon_delete_nobody by blast

section \<open>Headers\<close>

lemma demo_router_keeps_headers: "router_keeps_headers demo_env"
  by (simp add: router_keeps_headers_def demo_env_def)

text \<open>
  Every response, errors of the router included, carries the security headers, the identifier of
  the request and \<open>Vary: Origin\<close>; the content policy is left out for the documentation pages alone.
\<close>

theorem secure_headers:
  assumes "router_keeps_headers E" and "run_state (serve E C r) w = (res, w')"
  shows "map_of (res_Header res) ''Strict-Transport-Security'' = Some ''max-age=63072000; includeSubDomains'' \<and>
    map_of (res_Header res) ''X-Content-Type-Options'' = Some ''nosniff'' \<and>
    map_of (res_Header res) ''X-Frame-Options'' = Some ''DENY'' \<and>
    map_of (res_Header res) ''Referrer-Policy'' = Some ''no-referrer'' \<and>
    map_of (res_Header res) ''Content-Security-Policy'' =
      (if take 8 (req_Path r) = ''/swagger'' then None else Some csp) \<and>
    map_of (res_Header res) ''X-Request-Id'' =
      Some (GenerateRequestID (env_rand E (app_requests w)) (env_clock E (app_requests w))) \<and>
    map_of (res_Header res) ''Vary'' = Some ''Origin''"
  using server_headers(1) [OF assms] base_response_headers [of E C r w]
  unfolding same_headers_def handler_headers_def by simp

theorem secure_headers_witness:
  "map_of (res_Header (fst (run_state (serve demo_env demo_config anon_delete) demo_app))) ''X-Frame-Options'' =
     Some ''DENY''"
  using secure_headers [OF demo_router_keeps_headers surjective_pairing, of demo_config anon_delete demo_app]
  by (elim conjE)



end
