(* ===== verification/Config_Correct.thy ===== *)
theory Config_Correct
  imports Config
begin

text \<open>
  What a loaded configuration satisfies, and which error a bad environment reports.
\<close>

text \<open>An environment with the two required variables only.\<close>

definition minimal_env :: "('ip, 'f) config_libs \<Rightarrow> bool" where
  "minimal_env L \<longleftrightarrow> os_Getenv L ''DATABASE_URL'' \<noteq> '''' \<and> 32 \<le> length (os_Getenv L ''JWT_SECRET_KEY'') \<and>
     (\<forall>key. key \<noteq> ''DATABASE_URL'' \<and> key \<noteq> ''JWT_SECRET_KEY'' \<longrightarrow> os_Getenv L key = '''')"

section \<open>A concrete environment\<close>

definition demo_config_libs :: "(string \<times> string) list \<Rightarrow> (unit, unit) config_libs" where
  "demo_config_libs vars =
     \<lparr>os_Getenv = (\<lambda>key. case map_of vars key of None \<Rightarrow> '''' | Some v \<Rightarrow> v),
      time_ParseDuration = (\<lambda>s. if s = ''1m'' then Some (60 * Second) else None),
      strconv_ParseFloat = (\<lambda>s. if s = ''0.5'' then Some () else None), float_one = (),
      net_ParseCIDR = (\<lambda>s. if s = ''10.0.0.0/8'' then Some (\<lambda>_. True) else None)\<rparr>"

definition minimal_vars :: "(string \<times> string) list" where
  "minimal_vars = [(''DATABASE_URL'', ''postgres://db''), (''JWT_SECRET_KEY'', replicate 32 (CHR ''k''))]"

lemma demo_minimal_env: "minimal_env (demo_config_libs minimal_vars)"
  by (simp add: minimal_env_def demo_config_libs_def minimal_vars_def)

section \<open>The first error\<close>

text \<open>The variables with a type, in the order they are read.\<close>

datatype kind = IntVar | BoolVar | DurationVar | FloatVar

definition typed_variables :: "(string \<times> kind) list" where
  "typed_variables =
     [(''SERVER_PORT'', IntVar), (''METRICS_PORT'', IntVar), (''SERVER_READ_TIMEOUT'', DurationVar),
      (''SERVER_WRITE_TIMEOUT'', DurationVar), (''SERVER_IDLE_TIMEOUT'', DurationVar),
      (''SERVER_SHUTDOWN_TIMEOUT'', DurationVar), (''DATABASE_MAX_CONNS'', IntVar),
      (''DATABASE_MIN_CONNS'', IntVar), (''DATABASE_CONN_MAX_LIFETIME'', DurationVar),
      (''JWT_EXPIRE_MINUTES'', IntVar), (''BCRYPT_COST'', IntVar), (''TRACING_ENABLED'', BoolVar),
      (''OTEL_TRACE_SAMPLING_RATIO'', FloatVar), (''OTEL_EXPORTER_OTLP_INSECURE'', BoolVar),
      (''RATE_LIMIT_REQUESTS'', IntVar), (''RATE_LIMIT_DURATION'', DurationVar),
      (''CORS_ALLOW_CREDENTIALS'', BoolVar), (''CORS_MAX_AGE'', IntVar), (''SWAGGER_ENABLED'', BoolVar)]"

text \<open>The error of one variable: none when it is unset or its text parses.\<close>

fun variable_error :: "('ip, 'f) config_libs \<Rightarrow> string \<times> kind \<Rightarrow> config_error option" where
  "variable_error L (key, IntVar) =
     (if os_Getenv L key = '''' \<or> Atoi (os_Getenv L key) \<noteq> None then None
      else Some (NotAnInteger key (os_Getenv L key)))"
| "variable_error L (key, BoolVar) =
     (if os_Getenv L key = '''' \<or> ParseBool (os_Getenv L key) \<noteq> None then None
      else Some (NotABoolean key (os_Getenv L key)))"
| "variable_error L (key, DurationVar) =
     (if os_Getenv L key = '''' \<or> time_ParseDuration L (os_Getenv L key) \<noteq> None then None
      else Some (NotADuration key (os_Getenv L key)))"
| "variable_error L (key, FloatVar) =
     (if os_Getenv L key = '''' \<or> strconv_ParseFloat L (os_Getenv L key) \<noteq> None then None
      else Some (NotAFloat key (os_Getenv L key)))"

text \<open>The first error of a list.\<close>

fun first_error :: "config_error option list \<Rightarrow> config_error option" where
  "first_error [] = None"
| "first_error (None # es) = first_error es"
| "first_error (Some e # es) = Some e"

lemma first_error_Cons: "first_error (e # es) = (if e \<noteq> None then e else first_error es)"
  by (cases e) simp_all

lemma parser_error:
  "run_state (parser_int L key i) p = (v, p') \<Longrightarrow> p' = (if p \<noteq> None then p else variable_error L (key, IntVar))"
  "run_state (parser_bool L key b) p = (v', p') \<Longrightarrow> p' = (if p \<noteq> None then p else variable_error L (key, BoolVar))"
  "run_state (parser_duration L key d) p = (v'', p') \<Longrightarrow>
     p' = (if p \<noteq> None then p else variable_error L (key, DurationVar))"
  "run_state (parser_float L key f) p = (v''', p') \<Longrightarrow> p' = (if p \<noteq> None then p else variable_error L (key, FloatVar))"
  unfolding parser_int_def parser_bool_def parser_duration_def parser_float_def parser_get_def
    getEnvAsIntOrError_def getEnvAsBoolOrError_def getEnvAsDurationOrError_def getEnvAsFloatOrError_def
    getEnvOrError_def Let_def
  by (auto split: if_splits option.splits)

lemma parser_snd:
  "snd (run_state (parser_int L key i) p) = first_error [p, variable_error L (key, IntVar)]"
  "snd (run_state (parser_bool L key b) p) = first_error [p, variable_error L (key, BoolVar)]"
  "snd (run_state (parser_duration L key d) p) = first_error [p, variable_error L (key, DurationVar)]"
  "snd (run_state (parser_float L key f) p) = first_error [p, variable_error L (key, FloatVar)]"
  by (simp_all add: first_error_Cons parser_error [OF surjective_pairing] del: variable_error.simps)

text \<open>A computation that reports these errors, after an error there already is.\<close>

definition reports :: "config_error option list \<Rightarrow> 'a parser \<Rightarrow> bool" where
  "reports es m \<longleftrightarrow> (\<forall>p. snd (run_state m p) = first_error (p # es))"

lemma reports_return: "reports [] (State_Monad.return x)"
  by (simp add: reports_def first_error_Cons)

lemma reports_bind:
  assumes "reports [e] m" and "\<And>v. reports es (f v)"
  shows "reports (e # es) (State_Monad.bind m f)"
  unfolding reports_def
proof
  fix p
  obtain v p' where run: "run_state m p = (v, p')" by force
  with assms(1) have p': "p' = first_error [p, e]"
    unfolding reports_def by (metis snd_conv)
  have "snd (run_state (State_Monad.bind m f) p) = snd (run_state (f v) p')"
    using run by simp
  also have "\<dots> = first_error (p' # es)"
    using assms(2) [of v] unfolding reports_def by simp
  also have "\<dots> = first_error (p # e # es)"
    unfolding p' by (simp add: first_error_Cons)
  finally show "snd (run_state (State_Monad.bind m f) p) = first_error (p # e # es)" .
qed

lemma reports_parser:
  "reports [variable_error L (key, IntVar)] (parser_int L key i)"
  "reports [variable_error L (key, BoolVar)] (parser_bool L key b)"
  "reports [variable_error L (key, DurationVar)] (parser_duration L key d)"
  "reports [variable_error L (key, FloatVar)] (parser_float L key f)"
  unfolding reports_def by (simp_all only: parser_snd) simp_all

lemma load_fields_reports: "reports (map (variable_error L) typed_variables) (load_fields L)"
  unfolding load_fields_def typed_variables_def list.map
  by (intro reports_bind reports_return reports_parser)

text \<open>
  C36. Loading reports the first variable, in the order of the fields, whose text does not parse;
  otherwise the first requirement of validation that fails.
\<close>

theorem Load_first_error:
  "Load L =
     (case first_error (map (variable_error L) typed_variables) of
        Some err \<Rightarrow> Inl err
      | None \<Rightarrow>
          let cfg = fst (run_state (load_fields L) None)
          in (case Config_Validate cfg of Some err \<Rightarrow> Inl err | None \<Rightarrow> Inr cfg))"
proof -
  have "snd (run_state (load_fields L) None) = first_error (map (variable_error L) typed_variables)"
    using load_fields_reports [of L] unfolding reports_def by simp
  moreover obtain cfg p where run: "run_state (load_fields L) None = (cfg, p)" by force
  ultimately have "p = first_error (map (variable_error L) typed_variables)" by simp
  with run show ?thesis
    unfolding Load_def Let_def by (simp split: option.split)
qed

section \<open>What a loaded configuration satisfies\<close>

lemma Load_validated: "Load L = Inr cfg \<Longrightarrow> Config_Validate cfg = None"
  by (auto simp: Load_def split: prod.splits option.splits)

lemma Config_Validate_None:
  "Config_Validate c = None \<longleftrightarrow> dbc_URL (Config_Database c) \<noteq> '''' \<and>
     32 \<le> length (ac_JWTSecretKey (Config_Auth c)) \<and>
     1 \<le> srv_Port (Config_Server c) \<and> srv_Port (Config_Server c) \<le> 65535 \<and>
     (cors_AllowCredentials (Config_CORS c) \<longrightarrow> ''*'' \<notin> set (cors_AllowedOrigins (Config_CORS c)))"
  by (auto simp: Config_Validate_def Let_def list_ex_iff)

text \<open>
  A configuration that loads has a database URL, a secret of at least 32 bytes, a port in range, and
  no wildcard origin together with credentials.
\<close>

theorem Load_valid:
  assumes "Load L = Inr cfg"
  shows "dbc_URL (Config_Database cfg) \<noteq> '''' \<and> 32 \<le> length (ac_JWTSecretKey (Config_Auth cfg)) \<and>
    1 \<le> srv_Port (Config_Server cfg) \<and> srv_Port (Config_Server cfg) \<le> 65535 \<and>
    (cors_AllowCredentials (Config_CORS cfg) \<longrightarrow> ''*'' \<notin> set (cors_AllowedOrigins (Config_CORS cfg)))"
  using Load_validated [OF assms] unfolding Config_Validate_None .

theorem Load_valid_witness:
  "\<exists>cfg. Load (demo_config_libs minimal_vars) = Inr cfg \<and> srv_Port (Config_Server cfg) \<le> 65535"
proof -
  have "\<not> isl (Load (demo_config_libs minimal_vars))" by code_simp
  then obtain cfg where load: "Load (demo_config_libs minimal_vars) = Inr cfg"
    by (cases "Load (demo_config_libs minimal_vars)") simp_all
  with Load_valid [OF load] show ?thesis by blast
qed

section \<open>Lists of values\<close>

lemma trimmed_parts_filter: "trimmed_parts ps = filter (\<lambda>s. s \<noteq> '''') (map TrimSpace ps)"
  by (induction ps) (simp_all add: Let_def)

lemma split_on_join_list:
  assumes "ss \<noteq> []" and "\<And>s. s \<in> set ss \<Longrightarrow> sep \<notin> set s"
  shows "split_on sep (join_with [sep] ss) = ss"
  using assms
proof (induction ss)
  case (Cons s ss)
  then show ?case by (cases ss) (simp_all add: split_on_append split_on_none)
qed simp

text \<open>
  A comma-separated variable yields its parts, in order, trimmed and without the empty ones; a list
  of such parts written with commas reads back as itself.
\<close>

theorem comma_list_roundtrip:
  assumes "os_Getenv L key = join_with '','' ss" and "ss \<noteq> []"
    and "\<And>s. s \<in> set ss \<Longrightarrow> s \<noteq> '''' \<and> TrimSpace s = s \<and> CHR '','' \<notin> set s"
  shows "getCommaSeparatedEnv L key d = ss"
proof -
  have split: "split_on (CHR '','') (join_with '','' ss) = ss"
    by (rule split_on_join_list) (use assms in auto)
  have "map TrimSpace ss = ss" by (rule map_idI) (use assms(3) in blast)
  then have "trimmed_parts ss = ss"
    using assms(3) by (simp add: trimmed_parts_filter)
  moreover have "join_with '','' ss \<noteq> ''''"
  proof
    assume "join_with '','' ss = ''''"
    with split have "ss = ['''']" by simp
    with assms(3) show False by simp
  qed
  ultimately show ?thesis
    using assms(1,2) split by (simp add: getCommaSeparatedEnv_def)
qed

theorem comma_list_roundtrip_witness:
  "getCommaSeparatedEnv (demo_config_libs [(''CORS_ALLOWED_ORIGINS'', ''https://a.org,https://b.org'')])
     ''CORS_ALLOWED_ORIGINS'' [] = [''https://a.org'', ''https://b.org'']"
proof (rule comma_list_roundtrip)
  show "os_Getenv (demo_config_libs [(''CORS_ALLOWED_ORIGINS'', ''https://a.org,https://b.org'')]) ''CORS_ALLOWED_ORIGINS'' =
      join_with '','' [''https://a.org'', ''https://b.org'']"
    by code_simp
next
  fix s
  assume "s \<in> set [''https://a.org'', ''https://b.org'']"
  then consider "s = ''https://a.org''" | "s = ''https://b.org''" by auto
  then show "s \<noteq> '''' \<and> TrimSpace s = s \<and> CHR '','' \<notin> set s"
    by cases (hypsubst, code_simp)+
qed simp

section \<open>Defaults\<close>

lemma parser_unset:
  "os_Getenv L key = '''' \<Longrightarrow> run_state (parser_int L key i) None = (i, None)"
  "os_Getenv L key = '''' \<Longrightarrow> run_state (parser_bool L key b) None = (b, None)"
  "os_Getenv L key = '''' \<Longrightarrow> run_state (parser_duration L key d) None = (d, None)"
  "os_Getenv L key = '''' \<Longrightarrow> run_state (parser_float L key f) None = (f, None)"
  by (simp_all add: parser_int_def parser_bool_def parser_duration_def parser_float_def parser_get_def
      getEnvAsIntOrError_def getEnvAsBoolOrError_def getEnvAsDurationOrError_def getEnvAsFloatOrError_def
      getEnvOrError_def Let_def)

text \<open>
  With the two required variables alone the server gets these settings: port 8080, tokens of a day,
  no trusted proxy, no allowed origin, ten requests a minute, and the methods GET, POST, PUT, DELETE,
  OPTIONS for other origins, without the PATCH that changing a todo takes.
\<close>

theorem default_configuration:
  assumes "minimal_env L"
  shows "\<exists>cfg. Load L = Inr cfg \<and> srv_Port (Config_Server cfg) = 8080 \<and>
    ac_JWTExpireMinutes (Config_Auth cfg) = 1440 \<and> ac_BcryptCost (Config_Auth cfg) = 12 \<and>
    srv_TrustedProxies (Config_Server cfg) = [] \<and> dbc_MaxConns (Config_Database cfg) = 25 \<and>
    Config_RateLimit cfg = \<lparr>rl_Requests = 10, rl_Duration = 60 * Second\<rparr> \<and>
    Config_CORS cfg = \<lparr>cors_AllowedOrigins = [],
      cors_AllowedMethods = [''GET'', ''POST'', ''PUT'', ''DELETE'', ''OPTIONS''],
      cors_AllowedHeaders = [''Accept'', ''Authorization'', ''Content-Type''],
      cors_AllowCredentials = True, cors_MaxAge = 3600\<rparr>"
proof -
  have unset: "os_Getenv L key = ''''" if "key \<noteq> ''DATABASE_URL''" "key \<noteq> ''JWT_SECRET_KEY''" for key
    using assms that unfolding minimal_env_def by blast
  have set: "os_Getenv L ''DATABASE_URL'' \<noteq> ''''" "32 \<le> length (os_Getenv L ''JWT_SECRET_KEY'')"
    using assms unfolding minimal_env_def by blast+
  have no_proxies: "parseTrustedProxies L '''' = []"
    by (simp add: parseTrustedProxies_def TrimSpace_def trim_ends_def)
  from set(2) have secret: "os_Getenv L ''JWT_SECRET_KEY'' \<noteq> ''''" by auto
  obtain cfg where run: "run_state (load_fields L) None = (cfg, None)"
    and cfg: "srv_Port (Config_Server cfg) = 8080" "ac_JWTExpireMinutes (Config_Auth cfg) = 1440"
      "ac_BcryptCost (Config_Auth cfg) = 12" "srv_TrustedProxies (Config_Server cfg) = []"
      "dbc_MaxConns (Config_Database cfg) = 25" "dbc_URL (Config_Database cfg) = os_Getenv L ''DATABASE_URL''"
      "ac_JWTSecretKey (Config_Auth cfg) = os_Getenv L ''JWT_SECRET_KEY''"
      "Config_RateLimit cfg = \<lparr>rl_Requests = 10, rl_Duration = 60 * Second\<rparr>"
      "Config_CORS cfg = \<lparr>cors_AllowedOrigins = [],
        cors_AllowedMethods = [''GET'', ''POST'', ''PUT'', ''DELETE'', ''OPTIONS''],
        cors_AllowedHeaders = [''Accept'', ''Authorization'', ''Content-Type''],
        cors_AllowCredentials = True, cors_MaxAge = 3600\<rparr>"
    by (simp add: load_fields_def parser_unset unset getEnv_def getCommaSeparatedEnv_def Let_def
        set secret no_proxies)
  have "Config_Validate cfg = None"
    using set by (simp add: Config_Validate_None cfg)
  with run cfg show ?thesis unfolding Load_def by simp
qed

theorem default_configuration_witness:
  "\<exists>cfg. Load (demo_config_libs minimal_vars) = Inr cfg \<and> srv_Port (Config_Server cfg) = 8080 \<and>
     ''PATCH'' \<notin> set (cors_AllowedMethods (Config_CORS cfg))"
proof -
  obtain cfg where "Load (demo_config_libs minimal_vars) = Inr cfg" "srv_Port (Config_Server cfg) = 8080"
    "cors_AllowedMethods (Config_CORS cfg) = [''GET'', ''POST'', ''PUT'', ''DELETE'', ''OPTIONS'']"
    using default_configuration [OF demo_minimal_env] by auto
  then show ?thesis by simp
qed

end
