(* ===== verification/Otel.thy ===== *)
theory Otel
  imports Logging
begin

text \<open>
  Tracing, \<open>internal/observability/otel.go\<close>: the exporter, the sampler and the provider that \<open>Setup\<close>
  makes, and what it logs.

  Parameters: the environment, the detection of resources, the constructor of the OTLP exporter, and
  \<open>fmt.Sscanf\<close> with \<open>%f\<close>.
\<close>

section \<open>Floating point\<close>

text \<open>Comparisons with \<open>NaN\<close> are false.\<close>

fun float_less :: "float64 \<Rightarrow> float64 \<Rightarrow> bool" where
  "float_less NaN y = False"
| "float_less x NaN = False"
| "float_less (Infinite a) (Infinite b) \<longleftrightarrow> a \<and> \<not> b"
| "float_less (Infinite a) (Finite n f) \<longleftrightarrow> a"
| "float_less (Finite m e) (Infinite b) \<longleftrightarrow> \<not> b"
| "float_less (Finite m e) (Finite n f) \<longleftrightarrow> m * 2 ^ nat (e - min e f) < n * 2 ^ nat (f - min e f)"

abbreviation float_0 :: float64 where
  "float_0 \<equiv> Finite 0 0"

abbreviation float_1 :: float64 where
  "float_1 \<equiv> Finite 1 0"

text \<open>The double nearest to 0.1.\<close>

abbreviation float_tenth :: float64 where
  "float_tenth \<equiv> Finite 3602879701896397 (- 55)"

section \<open>The packages\<close>

datatype attribute = ServiceName string | ServiceVersion string | DeploymentEnvironment string

datatype resource_option = WithFromEnv | WithProcess | WithHost | WithContainer | WithAttributes "attribute list"

datatype exporter_option =
    WithTimeout go_duration
  | WithRetry bool go_duration go_duration go_duration
  | WithInsecure
  | WithEndpoint string

record ('r, 'x) otel_libs =
  resource_New :: "resource_option list \<Rightarrow> string + 'r"
  otlptracehttp_New :: "exporter_option list \<Rightarrow> string + 'x"
  Sscanf_float :: "string \<Rightarrow> float64 option"

text \<open>A provider without processors drops its spans; the other hands them in batches to an exporter.\<close>

record ('r, 'x) batching =
  bp_Exporter :: 'x
  bp_MaxQueueSize :: int
  bp_BatchTimeout :: go_duration
  bp_MaxExportBatchSize :: int
  bp_ExportTimeout :: go_duration
  bp_Resource :: 'r
  bp_ParentBasedRatio :: float64

datatype ('r, 'x) provider = NoProcessors | Batching "('r, 'x) batching"

datatype propagator = TraceContext | Baggage

text \<open>What the process logs, and the globals of the package otel.\<close>

record ('r, 'x) telemetry =
  tm_Log :: "zap_entry list"
  tm_Provider :: "('r, 'x) provider option"
  tm_Propagators :: "propagator list"

definition tm_log :: "zap_entry \<Rightarrow> (('r, 'x) telemetry, unit) state" where
  "tm_log e = State (\<lambda>s. ((), s\<lparr>tm_Log := tm_Log s @ [e]\<rparr>))"

definition SetTracerProvider :: "('r, 'x) provider \<Rightarrow> (('r, 'x) telemetry, unit) state" where
  "SetTracerProvider p = State (\<lambda>s. ((), s\<lparr>tm_Provider := Some p\<rparr>))"

definition SetTextMapPropagator :: "propagator list \<Rightarrow> (('r, 'x) telemetry, unit) state" where
  "SetTextMapPropagator ps = State (\<lambda>s. ((), s\<lparr>tm_Propagators := ps\<rparr>))"

section \<open>The functions\<close>

definition otel_getEnv :: "(string \<Rightarrow> string) \<Rightarrow> string \<Rightarrow> string \<Rightarrow> string" where
  "otel_getEnv Getenv key fallback = (let v = Getenv key in if v \<noteq> '''' then v else fallback)"

definition getSamplingRatio :: "('r, 'x) otel_libs \<Rightarrow> (string \<Rightarrow> string) \<Rightarrow> float64" where
  "getSamplingRatio L Getenv =
     (let env = Getenv ''ENVIRONMENT'';
          defaultRatio = (if env = ''development'' \<or> env = ''dev'' \<or> env = '''' then float_1 else float_tenth);
          ratioStr = Getenv ''OTEL_TRACE_SAMPLING_RATIO''
      in if ratioStr \<noteq> '''' then
           (case Sscanf_float L ratioStr of
              None \<Rightarrow> defaultRatio
            | Some ratio \<Rightarrow>
                let ratio = (if float_less ratio float_0 then float_0 else ratio)
                in if float_less float_1 ratio then float_1 else ratio)
         else defaultRatio)"

definition service_attributes :: "(string \<Rightarrow> string) \<Rightarrow> string \<Rightarrow> resource_option" where
  "service_attributes Getenv serviceName = WithAttributes
     [ServiceName serviceName, ServiceVersion (otel_getEnv Getenv ''SERVICE_VERSION'' ''1.0.0''),
      DeploymentEnvironment (otel_getEnv Getenv ''ENVIRONMENT'' ''development'')]"

text \<open>The resource with everything that can be detected, or else the basic one.\<close>

definition make_resource ::
    "('r, 'x) otel_libs \<Rightarrow> (string \<Rightarrow> string) \<Rightarrow> string \<Rightarrow> (('r, 'x) telemetry, string + 'r) state" where
  "make_resource L Getenv serviceName =
     (case resource_New L [WithFromEnv, WithProcess, WithHost, WithContainer, service_attributes Getenv serviceName] of
        Inr res \<Rightarrow> State_Monad.return (Inr res)
      | Inl err \<Rightarrow> do {
          tm_log (Warn ''failed to create resource with auto-detection, using basic resource''
            [ErrorField (ErrText err)]);
          State_Monad.return (case resource_New L [service_attributes Getenv serviceName] of
              Inl err \<Rightarrow> Inl (''failed to create basic resource: '' @ err)
            | Inr res \<Rightarrow> Inr res)
        })"

definition exporter_options ::
    "(string \<Rightarrow> string) \<Rightarrow> bool \<Rightarrow> go_duration \<Rightarrow> (('r, 'x) telemetry, exporter_option list) state" where
  "exporter_options Getenv insecure exportTimeout =
     (let exportTimeout = (if exportTimeout < 2 * Second then 2 * Second else exportTimeout);
          options = [WithTimeout exportTimeout, WithRetry True Second (30 * Second) (300 * Second)] @
            (if insecure then [WithInsecure] else []);
          endpoint = Getenv ''OTEL_EXPORTER_OTLP_ENDPOINT''
      in if endpoint \<noteq> '''' then do {
           tm_log (Info ''using custom OTLP endpoint'' [StringField ''endpoint'' endpoint]);
           State_Monad.return (options @ [WithEndpoint endpoint])
         }
         else State_Monad.return options)"

definition Setup ::
    "('r, 'x) otel_libs \<Rightarrow> (string \<Rightarrow> string) \<Rightarrow> string \<Rightarrow> bool \<Rightarrow> go_duration \<Rightarrow>
     (('r, 'x) telemetry, string + ('r, 'x) provider) state" where
  "Setup L Getenv serviceName insecure exportTimeout =
     tryE (make_resource L Getenv serviceName) (\<lambda>res. do {
       options \<leftarrow> exporter_options Getenv insecure exportTimeout;
       case otlptracehttp_New L options of
         Inl err \<Rightarrow> do {
           tm_log (Warn ''failed to create OTLP trace exporter, tracing will be disabled'' [ErrorField (ErrText err)]);
           State_Monad.return (Inr NoProcessors)
         }
       | Inr exporter \<Rightarrow> do {
           let samplingRatio = getSamplingRatio L Getenv;
           tm_log (Info ''trace sampling configured'' [FloatField ''ratio'' samplingRatio]);
           let tracerProvider = Batching
             \<lparr>bp_Exporter = exporter, bp_MaxQueueSize = 2048, bp_BatchTimeout = 5 * Second,
              bp_MaxExportBatchSize = 512, bp_ExportTimeout = 30 * Second, bp_Resource = res,
              bp_ParentBasedRatio = samplingRatio\<rparr>;
           SetTracerProvider tracerProvider;
           SetTextMapPropagator [TraceContext, Baggage];
           tm_log (Info ''OpenTelemetry tracing initialized successfully''
             [StringField ''service_name'' serviceName, FloatField ''sampling_ratio'' samplingRatio]);
           State_Monad.return (Inr tracerProvider)
         }
     })"

end
