(* ===== verification/Startup.thy ===== *)
theory Startup
  imports Router Otel
begin

text \<open>
  The process, \<open>cmd/api/main.go\<close>: \<open>run\<close> with its logger, its tracing, its connection pool
  (\<open>internal/db\<close>), the cache of the default role, the wiring of the services and the actions it defers.
  What happens between the start of the HTTP server and its end is the argument \<open>listen\<close> here, and the
  theory Lifecycle's.

  Parameters: the packages pgxpool, zap and otel, the shutdown of the tracer and the \<open>Sync\<close> of the logger.
\<close>

section \<open>The connection pool\<close>

text \<open>The settings pgx parses from the URL, as far as the code changes them.\<close>

record pool_config =
  pc_Connection :: string
  pc_MaxConns :: "32 word"
  pc_MinConns :: "32 word"
  pc_MaxConnLifetime :: go_duration

record pgxpool_libs =
  pgxpool_ParseConfig :: "string \<Rightarrow> string + pool_config"
  pgxpool_NewWithConfig :: "pool_config \<Rightarrow> string option"

datatype db_New_error =
    ParseDBConfig string
  | CreateDBPool string
  | DBPingFailed go_error

definition db_New :: "pgxpool_libs \<Rightarrow> pg \<Rightarrow> DatabaseConfig \<Rightarrow> (db, db_New_error + unit) state" where
  "db_New P E cfg =
     (case pgxpool_ParseConfig P (dbc_URL cfg) of
        Inl err \<Rightarrow> State_Monad.return (Inl (ParseDBConfig err))
      | Inr poolConfig \<Rightarrow>
          (case pgxpool_NewWithConfig P (poolConfig\<lparr>pc_MaxConns := dbc_MaxConns cfg, pc_MinConns := dbc_MinConns cfg,
               pc_MaxConnLifetime := dbc_ConnMaxLifetime cfg\<rparr>) of
             Some err \<Rightarrow> State_Monad.return (Inl (CreateDBPool err))
           | None \<Rightarrow> do {
               res \<leftarrow> pool_Ping E;
               State_Monad.return (case res of Inl err \<Rightarrow> Inl (DBPingFailed err) | Inr _ \<Rightarrow> Inr ())
             }))"

section \<open>The process\<close>

text \<open>What \<open>ListenAndServe\<close> answers: \<open>http.ErrServerClosed\<close>, or why the server failed.\<close>

datatype serve_error = ErrServerClosed | ServeFailed string

datatype startup_error =
    LoadConfigError config_error
  | CreateLoggerError string
  | ConnectDatabaseError db_New_error
  | ServerError serve_error
  | GracefulShutdownError string

datatype stderr_line = SyncFailed string | RunFailed startup_error

text \<open>What \<open>run\<close> defers, in the order in which it is carried out.\<close>

datatype release = PoolClosed | TracerShutDown | LoggerSynced

record ('r, 'x) process_state =
  ps_db :: db
  ps_telemetry :: "('r, 'x) telemetry"
  ps_Released :: "release list"
  ps_Stderr :: "stderr_line list"

record ('ip, 'f, 'g, 'r, 'x) main_libs =
  ml_Config :: "('ip, 'f) config_libs"
  ml_Zap :: "'g zap_libs"
  ml_Otel :: "('r, 'x) otel_libs"
  ml_Pgxpool :: pgxpool_libs
  TracerProvider_Shutdown :: "('r, 'x) provider \<Rightarrow> string option"
  Logger_Sync :: "'g \<Rightarrow> string option"

definition on_db_state :: "(db, 'a) state \<Rightarrow> (('r, 'x) process_state, 'a) state" where
  "on_db_state = zoom ps_db (\<lambda>d s. s\<lparr>ps_db := d\<rparr>)"

definition on_telemetry :: "(('r, 'x) telemetry, 'a) state \<Rightarrow> (('r, 'x) process_state, 'a) state" where
  "on_telemetry = zoom ps_telemetry (\<lambda>t s. s\<lparr>ps_telemetry := t\<rparr>)"

definition log_main :: "zap_entry \<Rightarrow> (('r, 'x) process_state, unit) state" where
  "log_main e = on_telemetry (tm_log e)"

definition print_stderr :: "stderr_line \<Rightarrow> (('r, 'x) process_state, unit) state" where
  "print_stderr l = State (\<lambda>s. ((), s\<lparr>ps_Stderr := ps_Stderr s @ [l]\<rparr>))"

definition note_release :: "release \<Rightarrow> (('r, 'x) process_state, unit) state" where
  "note_release x = State (\<lambda>s. ((), s\<lparr>ps_Released := ps_Released s @ [x]\<rparr>))"

text \<open>\<open>defer\<close>: an action carried out after the rest of the function, whatever that answers.\<close>

definition defers :: "('s, unit) state \<Rightarrow> ('s, 'a) state \<Rightarrow> ('s, 'a) state" where
  "defers f m = do { r \<leftarrow> m; f; State_Monad.return r }"

definition sync_logger :: "('ip, 'f, 'g, 'r, 'x) main_libs \<Rightarrow> 'g \<Rightarrow> (('r, 'x) process_state, unit) state" where
  "sync_logger M logger = do {
     note_release LoggerSynced;
     case Logger_Sync M logger of None \<Rightarrow> State_Monad.return () | Some syncErr \<Rightarrow> print_stderr (SyncFailed syncErr)
   }"

definition shutdown_tracer ::
    "('ip, 'f, 'g, 'r, 'x) main_libs \<Rightarrow> ('r, 'x) provider \<Rightarrow> (('r, 'x) process_state, unit) state" where
  "shutdown_tracer M tracerProvider = do {
     note_release TracerShutDown;
     case TracerProvider_Shutdown M tracerProvider of
       None \<Rightarrow> State_Monad.return ()
     | Some err \<Rightarrow> log_main (Warn ''tracer provider shutdown failed'' [ErrorField (ErrText err)])
   }"

text \<open>\<open>time.Duration(minutes) * time.Minute\<close> and \<open>ShutdownTimeout - time.Second\<close> wrap at 64 bits.\<close>

definition jwt_expiry :: "int \<Rightarrow> go_duration" where
  "jwt_expiry minutes = sint (word_of_int minutes * 60000000000 :: 64 word)"

definition export_timeout :: "go_duration \<Rightarrow> go_duration" where
  "export_timeout shutdown = sint (word_of_int shutdown - word_of_int Second :: 64 word)"

definition run_config :: "('ip, 'f) Config \<Rightarrow> 'ip config" where
  "run_config cfg =
     \<lparr>cfg_service = NewService (ac_JWTSecretKey (Config_Auth cfg))
        (jwt_expiry (ac_JWTExpireMinutes (Config_Auth cfg))) (ac_BcryptCost (Config_Auth cfg)),
      cfg_cors = Config_CORS cfg, cfg_rate = Config_RateLimit cfg,
      cfg_trusted = srv_TrustedProxies (Config_Server cfg),
      cfg_swagger = sw_Enabled (Config_Swagger cfg)\<rparr>"

text \<open>A failure to fill the cache of the default role is logged only.\<close>

definition init_roles :: "pg \<Rightarrow> (('r, 'x) process_state, db auth_state) state" where
  "init_roles E = do {
     d \<leftarrow> on_db_state State_Monad.get;
     let (r, w) = run_state (InitDefaultRoles (Repository E)) \<lparr>as_repo = d, as_defaultUserRoleID = None, as_calls = 0\<rparr>;
     on_db_state (State_Monad.set (as_repo w));
     (case r of
       Inl err \<Rightarrow> log_main (Warn ''default role cache not populated (migrations may be missing); Register will lazy-load on first call''
         [ErrorField err])
     | Inr _ \<Rightarrow> State_Monad.return ());
     State_Monad.return w
   }"

text \<open>From the connection to the database on.\<close>

definition run_connected ::
    "('ip, 'f, 'g, 'r, 'x) main_libs \<Rightarrow> ('ip, 'l) env \<Rightarrow>
     (('ip, 'f) Config \<Rightarrow> 'ip config \<Rightarrow> 'l app \<Rightarrow> (('r, 'x) process_state, startup_error + 'a) state) \<Rightarrow>
     ('ip, 'f) Config \<Rightarrow> (('r, 'x) process_state, startup_error + 'a) state" where
  "run_connected M E listen cfg = do {
     res \<leftarrow> on_db_state (db_New (ml_Pgxpool M) (env_pg E) (Config_Database cfg));
     case res of
       Inl err \<Rightarrow> State_Monad.return (Inl (ConnectDatabaseError err))
     | Inr _ \<Rightarrow> defers (note_release PoolClosed) (do {
         log_main (Info ''database connection established'' []);
         auth \<leftarrow> init_roles (env_pg E);
         listen cfg (run_config cfg) \<lparr>app_auth = auth, app_limits = no_limits, app_requests = 0\<rparr>
       })
   }"

text \<open>Without a provider the tracer is the one that does nothing; the router uses neither.\<close>

definition run_traced ::
    "('ip, 'f, 'g, 'r, 'x) main_libs \<Rightarrow> ('ip, 'l) env \<Rightarrow>
     (('ip, 'f) Config \<Rightarrow> 'ip config \<Rightarrow> 'l app \<Rightarrow> (('r, 'x) process_state, startup_error + 'a) state) \<Rightarrow>
     ('ip, 'f) Config \<Rightarrow> (('r, 'x) process_state, startup_error + 'a) state" where
  "run_traced M E listen cfg = do {
     res \<leftarrow> on_telemetry (Setup (ml_Otel M) (os_Getenv (ml_Config M)) (ob_ServiceName (Config_Observability cfg))
       (ob_OTLPInsecure (Config_Observability cfg)) (export_timeout (srv_ShutdownTimeout (Config_Server cfg))));
     case res of
       Inl err \<Rightarrow> do {
         log_main (Warn ''failed to initialize tracing'' [ErrorField (ErrText err)]);
         run_connected M E listen cfg
       }
     | Inr tracerProvider \<Rightarrow> defers (shutdown_tracer M tracerProvider) (do {
         log_main (Info ''OpenTelemetry tracing initialized'' []);
         run_connected M E listen cfg
       })
   }"

definition api_run ::
    "('ip, 'f, 'g, 'r, 'x) main_libs \<Rightarrow> ('ip, 'l) env \<Rightarrow>
     (('ip, 'f) Config \<Rightarrow> 'ip config \<Rightarrow> 'l app \<Rightarrow> (('r, 'x) process_state, startup_error + 'a) state) \<Rightarrow>
     (('r, 'x) process_state, startup_error + 'a) state" where
  "api_run M E listen =
     (case Load (ml_Config M) of
        Inl err \<Rightarrow> State_Monad.return (Inl (LoadConfigError err))
      | Inr cfg \<Rightarrow>
          (case logging_New (ml_Zap M) (lg_Level (Config_Logging cfg)) (lg_Format (Config_Logging cfg)) of
             Inl err \<Rightarrow> State_Monad.return (Inl (CreateLoggerError err))
           | Inr logger \<Rightarrow> defers (sync_logger M logger) (do {
               log_main (Info ''starting go-backend-template API'' []);
               run_traced M E listen cfg
             })))"

text \<open>\<open>main\<close>: the exit code.\<close>

definition api_main ::
    "('ip, 'f, 'g, 'r, 'x) main_libs \<Rightarrow> ('ip, 'l) env \<Rightarrow>
     (('ip, 'f) Config \<Rightarrow> 'ip config \<Rightarrow> 'l app \<Rightarrow> (('r, 'x) process_state, startup_error + 'a) state) \<Rightarrow>
     (('r, 'x) process_state, nat) state" where
  "api_main M E listen = do {
     r \<leftarrow> api_run M E listen;
     case r of
       Inl err \<Rightarrow> do { print_stderr (RunFailed err); State_Monad.return 1 }
     | Inr _ \<Rightarrow> State_Monad.return 0
   }"

text \<open>The start alone: the server's configuration and first state.\<close>

definition run_until_listening ::
    "('ip, 'f, 'g, 'r, 'x) main_libs \<Rightarrow> ('ip, 'l) env \<Rightarrow>
     (('r, 'x) process_state, startup_error + 'ip config \<times> 'l app) state" where
  "run_until_listening M E = api_run M E (\<lambda>cfg C w. State_Monad.return (Inr (C, w)))"

end
