(* ===== verification/Startup_Correct.thy ===== *)
theory Startup_Correct
  imports Startup Config_Correct Server Demo_Server
begin

text \<open>
  What holds when the server starts to listen, whatever the environment and the loss of messages.
\<close>

lemma ping_up: "server_up E \<Longrightarrow> run_state (pool_Ping E) d = (r, d') \<Longrightarrow> \<not> isl r"
  by (auto simp: pool_Ping_def statement_def select_def server_up_def run_statement_def Let_def)

lemma db_New_reads: "run_state (db_New P E cfg) d = (r, d') \<Longrightarrow> reads_only d d'"
  by (auto simp: db_New_def split: sum.splits option.splits prod.splits dest: io_run [OF io_ping])

text \<open>Whether pgxpool accepts the database settings.\<close>

definition pool_accepted :: "pgxpool_libs \<Rightarrow> DatabaseConfig \<Rightarrow> bool" where
  "pool_accepted P cfg =
     (case pgxpool_ParseConfig P (dbc_URL cfg) of
        Inl err \<Rightarrow> False
      | Inr c \<Rightarrow> pgxpool_NewWithConfig P (c\<lparr>pc_MaxConns := dbc_MaxConns cfg, pc_MinConns := dbc_MinConns cfg,
          pc_MaxConnLifetime := dbc_ConnMaxLifetime cfg\<rparr>) = None)"

lemma db_New_up:
  "server_up E \<Longrightarrow> run_state (db_New P E cfg) d = (r, d') \<Longrightarrow> isl r \<longleftrightarrow> \<not> pool_accepted P cfg"
  by (auto simp: db_New_def pool_accepted_def split: sum.splits option.splits prod.splits dest: ping_up)

section \<open>The steps of a run\<close>

lemma wp_defers [wp_simps]: "wp (defers f m) Q s \<longleftrightarrow> wp m (\<lambda>r. wp f (\<lambda>_. Q r)) s"
  by (simp add: defers_def wp_def split: prod.splits)

lemma wp_process [wp_simps]:
  "wp (log_main e) Q s \<longleftrightarrow>
    Q () (s\<lparr>ps_telemetry := (ps_telemetry s)\<lparr>tm_Log := tm_Log (ps_telemetry s) @ [e]\<rparr>\<rparr>)"
  "wp (print_stderr l) Q s \<longleftrightarrow> Q () (s\<lparr>ps_Stderr := ps_Stderr s @ [l]\<rparr>)"
  "wp (note_release x) Q s \<longleftrightarrow> Q () (s\<lparr>ps_Released := ps_Released s @ [x]\<rparr>)"
  "wp (on_db_state m) Q' s \<longleftrightarrow> wp m (\<lambda>x d. Q' x (s\<lparr>ps_db := d\<rparr>)) (ps_db s)"
  "wp (on_telemetry n) Q' s \<longleftrightarrow> wp n (\<lambda>x t. Q' x (s\<lparr>ps_telemetry := t\<rparr>)) (ps_telemetry s)"
  by (simp_all add: log_main_def on_telemetry_def on_db_state_def tm_log_def print_stderr_def note_release_def wp_simps)
    (simp_all add: wp_def)

text \<open>The cache of the default role, empty or the role named \<open>user\<close> in the database.\<close>

definition cache_ok :: "auth_view \<Rightarrow> uuid option \<Rightarrow> bool" where
  "cache_ok v cache \<longleftrightarrow>
     (case cache of None \<Rightarrow> True | Some i \<Rightarrow> \<exists>x \<in> v_roles v. RoleRow_Name x = ''user'' \<and> RoleRow_ID x = i)"

lemma wp_release: "wp (note_release x) Q = (\<lambda>s. Q () (s\<lparr>ps_Released := ps_Released s @ [x]\<rparr>))"
  by (rule ext) (rule wp_process)

text \<open>What the state of a process keeps while it starts.\<close>

definition quiet :: "('r, 'x) process_state \<Rightarrow> ('r, 'x) process_state \<Rightarrow> bool" where
  "quiet s s' \<longleftrightarrow> ps_Released s' = ps_Released s \<and> ps_Stderr s' = ps_Stderr s"

lemma quiet_telemetry [simp]:
  "quiet s (s'\<lparr>ps_telemetry := t\<rparr>) \<longleftrightarrow> quiet s s'" "quiet s (s'\<lparr>ps_db := d\<rparr>) \<longleftrightarrow> quiet s s'" "quiet s s"
  by (simp_all add: quiet_def)

text \<open>What the deferred actions do, from one state to another.\<close>

definition finishing :: "release list \<Rightarrow> ('r, 'x) process_state \<Rightarrow> ('r, 'x) process_state \<Rightarrow> bool" where
  "finishing rs s s' \<longleftrightarrow> ps_db s' = ps_db s \<and> ps_Released s' = ps_Released s @ rs \<and>
     (\<exists>ls. ps_Stderr s' = ps_Stderr s @ map SyncFailed ls)"

lemma sync_finishing: "wp (sync_logger M g) (\<lambda>_. finishing [LoggerSynced] s) s"
  by (auto simp: sync_logger_def wp_simps finishing_def split: option.splits intro: exI [of _ "[]"] exI [of _ "[x]" for x])

lemma shutdown_finishing: "wp (shutdown_tracer M p) (\<lambda>_. finishing [TracerShutDown] s) s"
  by (auto simp: shutdown_tracer_def wp_simps finishing_def split: option.splits intro: exI [of _ "[]"])

lemma finishing_trans: "finishing rs s s1 \<Longrightarrow> finishing rs' s1 s2 \<Longrightarrow> finishing (rs @ rs') s s2"
  by (auto simp: finishing_def) (metis map_append)

text \<open>What a started server finds, and the cache of the default role it begins with.\<close>

definition started :: "('ip, 'l) env \<Rightarrow> db \<Rightarrow> 'l app \<Rightarrow> bool" where
  "started E d w \<longleftrightarrow> db_inv (app_db w) \<and> auth_view_of (app_db w) = auth_view_of d \<and>
     cache_ok (auth_view_of d) (as_defaultUserRoleID (app_auth w)) \<and>
     (server_up (env_pg E) \<and> ''user'' \<in> RoleRow_Name ` v_roles (auth_view_of d) \<longrightarrow>
        as_defaultUserRoleID (app_auth w) \<noteq> None) \<and>
     app_limits w = no_limits"

lemma init_roles_wp:
  assumes "db_inv (ps_db s)"
  shows "wp (init_roles (env_pg E))
    (\<lambda>auth s'. ps_db s' = as_repo auth \<and> quiet s s' \<and>
      started E (ps_db s) \<lparr>app_auth = auth, app_limits = no_limits, app_requests = 0\<rparr>) s"
proof -
  let ?s = "\<lparr>as_repo = ps_db s, as_defaultUserRoleID = None, as_calls = 0\<rparr>"
  obtain r w where run: "run_state (InitDefaultRoles (Repository (env_pg E))) ?s = (r, w)" by force
  have "db_inv (as_repo ?s)" using assms by simp
  from wpD [OF auth_repo.InitDefaultRoles_wp [OF this] run]
  have init: "db_inv (as_repo w)" "auth_view_of (as_repo w) = auth_view_of (ps_db s)"
    "init_answer (server_up (env_pg E)) (auth_view_of (ps_db s)) None r (as_defaultUserRoleID w)"
    by (simp_all del: auth_view_simps)
  then have "started E (ps_db s) \<lparr>app_auth = w, app_limits = no_limits, app_requests = 0\<rparr>"
    by (auto simp: started_def init_answer_def cache_ok_def split: sum.splits simp del: auth_view_simps)
  then show ?thesis
    by (cases r) (simp_all add: init_roles_def wp_simps run quiet_def wp_def [of State_Monad.get]
      wp_def [of "State_Monad.set _"] del: auth_view_simps)
qed

lemma connected_wp:
  assumes inv: "db_inv (ps_db s)"
    and fails: "\<And>err s'. \<not> (server_up (env_pg E) \<and> pool_accepted (ml_Pgxpool M) (Config_Database cfg)) \<Longrightarrow>
      quiet s s' \<Longrightarrow> Q (Inl (ConnectDatabaseError err)) s'"
    and listens: "\<And>w s'. pool_accepted (ml_Pgxpool M) (Config_Database cfg) \<Longrightarrow> started E (ps_db s) w \<Longrightarrow>
      ps_db s' = app_db w \<Longrightarrow> quiet s s' \<Longrightarrow>
      wp (listen cfg (run_config cfg) w) (\<lambda>r s'. Q r (s'\<lparr>ps_Released := ps_Released s' @ [PoolClosed]\<rparr>)) s'"
  shows "wp (run_connected M E listen cfg) Q s"
proof -
  obtain r d where new: "run_state (db_New (ml_Pgxpool M) (env_pg E) (Config_Database cfg)) (ps_db s) = (r, d)"
    by force
  note same = reads_only_views [OF db_New_reads [OF new]]
  show ?thesis
  proof (cases r)
    case (Inl err)
    moreover have "\<not> (server_up (env_pg E) \<and> pool_accepted (ml_Pgxpool M) (Config_Database cfg))"
      using db_New_up [OF _ new] Inl by auto
    ultimately show ?thesis
      using fails by (simp add: run_connected_def wp_simps wp_run [OF new])
  next
    case (Inr u)
    have accepted: "pool_accepted (ml_Pgxpool M) (Config_Database cfg)"
      using new Inr by (auto simp: db_New_def pool_accepted_def split: sum.splits option.splits)
    let ?s = "s\<lparr>ps_db := d, ps_telemetry := (ps_telemetry s)\<lparr>tm_Log := tm_Log (ps_telemetry s) @
      [Info ''database connection established'' []]\<rparr>\<rparr>"
    have "db_inv (ps_db ?s)" using inv same(3) by simp
    from init_roles_wp [OF this, where E = E]
    have "wp (init_roles (env_pg E)) (\<lambda>auth. wp (listen cfg (run_config cfg)
        \<lparr>app_auth = auth, app_limits = no_limits, app_requests = 0\<rparr>)
        (\<lambda>r s'. Q r (s'\<lparr>ps_Released := ps_Released s' @ [PoolClosed]\<rparr>))) ?s"
      by (rule wp_mono) (rule listens [OF accepted], use same in
        \<open>auto simp: started_def quiet_def simp del: auth_view_simps\<close>)
    then show ?thesis by (simp add: run_connected_def wp_simps wp_release wp_run [OF new] Inr)
  qed
qed

text \<open>A start, whatever is done once the server would listen.\<close>

theorem api_run_wp:
  assumes inv: "db_inv (ps_db s)"
    and "\<And>err. Load (ml_Config M) = Inl err \<Longrightarrow> Q (Inl (LoadConfigError err)) s"
    and "\<And>cfg err. Load (ml_Config M) = Inr cfg \<Longrightarrow>
      logging_New (ml_Zap M) (lg_Level (Config_Logging cfg)) (lg_Format (Config_Logging cfg)) = Inl err \<Longrightarrow>
      Q (Inl (CreateLoggerError err)) s"
    and fails: "\<And>cfg err s' rs ls. Load (ml_Config M) = Inr cfg \<Longrightarrow>
      \<not> (server_up (env_pg E) \<and> pool_accepted (ml_Pgxpool M) (Config_Database cfg)) \<Longrightarrow>
      rs \<in> {[], [TracerShutDown]} \<Longrightarrow> ps_Released s' = ps_Released s @ rs @ [LoggerSynced] \<Longrightarrow>
      ps_Stderr s' = ps_Stderr s @ map SyncFailed ls \<Longrightarrow> Q (Inl (ConnectDatabaseError err)) s'"
    and listens: "\<And>cfg g w s'. Load (ml_Config M) = Inr cfg \<Longrightarrow>
      logging_New (ml_Zap M) (lg_Level (Config_Logging cfg)) (lg_Format (Config_Logging cfg)) = Inr g \<Longrightarrow>
      pool_accepted (ml_Pgxpool M) (Config_Database cfg) \<Longrightarrow> started E (ps_db s) w \<Longrightarrow>
      ps_db s' = app_db w \<Longrightarrow> quiet s s' \<Longrightarrow>
      wp (listen cfg (run_config cfg) w) (\<lambda>r s'. \<forall>s2 rs. rs \<in> {[], [TracerShutDown]} \<longrightarrow>
        finishing (PoolClosed # rs @ [LoggerSynced]) s' s2 \<longrightarrow> Q r s2) s'"
  shows "wp (api_run M E listen) Q s"
proof (cases "Load (ml_Config M)")
  case (Inr cfg)
  show ?thesis
  proof (cases "logging_New (ml_Zap M) (lg_Level (Config_Logging cfg)) (lg_Format (Config_Logging cfg))")
    case (Inr g)
    note loaded = \<open>Load (ml_Config M) = Inr cfg\<close>
    define Q' where "Q' r s' \<longleftrightarrow> (\<forall>s2 rs. rs \<in> {[], [TracerShutDown]} \<longrightarrow>
        finishing (rs @ [LoggerSynced]) s' s2 \<longrightarrow> Q r s2)" for r s'
    have connected: "wp (run_connected M E listen cfg) Q' s'" if "ps_db s' = ps_db s" "quiet s s'" for s'
    proof (rule connected_wp)
      show "Q' (Inl (ConnectDatabaseError err)) s1"
        if no: "\<not> (server_up (env_pg E) \<and> pool_accepted (ml_Pgxpool M) (Config_Database cfg))"
          and q: "quiet s' s1" for err s1
        unfolding Q'_def
      proof (intro allI impI)
        fix s2 rs
        assume rs: "rs \<in> {[], [TracerShutDown]}" and "finishing (rs @ [LoggerSynced]) s1 s2"
        then obtain ls where "ps_Released s2 = ps_Released s @ rs @ [LoggerSynced]"
          "ps_Stderr s2 = ps_Stderr s @ map SyncFailed ls"
          using q \<open>quiet s s'\<close> by (auto simp: finishing_def quiet_def)
        then show "Q (Inl (ConnectDatabaseError err)) s2" by (rule fails [OF loaded no rs])
      qed
      show "wp (listen cfg (run_config cfg) w) (\<lambda>r s'. Q' r (s'\<lparr>ps_Released := ps_Released s' @ [PoolClosed]\<rparr>)) s1"
        if "pool_accepted (ml_Pgxpool M) (Config_Database cfg)" "started E (ps_db s') w" "ps_db s1 = app_db w"
          "quiet s' s1" for w s1
      proof (rule wp_mono [OF listens [OF loaded Inr that(1)]])
        show "started E (ps_db s) w" "ps_db s1 = app_db w" "quiet s s1"
          using that \<open>ps_db s' = ps_db s\<close> \<open>quiet s s'\<close> by (simp_all add: quiet_def)
      qed (simp add: Q'_def finishing_def)
    qed (use that inv in simp)
    have only_sync: "wp (sync_logger M g) (\<lambda>_. Q r) s1" if "Q' r s1" for r s1
      using that [unfolded Q'_def, rule_format, of "[]"] by (auto intro: wp_mono [OF sync_finishing])
    have shut: "wp (shutdown_tracer M p) (\<lambda>_. wp (sync_logger M g) (\<lambda>_. Q r)) s1" if "Q' r s1" for p r s1
      using that [unfolded Q'_def, rule_format, of "[TracerShutDown]"]
      by (auto intro!: wp_mono [OF shutdown_finishing] wp_mono [OF sync_finishing] dest: finishing_trans)
    have traced: "wp (run_traced M E listen cfg) (\<lambda>r. wp (sync_logger M g) (\<lambda>_. Q r)) s'"
      if same: "ps_db s' = ps_db s" "quiet s s'" for s'
    proof -
      obtain r t where sets: "run_state (Setup (ml_Otel M) (os_Getenv (ml_Config M))
          (ob_ServiceName (Config_Observability cfg)) (ob_OTLPInsecure (Config_Observability cfg))
          (export_timeout (srv_ShutdownTimeout (Config_Server cfg)))) (ps_telemetry s') = (r, t)" by force
      have later: "wp (run_connected M E listen cfg) Q' (s'\<lparr>ps_telemetry := t\<rparr>)" for t
        using same by (intro connected) simp_all
      show ?thesis
      proof (cases r)
        case (Inl err)
        show ?thesis
          by (simp add: run_traced_def wp_simps wp_run [OF sets] Inl) (rule wp_mono [where P = Q', OF later], rule only_sync)
      next
        case (Inr p)
        show ?thesis
          by (simp add: run_traced_def wp_simps wp_run [OF sets] Inr) (rule wp_mono [where P = Q', OF later], rule shut)
      qed
    qed
    show ?thesis
      using traced by (simp add: api_run_def wp_simps loaded Inr)
  qed (use assms(3) Inr in \<open>simp add: api_run_def wp_simps\<close>)
qed (use assms(2) in \<open>simp add: api_run_def wp_simps\<close>)

text \<open>The state a started server begins with.\<close>

lemma startup_state:
  assumes run: "run_state (run_until_listening M E) s = (Inr (C, w), s')" and inv: "db_inv (ps_db s)"
  obtains cfg where "Load (ml_Config M) = Inr cfg" and "C = run_config cfg"
    and "started E (ps_db s) w" and "ps_db s' = app_db w"
proof -
  have "wp (run_until_listening M E) (\<lambda>r s'. \<forall>C w. r = Inr (C, w) \<longrightarrow>
      (\<exists>cfg. Load (ml_Config M) = Inr cfg \<and> C = run_config cfg \<and> started E (ps_db s) w \<and> ps_db s' = app_db w)) s"
    unfolding run_until_listening_def by (rule api_run_wp [OF inv]) (auto simp: wp_simps finishing_def)
  from wpD [OF this run] that show thesis by blast
qed

text \<open>
  C35. A server that starts to listen has a secret of at least 32 bytes and no wildcard origin together
  with credentials; the start has changed no data; the cache of the default role is empty or names the
  role \<open>user\<close> of the database, and is filled if the database answers and has that role.
\<close>

theorem startup_ready:
  assumes "run_state (run_until_listening M E) s = (Inr (C, w), s')" and "db_inv (ps_db s)"
  shows "32 \<le> length (svc_jwtSecret (cfg_service C)) \<and>
    (cors_AllowCredentials (cfg_cors C) \<longrightarrow> ''*'' \<notin> set (cors_AllowedOrigins (cfg_cors C))) \<and>
    app_db w = ps_db s' \<and> db_inv (ps_db s') \<and> auth_view_of (ps_db s') = auth_view_of (ps_db s) \<and>
    cache_ok (auth_view_of (ps_db s)) (as_defaultUserRoleID (app_auth w)) \<and>
    (server_up (env_pg E) \<and> ''user'' \<in> RoleRow_Name ` v_roles (auth_view_of (ps_db s)) \<longrightarrow>
       as_defaultUserRoleID (app_auth w) \<noteq> None) \<and>
    app_limits w = no_limits"
proof -
  from assms obtain cfg where load: "Load (ml_Config M) = Inr cfg" and C: "C = run_config cfg"
    and started: "started E (ps_db s) w" "ps_db s' = app_db w" by (rule startup_state)
  have "svc_jwtSecret (cfg_service C) = ac_JWTSecretKey (Config_Auth cfg)" "cfg_cors C = Config_CORS cfg"
    by (simp_all add: C run_config_def NewService_def)
  then show ?thesis
    using Load_validated [OF load] started
    unfolding Config_Validate_None started_def by (simp del: auth_view_simps)
qed

text \<open>Packages that accept everything, and a process that starts with them.\<close>

definition demo_main_libs ::
    "(string \<times> string) list \<Rightarrow> (unit, unit, zap_level, resource_option list, exporter_option list) main_libs" where
  "demo_main_libs vars =
     \<lparr>ml_Config = demo_config_libs vars,
      ml_Zap = \<lparr>zap_NewProductionConfig = \<lparr>zc_Level = InfoLevel, zc_EncodeLevel = ''LowercaseLevelEncoder'',
          zc_TimeKey = ''ts'', zc_EncodeTime = ''EpochTimeEncoder''\<rparr>,
        zap_NewDevelopmentConfig = \<lparr>zc_Level = DebugLevel, zc_EncodeLevel = ''CapitalLevelEncoder'',
          zc_TimeKey = ''T'', zc_EncodeTime = ''ISO8601TimeEncoder''\<rparr>,
        zap_Build = \<lambda>c stack. Inr (zc_Level c)\<rparr>,
      ml_Otel = \<lparr>resource_New = \<lambda>opts. Inr opts, otlptracehttp_New = \<lambda>opts. Inr opts, Sscanf_float = \<lambda>s. None\<rparr>,
      ml_Pgxpool = \<lparr>pgxpool_ParseConfig = \<lambda>url. Inr \<lparr>pc_Connection = url, pc_MaxConns = 4, pc_MinConns = 0,
          pc_MaxConnLifetime = 0\<rparr>,
        pgxpool_NewWithConfig = \<lambda>c. None\<rparr>,
      TracerProvider_Shutdown = \<lambda>p. None, Logger_Sync = \<lambda>g. Some ''sync /dev/stderr: invalid argument''\<rparr>"

definition demo_process :: "db \<Rightarrow> ('r, 'x) process_state" where
  "demo_process d = \<lparr>ps_db = d, ps_telemetry = \<lparr>tm_Log = [], tm_Provider = None, tm_Propagators = []\<rparr>,
     ps_Released = [], ps_Stderr = []\<rparr>"

lemma demo_process_simps [simp]: "ps_db (demo_process d) = d" "ps_Released (demo_process d) = []"
  by (simp_all add: demo_process_def)

theorem startup_ready_witness:
  "\<exists>C w s'. run_state (run_until_listening (demo_main_libs minimal_vars) demo_env) (demo_process demo_db) =
       (Inr (C, w), s') \<and>
     32 \<le> length (svc_jwtSecret (cfg_service C)) \<and> as_defaultUserRoleID (app_auth w) \<noteq> None"
proof -
  let ?run = "run_state (run_until_listening (demo_main_libs minimal_vars) demo_env) (demo_process demo_db)"
  have "\<not> isl (fst ?run)" by code_simp
  then obtain C w s' where run: "?run = (Inr (C, w), s')"
    by (cases ?run; cases "fst ?run") auto
  have "server_up (env_pg demo_env)" by (simp add: demo_env_def)
  moreover have "''user'' \<in> RoleRow_Name ` v_roles (auth_view_of demo_db)" by (simp add: demo_db_def)
  moreover have db: "ps_db (demo_process demo_db) = demo_db" by (simp add: demo_process_def)
  ultimately show ?thesis using startup_ready [OF run, unfolded db, OF demo_db_inv] run by blast
qed

text \<open>
  With the database up the server starts exactly when the configuration loads, the logger can be
  built at its level and the pool accepts the database settings: no failure of tracing prevents it.
\<close>

theorem startup_iff:
  assumes "server_up (env_pg E)" and "db_inv (ps_db s)"
  shows "\<not> isl (fst (run_state (run_until_listening M E) s)) \<longleftrightarrow>
    (case Load (ml_Config M) of
       Inl err \<Rightarrow> False
     | Inr cfg \<Rightarrow> \<not> isl (logging_New (ml_Zap M) (lg_Level (Config_Logging cfg)) (lg_Format (Config_Logging cfg))) \<and>
         pool_accepted (ml_Pgxpool M) (Config_Database cfg))"
proof -
  let ?ok = "case Load (ml_Config M) of
       Inl err \<Rightarrow> False
     | Inr cfg \<Rightarrow> \<not> isl (logging_New (ml_Zap M) (lg_Level (Config_Logging cfg)) (lg_Format (Config_Logging cfg))) \<and>
         pool_accepted (ml_Pgxpool M) (Config_Database cfg)"
  have "wp (run_until_listening M E) (\<lambda>r s'. \<not> isl r \<longleftrightarrow> ?ok) s"
    unfolding run_until_listening_def by (rule api_run_wp [OF assms(2)]) (use assms(1) in \<open>auto simp: wp_simps\<close>)
  then show ?thesis by (simp add: wp_def split: prod.splits)
qed

theorem startup_iff_witness:
  "\<not> isl (fst (run_state (run_until_listening (demo_main_libs minimal_vars) demo_env) (demo_process demo_db))) \<and>
   isl (fst (run_state (run_until_listening (demo_main_libs ((''LOG_LEVEL'', ''loud'') # minimal_vars)) demo_env)
     (demo_process demo_db)))"
proof -
  have up: "server_up (env_pg demo_env)" by (simp add: demo_env_def)
  have inv: "db_inv (ps_db (demo_process demo_db))" using demo_db_inv by (simp add: demo_process_def)
  note iff = startup_iff [OF up inv]
  have "\<not> isl (fst (run_state (run_until_listening (demo_main_libs minimal_vars) demo_env) (demo_process demo_db)))"
    by (rule iffD2 [OF iff]) code_simp
  moreover have "\<not> \<not> isl (fst (run_state (run_until_listening (demo_main_libs ((''LOG_LEVEL'', ''loud'') # minimal_vars))
      demo_env) (demo_process demo_db)))"
    unfolding iff by code_simp
  ultimately show ?thesis by blast
qed

text \<open>The releases that go with each end of \<open>run\<close>: no error, or the error.\<close>

fun releases :: "startup_error option \<Rightarrow> release list set" where
  "releases (Some (LoadConfigError err)) = {[]}"
| "releases (Some (CreateLoggerError err)) = {[]}"
| "releases (Some (ConnectDatabaseError err)) = {[LoggerSynced], [TracerShutDown, LoggerSynced]}"
| "releases _ = {[PoolClosed, LoggerSynced], [PoolClosed, TracerShutDown, LoggerSynced]}"

definition serves_only ::
    "(('ip, 'f) Config \<Rightarrow> 'ip config \<Rightarrow> 'l app \<Rightarrow> (('r, 'x) process_state, startup_error + 'a) state) \<Rightarrow> bool" where
  "serves_only listen \<longleftrightarrow> (\<forall>cfg C w s r s'. run_state (listen cfg C w) s = (r, s') \<longrightarrow>
     ps_Released s' = ps_Released s \<and> ps_Stderr s' = ps_Stderr s \<and>
     (\<forall>err. r = Inl err \<longrightarrow> (\<exists>e. err = ServerError e) \<or> (\<exists>t. err = GracefulShutdownError t)))"

lemma api_main_end:
  assumes "rs \<in> releases (case r of Inl err \<Rightarrow> Some err | Inr _ \<Rightarrow> None)" and "ps_Released s' = ps_Released s @ rs"
    and "ps_Stderr s' = ps_Stderr s @ map SyncFailed ls"
  shows "wp (case r of Inl err \<Rightarrow> State_Monad.bind (print_stderr (RunFailed err)) (\<lambda>_. State_Monad.return 1)
      | Inr _ \<Rightarrow> State_Monad.return 0)
    (\<lambda>code s'. \<exists>res rs ls. rs \<in> releases res \<and> ps_Released s' = ps_Released s @ rs \<and>
      code = (if res = None then 0 else 1 :: nat) \<and>
      ps_Stderr s' = ps_Stderr s @ map SyncFailed ls @ (case res of None \<Rightarrow> [] | Some err \<Rightarrow> [RunFailed err])) s'"
  by (rule wpI, intro exI [of _ "case r of Inl err \<Rightarrow> Some err | Inr _ \<Rightarrow> None"] exI [of _ rs] exI [of _ ls])
    (use assms in \<open>cases r; auto simp: print_stderr_def\<close>)

text \<open>
  Whatever the server does, the process ends as it should: on every way out of \<open>run\<close> the pool is
  closed if the database was reached, then the tracer is shut down if it was set up, then the logger is
  synced, each once; the exit code is 0 exactly when there was no error, and an error is the last line on
  \<open>stderr\<close>.
\<close>

theorem api_main_releases:
  assumes "serves_only listen" and "db_inv (ps_db s)"
    and "run_state (api_main M E listen) s = (code, s')"
  shows "\<exists>res rs ls. rs \<in> releases res \<and> ps_Released s' = ps_Released s @ rs \<and>
    code = (if res = None then 0 else 1) \<and>
    ps_Stderr s' = ps_Stderr s @ map SyncFailed ls @ (case res of None \<Rightarrow> [] | Some err \<Rightarrow> [RunFailed err])"
proof -
  let ?P = "\<lambda>res s'. \<exists>rs ls. rs \<in> releases res \<and> ps_Released s' = ps_Released s @ rs \<and>
    ps_Stderr s' = ps_Stderr s @ map SyncFailed ls"
  let ?res = "\<lambda>r. case r of Inl err \<Rightarrow> Some err | Inr _ \<Rightarrow> None"
  have "wp (api_run M E listen) (\<lambda>r. ?P (?res r)) s"
  proof (rule api_run_wp [OF assms(2)])
    show "wp (listen cfg (run_config cfg) w) (\<lambda>r s'. \<forall>s2 rs. rs \<in> {[], [TracerShutDown]} \<longrightarrow>
        finishing (PoolClosed # rs @ [LoggerSynced]) s' s2 \<longrightarrow> ?P (?res r) s2) s1" if "quiet s s1" for cfg w s1
    proof (rule wpI)
      fix r s'
      assume "run_state (listen cfg (run_config cfg) w) s1 = (r, s')"
      from assms(1) [unfolded serves_only_def, rule_format, OF this]
      have same: "ps_Released s' = ps_Released s" "ps_Stderr s' = ps_Stderr s"
        and "?res r = None \<or> (\<exists>e. ?res r = Some (ServerError e)) \<or> (\<exists>t. ?res r = Some (GracefulShutdownError t))"
        using that by (cases r; simp add: quiet_def)+
      then have "{[PoolClosed, LoggerSynced], [PoolClosed, TracerShutDown, LoggerSynced]} \<subseteq> releases (?res r)"
        by (elim disjE exE) simp_all
      with same show "\<forall>s2 rs. rs \<in> {[], [TracerShutDown]} \<longrightarrow>
        finishing (PoolClosed # rs @ [LoggerSynced]) s' s2 \<longrightarrow> ?P (?res r) s2"
        by (auto simp: finishing_def)
    qed
  qed (auto simp: finishing_def)
  then have "wp (api_main M E listen) (\<lambda>code s'. \<exists>res rs ls. rs \<in> releases res \<and>
      ps_Released s' = ps_Released s @ rs \<and> code = (if res = None then 0 else 1) \<and>
      ps_Stderr s' = ps_Stderr s @ map SyncFailed ls @ (case res of None \<Rightarrow> [] | Some err \<Rightarrow> [RunFailed err])) s"
    unfolding api_main_def wp_bind by (rule wp_mono) (elim exE conjE, rule api_main_end)
  from wpD [OF this assms(3)] show ?thesis .
qed

theorem api_main_releases_witness:
  "\<exists>res rs. rs \<in> releases res \<and>
     ps_Released (snd (run_state (api_main (demo_main_libs minimal_vars) demo_env
       (\<lambda>cfg C w. State_Monad.return (Inl (ServerError (ServeFailed ''listen tcp :8080: bind: address already in use'')) ::
         startup_error + unit))) (demo_process demo_db))) = rs"
proof -
  let ?listen = "\<lambda>cfg C w. State_Monad.return
    (Inl (ServerError (ServeFailed ''listen tcp :8080: bind: address already in use'')) :: startup_error + unit)"
  have listen: "serves_only ?listen" by (simp add: serves_only_def)
  have inv: "db_inv (ps_db (demo_process demo_db))" using demo_db_inv by simp
  from api_main_releases [OF listen inv surjective_pairing, of "demo_main_libs minimal_vars" demo_env]
  show ?thesis by auto
qed

text \<open>
  The lifetime of the tokens is the configured number of minutes as long as that many nanoseconds
  fit 64 bits, and wraps beyond; nothing refuses a number that wraps to a negative lifetime.
\<close>

theorem jwt_lifetime:
  "(\<bar>m\<bar> \<le> 153722867 \<longrightarrow> jwt_expiry m = m * (60 * Second)) \<and> jwt_expiry 153722868 < 0"
proof
  show "jwt_expiry 153722868 < 0" by code_simp
  show "\<bar>m\<bar> \<le> 153722867 \<longrightarrow> jwt_expiry m = m * (60 * Second)"
  proof
    assume "\<bar>m\<bar> \<le> 153722867"
    then have "signed_take_bit 63 (m * 60000000000) = m * 60000000000"
      by (intro signed_take_bit_int_eq_self) auto
    then show "jwt_expiry m = m * (60 * Second)"
      unfolding jwt_expiry_def by transfer (simp add: signed_take_bit_int_eq_self)
  qed
qed

theorem jwt_lifetime_witness: "jwt_expiry 1440 = 86400 * Second"
  using jwt_lifetime [of 1440] by simp

end
