(* ===== verification/Rate_Limit_Correct.thy ===== *)
theory Rate_Limit_Correct
  imports Rate_Limit
begin

text \<open>
  The rate limiter against its specification: every client has one token bucket of its own, and the
  eviction of idle buckets cannot be told from the outside.
\<close>

section \<open>Runs of the limiter\<close>

datatype limit_event = Request string | Sweep

record served =
  sv_client :: string
  sv_seen :: go_time
  sv_at :: go_time
  sv_ok :: bool

text \<open>
  The requests of a run with the two last readings of the clock each takes: the one stored as \<open>lastSeen\<close>
  and the one of \<open>Allow\<close>.
\<close>

fun limit_run :: "'l limiter_libs \<Rightarrow> limit_config \<Rightarrow> limit_event list \<Rightarrow> 'l limits \<Rightarrow> served list" where
  "limit_run R C [] s = []"
| "limit_run R C (Sweep # es) s = limit_run R C es (snd (run_state (sweep R C) s))"
| "limit_run R C (Request ip # es) s =
     (let (ok, s') = run_state (admit R C ip) s; n = lim_readings s'
      in \<lparr>sv_client = ip, sv_seen = rate_Now R (n - 2), sv_at = rate_Now R (n - 1), sv_ok = ok\<rparr> #
         limit_run R C es s')"

section \<open>The specification: one bucket\<close>

fun bucket_answers :: "'l limiter_libs \<Rightarrow> 'l \<Rightarrow> go_time list \<Rightarrow> bool list" where
  "bucket_answers R l [] = []"
| "bucket_answers R l (t # ts) = (let (ok, l') = rate_Allow R t l in ok # bucket_answers R l' ts)"

fun bucket_after :: "'l limiter_libs \<Rightarrow> 'l \<Rightarrow> go_time list \<Rightarrow> 'l" where
  "bucket_after R l [] = l"
| "bucket_after R l (t # ts) = bucket_after R (snd (rate_Allow R t l)) ts"

lemma bucket_after_snoc [simp]:
  "bucket_after R l (ts @ [t]) = snd (rate_Allow R t (bucket_after R l ts))"
  by (induction ts arbitrary: l) auto

text \<open>
  What the limiter needs of its surroundings. The clock does not go back. A bucket not used for
  \<open>fill\<close> is full: it answers and continues like a new one. A request takes at most \<open>slack\<close> between its
  two readings, and an idle timeout covers both.
\<close>

definition monotone_clock :: "'l limiter_libs \<Rightarrow> bool" where
  "monotone_clock R \<longleftrightarrow> (\<forall>m n. m \<le> n \<longrightarrow> rate_Now R m \<le> rate_Now R n)"

definition fills_within :: "'l limiter_libs \<Rightarrow> limit_config \<Rightarrow> go_duration \<Rightarrow> bool" where
  "fills_within R C fill \<longleftrightarrow>
     (let new = rate_NewLimiter R (lc_rps C) (lc_burst C)
      in \<forall>ts t. sorted ts \<and> (\<forall>t' \<in> set ts. t' + fill \<le> t) \<longrightarrow>
           rate_Allow R t (bucket_after R new ts) = rate_Allow R t new)"

section \<open>One step\<close>

lemma admit_effect:
  assumes "run_state (admit R C ip) s = (ok, s')"
  defines "l \<equiv> case lim_buckets s ip of Some e \<Rightarrow> en_limiter e | None \<Rightarrow> rate_NewLimiter R (lc_rps C) (lc_burst C)"
    and "n \<equiv> lim_readings s'"
  shows "lim_readings s + 3 \<le> n"
    and "ok = fst (rate_Allow R (rate_Now R (n - 1)) l)"
    and "lim_buckets s' = (lim_buckets s)(ip \<mapsto>
      \<lparr>en_limiter = snd (rate_Allow R (rate_Now R (n - 1)) l), en_lastSeen = rate_Now R (n - 2)\<rparr>)"
  using assms(1) unfolding admit_def limiter_defs l_def n_def
  by (auto split: prod.splits option.splits if_splits)

lemma sweep_effect:
  assumes "run_state (sweep R C) s = (u, s')"
  shows "lim_readings s' = lim_readings s + 2"
  using assms unfolding sweep_def limiter_now_def by auto

section \<open>The invariant of a run\<close>

text \<open>Buckets that answer the same to every sequence of requests from an instant on.\<close>

definition same_from :: "'l limiter_libs \<Rightarrow> go_time \<Rightarrow> 'l \<Rightarrow> 'l \<Rightarrow> bool" where
  "same_from R u l l' \<longleftrightarrow> (\<forall>ts. sorted ts \<and> (\<forall>t \<in> set ts. u \<le> t) \<longrightarrow>
     bucket_answers R l ts = bucket_answers R l' ts)"

lemma same_from_refl [simp]: "same_from R u l l"
  by (simp add: same_from_def)

lemma same_from_later: "same_from R u l l' \<Longrightarrow> u \<le> v \<Longrightarrow> same_from R v l l'"
  unfolding same_from_def by (meson order_trans)

lemma same_from_trans: "same_from R u l l' \<Longrightarrow> same_from R u l' l'' \<Longrightarrow> same_from R u l l''"
  unfolding same_from_def by metis

lemma same_from_step:
  assumes "same_from R u l l'" and "u \<le> t" and "t \<le> v"
  shows "fst (rate_Allow R t l) = fst (rate_Allow R t l')"
    and "same_from R v (snd (rate_Allow R t l)) (snd (rate_Allow R t l'))"
proof -
  have eq: "bucket_answers R l (t # ts) = bucket_answers R l' (t # ts)"
    if "sorted ts" "\<forall>t' \<in> set ts. v \<le> t'" for ts
  proof -
    from that(2) assms(2,3) have "\<forall>t' \<in> set ts. t \<le> t' \<and> u \<le> t'"
      by (meson order_trans)
    with that(1) assms(2) have "sorted (t # ts)" "\<forall>t' \<in> set (t # ts). u \<le> t'" by auto
    with assms(1) show ?thesis unfolding same_from_def by blast
  qed
  show "fst (rate_Allow R t l) = fst (rate_Allow R t l')"
    using eq [of "[]"] by (simp split: prod.splits)
  show "same_from R v (snd (rate_Allow R t l)) (snd (rate_Allow R t l'))"
    unfolding same_from_def
  proof (intro allI impI, elim conjE)
    fix ts
    assume "sorted ts" "\<forall>t' \<in> set ts. v \<le> t'"
    from eq [OF this] show "bucket_answers R (snd (rate_Allow R t l)) ts = bucket_answers R (snd (rate_Allow R t l')) ts"
      by (simp add: case_prod_beta' Let_def)
  qed
qed

lemma same_from_first:
  "(\<And>t. u \<le> t \<Longrightarrow> rate_Allow R t l = rate_Allow R t l') \<Longrightarrow> same_from R u l l'"
  unfolding same_from_def
  by (intro allI impI, rename_tac ts, case_tac ts) auto

abbreviation new_bucket :: "'l limiter_libs \<Rightarrow> limit_config \<Rightarrow> 'l" where
  "new_bucket R C \<equiv> rate_NewLimiter R (lc_rps C) (lc_burst C)"

abbreviation clock :: "'l limiter_libs \<Rightarrow> 'l limits \<Rightarrow> go_time" where
  "clock R s \<equiv> rate_Now R (lim_readings s)"

definition bucket_of :: "'l limiter_libs \<Rightarrow> limit_config \<Rightarrow> 'l limits \<Rightarrow> string \<Rightarrow> 'l" where
  "bucket_of R C s ip = (case lim_buckets s ip of Some e \<Rightarrow> en_limiter e | None \<Rightarrow> new_bucket R C)"

text \<open>
  \<open>h ip\<close> are the instants of the client's requests so far. The bucket in use answers like the one that
  has seen them all, and one that is stored was last used within \<open>slack\<close> of its \<open>lastSeen\<close>.
\<close>

definition limit_inv :: "'l limiter_libs \<Rightarrow> limit_config \<Rightarrow> go_duration \<Rightarrow> (string \<Rightarrow> go_time list) \<Rightarrow> 'l limits \<Rightarrow> bool" where
  "limit_inv R C slack h s \<longleftrightarrow> (\<forall>ip.
     same_from R (clock R s) (bucket_of R C s ip) (bucket_after R (new_bucket R C) (h ip)) \<and>
     (\<forall>e. lim_buckets s ip = Some e \<longrightarrow> (\<exists>ts. en_limiter e = bucket_after R (new_bucket R C) ts \<and>
        sorted ts \<and> (\<forall>t \<in> set ts. t \<le> en_lastSeen e + slack \<and> t \<le> clock R s))))"

lemma limit_inv_init: "limit_inv R C slack (\<lambda>_. []) no_limits"
  by (simp add: limit_inv_def no_limits_def bucket_of_def)

lemma limit_inv_request:
  assumes inv: "limit_inv R C slack h s" and clock: "monotone_clock R"
    and run: "run_state (admit R C ip) s = (ok, s')"
    and prompt: "rate_Now R (lim_readings s' - 1) \<le> rate_Now R (lim_readings s' - 2) + slack"
  defines "t \<equiv> rate_Now R (lim_readings s' - 1)"
  shows "ok = fst (rate_Allow R t (bucket_after R (new_bucket R C) (h ip)))"
    and "limit_inv R C slack (h(ip := h ip @ [t])) s'"
proof -
  note effect = admit_effect [OF run, folded bucket_of_def]
  have le: "clock R s \<le> t" "t \<le> clock R s'" "clock R s \<le> clock R s'"
    using clock effect(1) unfolding monotone_clock_def t_def by auto
  have same: "same_from R (clock R s) (bucket_of R C s ip) (bucket_after R (new_bucket R C) (h ip))"
    using inv unfolding limit_inv_def by blast
  note step = same_from_step [OF same le(1,2)]
  show "ok = fst (rate_Allow R t (bucket_after R (new_bucket R C) (h ip)))"
    using step(1) effect(2) unfolding t_def by simp
  obtain ts where ts: "bucket_of R C s ip = bucket_after R (new_bucket R C) ts" "sorted ts" "\<forall>u \<in> set ts. u \<le> clock R s"
  proof (cases "lim_buckets s ip")
    case None
    then show ?thesis using that [of "[]"] by (simp add: bucket_of_def)
  next
    case (Some e)
    with inv obtain ts where "en_limiter e = bucket_after R (new_bucket R C) ts" "sorted ts"
      "\<forall>u \<in> set ts. u \<le> clock R s" unfolding limit_inv_def by blast
    with Some show ?thesis using that [of ts] by (simp add: bucket_of_def)
  qed
  have bucket: "bucket_of R C s' ip = snd (rate_Allow R t (bucket_of R C s ip))"
    "bucket_of R C s' ip' = bucket_of R C s ip'" if "ip' \<noteq> ip" for ip'
    using that by (simp_all add: bucket_of_def [of R C s'] effect(3) t_def) (simp add: bucket_of_def)
  show "limit_inv R C slack (h(ip := h ip @ [t])) s'"
    unfolding limit_inv_def
  proof (intro allI conjI impI, goal_cases)
    case (1 ip')
    then show ?case
      using inv step(2) le(3) bucket unfolding limit_inv_def
      by (cases "ip' = ip") (auto simp: bucket_of_def [of R C s'] effect(3) t_def intro: same_from_later)
  next
    case (2 ip' e)
    show ?case
    proof (cases "ip' = ip")
      case True
      have last: "en_lastSeen e = rate_Now R (lim_readings s' - 2)"
        "en_limiter e = bucket_after R (new_bucket R C) (ts @ [t])"
        using 2 True ts(1) by (auto simp: effect(3) t_def)
      moreover have "sorted (ts @ [t])" "\<forall>u \<in> set (ts @ [t]). u \<le> t"
        using ts(2,3) le(1) by (auto simp: sorted_append)
      moreover have "t \<le> en_lastSeen e + slack" using prompt unfolding last(1) t_def .
      ultimately show ?thesis using le(2) by (meson order_trans)
    next
      case False
      with 2 have "lim_buckets s ip' = Some e" by (simp add: effect(3))
      with inv le(3) show ?thesis unfolding limit_inv_def by (meson order_trans)
    qed
  qed
qed

lemma limit_inv_sweep:
  assumes inv: "limit_inv R C slack h s" and clock: "monotone_clock R" and fill: "fills_within R C fill"
    and idle: "fill + slack \<le> lc_idleTimeout C" and run: "run_state (sweep R C) s = (u, s')"
  shows "limit_inv R C slack h s'"
proof -
  have le: "clock R s \<le> clock R s'"
    using clock sweep_effect [OF run] unfolding monotone_clock_def by simp
  have old: "same_from R (clock R s') (bucket_of R C s ip) (bucket_after R (new_bucket R C) (h ip))" for ip
    using inv le unfolding limit_inv_def by (blast intro: same_from_later)
  show ?thesis
    unfolding limit_inv_def
  proof (intro allI conjI impI, goal_cases)
    case (1 ip)
    show ?case
    proof (cases "lim_buckets s' ip = lim_buckets s ip")
      case True
      then show ?thesis using old [of ip] by (simp add: bucket_of_def)
    next
      case False
      then obtain e where e: "lim_buckets s ip = Some e" "en_lastSeen e < clock R s - lc_idleTimeout C"
        and gone: "lim_buckets s' ip = None"
        using sweep_buckets [OF run, of ip] by (auto split: option.splits if_splits)
      with inv obtain ts where ts: "en_limiter e = bucket_after R (new_bucket R C) ts" "sorted ts"
        "\<forall>t \<in> set ts. t \<le> en_lastSeen e + slack" unfolding limit_inv_def by blast
      have "rate_Allow R t (bucket_after R (new_bucket R C) ts) = rate_Allow R t (new_bucket R C)"
        if "clock R s' \<le> t" for t
      proof -
        have "t' + fill \<le> t" if "t' \<in> set ts" for t'
          using ts(3) that e(2) idle le \<open>clock R s' \<le> t\<close> by fastforce
        with ts(2) fill show ?thesis unfolding fills_within_def Let_def by blast
      qed
      then have "same_from R (clock R s') (new_bucket R C) (bucket_of R C s ip)"
        by (intro same_from_first) (simp add: bucket_of_def e(1) ts(1))
      from same_from_trans [OF this old] gone show ?thesis by (simp add: bucket_of_def)
    qed
  next
    case (2 ip e)
    then have "lim_buckets s ip = Some e"
      using sweep_buckets [OF run, of ip] by (auto split: option.splits if_splits)
    with inv le show ?case unfolding limit_inv_def by (meson order_trans)
  qed
qed

section \<open>Refinement\<close>


section \<open>A concrete bucket\<close>

text \<open>
  Tokens are counted in billionths: a bucket is its rate, its size, its tokens and the instant it was
  last used. The clock ticks a millisecond a reading.
\<close>

fun bucket_Allow :: "go_time \<Rightarrow> int \<times> int \<times> int \<times> go_time \<Rightarrow> bool \<times> int \<times> int \<times> int \<times> go_time" where
  "bucket_Allow t (r, b, tokens, used) =
     (let tokens' = min (b * Second) (tokens + r * max 0 (t - used))
      in if Second \<le> tokens' then (True, r, b, tokens' - Second, t) else (False, r, b, tokens, used))"

definition bucket_libs :: "(int \<times> int \<times> int \<times> go_time) limiter_libs" where
  "bucket_libs = \<lparr>rate_NewLimiter = (\<lambda>r b. (r, b, b * Second, 0)), rate_Allow = bucket_Allow,
     rate_Now = (\<lambda>n. int n * 1000000)\<rparr>"

definition two_a_second :: limit_config where
  "two_a_second = \<lparr>lc_rps = 1, lc_burst = 2, lc_idleTimeout = 600 * Second\<rparr>"

lemma bucket_libs_used:
  "\<exists>tokens used. bucket_after bucket_libs (1, 2, 2 * Second, 0) ts = (1, 2, tokens, used) \<and> 0 \<le> tokens \<and>
     (tokens = 2 * Second \<or> used \<in> set ts)"
proof (induction ts rule: rev_induct)
  case (snoc t ts)
  then obtain tokens used where "bucket_after bucket_libs (1, 2, 2 * Second, 0) ts = (1, 2, tokens, used)" "0 \<le> tokens"
    "tokens = 2 * Second \<or> used \<in> set ts" by blast
  then show ?case by (auto simp: bucket_libs_def Let_def)
qed simp

lemma bucket_libs_fill: "fills_within bucket_libs two_a_second (2 * Second)"
  unfolding fills_within_def Let_def
proof (intro allI impI, elim conjE)
  fix ts t
  assume idle: "\<forall>t' \<in> set ts. t' + 2 * Second \<le> t"
  obtain tokens used where after: "bucket_after bucket_libs (1, 2, 2 * Second, 0) ts = (1, 2, tokens, used)" "0 \<le> tokens"
    "tokens = 2 * Second \<or> used \<in> set ts" using bucket_libs_used by blast
  with idle have "min (2 * Second) (tokens + max 0 (t - used)) = 2 * Second" by auto
  with after(1) show "rate_Allow bucket_libs t
      (bucket_after bucket_libs (rate_NewLimiter bucket_libs (lc_rps two_a_second) (lc_burst two_a_second)) ts) =
    rate_Allow bucket_libs t (rate_NewLimiter bucket_libs (lc_rps two_a_second) (lc_burst two_a_second))"
    by (simp add: bucket_libs_def two_a_second_def Let_def)
qed


end
