(* ===== verification/Client.thy ===== *)
theory Client
  imports Api Api_Server
begin

text \<open>
  The requests of the generated client, \<open>internal/api/client.gen.go\<close>: encoding the request types,
  building a request, the client with its options, and one method per operation.

  Parameters: parsing, resolving and writing URLs (\<open>net/url\<close>, and the URL \<open>http.NewRequest\<close> makes of its
  argument), \<open>MarshalJSON\<close> of \<open>openapi_types.Email\<close>, the styling of a path parameter (oapi-codegen runtime),
  the JSON value of a text. A body is the list of the pieces written to it, as for responses. The \<open>context\<close> is the
  callee's business. A callback acts on the world of its caller and may fail; a reader that fails while
  the request is sent is the transport's.
\<close>

section \<open>Results without state\<close>

definition on_ok :: "'e + 'a \<Rightarrow> ('a \<Rightarrow> 'e + 'b) \<Rightarrow> 'e + 'b" where
  "on_ok r f = (case r of Inl err \<Rightarrow> Inl err | Inr x \<Rightarrow> f x)"

lemma on_ok_simps [simp]: "on_ok (Inl err) f = Inl err" "on_ok (Inr x) f = f x"
  by (simp_all add: on_ok_def)

lemma on_ok_InrD: "on_ok r f = Inr y \<Longrightarrow> \<exists>x. r = Inr x \<and> f x = Inr y"
  by (cases r) simp_all

record 'u client_libs =
  Email_MarshalJSON :: "string \<Rightarrow> go_error + json"
  json_Parse :: "chunk list \<Rightarrow> json option"
  client_json :: json_libs
  url_Parse :: "string \<Rightarrow> go_error + 'u"
  URL_Parse :: "'u \<Rightarrow> string \<Rightarrow> go_error + 'u"
  URL_String :: "'u \<Rightarrow> string"
  request_URL :: "string \<Rightarrow> go_error + 'u"
  StyleParam :: "uuid \<Rightarrow> go_error + string"

section \<open>Encoding the request types\<close>

text \<open>A nil pointer with \<open>omitempty\<close> is left out.\<close>

definition omit_nil :: "string \<Rightarrow> ('a \<Rightarrow> json) \<Rightarrow> 'a option \<Rightarrow> (string \<times> json) list" where
  "omit_nil key f p = (case p of None \<Rightarrow> [] | Some x \<Rightarrow> [(key, f x)])"

definition json_ApprovedUserRequest :: "'u client_libs \<Rightarrow> api_ApprovedUserRequest \<Rightarrow> go_error + json" where
  "json_ApprovedUserRequest L x = on_ok (Email_MarshalJSON L (aur_Email x))
     (\<lambda>email. Inr (JObj [(''email'', email), (''first_name'', JStr (aur_FirstName x))]))"

fun json_all :: "('a \<Rightarrow> go_error + json) \<Rightarrow> 'a list \<Rightarrow> go_error + json list" where
  "json_all f [] = Inr []"
| "json_all f (x # xs) = on_ok (f x) (\<lambda>v. on_ok (json_all f xs) (\<lambda>vs. Inr (v # vs)))"

definition json_BulkApprovedUserRequest :: "'u client_libs \<Rightarrow> api_BulkApprovedUserRequest \<Rightarrow> go_error + json" where
  "json_BulkApprovedUserRequest L x = on_ok (json_all (json_ApprovedUserRequest L) (bulk_Users x))
     (\<lambda>users. Inr (JObj [(''users'', JList users)]))"

definition json_LoginRequest :: "'u client_libs \<Rightarrow> api_LoginRequest \<Rightarrow> go_error + json" where
  "json_LoginRequest L x = on_ok (Email_MarshalJSON L (lgr_Email x))
     (\<lambda>email. Inr (JObj [(''email'', email), (''password'', JStr (lgr_Password x))]))"

definition json_RegisterRequest :: "'u client_libs \<Rightarrow> api_RegisterRequest \<Rightarrow> go_error + json" where
  "json_RegisterRequest L x = on_ok (Email_MarshalJSON L (rgr_Email x))
     (\<lambda>email. Inr (JObj [(''approved_id'', JStr (rgr_ApprovedId x)), (''email'', email),
        (''password'', JStr (rgr_Password x))]))"

definition json_CreateTodoRequest :: "'u client_libs \<Rightarrow> api_CreateTodoRequest \<Rightarrow> go_error + json" where
  "json_CreateTodoRequest L x = Inr (JObj (omit_nil ''description'' JStr (ctr_Description x) @
     omit_nil ''due_date'' JTime (ctr_DueDate x) @ [(''title'', JStr (ctr_Title x))]))"

definition json_UpdateTodoRequest :: "'u client_libs \<Rightarrow> api_UpdateTodoRequest \<Rightarrow> go_error + json" where
  "json_UpdateTodoRequest L x = Inr (JObj (omit_nil ''description'' JStr (utr_Description x) @
     omit_nil ''due_date'' JTime (utr_DueDate x) @ omit_nil ''is_completed'' JBool (utr_IsCompleted x) @
     omit_nil ''title'' JStr (utr_Title x)))"

text \<open>\<open>json.Marshal\<close>.\<close>

definition json_Marshal :: "('a \<Rightarrow> go_error + json) \<Rightarrow> 'a \<Rightarrow> go_error + chunk list" where
  "json_Marshal f x = on_ok (f x)
     (\<lambda>v. if encodable v then Inr [ChunkJSON v] else Inl (ErrText ''json: error calling MarshalJSON''))"

section \<open>Building requests\<close>

record 'u http_request =
  hq_Method :: string
  hq_URL :: 'u
  hq_Header :: "(string \<times> string) list"
  hq_Body :: "chunk list"

definition http_NewRequest ::
    "'u client_libs \<Rightarrow> string \<Rightarrow> string \<Rightarrow> chunk list \<Rightarrow> go_error + 'u http_request" where
  "http_NewRequest L method urlStr body = on_ok (request_URL L urlStr)
     (\<lambda>u. Inr \<lparr>hq_Method = method, hq_URL = u, hq_Header = [], hq_Body = body\<rparr>)"

definition request_header_Add :: "string \<Rightarrow> string \<Rightarrow> 'u http_request \<Rightarrow> 'u http_request" where
  "request_header_Add k v req = req\<lparr>hq_Header := hq_Header req @ [(canonical_key k, v)]\<rparr>"

text \<open>\<open>if operationPath[0] == '/' { operationPath = "." + operationPath }\<close>\<close>

definition relative_path :: "string \<Rightarrow> string" where
  "relative_path operationPath =
     (case operationPath of [] \<Rightarrow> [] | c # _ \<Rightarrow> if c = CHR ''/'' then CHR ''.'' # operationPath else operationPath)"

text \<open>The steps every builder takes, with the content type where the operation has a body.\<close>

definition build_request ::
    "'u client_libs \<Rightarrow> string \<Rightarrow> string \<Rightarrow> string \<Rightarrow> string option \<Rightarrow> chunk list \<Rightarrow> go_error + 'u http_request" where
  "build_request L method operationPath server contentType body =
     on_ok (url_Parse L server) (\<lambda>serverURL.
     on_ok (URL_Parse L serverURL (relative_path operationPath)) (\<lambda>queryURL.
     on_ok (http_NewRequest L method (URL_String L queryURL) body) (\<lambda>req.
       Inr (case contentType of None \<Rightarrow> req | Some t \<Rightarrow> request_header_Add ''Content-Type'' t req))))"

definition NewListApprovedUsersRequest :: "'u client_libs \<Rightarrow> string \<Rightarrow> go_error + 'u http_request" where
  "NewListApprovedUsersRequest L server =
     build_request L ''GET'' ''/admin/approved-users'' server None []"

definition NewCreateApprovedUserRequestWithBody ::
    "'u client_libs \<Rightarrow> string \<Rightarrow> string \<Rightarrow> chunk list \<Rightarrow> go_error + 'u http_request" where
  "NewCreateApprovedUserRequestWithBody L server contentType body =
     build_request L ''POST'' ''/admin/approved-users'' server (Some contentType) body"

definition NewCreateApprovedUserRequest ::
    "'u client_libs \<Rightarrow> string \<Rightarrow> api_ApprovedUserRequest \<Rightarrow> go_error + 'u http_request" where
  "NewCreateApprovedUserRequest L server body =
     on_ok (json_Marshal (json_ApprovedUserRequest L) body)
       (\<lambda>buf. NewCreateApprovedUserRequestWithBody L server ''application/json'' buf)"

definition NewBulkCreateApprovedUsersRequestWithBody ::
    "'u client_libs \<Rightarrow> string \<Rightarrow> string \<Rightarrow> chunk list \<Rightarrow> go_error + 'u http_request" where
  "NewBulkCreateApprovedUsersRequestWithBody L server contentType body =
     build_request L ''POST'' ''/admin/approved-users/bulk'' server (Some contentType) body"

definition NewBulkCreateApprovedUsersRequest ::
    "'u client_libs \<Rightarrow> string \<Rightarrow> api_BulkApprovedUserRequest \<Rightarrow> go_error + 'u http_request" where
  "NewBulkCreateApprovedUsersRequest L server body =
     on_ok (json_Marshal (json_BulkApprovedUserRequest L) body)
       (\<lambda>buf. NewBulkCreateApprovedUsersRequestWithBody L server ''application/json'' buf)"

definition NewDeleteApprovedUserRequest :: "'u client_libs \<Rightarrow> string \<Rightarrow> uuid \<Rightarrow> go_error + 'u http_request" where
  "NewDeleteApprovedUserRequest L server id' =
     on_ok (StyleParam L id') (\<lambda>pathParam0. build_request L ''DELETE'' (''/admin/approved-users/'' @ pathParam0) server None [])"

definition NewLoginUserRequestWithBody ::
    "'u client_libs \<Rightarrow> string \<Rightarrow> string \<Rightarrow> chunk list \<Rightarrow> go_error + 'u http_request" where
  "NewLoginUserRequestWithBody L server contentType body =
     build_request L ''POST'' ''/auth/login'' server (Some contentType) body"

definition NewLoginUserRequest ::
    "'u client_libs \<Rightarrow> string \<Rightarrow> api_LoginRequest \<Rightarrow> go_error + 'u http_request" where
  "NewLoginUserRequest L server body =
     on_ok (json_Marshal (json_LoginRequest L) body)
       (\<lambda>buf. NewLoginUserRequestWithBody L server ''application/json'' buf)"

definition NewRegisterUserRequestWithBody ::
    "'u client_libs \<Rightarrow> string \<Rightarrow> string \<Rightarrow> chunk list \<Rightarrow> go_error + 'u http_request" where
  "NewRegisterUserRequestWithBody L server contentType body =
     build_request L ''POST'' ''/auth/register'' server (Some contentType) body"

definition NewRegisterUserRequest ::
    "'u client_libs \<Rightarrow> string \<Rightarrow> api_RegisterRequest \<Rightarrow> go_error + 'u http_request" where
  "NewRegisterUserRequest L server body =
     on_ok (json_Marshal (json_RegisterRequest L) body)
       (\<lambda>buf. NewRegisterUserRequestWithBody L server ''application/json'' buf)"

definition NewGetCurrentUserRequest :: "'u client_libs \<Rightarrow> string \<Rightarrow> go_error + 'u http_request" where
  "NewGetCurrentUserRequest L server =
     build_request L ''GET'' ''/me'' server None []"

definition NewListTodosRequest :: "'u client_libs \<Rightarrow> string \<Rightarrow> go_error + 'u http_request" where
  "NewListTodosRequest L server =
     build_request L ''GET'' ''/todos'' server None []"

definition NewCreateTodoRequestWithBody ::
    "'u client_libs \<Rightarrow> string \<Rightarrow> string \<Rightarrow> chunk list \<Rightarrow> go_error + 'u http_request" where
  "NewCreateTodoRequestWithBody L server contentType body =
     build_request L ''POST'' ''/todos'' server (Some contentType) body"

definition NewCreateTodoRequest ::
    "'u client_libs \<Rightarrow> string \<Rightarrow> api_CreateTodoRequest \<Rightarrow> go_error + 'u http_request" where
  "NewCreateTodoRequest L server body =
     on_ok (json_Marshal (json_CreateTodoRequest L) body)
       (\<lambda>buf. NewCreateTodoRequestWithBody L server ''application/json'' buf)"

definition NewDeleteTodoRequest :: "'u client_libs \<Rightarrow> string \<Rightarrow> uuid \<Rightarrow> go_error + 'u http_request" where
  "NewDeleteTodoRequest L server id' =
     on_ok (StyleParam L id') (\<lambda>pathParam0. build_request L ''DELETE'' (''/todos/'' @ pathParam0) server None [])"

definition NewGetTodoRequest :: "'u client_libs \<Rightarrow> string \<Rightarrow> uuid \<Rightarrow> go_error + 'u http_request" where
  "NewGetTodoRequest L server id' =
     on_ok (StyleParam L id') (\<lambda>pathParam0. build_request L ''GET'' (''/todos/'' @ pathParam0) server None [])"

definition NewUpdateTodoRequestWithBody ::
    "'u client_libs \<Rightarrow> string \<Rightarrow> uuid \<Rightarrow> string \<Rightarrow> chunk list \<Rightarrow> go_error + 'u http_request" where
  "NewUpdateTodoRequestWithBody L server id' contentType body =
     on_ok (StyleParam L id') (\<lambda>pathParam0. build_request L ''PATCH'' (''/todos/'' @ pathParam0) server (Some contentType) body)"

definition NewUpdateTodoRequest ::
    "'u client_libs \<Rightarrow> string \<Rightarrow> uuid \<Rightarrow> api_UpdateTodoRequest \<Rightarrow> go_error + 'u http_request" where
  "NewUpdateTodoRequest L server id' body =
     on_ok (json_Marshal (json_UpdateTodoRequest L) body)
       (\<lambda>buf. NewUpdateTodoRequestWithBody L server id' ''application/json'' buf)"

section \<open>Responses\<close>

record http_response =
  hr_StatusCode :: nat
  hr_Status :: string
  hr_Header :: "(string \<times> string) list"
  hr_Body :: "chunk list option"

section \<open>The client\<close>

type_synonym ('u, 'w) editor = "'u http_request \<Rightarrow> ('w, go_error + 'u http_request) state"
type_synonym ('u, 'w, 'r) call = "('u, 'w) editor list \<Rightarrow> ('w, go_error + 'r) state"
type_synonym ('u, 'w) doer = "'u http_request \<Rightarrow> ('w, go_error + http_response) state"

record ('u, 'w) Client =
  Client_Server :: string
  Client_Client :: "('u, 'w) doer option"
  Client_RequestEditors :: "('u, 'w) editor list"

type_synonym ('u, 'w) ClientOption = "('u, 'w) Client \<Rightarrow> go_error + ('u, 'w) Client"

fun apply_options :: "('u, 'w) ClientOption list \<Rightarrow> ('u, 'w) Client \<Rightarrow> go_error + ('u, 'w) Client" where
  "apply_options [] client = Inr client"
| "apply_options (o' # opts) client = on_ok (o' client) (apply_options opts)"

definition NewClient :: "('u, 'w) doer \<Rightarrow> string \<Rightarrow> ('u, 'w) ClientOption list \<Rightarrow> go_error + ('u, 'w) Client" where
  "NewClient http_Client server opts =
     on_ok (apply_options opts \<lparr>Client_Server = server, Client_Client = None, Client_RequestEditors = []\<rparr>)
       (\<lambda>client.
         let client = (if Client_Server client \<noteq> '''' \<and> List.last (Client_Server client) = CHR ''/'' then client
               else client\<lparr>Client_Server := Client_Server client @ ''/''\<rparr>);
             client = (case Client_Client client of
               None \<Rightarrow> client\<lparr>Client_Client := Some http_Client\<rparr> | Some d \<Rightarrow> client)
         in Inr client)"

definition WithHTTPClient :: "('u, 'w) doer \<Rightarrow> ('u, 'w) ClientOption" where
  "WithHTTPClient doer c = Inr (c\<lparr>Client_Client := Some doer\<rparr>)"

definition WithRequestEditorFn :: "('u, 'w) editor \<Rightarrow> ('u, 'w) ClientOption" where
  "WithRequestEditorFn fn c = Inr (c\<lparr>Client_RequestEditors := Client_RequestEditors c @ [fn]\<rparr>)"

definition WithBaseURL :: "'u client_libs \<Rightarrow> string \<Rightarrow> ('u, 'w) ClientOption" where
  "WithBaseURL L baseURL c =
     on_ok (url_Parse L baseURL) (\<lambda>newBaseURL. Inr (c\<lparr>Client_Server := URL_String L newBaseURL\<rparr>))"

fun run_editors :: "('u, 'w) editor list \<Rightarrow> ('u, 'w) editor" where
  "run_editors [] req = State_Monad.return (Inr req)"
| "run_editors (r # rs) req = tryE (r req) (run_editors rs)"

definition applyEditors :: "('u, 'w) Client \<Rightarrow> ('u, 'w) editor list \<Rightarrow> ('u, 'w) editor" where
  "applyEditors c additionalEditors req =
     tryE (run_editors (Client_RequestEditors c) req) (run_editors additionalEditors)"

text \<open>
  The steps every method takes with the request it built. A client that is not made by \<open>NewClient\<close> may
  have no \<open>HttpRequestDoer\<close>.
\<close>

definition client_call :: "('u, 'w) Client \<Rightarrow> go_error + 'u http_request \<Rightarrow> ('u, 'w, http_response) call" where
  "client_call c req reqEditors =
     (case req of
        Inl err \<Rightarrow> State_Monad.return (Inl err)
      | Inr req \<Rightarrow> tryE (applyEditors c reqEditors req) (\<lambda>req.
          case Client_Client c of None \<Rightarrow> State_Monad.return (Inl NilDereference) | Some Do \<Rightarrow> Do req))"

definition Client_ListApprovedUsers ::
    "'u client_libs \<Rightarrow> ('u, 'w) Client \<Rightarrow> ('u, 'w, http_response) call" where
  "Client_ListApprovedUsers L c = client_call c (NewListApprovedUsersRequest L (Client_Server c))"

definition Client_CreateApprovedUserWithBody ::
    "'u client_libs \<Rightarrow> ('u, 'w) Client \<Rightarrow> string \<Rightarrow> chunk list \<Rightarrow> ('u, 'w, http_response) call" where
  "Client_CreateApprovedUserWithBody L c contentType body =
     client_call c (NewCreateApprovedUserRequestWithBody L (Client_Server c) contentType body)"

definition Client_CreateApprovedUser ::
    "'u client_libs \<Rightarrow> ('u, 'w) Client \<Rightarrow> api_ApprovedUserRequest \<Rightarrow> ('u, 'w, http_response) call" where
  "Client_CreateApprovedUser L c body = client_call c (NewCreateApprovedUserRequest L (Client_Server c) body)"

definition Client_BulkCreateApprovedUsersWithBody ::
    "'u client_libs \<Rightarrow> ('u, 'w) Client \<Rightarrow> string \<Rightarrow> chunk list \<Rightarrow> ('u, 'w, http_response) call" where
  "Client_BulkCreateApprovedUsersWithBody L c contentType body =
     client_call c (NewBulkCreateApprovedUsersRequestWithBody L (Client_Server c) contentType body)"

definition Client_BulkCreateApprovedUsers ::
    "'u client_libs \<Rightarrow> ('u, 'w) Client \<Rightarrow> api_BulkApprovedUserRequest \<Rightarrow> ('u, 'w, http_response) call" where
  "Client_BulkCreateApprovedUsers L c body = client_call c (NewBulkCreateApprovedUsersRequest L (Client_Server c) body)"

definition Client_DeleteApprovedUser ::
    "'u client_libs \<Rightarrow> ('u, 'w) Client \<Rightarrow> uuid \<Rightarrow> ('u, 'w, http_response) call" where
  "Client_DeleteApprovedUser L c id' = client_call c (NewDeleteApprovedUserRequest L (Client_Server c) id')"

definition Client_LoginUserWithBody ::
    "'u client_libs \<Rightarrow> ('u, 'w) Client \<Rightarrow> string \<Rightarrow> chunk list \<Rightarrow> ('u, 'w, http_response) call" where
  "Client_LoginUserWithBody L c contentType body =
     client_call c (NewLoginUserRequestWithBody L (Client_Server c) contentType body)"

definition Client_LoginUser ::
    "'u client_libs \<Rightarrow> ('u, 'w) Client \<Rightarrow> api_LoginRequest \<Rightarrow> ('u, 'w, http_response) call" where
  "Client_LoginUser L c body = client_call c (NewLoginUserRequest L (Client_Server c) body)"

definition Client_RegisterUserWithBody ::
    "'u client_libs \<Rightarrow> ('u, 'w) Client \<Rightarrow> string \<Rightarrow> chunk list \<Rightarrow> ('u, 'w, http_response) call" where
  "Client_RegisterUserWithBody L c contentType body =
     client_call c (NewRegisterUserRequestWithBody L (Client_Server c) contentType body)"

definition Client_RegisterUser ::
    "'u client_libs \<Rightarrow> ('u, 'w) Client \<Rightarrow> api_RegisterRequest \<Rightarrow> ('u, 'w, http_response) call" where
  "Client_RegisterUser L c body = client_call c (NewRegisterUserRequest L (Client_Server c) body)"

definition Client_GetCurrentUser ::
    "'u client_libs \<Rightarrow> ('u, 'w) Client \<Rightarrow> ('u, 'w, http_response) call" where
  "Client_GetCurrentUser L c = client_call c (NewGetCurrentUserRequest L (Client_Server c))"

definition Client_ListTodos ::
    "'u client_libs \<Rightarrow> ('u, 'w) Client \<Rightarrow> ('u, 'w, http_response) call" where
  "Client_ListTodos L c = client_call c (NewListTodosRequest L (Client_Server c))"

definition Client_CreateTodoWithBody ::
    "'u client_libs \<Rightarrow> ('u, 'w) Client \<Rightarrow> string \<Rightarrow> chunk list \<Rightarrow> ('u, 'w, http_response) call" where
  "Client_CreateTodoWithBody L c contentType body =
     client_call c (NewCreateTodoRequestWithBody L (Client_Server c) contentType body)"

definition Client_CreateTodo ::
    "'u client_libs \<Rightarrow> ('u, 'w) Client \<Rightarrow> api_CreateTodoRequest \<Rightarrow> ('u, 'w, http_response) call" where
  "Client_CreateTodo L c body = client_call c (NewCreateTodoRequest L (Client_Server c) body)"

definition Client_DeleteTodo ::
    "'u client_libs \<Rightarrow> ('u, 'w) Client \<Rightarrow> uuid \<Rightarrow> ('u, 'w, http_response) call" where
  "Client_DeleteTodo L c id' = client_call c (NewDeleteTodoRequest L (Client_Server c) id')"

definition Client_GetTodo ::
    "'u client_libs \<Rightarrow> ('u, 'w) Client \<Rightarrow> uuid \<Rightarrow> ('u, 'w, http_response) call" where
  "Client_GetTodo L c id' = client_call c (NewGetTodoRequest L (Client_Server c) id')"

definition Client_UpdateTodoWithBody ::
    "'u client_libs \<Rightarrow> ('u, 'w) Client \<Rightarrow> uuid \<Rightarrow> string \<Rightarrow> chunk list \<Rightarrow> ('u, 'w, http_response) call" where
  "Client_UpdateTodoWithBody L c id' contentType body =
     client_call c (NewUpdateTodoRequestWithBody L (Client_Server c) id' contentType body)"

definition Client_UpdateTodo ::
    "'u client_libs \<Rightarrow> ('u, 'w) Client \<Rightarrow> uuid \<Rightarrow> api_UpdateTodoRequest \<Rightarrow> ('u, 'w, http_response) call" where
  "Client_UpdateTodo L c id' body = client_call c (NewUpdateTodoRequest L (Client_Server c) id' body)"

text \<open>The interface, and \<open>Client\<close> as its implementation.\<close>

record ('u, 'w) ClientInterface =
  ci_ListApprovedUsers :: "('u, 'w, http_response) call"
  ci_CreateApprovedUserWithBody :: "string \<Rightarrow> chunk list \<Rightarrow> ('u, 'w, http_response) call"
  ci_CreateApprovedUser :: "api_ApprovedUserRequest \<Rightarrow> ('u, 'w, http_response) call"
  ci_BulkCreateApprovedUsersWithBody :: "string \<Rightarrow> chunk list \<Rightarrow> ('u, 'w, http_response) call"
  ci_BulkCreateApprovedUsers :: "api_BulkApprovedUserRequest \<Rightarrow> ('u, 'w, http_response) call"
  ci_DeleteApprovedUser :: "uuid \<Rightarrow> ('u, 'w, http_response) call"
  ci_LoginUserWithBody :: "string \<Rightarrow> chunk list \<Rightarrow> ('u, 'w, http_response) call"
  ci_LoginUser :: "api_LoginRequest \<Rightarrow> ('u, 'w, http_response) call"
  ci_RegisterUserWithBody :: "string \<Rightarrow> chunk list \<Rightarrow> ('u, 'w, http_response) call"
  ci_RegisterUser :: "api_RegisterRequest \<Rightarrow> ('u, 'w, http_response) call"
  ci_GetCurrentUser :: "('u, 'w, http_response) call"
  ci_ListTodos :: "('u, 'w, http_response) call"
  ci_CreateTodoWithBody :: "string \<Rightarrow> chunk list \<Rightarrow> ('u, 'w, http_response) call"
  ci_CreateTodo :: "api_CreateTodoRequest \<Rightarrow> ('u, 'w, http_response) call"
  ci_DeleteTodo :: "uuid \<Rightarrow> ('u, 'w, http_response) call"
  ci_GetTodo :: "uuid \<Rightarrow> ('u, 'w, http_response) call"
  ci_UpdateTodoWithBody :: "uuid \<Rightarrow> string \<Rightarrow> chunk list \<Rightarrow> ('u, 'w, http_response) call"
  ci_UpdateTodo :: "uuid \<Rightarrow> api_UpdateTodoRequest \<Rightarrow> ('u, 'w, http_response) call"

definition client_interface :: "'u client_libs \<Rightarrow> ('u, 'w) Client \<Rightarrow> ('u, 'w) ClientInterface" where
  "client_interface L c =
     \<lparr>ci_ListApprovedUsers = Client_ListApprovedUsers L c,
      ci_CreateApprovedUserWithBody = Client_CreateApprovedUserWithBody L c,
      ci_CreateApprovedUser = Client_CreateApprovedUser L c,
      ci_BulkCreateApprovedUsersWithBody = Client_BulkCreateApprovedUsersWithBody L c,
      ci_BulkCreateApprovedUsers = Client_BulkCreateApprovedUsers L c,
      ci_DeleteApprovedUser = Client_DeleteApprovedUser L c,
      ci_LoginUserWithBody = Client_LoginUserWithBody L c,
      ci_LoginUser = Client_LoginUser L c,
      ci_RegisterUserWithBody = Client_RegisterUserWithBody L c,
      ci_RegisterUser = Client_RegisterUser L c,
      ci_GetCurrentUser = Client_GetCurrentUser L c,
      ci_ListTodos = Client_ListTodos L c,
      ci_CreateTodoWithBody = Client_CreateTodoWithBody L c,
      ci_CreateTodo = Client_CreateTodo L c,
      ci_DeleteTodo = Client_DeleteTodo L c,
      ci_GetTodo = Client_GetTodo L c,
      ci_UpdateTodoWithBody = Client_UpdateTodoWithBody L c,
      ci_UpdateTodo = Client_UpdateTodo L c\<rparr>"

end
