(* ===== verification/Client_Responses.thy ===== *)
theory Client_Responses
  imports Client
begin

text \<open>
  The answers of the generated client, \<open>internal/api/client.gen.go\<close>: the wrapper of the response of each
  operation, its parsing by status and content type, and the client that answers wrappers.
\<close>

section \<open>Decoding the response types\<close>

text \<open>\<open>json.Unmarshal\<close> skips the members that name no field.\<close>

fun read_members :: "'r fields \<Rightarrow> (string \<times> json) list \<Rightarrow> 'r \<Rightarrow> 'r option" where
  "read_members fs [] r = Some r"
| "read_members fs ((key, v) # kvs) r =
     (case find_field fs key of
        None \<Rightarrow> read_members fs kvs r
      | Some setter \<Rightarrow> (case setter v r of None \<Rightarrow> None | Some r' \<Rightarrow> read_members fs kvs r'))"

definition read_struct :: "'r fields \<Rightarrow> 'r \<Rightarrow> json \<Rightarrow> 'r option" where
  "read_struct fs r v = (case v of JNull \<Rightarrow> Some r | JObj kvs \<Rightarrow> read_members fs kvs r | _ \<Rightarrow> None)"

definition read_list :: "'r fields \<Rightarrow> 'r \<Rightarrow> json \<Rightarrow> 'r list option" where
  "read_list fs zero v =
     (case v of
        JNull \<Rightarrow> Some []
      | JList vs \<Rightarrow> unmarshal_elems (\<lambda>v r. read_struct fs r v) zero vs []
      | _ \<Rightarrow> None)"

definition set_bool :: "(bool \<Rightarrow> 'r \<Rightarrow> 'r) \<Rightarrow> json \<Rightarrow> 'r \<Rightarrow> 'r option" where
  "set_bool put v r = (case v of JBool b \<Rightarrow> Some (put b r) | JNull \<Rightarrow> Some r | _ \<Rightarrow> None)"

definition set_time :: "json_libs \<Rightarrow> (go_time \<Rightarrow> 'r \<Rightarrow> 'r) \<Rightarrow> json \<Rightarrow> 'r \<Rightarrow> 'r option" where
  "set_time J put v r =
     (case v of
        JStr s \<Rightarrow> map_option (\<lambda>t. put t r) (Time_UnmarshalJSON J s)
      | JNull \<Rightarrow> Some r
      | _ \<Rightarrow> None)"

definition set_strings :: "('r \<Rightarrow> string list) \<Rightarrow> (string list \<Rightarrow> 'r \<Rightarrow> 'r) \<Rightarrow> json \<Rightarrow> 'r \<Rightarrow> 'r option" where
  "set_strings get put v r =
     (case v of
        JNull \<Rightarrow> Some (put [] r)
      | JList vs \<Rightarrow> map_option (\<lambda>ss. put ss r) (unmarshal_elems (set_string (\<lambda>s _. s)) '''' vs (get r))
      | _ \<Rightarrow> None)"

record api_Error =
  err_Detail :: string

definition read_Error :: "json \<Rightarrow> api_Error option" where
  "read_Error = read_struct [(''detail'', set_string (\<lambda>x r. r\<lparr>err_Detail := x\<rparr>))] \<lparr>err_Detail = ''''\<rparr>"

definition read_AuthResponse :: "json \<Rightarrow> api_AuthResponse option" where
  "read_AuthResponse = read_struct
     [(''token'', set_string (\<lambda>x r. r\<lparr>authr_Token := x\<rparr>)),
      (''token_type'', set_string (\<lambda>x r. r\<lparr>authr_TokenType := x\<rparr>))]
     \<lparr>authr_Token = '''', authr_TokenType = ''''\<rparr>"

text \<open>The zero value of \<open>time.Time\<close> is the first instant of the year 1.\<close>

definition zero_time :: go_time where
  "zero_time = - 62135596800 * Second"

definition zero_ApprovedUserResponse :: api_ApprovedUserResponse where
  "zero_ApprovedUserResponse = \<lparr>apr_CreatedAt = zero_time, apr_Email = '''', apr_FirstName = '''',
     apr_Id = '''', apr_UpdatedAt = zero_time\<rparr>"

definition fields_ApprovedUserResponse :: "json_libs \<Rightarrow> api_ApprovedUserResponse fields" where
  "fields_ApprovedUserResponse J =
     [(''created_at'', set_time J (\<lambda>x r. r\<lparr>apr_CreatedAt := x\<rparr>)),
      (''email'', set_string (\<lambda>x r. r\<lparr>apr_Email := x\<rparr>)),
      (''first_name'', set_string (\<lambda>x r. r\<lparr>apr_FirstName := x\<rparr>)),
      (''id'', set_string (\<lambda>x r. r\<lparr>apr_Id := x\<rparr>)),
      (''updated_at'', set_time J (\<lambda>x r. r\<lparr>apr_UpdatedAt := x\<rparr>))]"

definition read_ApprovedUserResponse :: "json_libs \<Rightarrow> json \<Rightarrow> api_ApprovedUserResponse option" where
  "read_ApprovedUserResponse J = read_struct (fields_ApprovedUserResponse J) zero_ApprovedUserResponse"

definition zero_TodoResponse :: api_TodoResponse where
  "zero_TodoResponse = \<lparr>tdr_CreatedAt = zero_time, tdr_Description = None, tdr_DueDate = None,
     tdr_Id = '''', tdr_IsCompleted = False, tdr_Title = '''', tdr_UpdatedAt = zero_time, tdr_UserId = ''''\<rparr>"

definition fields_TodoResponse :: "json_libs \<Rightarrow> api_TodoResponse fields" where
  "fields_TodoResponse J =
     [(''created_at'', set_time J (\<lambda>x r. r\<lparr>tdr_CreatedAt := x\<rparr>)),
      (''description'', set_string_ptr (\<lambda>x r. r\<lparr>tdr_Description := x\<rparr>)),
      (''due_date'', set_time_ptr J (\<lambda>x r. r\<lparr>tdr_DueDate := x\<rparr>)),
      (''id'', set_string (\<lambda>x r. r\<lparr>tdr_Id := x\<rparr>)),
      (''is_completed'', set_bool (\<lambda>x r. r\<lparr>tdr_IsCompleted := x\<rparr>)),
      (''title'', set_string (\<lambda>x r. r\<lparr>tdr_Title := x\<rparr>)),
      (''updated_at'', set_time J (\<lambda>x r. r\<lparr>tdr_UpdatedAt := x\<rparr>)),
      (''user_id'', set_string (\<lambda>x r. r\<lparr>tdr_UserId := x\<rparr>))]"

definition read_TodoResponse :: "json_libs \<Rightarrow> json \<Rightarrow> api_TodoResponse option" where
  "read_TodoResponse J = read_struct (fields_TodoResponse J) zero_TodoResponse"

definition read_UserResponse :: "json_libs \<Rightarrow> json \<Rightarrow> api_UserResponse option" where
  "read_UserResponse J = read_struct
     [(''created_at'', set_time J (\<lambda>x r. r\<lparr>usr_CreatedAt := x\<rparr>)),
      (''email'', set_string (\<lambda>x r. r\<lparr>usr_Email := x\<rparr>)),
      (''first_name'', set_string (\<lambda>x r. r\<lparr>usr_FirstName := x\<rparr>)),
      (''id'', set_string (\<lambda>x r. r\<lparr>usr_Id := x\<rparr>)),
      (''is_active'', set_bool (\<lambda>x r. r\<lparr>usr_IsActive := x\<rparr>)),
      (''roles'', set_strings usr_Roles (\<lambda>x r. r\<lparr>usr_Roles := x\<rparr>))]
     \<lparr>usr_CreatedAt = zero_time, usr_Email = '''', usr_FirstName = '''', usr_Id = '''',
      usr_IsActive = False, usr_Roles = []\<rparr>"

section \<open>The wrappers\<close>

text \<open>
  The fields all wrappers have; the selectors of the records are the getters of the source. A wrapper
  without an HTTP response answers the zero values.
\<close>

record client_answer =
  ans_Body :: "chunk list"
  ans_HTTPResponse :: "http_response option"

definition StatusCode :: "'a client_answer_scheme \<Rightarrow> nat" where
  "StatusCode r = (case ans_HTTPResponse r of Some rsp \<Rightarrow> hr_StatusCode rsp | None \<Rightarrow> 0)"

definition Status :: "'a client_answer_scheme \<Rightarrow> string" where
  "Status r = (case ans_HTTPResponse r of Some rsp \<Rightarrow> hr_Status rsp | None \<Rightarrow> '''')"

definition response_header :: "http_response \<Rightarrow> string \<Rightarrow> string" where
  "response_header rsp k = (case map_of (hr_Header rsp) (canonical_key k) of None \<Rightarrow> '''' | Some v \<Rightarrow> v)"

definition ContentType :: "'a client_answer_scheme \<Rightarrow> string" where
  "ContentType r =
     (case ans_HTTPResponse r of Some rsp \<Rightarrow> response_header rsp ''Content-Type'' | None \<Rightarrow> '''')"

record ListApprovedUsersResponse = client_answer +
  ListApprovedUsers_JSON200 :: "api_ApprovedUserResponse list option"
  ListApprovedUsers_JSON401 :: "api_Error option"
  ListApprovedUsers_JSON403 :: "api_Error option"
  ListApprovedUsers_JSON500 :: "api_Error option"

record CreateApprovedUserResponse = client_answer +
  CreateApprovedUser_JSON201 :: "api_ApprovedUserResponse option"
  CreateApprovedUser_JSON400 :: "api_Error option"
  CreateApprovedUser_JSON401 :: "api_Error option"
  CreateApprovedUser_JSON403 :: "api_Error option"
  CreateApprovedUser_JSON409 :: "api_Error option"
  CreateApprovedUser_JSON500 :: "api_Error option"

record BulkCreateApprovedUsersResponse = client_answer +
  BulkCreateApprovedUsers_JSON201 :: "api_ApprovedUserResponse list option"
  BulkCreateApprovedUsers_JSON400 :: "api_Error option"
  BulkCreateApprovedUsers_JSON401 :: "api_Error option"
  BulkCreateApprovedUsers_JSON403 :: "api_Error option"
  BulkCreateApprovedUsers_JSON500 :: "api_Error option"

record DeleteApprovedUserResponse = client_answer +
  DeleteApprovedUser_JSON400 :: "api_Error option"
  DeleteApprovedUser_JSON401 :: "api_Error option"
  DeleteApprovedUser_JSON403 :: "api_Error option"
  DeleteApprovedUser_JSON404 :: "api_Error option"
  DeleteApprovedUser_JSON500 :: "api_Error option"

record LoginUserResponse = client_answer +
  LoginUser_JSON200 :: "api_AuthResponse option"
  LoginUser_JSON400 :: "api_Error option"
  LoginUser_JSON401 :: "api_Error option"
  LoginUser_JSON500 :: "api_Error option"

record RegisterUserResponse = client_answer +
  RegisterUser_JSON201 :: "api_AuthResponse option"
  RegisterUser_JSON400 :: "api_Error option"
  RegisterUser_JSON404 :: "api_Error option"
  RegisterUser_JSON409 :: "api_Error option"
  RegisterUser_JSON500 :: "api_Error option"

record GetCurrentUserResponse = client_answer +
  GetCurrentUser_JSON200 :: "api_UserResponse option"
  GetCurrentUser_JSON401 :: "api_Error option"

record ListTodosResponse = client_answer +
  ListTodos_JSON200 :: "api_TodoResponse list option"
  ListTodos_JSON401 :: "api_Error option"
  ListTodos_JSON500 :: "api_Error option"

record CreateTodoResponse = client_answer +
  CreateTodo_JSON201 :: "api_TodoResponse option"
  CreateTodo_JSON400 :: "api_Error option"
  CreateTodo_JSON401 :: "api_Error option"
  CreateTodo_JSON500 :: "api_Error option"

record DeleteTodoResponse = client_answer +
  DeleteTodo_JSON400 :: "api_Error option"
  DeleteTodo_JSON401 :: "api_Error option"
  DeleteTodo_JSON404 :: "api_Error option"
  DeleteTodo_JSON500 :: "api_Error option"

record GetTodoResponse = client_answer +
  GetTodo_JSON200 :: "api_TodoResponse option"
  GetTodo_JSON400 :: "api_Error option"
  GetTodo_JSON401 :: "api_Error option"
  GetTodo_JSON404 :: "api_Error option"
  GetTodo_JSON500 :: "api_Error option"

record UpdateTodoResponse = client_answer +
  UpdateTodo_JSON200 :: "api_TodoResponse option"
  UpdateTodo_JSON400 :: "api_Error option"
  UpdateTodo_JSON401 :: "api_Error option"
  UpdateTodo_JSON404 :: "api_Error option"
  UpdateTodo_JSON500 :: "api_Error option"

section \<open>Parsing\<close>

text \<open>\<open>strings.Contains\<close>.\<close>

fun contains :: "string \<Rightarrow> string \<Rightarrow> bool" where
  "contains s [] = (s = [])"
| "contains s (c # t) = (take (length s) (c # t) = s \<or> contains s t)"

text \<open>
  A case of the switch: the statuses and the content type it takes, and what it makes of the body.
  The status 204 has no content type.
\<close>

record 'r answer_case =
  ac_Code :: nat
  ac_JSON :: bool
  ac_Put :: "json option \<Rightarrow> 'r \<Rightarrow> 'r option"

definition json_case :: "nat \<Rightarrow> (json \<Rightarrow> 'a option) \<Rightarrow> ('a \<Rightarrow> 'r \<Rightarrow> 'r) \<Rightarrow> 'r answer_case" where
  "json_case code read put = \<lparr>ac_Code = code, ac_JSON = True, ac_Put = (\<lambda>v r.
     case v of None \<Rightarrow> None | Some v \<Rightarrow> map_option (\<lambda>dest. put dest r) (read v))\<rparr>"

definition no_content :: "nat \<Rightarrow> 'r answer_case" where
  "no_content code = \<lparr>ac_Code = code, ac_JSON = False, ac_Put = (\<lambda>v r. Some r)\<rparr>"

fun switch_cases :: "http_response \<Rightarrow> json option \<Rightarrow> 'r answer_case list \<Rightarrow> 'r \<Rightarrow> go_error + 'r" where
  "switch_cases rsp v [] r = Inr r"
| "switch_cases rsp v (c # cs) r =
     (if (ac_JSON c \<longrightarrow> contains ''json'' (response_header rsp ''Content-Type'')) \<and> hr_StatusCode rsp = ac_Code c
      then (case ac_Put c v r of None \<Rightarrow> Inl (ErrText ''json: cannot unmarshal'') | Some r' \<Rightarrow> Inr r')
      else switch_cases rsp v cs r)"

definition parse_response ::
    "'u client_libs \<Rightarrow> http_response \<Rightarrow> (chunk list \<Rightarrow> 'r) \<Rightarrow> 'r answer_case list \<Rightarrow> go_error + 'r" where
  "parse_response L rsp response cs =
     (case hr_Body rsp of
        None \<Rightarrow> Inl (ErrText ''unexpected EOF'')
      | Some bodyBytes \<Rightarrow> switch_cases rsp (json_Parse L bodyBytes) cs (response bodyBytes))"

definition ParseListApprovedUsersResponse :: "'u client_libs \<Rightarrow> http_response \<Rightarrow> go_error + ListApprovedUsersResponse" where
  "ParseListApprovedUsersResponse L rsp = parse_response L rsp
     (\<lambda>bodyBytes. \<lparr>ans_Body = bodyBytes, ans_HTTPResponse = Some rsp,
        ListApprovedUsers_JSON200 = None, ListApprovedUsers_JSON401 = None, ListApprovedUsers_JSON403 = None,
        ListApprovedUsers_JSON500 = None\<rparr>)
     [json_case 200 (read_list (fields_ApprovedUserResponse (client_json L)) zero_ApprovedUserResponse)
         (\<lambda>dest r. r\<lparr>ListApprovedUsers_JSON200 := Some dest\<rparr>),
      json_case 401 read_Error (\<lambda>dest r. r\<lparr>ListApprovedUsers_JSON401 := Some dest\<rparr>),
      json_case 403 read_Error (\<lambda>dest r. r\<lparr>ListApprovedUsers_JSON403 := Some dest\<rparr>),
      json_case 500 read_Error (\<lambda>dest r. r\<lparr>ListApprovedUsers_JSON500 := Some dest\<rparr>)]"

definition ParseCreateApprovedUserResponse :: "'u client_libs \<Rightarrow> http_response \<Rightarrow> go_error + CreateApprovedUserResponse" where
  "ParseCreateApprovedUserResponse L rsp = parse_response L rsp
     (\<lambda>bodyBytes. \<lparr>ans_Body = bodyBytes, ans_HTTPResponse = Some rsp,
        CreateApprovedUser_JSON201 = None, CreateApprovedUser_JSON400 = None, CreateApprovedUser_JSON401 = None,
        CreateApprovedUser_JSON403 = None, CreateApprovedUser_JSON409 = None, CreateApprovedUser_JSON500 = None\<rparr>)
     [json_case 201 (read_ApprovedUserResponse (client_json L))
         (\<lambda>dest r. r\<lparr>CreateApprovedUser_JSON201 := Some dest\<rparr>),
      json_case 400 read_Error (\<lambda>dest r. r\<lparr>CreateApprovedUser_JSON400 := Some dest\<rparr>),
      json_case 401 read_Error (\<lambda>dest r. r\<lparr>CreateApprovedUser_JSON401 := Some dest\<rparr>),
      json_case 403 read_Error (\<lambda>dest r. r\<lparr>CreateApprovedUser_JSON403 := Some dest\<rparr>),
      json_case 409 read_Error (\<lambda>dest r. r\<lparr>CreateApprovedUser_JSON409 := Some dest\<rparr>),
      json_case 500 read_Error (\<lambda>dest r. r\<lparr>CreateApprovedUser_JSON500 := Some dest\<rparr>)]"

definition ParseBulkCreateApprovedUsersResponse :: "'u client_libs \<Rightarrow> http_response \<Rightarrow> go_error + BulkCreateApprovedUsersResponse" where
  "ParseBulkCreateApprovedUsersResponse L rsp = parse_response L rsp
     (\<lambda>bodyBytes. \<lparr>ans_Body = bodyBytes, ans_HTTPResponse = Some rsp,
        BulkCreateApprovedUsers_JSON201 = None, BulkCreateApprovedUsers_JSON400 = None, BulkCreateApprovedUsers_JSON401 = None,
        BulkCreateApprovedUsers_JSON403 = None, BulkCreateApprovedUsers_JSON500 = None\<rparr>)
     [json_case 201 (read_list (fields_ApprovedUserResponse (client_json L)) zero_ApprovedUserResponse)
         (\<lambda>dest r. r\<lparr>BulkCreateApprovedUsers_JSON201 := Some dest\<rparr>),
      json_case 400 read_Error (\<lambda>dest r. r\<lparr>BulkCreateApprovedUsers_JSON400 := Some dest\<rparr>),
      json_case 401 read_Error (\<lambda>dest r. r\<lparr>BulkCreateApprovedUsers_JSON401 := Some dest\<rparr>),
      json_case 403 read_Error (\<lambda>dest r. r\<lparr>BulkCreateApprovedUsers_JSON403 := Some dest\<rparr>),
      json_case 500 read_Error (\<lambda>dest r. r\<lparr>BulkCreateApprovedUsers_JSON500 := Some dest\<rparr>)]"

definition ParseDeleteApprovedUserResponse :: "'u client_libs \<Rightarrow> http_response \<Rightarrow> go_error + DeleteApprovedUserResponse" where
  "ParseDeleteApprovedUserResponse L rsp = parse_response L rsp
     (\<lambda>bodyBytes. \<lparr>ans_Body = bodyBytes, ans_HTTPResponse = Some rsp,
        DeleteApprovedUser_JSON400 = None, DeleteApprovedUser_JSON401 = None, DeleteApprovedUser_JSON403 = None,
        DeleteApprovedUser_JSON404 = None, DeleteApprovedUser_JSON500 = None\<rparr>)
     [no_content 204,
      json_case 400 read_Error (\<lambda>dest r. r\<lparr>DeleteApprovedUser_JSON400 := Some dest\<rparr>),
      json_case 401 read_Error (\<lambda>dest r. r\<lparr>DeleteApprovedUser_JSON401 := Some dest\<rparr>),
      json_case 403 read_Error (\<lambda>dest r. r\<lparr>DeleteApprovedUser_JSON403 := Some dest\<rparr>),
      json_case 404 read_Error (\<lambda>dest r. r\<lparr>DeleteApprovedUser_JSON404 := Some dest\<rparr>),
      json_case 500 read_Error (\<lambda>dest r. r\<lparr>DeleteApprovedUser_JSON500 := Some dest\<rparr>)]"

definition ParseLoginUserResponse :: "'u client_libs \<Rightarrow> http_response \<Rightarrow> go_error + LoginUserResponse" where
  "ParseLoginUserResponse L rsp = parse_response L rsp
     (\<lambda>bodyBytes. \<lparr>ans_Body = bodyBytes, ans_HTTPResponse = Some rsp,
        LoginUser_JSON200 = None, LoginUser_JSON400 = None, LoginUser_JSON401 = None,
        LoginUser_JSON500 = None\<rparr>)
     [json_case 200 read_AuthResponse
         (\<lambda>dest r. r\<lparr>LoginUser_JSON200 := Some dest\<rparr>),
      json_case 400 read_Error (\<lambda>dest r. r\<lparr>LoginUser_JSON400 := Some dest\<rparr>),
      json_case 401 read_Error (\<lambda>dest r. r\<lparr>LoginUser_JSON401 := Some dest\<rparr>),
      json_case 500 read_Error (\<lambda>dest r. r\<lparr>LoginUser_JSON500 := Some dest\<rparr>)]"

definition ParseRegisterUserResponse :: "'u client_libs \<Rightarrow> http_response \<Rightarrow> go_error + RegisterUserResponse" where
  "ParseRegisterUserResponse L rsp = parse_response L rsp
     (\<lambda>bodyBytes. \<lparr>ans_Body = bodyBytes, ans_HTTPResponse = Some rsp,
        RegisterUser_JSON201 = None, RegisterUser_JSON400 = None, RegisterUser_JSON404 = None,
        RegisterUser_JSON409 = None, RegisterUser_JSON500 = None\<rparr>)
     [json_case 201 read_AuthResponse
         (\<lambda>dest r. r\<lparr>RegisterUser_JSON201 := Some dest\<rparr>),
      json_case 400 read_Error (\<lambda>dest r. r\<lparr>RegisterUser_JSON400 := Some dest\<rparr>),
      json_case 404 read_Error (\<lambda>dest r. r\<lparr>RegisterUser_JSON404 := Some dest\<rparr>),
      json_case 409 read_Error (\<lambda>dest r. r\<lparr>RegisterUser_JSON409 := Some dest\<rparr>),
      json_case 500 read_Error (\<lambda>dest r. r\<lparr>RegisterUser_JSON500 := Some dest\<rparr>)]"

definition ParseGetCurrentUserResponse :: "'u client_libs \<Rightarrow> http_response \<Rightarrow> go_error + GetCurrentUserResponse" where
  "ParseGetCurrentUserResponse L rsp = parse_response L rsp
     (\<lambda>bodyBytes. \<lparr>ans_Body = bodyBytes, ans_HTTPResponse = Some rsp,
        GetCurrentUser_JSON200 = None, GetCurrentUser_JSON401 = None\<rparr>)
     [json_case 200 (read_UserResponse (client_json L))
         (\<lambda>dest r. r\<lparr>GetCurrentUser_JSON200 := Some dest\<rparr>),
      json_case 401 read_Error (\<lambda>dest r. r\<lparr>GetCurrentUser_JSON401 := Some dest\<rparr>)]"

definition ParseListTodosResponse :: "'u client_libs \<Rightarrow> http_response \<Rightarrow> go_error + ListTodosResponse" where
  "ParseListTodosResponse L rsp = parse_response L rsp
     (\<lambda>bodyBytes. \<lparr>ans_Body = bodyBytes, ans_HTTPResponse = Some rsp,
        ListTodos_JSON200 = None, ListTodos_JSON401 = None, ListTodos_JSON500 = None\<rparr>)
     [json_case 200 (read_list (fields_TodoResponse (client_json L)) zero_TodoResponse)
         (\<lambda>dest r. r\<lparr>ListTodos_JSON200 := Some dest\<rparr>),
      json_case 401 read_Error (\<lambda>dest r. r\<lparr>ListTodos_JSON401 := Some dest\<rparr>),
      json_case 500 read_Error (\<lambda>dest r. r\<lparr>ListTodos_JSON500 := Some dest\<rparr>)]"

definition ParseCreateTodoResponse :: "'u client_libs \<Rightarrow> http_response \<Rightarrow> go_error + CreateTodoResponse" where
  "ParseCreateTodoResponse L rsp = parse_response L rsp
     (\<lambda>bodyBytes. \<lparr>ans_Body = bodyBytes, ans_HTTPResponse = Some rsp,
        CreateTodo_JSON201 = None, CreateTodo_JSON400 = None, CreateTodo_JSON401 = None,
        CreateTodo_JSON500 = None\<rparr>)
     [json_case 201 (read_TodoResponse (client_json L))
         (\<lambda>dest r. r\<lparr>CreateTodo_JSON201 := Some dest\<rparr>),
      json_case 400 read_Error (\<lambda>dest r. r\<lparr>CreateTodo_JSON400 := Some dest\<rparr>),
      json_case 401 read_Error (\<lambda>dest r. r\<lparr>CreateTodo_JSON401 := Some dest\<rparr>),
      json_case 500 read_Error (\<lambda>dest r. r\<lparr>CreateTodo_JSON500 := Some dest\<rparr>)]"

definition ParseDeleteTodoResponse :: "'u client_libs \<Rightarrow> http_response \<Rightarrow> go_error + DeleteTodoResponse" where
  "ParseDeleteTodoResponse L rsp = parse_response L rsp
     (\<lambda>bodyBytes. \<lparr>ans_Body = bodyBytes, ans_HTTPResponse = Some rsp,
        DeleteTodo_JSON400 = None, DeleteTodo_JSON401 = None, DeleteTodo_JSON404 = None,
        DeleteTodo_JSON500 = None\<rparr>)
     [no_content 204,
      json_case 400 read_Error (\<lambda>dest r. r\<lparr>DeleteTodo_JSON400 := Some dest\<rparr>),
      json_case 401 read_Error (\<lambda>dest r. r\<lparr>DeleteTodo_JSON401 := Some dest\<rparr>),
      json_case 404 read_Error (\<lambda>dest r. r\<lparr>DeleteTodo_JSON404 := Some dest\<rparr>),
      json_case 500 read_Error (\<lambda>dest r. r\<lparr>DeleteTodo_JSON500 := Some dest\<rparr>)]"

definition ParseGetTodoResponse :: "'u client_libs \<Rightarrow> http_response \<Rightarrow> go_error + GetTodoResponse" where
  "ParseGetTodoResponse L rsp = parse_response L rsp
     (\<lambda>bodyBytes. \<lparr>ans_Body = bodyBytes, ans_HTTPResponse = Some rsp,
        GetTodo_JSON200 = None, GetTodo_JSON400 = None, GetTodo_JSON401 = None,
        GetTodo_JSON404 = None, GetTodo_JSON500 = None\<rparr>)
     [json_case 200 (read_TodoResponse (client_json L))
         (\<lambda>dest r. r\<lparr>GetTodo_JSON200 := Some dest\<rparr>),
      json_case 400 read_Error (\<lambda>dest r. r\<lparr>GetTodo_JSON400 := Some dest\<rparr>),
      json_case 401 read_Error (\<lambda>dest r. r\<lparr>GetTodo_JSON401 := Some dest\<rparr>),
      json_case 404 read_Error (\<lambda>dest r. r\<lparr>GetTodo_JSON404 := Some dest\<rparr>),
      json_case 500 read_Error (\<lambda>dest r. r\<lparr>GetTodo_JSON500 := Some dest\<rparr>)]"

definition ParseUpdateTodoResponse :: "'u client_libs \<Rightarrow> http_response \<Rightarrow> go_error + UpdateTodoResponse" where
  "ParseUpdateTodoResponse L rsp = parse_response L rsp
     (\<lambda>bodyBytes. \<lparr>ans_Body = bodyBytes, ans_HTTPResponse = Some rsp,
        UpdateTodo_JSON200 = None, UpdateTodo_JSON400 = None, UpdateTodo_JSON401 = None,
        UpdateTodo_JSON404 = None, UpdateTodo_JSON500 = None\<rparr>)
     [json_case 200 (read_TodoResponse (client_json L))
         (\<lambda>dest r. r\<lparr>UpdateTodo_JSON200 := Some dest\<rparr>),
      json_case 400 read_Error (\<lambda>dest r. r\<lparr>UpdateTodo_JSON400 := Some dest\<rparr>),
      json_case 401 read_Error (\<lambda>dest r. r\<lparr>UpdateTodo_JSON401 := Some dest\<rparr>),
      json_case 404 read_Error (\<lambda>dest r. r\<lparr>UpdateTodo_JSON404 := Some dest\<rparr>),
      json_case 500 read_Error (\<lambda>dest r. r\<lparr>UpdateTodo_JSON500 := Some dest\<rparr>)]"

section \<open>The client with responses\<close>

definition with_response ::
    "('w, go_error + http_response) state \<Rightarrow> (http_response \<Rightarrow> go_error + 'r) \<Rightarrow> ('w, go_error + 'r) state" where
  "with_response m parse = tryE m (\<lambda>rsp. State_Monad.return (parse rsp))"

definition NewClientWithResponses :: "'u client_libs \<Rightarrow> ('u, 'w) doer \<Rightarrow> string \<Rightarrow> ('u, 'w) ClientOption list \<Rightarrow>
    go_error + ('u, 'w) ClientInterface" where
  "NewClientWithResponses L http_Client server opts =
     on_ok (NewClient http_Client server opts) (\<lambda>client. Inr (client_interface L client))"

definition ListApprovedUsersWithResponse ::
    "'u client_libs \<Rightarrow> ('u, 'w) ClientInterface \<Rightarrow> ('u, 'w, ListApprovedUsersResponse) call" where
  "ListApprovedUsersWithResponse L c reqEditors =
     with_response (ci_ListApprovedUsers c reqEditors) (ParseListApprovedUsersResponse L)"

definition CreateApprovedUserWithBodyWithResponse ::
    "'u client_libs \<Rightarrow> ('u, 'w) ClientInterface \<Rightarrow> string \<Rightarrow> chunk list \<Rightarrow> ('u, 'w, CreateApprovedUserResponse) call" where
  "CreateApprovedUserWithBodyWithResponse L c contentType body reqEditors =
     with_response (ci_CreateApprovedUserWithBody c contentType body reqEditors) (ParseCreateApprovedUserResponse L)"

definition CreateApprovedUserWithResponse ::
    "'u client_libs \<Rightarrow> ('u, 'w) ClientInterface \<Rightarrow> api_ApprovedUserRequest \<Rightarrow> ('u, 'w, CreateApprovedUserResponse) call" where
  "CreateApprovedUserWithResponse L c body reqEditors =
     with_response (ci_CreateApprovedUser c body reqEditors) (ParseCreateApprovedUserResponse L)"

definition BulkCreateApprovedUsersWithBodyWithResponse ::
    "'u client_libs \<Rightarrow> ('u, 'w) ClientInterface \<Rightarrow> string \<Rightarrow> chunk list \<Rightarrow> ('u, 'w, BulkCreateApprovedUsersResponse) call" where
  "BulkCreateApprovedUsersWithBodyWithResponse L c contentType body reqEditors =
     with_response (ci_BulkCreateApprovedUsersWithBody c contentType body reqEditors) (ParseBulkCreateApprovedUsersResponse L)"

definition BulkCreateApprovedUsersWithResponse ::
    "'u client_libs \<Rightarrow> ('u, 'w) ClientInterface \<Rightarrow> api_BulkApprovedUserRequest \<Rightarrow> ('u, 'w, BulkCreateApprovedUsersResponse) call" where
  "BulkCreateApprovedUsersWithResponse L c body reqEditors =
     with_response (ci_BulkCreateApprovedUsers c body reqEditors) (ParseBulkCreateApprovedUsersResponse L)"

definition DeleteApprovedUserWithResponse ::
    "'u client_libs \<Rightarrow> ('u, 'w) ClientInterface \<Rightarrow> uuid \<Rightarrow> ('u, 'w, DeleteApprovedUserResponse) call" where
  "DeleteApprovedUserWithResponse L c id' reqEditors =
     with_response (ci_DeleteApprovedUser c id' reqEditors) (ParseDeleteApprovedUserResponse L)"

definition LoginUserWithBodyWithResponse ::
    "'u client_libs \<Rightarrow> ('u, 'w) ClientInterface \<Rightarrow> string \<Rightarrow> chunk list \<Rightarrow> ('u, 'w, LoginUserResponse) call" where
  "LoginUserWithBodyWithResponse L c contentType body reqEditors =
     with_response (ci_LoginUserWithBody c contentType body reqEditors) (ParseLoginUserResponse L)"

definition LoginUserWithResponse ::
    "'u client_libs \<Rightarrow> ('u, 'w) ClientInterface \<Rightarrow> api_LoginRequest \<Rightarrow> ('u, 'w, LoginUserResponse) call" where
  "LoginUserWithResponse L c body reqEditors =
     with_response (ci_LoginUser c body reqEditors) (ParseLoginUserResponse L)"

definition RegisterUserWithBodyWithResponse ::
    "'u client_libs \<Rightarrow> ('u, 'w) ClientInterface \<Rightarrow> string \<Rightarrow> chunk list \<Rightarrow> ('u, 'w, RegisterUserResponse) call" where
  "RegisterUserWithBodyWithResponse L c contentType body reqEditors =
     with_response (ci_RegisterUserWithBody c contentType body reqEditors) (ParseRegisterUserResponse L)"

definition RegisterUserWithResponse ::
    "'u client_libs \<Rightarrow> ('u, 'w) ClientInterface \<Rightarrow> api_RegisterRequest \<Rightarrow> ('u, 'w, RegisterUserResponse) call" where
  "RegisterUserWithResponse L c body reqEditors =
     with_response (ci_RegisterUser c body reqEditors) (ParseRegisterUserResponse L)"

definition GetCurrentUserWithResponse ::
    "'u client_libs \<Rightarrow> ('u, 'w) ClientInterface \<Rightarrow> ('u, 'w, GetCurrentUserResponse) call" where
  "GetCurrentUserWithResponse L c reqEditors =
     with_response (ci_GetCurrentUser c reqEditors) (ParseGetCurrentUserResponse L)"

definition ListTodosWithResponse ::
    "'u client_libs \<Rightarrow> ('u, 'w) ClientInterface \<Rightarrow> ('u, 'w, ListTodosResponse) call" where
  "ListTodosWithResponse L c reqEditors =
     with_response (ci_ListTodos c reqEditors) (ParseListTodosResponse L)"

definition CreateTodoWithBodyWithResponse ::
    "'u client_libs \<Rightarrow> ('u, 'w) ClientInterface \<Rightarrow> string \<Rightarrow> chunk list \<Rightarrow> ('u, 'w, CreateTodoResponse) call" where
  "CreateTodoWithBodyWithResponse L c contentType body reqEditors =
     with_response (ci_CreateTodoWithBody c contentType body reqEditors) (ParseCreateTodoResponse L)"

definition CreateTodoWithResponse ::
    "'u client_libs \<Rightarrow> ('u, 'w) ClientInterface \<Rightarrow> api_CreateTodoRequest \<Rightarrow> ('u, 'w, CreateTodoResponse) call" where
  "CreateTodoWithResponse L c body reqEditors =
     with_response (ci_CreateTodo c body reqEditors) (ParseCreateTodoResponse L)"

definition DeleteTodoWithResponse ::
    "'u client_libs \<Rightarrow> ('u, 'w) ClientInterface \<Rightarrow> uuid \<Rightarrow> ('u, 'w, DeleteTodoResponse) call" where
  "DeleteTodoWithResponse L c id' reqEditors =
     with_response (ci_DeleteTodo c id' reqEditors) (ParseDeleteTodoResponse L)"

definition GetTodoWithResponse ::
    "'u client_libs \<Rightarrow> ('u, 'w) ClientInterface \<Rightarrow> uuid \<Rightarrow> ('u, 'w, GetTodoResponse) call" where
  "GetTodoWithResponse L c id' reqEditors =
     with_response (ci_GetTodo c id' reqEditors) (ParseGetTodoResponse L)"

definition UpdateTodoWithBodyWithResponse ::
    "'u client_libs \<Rightarrow> ('u, 'w) ClientInterface \<Rightarrow> uuid \<Rightarrow> string \<Rightarrow> chunk list \<Rightarrow> ('u, 'w, UpdateTodoResponse) call" where
  "UpdateTodoWithBodyWithResponse L c id' contentType body reqEditors =
     with_response (ci_UpdateTodoWithBody c id' contentType body reqEditors) (ParseUpdateTodoResponse L)"

definition UpdateTodoWithResponse ::
    "'u client_libs \<Rightarrow> ('u, 'w) ClientInterface \<Rightarrow> uuid \<Rightarrow> api_UpdateTodoRequest \<Rightarrow> ('u, 'w, UpdateTodoResponse) call" where
  "UpdateTodoWithResponse L c id' body reqEditors =
     with_response (ci_UpdateTodo c id' body reqEditors) (ParseUpdateTodoResponse L)"

end
