(* ===== verification/Client_Correct.thy ===== *)
theory Client_Correct
  imports Client_Responses Http_Correct
begin

text \<open>
  The generated client against the server: what it sends is what the server reads, and it knows the
  answers it gets.
\<close>

section \<open>The wire\<close>

text \<open>
  An instant travels as text. \<open>fmt\<close> writes it; the two ends read JSON texts back as the values written,
  and the texts of instants and addresses as what they were made of.
\<close>

primrec as_text :: "(go_time \<Rightarrow> string) \<Rightarrow> json \<Rightarrow> json" where
  "as_text fmt JNull = JNull"
| "as_text fmt (JBool b) = JBool b"
| "as_text fmt (JNum n) = JNum n"
| "as_text fmt (JStr s) = JStr s"
| "as_text fmt (JTime t) = JStr (fmt t)"
| "as_text fmt (JList vs) = JList (map (as_text fmt) vs)"
| "as_text fmt (JObj kvs) = JObj (map (map_prod id (as_text fmt)) kvs)"

definition json_text :: "'u client_libs \<Rightarrow> (go_time \<Rightarrow> string) \<Rightarrow> bool" where
  "json_text L fmt \<longleftrightarrow> (\<forall>v. encodable v \<longrightarrow> json_Parse L [ChunkJSON v] = Some (as_text fmt v))"

definition reads_times :: "json_libs \<Rightarrow> (go_time \<Rightarrow> string) \<Rightarrow> bool" where
  "reads_times J fmt \<longleftrightarrow> (\<forall>t. time_encodable t \<longrightarrow> Time_UnmarshalJSON J (fmt t) = Some t)"

definition reads_emails :: "'u client_libs \<Rightarrow> json_libs \<Rightarrow> bool" where
  "reads_emails L J \<longleftrightarrow> (\<forall>e v. Email_MarshalJSON L e = Inr v \<longrightarrow>
     (\<exists>s. v = JStr s \<and> Email_UnmarshalJSON J (JStr s) = Some e))"

text \<open>A concrete client: URLs are their texts, an instant is written as its number in ones.\<close>

definition demo_fmt :: "go_time \<Rightarrow> string" where
  "demo_fmt t = (if t < 0 then CHR ''-'' # replicate (nat (- t)) (CHR ''1'') else replicate (nat t) (CHR ''1''))"

fun demo_read_time :: "string \<Rightarrow> go_time" where
  "demo_read_time [] = 0"
| "demo_read_time (c # s) = (if c = CHR ''-'' then - int (length s) else int (length (c # s)))"

definition demo_client :: "string client_libs" where
  "demo_client =
     \<lparr>Email_MarshalJSON = (\<lambda>e. Inr (JStr e)),
      json_Parse = (\<lambda>cs. case cs of [ChunkJSON v] \<Rightarrow> Some (as_text demo_fmt v) | _ \<Rightarrow> None),
      client_json = \<lparr>Email_UnmarshalJSON = (\<lambda>v. case v of JStr s \<Rightarrow> Some s | _ \<Rightarrow> None),
        Time_UnmarshalJSON = (\<lambda>s. Some (demo_read_time s))\<rparr>,
      url_Parse = Inr, URL_Parse = (\<lambda>base ref. Inr (base @ drop 2 ref)), URL_String = id, request_URL = Inr,
      StyleParam = (\<lambda>i. Inr (uuid_String demo_libs i))\<rparr>"

lemma demo_wire:
  "json_text demo_client demo_fmt" "reads_times (client_json demo_client) demo_fmt"
  "reads_emails demo_client (client_json demo_client)"
proof -
  have "demo_read_time (demo_fmt t) = t" for t
  proof (cases "t < 0")
    case False
    then show ?thesis by (cases "nat t") (auto simp: demo_fmt_def)
  qed (simp add: demo_fmt_def)
  then show "reads_times (client_json demo_client) demo_fmt" by (simp add: reads_times_def demo_client_def)
qed (simp_all add: json_text_def reads_emails_def demo_client_def)

section \<open>Reading what was written\<close>

lemma unmarshal_elems_map:
  "(\<And>x. x \<in> set xs \<Longrightarrow> dec (f x) zero = Some x) \<Longrightarrow> unmarshal_elems dec zero (map f xs) [] = Some xs"
  by (induction xs) simp_all

lemma read_responses:
  assumes "reads_times J fmt"
  shows "read_AuthResponse (as_text fmt (json_AuthResponse a)) = Some a"
    and "encodable (json_TodoResponse t) \<Longrightarrow> read_TodoResponse J (as_text fmt (json_TodoResponse t)) = Some t"
    and "encodable (json_ApprovedUserResponse p) \<Longrightarrow>
      read_ApprovedUserResponse J (as_text fmt (json_ApprovedUserResponse p)) = Some p"
    and "encodable (json_UserResponse u) \<Longrightarrow> read_UserResponse J (as_text fmt (json_UserResponse u)) = Some u"
    and "read_Error (as_text fmt (JObj [(''detail'', JStr msg)])) = Some \<lparr>err_Detail = msg\<rparr>"
proof -
  have time: "time_encodable t \<Longrightarrow> Time_UnmarshalJSON J (fmt t) = Some t" for t
    using assms by (simp add: reads_times_def)
  show "read_AuthResponse (as_text fmt (json_AuthResponse a)) = Some a"
    by (simp add: json_AuthResponse_def read_AuthResponse_def read_struct_def find_field_def set_string_def)
  show "read_Error (as_text fmt (JObj [(''detail'', JStr msg)])) = Some \<lparr>err_Detail = msg\<rparr>"
    by (simp add: read_Error_def read_struct_def find_field_def set_string_def)
  show "read_TodoResponse J (as_text fmt (json_TodoResponse t)) = Some t" if "encodable (json_TodoResponse t)"
    using that by (cases "tdr_Description t"; cases "tdr_DueDate t")
      (simp_all add: json_TodoResponse_def read_TodoResponse_def read_struct_def find_field_def set_string_def
        fields_TodoResponse_def set_time_def set_time_ptr_def set_string_ptr_def set_bool_def json_ptr_def time
        zero_TodoResponse_def)
  show "read_ApprovedUserResponse J (as_text fmt (json_ApprovedUserResponse p)) = Some p"
    if "encodable (json_ApprovedUserResponse p)"
    using that by (simp add: json_ApprovedUserResponse_def read_ApprovedUserResponse_def read_struct_def
        find_field_def set_string_def fields_ApprovedUserResponse_def set_time_def time zero_ApprovedUserResponse_def)
  show "read_UserResponse J (as_text fmt (json_UserResponse u)) = Some u" if "encodable (json_UserResponse u)"
  proof -
    have "unmarshal_elems (set_string (\<lambda>s _. s)) '''' (map (as_text fmt \<circ> JStr) ss) [] = Some ss" for ss
      by (rule unmarshal_elems_map) (simp add: set_string_def)
    with that show ?thesis
      by (simp add: json_UserResponse_def read_UserResponse_def read_struct_def find_field_def set_string_def
          set_time_def set_bool_def set_strings_def time)
  qed
qed

lemma write_requests:
  assumes "reads_times J fmt" and "reads_emails L J"
  shows "json_ApprovedUserRequest L a = Inr v \<Longrightarrow>
      encodable v \<and> (\<forall>z. unmarshal_struct (fields_ApprovedUserRequest J) z (as_text fmt v) = Some a)"
    and "json_BulkApprovedUserRequest L b = Inr v \<Longrightarrow>
      encodable v \<and> unmarshal_BulkApprovedUserRequest J (as_text fmt v) = Some b"
    and "json_LoginRequest L l = Inr v \<Longrightarrow>
      encodable v \<and> unmarshal_LoginRequest J (as_text fmt v) = Some l"
    and "json_RegisterRequest L g = Inr v \<Longrightarrow>
      encodable v \<and> unmarshal_RegisterRequest J (as_text fmt v) = Some g"
    and "json_CreateTodoRequest L c = Inr v \<Longrightarrow> encodable v \<Longrightarrow>
      unmarshal_CreateTodoRequest J (as_text fmt v) = Some c"
    and "json_UpdateTodoRequest L p = Inr v \<Longrightarrow> encodable v \<Longrightarrow>
      unmarshal_UpdateTodoRequest J (as_text fmt v) = Some p"
proof -
  have time: "time_encodable t \<Longrightarrow> Time_UnmarshalJSON J (fmt t) = Some t" for t
    using assms(1) by (simp add: reads_times_def)
  have email: "\<exists>s. v = JStr s \<and> Email_UnmarshalJSON J (JStr s) = Some e" if "Email_MarshalJSON L e = Inr v" for e v
    using assms(2) that unfolding reads_emails_def by blast
  note unfolds = unmarshal_struct_def find_field_def set_string_def set_string_ptr_def set_bool_ptr_def
    set_time_ptr_def set_email_def
  show approved: "encodable v \<and> (\<forall>z. unmarshal_struct (fields_ApprovedUserRequest J) z (as_text fmt v) = Some a)"
    if "json_ApprovedUserRequest L a = Inr v" for a v
    using that by (auto simp: json_ApprovedUserRequest_def unfolds fields_ApprovedUserRequest_def
        dest!: on_ok_InrD email)
  show "encodable v \<and> unmarshal_LoginRequest J (as_text fmt v) = Some l" if "json_LoginRequest L l = Inr v"
    using that by (auto simp: json_LoginRequest_def unfolds unmarshal_LoginRequest_def dest!: on_ok_InrD email)
  show "encodable v \<and> unmarshal_RegisterRequest J (as_text fmt v) = Some g" if "json_RegisterRequest L g = Inr v"
    using that by (auto simp: json_RegisterRequest_def unfolds unmarshal_RegisterRequest_def dest!: on_ok_InrD email)
  show "unmarshal_CreateTodoRequest J (as_text fmt v) = Some c"
    if "json_CreateTodoRequest L c = Inr v" "encodable v"
    using that by (cases "ctr_Description c"; cases "ctr_DueDate c")
      (auto simp: json_CreateTodoRequest_def omit_nil_def unfolds unmarshal_CreateTodoRequest_def time)
  show "unmarshal_UpdateTodoRequest J (as_text fmt v) = Some p"
    if "json_UpdateTodoRequest L p = Inr v" "encodable v"
    using that by (cases "utr_Description p"; cases "utr_DueDate p"; cases "utr_IsCompleted p"; cases "utr_Title p")
      (auto simp: json_UpdateTodoRequest_def omit_nil_def unfolds unmarshal_UpdateTodoRequest_def time)
  have all: "(\<forall>v \<in> set vs. encodable v) \<and>
      unmarshal_elems (\<lambda>v x. unmarshal_struct (fields_ApprovedUserRequest J) x v) z (map (as_text fmt) vs) [] = Some us"
    if "json_all (json_ApprovedUserRequest L) us = Inr vs" for us vs z
    using that by (induction us arbitrary: vs) (auto dest!: on_ok_InrD approved)
  show "encodable v \<and> unmarshal_BulkApprovedUserRequest J (as_text fmt v) = Some b"
    if "json_BulkApprovedUserRequest L b = Inr v"
    using that by (auto simp: json_BulkApprovedUserRequest_def unmarshal_BulkApprovedUserRequest_def find_field_def
        unmarshal_struct_def [of "[(''users'', set_users J)]"] set_users_def all dest!: on_ok_InrD)
qed

section \<open>Requests\<close>

text \<open>
  The server reads a request's body as \<open>x\<close>; the request goes to a path below the server's URL. \<open>fill\<close>
  puts an identifier into a route.
\<close>

definition carries :: "'u client_libs \<Rightarrow> (json \<Rightarrow> 'a option) \<Rightarrow> 'u http_request \<Rightarrow> 'a \<Rightarrow> bool" where
  "carries L unmarshal req x \<longleftrightarrow>
     (\<exists>v. json_Parse L (hq_Body req) = Some v \<and> unmarshal v = Some x) \<and>
     map_of (hq_Header req) ''Content-Type'' = Some ''application/json''"

definition below :: "'u client_libs \<Rightarrow> string \<Rightarrow> string \<Rightarrow> 'u \<Rightarrow> bool" where
  "below L srv path u \<longleftrightarrow> (\<exists>base q. url_Parse L srv = Inr base \<and>
     URL_Parse L base (CHR ''.'' # path) = Inr q \<and> request_URL L (URL_String L q) = Inr u)"

definition id_pattern :: string where
  "id_pattern = ''{id}''"

definition fill :: "string \<Rightarrow> string \<Rightarrow> string" where
  "fill pattern i =
     (let n = length pattern - 4 in if drop n pattern = id_pattern then take n pattern @ i else pattern)"

text \<open>The request of each operation, with the given body for those that have one.\<close>

definition request_of ::
    "'u client_libs \<Rightarrow> string \<Rightarrow> uuid \<Rightarrow> string \<Rightarrow> chunk list \<Rightarrow> endpoint \<Rightarrow> go_error + 'u http_request" where
  "request_of L srv key ct body e =
     (case e of
        RegisterUser \<Rightarrow> NewRegisterUserRequestWithBody L srv ct body
      | LoginUser \<Rightarrow> NewLoginUserRequestWithBody L srv ct body
      | ListTodos \<Rightarrow> NewListTodosRequest L srv
      | CreateTodo \<Rightarrow> NewCreateTodoRequestWithBody L srv ct body
      | GetTodo \<Rightarrow> NewGetTodoRequest L srv key
      | UpdateTodo \<Rightarrow> NewUpdateTodoRequestWithBody L srv key ct body
      | DeleteTodo \<Rightarrow> NewDeleteTodoRequest L srv key
      | GetCurrentUser \<Rightarrow> NewGetCurrentUserRequest L srv
      | ListApprovedUsers \<Rightarrow> NewListApprovedUsersRequest L srv
      | CreateApprovedUser \<Rightarrow> NewCreateApprovedUserRequestWithBody L srv ct body
      | BulkCreateApprovedUsers \<Rightarrow> NewBulkCreateApprovedUsersRequestWithBody L srv ct body
      | DeleteApprovedUser \<Rightarrow> NewDeleteApprovedUserRequest L srv key)"

lemmas request_defs = NewListApprovedUsersRequest_def NewCreateApprovedUserRequestWithBody_def
  NewBulkCreateApprovedUsersRequestWithBody_def NewDeleteApprovedUserRequest_def NewLoginUserRequestWithBody_def
  NewRegisterUserRequestWithBody_def NewGetCurrentUserRequest_def NewListTodosRequest_def
  NewCreateTodoRequestWithBody_def NewDeleteTodoRequest_def NewGetTodoRequest_def NewUpdateTodoRequestWithBody_def

lemma build_request_InrD:
  assumes "build_request L method (CHR ''/'' # path) srv ct body = Inr req"
  shows "hq_Method req = method \<and> hq_Body req = body \<and> below L srv (CHR ''/'' # path) (hq_URL req) \<and>
    (\<forall>t. ct = Some t \<longrightarrow> map_of (hq_Header req) ''Content-Type'' = Some t)"
  using assms unfolding build_request_def http_NewRequest_def below_def relative_path_def
  by (auto simp: request_header_Add_def content_type_key dest!: on_ok_InrD split: option.splits)

lemma carriesI:
  assumes "json_text L fmt" and "json_Marshal f x = Inr buf"
    and "build_request L method (CHR ''/'' # path) srv (Some ''application/json'') buf = Inr req"
    and "\<And>v. f x = Inr v \<Longrightarrow> encodable v \<Longrightarrow> unmarshal (as_text fmt v) = Some x"
  shows "carries L unmarshal req x"
proof -
  from assms(2) obtain v where "f x = Inr v" "encodable v" "buf = [ChunkJSON v]"
    by (auto simp: json_Marshal_def dest!: on_ok_InrD split: if_splits)
  with assms(1,4) build_request_InrD [OF assms(3)] show ?thesis
    by (auto simp: carries_def json_text_def)
qed

text \<open>
  C23. What the client sends. The request of an operation has the method and, below the client's URL, the
  path under which the description lists the operation, with the identifier in its place. The server
  decodes the body to the value given, member for member, pointers left out included.
\<close>

theorem client_requests:
  assumes "json_text L fmt" and "reads_times J fmt" and "reads_emails L J"
  shows "(request_of L srv key ct body e = Inr req \<longrightarrow>
      (\<exists>i method pattern. (takes_id e \<longrightarrow> StyleParam L key = Inr i) \<and> (method, pattern, e) \<in> set spec_routes \<and>
         hq_Method req = method \<and> below L srv (fill pattern i) (hq_URL req))) \<and>
    (NewRegisterUserRequest L srv g = Inr req \<longrightarrow> carries L (unmarshal_RegisterRequest J) req g) \<and>
    (NewLoginUserRequest L srv l = Inr req \<longrightarrow> carries L (unmarshal_LoginRequest J) req l) \<and>
    (NewCreateTodoRequest L srv c = Inr req \<longrightarrow> carries L (unmarshal_CreateTodoRequest J) req c) \<and>
    (NewUpdateTodoRequest L srv key p = Inr req \<longrightarrow> carries L (unmarshal_UpdateTodoRequest J) req p) \<and>
    (NewCreateApprovedUserRequest L srv a = Inr req \<longrightarrow> carries L (unmarshal_ApprovedUserRequest J) req a) \<and>
    (NewBulkCreateApprovedUsersRequest L srv b = Inr req \<longrightarrow>
       carries L (unmarshal_BulkApprovedUserRequest J) req b)"
proof -
  have route: "\<exists>i method pattern. (takes_id e \<longrightarrow> StyleParam L key = Inr i) \<and>
      (method, pattern, e) \<in> set spec_routes \<and> hq_Method req = method \<and> below L srv (fill pattern i) (hq_URL req)"
    if "request_of L srv key ct body e = Inr req"
    using that
    by (cases e; auto simp: request_of_def request_defs takes_id_def spec_routes_def fill_def id_pattern_def
        dest!: on_ok_InrD build_request_InrD)
  have register: "carries L (unmarshal_RegisterRequest J) req g" if "NewRegisterUserRequest L srv g = Inr req"
    using that write_requests(4) [OF assms(2,3)]
    by (auto simp: NewRegisterUserRequest_def request_defs dest!: on_ok_InrD intro!: carriesI [OF assms(1)])
  have login: "carries L (unmarshal_LoginRequest J) req l" if "NewLoginUserRequest L srv l = Inr req"
    using that write_requests(3) [OF assms(2,3)]
    by (auto simp: NewLoginUserRequest_def request_defs dest!: on_ok_InrD intro!: carriesI [OF assms(1)])
  have create: "carries L (unmarshal_CreateTodoRequest J) req c" if "NewCreateTodoRequest L srv c = Inr req"
    using that write_requests(5) [OF assms(2,3)]
    by (auto simp: NewCreateTodoRequest_def request_defs dest!: on_ok_InrD intro!: carriesI [OF assms(1)])
  have update: "carries L (unmarshal_UpdateTodoRequest J) req p" if "NewUpdateTodoRequest L srv key p = Inr req"
    using that write_requests(6) [OF assms(2,3)]
    by (auto simp: NewUpdateTodoRequest_def request_defs dest!: on_ok_InrD intro!: carriesI [OF assms(1)])
  have approve: "carries L (unmarshal_ApprovedUserRequest J) req a"
    if "NewCreateApprovedUserRequest L srv a = Inr req"
    using that write_requests(1) [OF assms(2,3)]
    by (auto simp: NewCreateApprovedUserRequest_def request_defs unmarshal_ApprovedUserRequest_def
        dest!: on_ok_InrD intro!: carriesI [OF assms(1)])
  have bulk: "carries L (unmarshal_BulkApprovedUserRequest J) req b"
    if "NewBulkCreateApprovedUsersRequest L srv b = Inr req"
    using that write_requests(2) [OF assms(2,3)]
    by (auto simp: NewBulkCreateApprovedUsersRequest_def request_defs dest!: on_ok_InrD intro!: carriesI [OF assms(1)])
  show ?thesis
    using route register login create update approve bulk by blast
qed

definition demo_todo :: api_CreateTodoRequest where
  "demo_todo = \<lparr>ctr_Description = None, ctr_DueDate = Some 5, ctr_Title = ''Shop''\<rparr>"

theorem client_requests_witness:
  "\<exists>req. NewCreateTodoRequest demo_client ''http://h/api/v1/'' demo_todo = Inr req \<and>
    carries demo_client (unmarshal_CreateTodoRequest (client_json demo_client)) req demo_todo"
proof -
  have "\<not> isl (NewCreateTodoRequest demo_client ''http://h/api/v1/'' demo_todo)" by code_simp
  then obtain req where req: "NewCreateTodoRequest demo_client ''http://h/api/v1/'' demo_todo = Inr req"
    by (cases "NewCreateTodoRequest demo_client ''http://h/api/v1/'' demo_todo") simp_all
  with client_requests [OF demo_wire, of "''http://h/api/v1/''" _ _ _ _ req _ _ demo_todo]
  show ?thesis by blast
qed

section \<open>Answers\<close>

text \<open>The response a client gets of what a handler wrote.\<close>

definition delivered :: "response \<Rightarrow> http_response \<Rightarrow> bool" where
  "delivered w rsp \<longleftrightarrow> hr_StatusCode rsp = (case res_Status w of None \<Rightarrow> 200 | Some code \<Rightarrow> code) \<and>
     hr_Header rsp = res_Header w \<and> hr_Body rsp = Some (res_Body w)"

text \<open>The JSON values a success of an operation carries, and handlers that answer nothing else.\<close>

fun success_bodies :: "endpoint \<Rightarrow> json set" where
  "success_bodies RegisterUser = range json_AuthResponse"
| "success_bodies LoginUser = range json_AuthResponse"
| "success_bodies GetCurrentUser = range json_UserResponse"
| "success_bodies ListApprovedUsers = range (\<lambda>ps. JList (map (json_ptr json_ApprovedUserResponse) ps))"
| "success_bodies CreateApprovedUser = range (json_ptr json_ApprovedUserResponse)"
| "success_bodies BulkCreateApprovedUsers = range (\<lambda>ps. JList (map (json_ptr json_ApprovedUserResponse) ps))"
| "success_bodies DeleteApprovedUser = {}"
| "success_bodies ListTodos = range (\<lambda>ts. JList (map json_TodoResponse ts))"
| "success_bodies CreateTodo = range json_TodoResponse"
| "success_bodies GetTodo = range json_TodoResponse"
| "success_bodies UpdateTodo = range json_TodoResponse"
| "success_bodies DeleteTodo = {}"

definition typed :: "endpoint \<Rightarrow> response \<Rightarrow> bool" where
  "typed e w \<longleftrightarrow> (\<forall>v code. res_Body w = [ChunkJSON v] \<and> res_Status w = Some code \<longrightarrow>
     encodable v \<and> (code < 400 \<longrightarrow> v \<in> success_bodies e))"

lemma typed_answers:
  "open_response w \<Longrightarrow> 400 \<le> code \<Longrightarrow> typed e (RespondError code msg w)"
  "open_response w \<Longrightarrow> v \<in> success_bodies e \<Longrightarrow> typed e (RespondJSON code v w)"
  "open_response w \<Longrightarrow> typed e (WriteHeader code w)"
  "open_response w \<Longrightarrow> typed e (writeDecodeError err w)"
  "open_response w \<Longrightarrow> typed e (todo_decode_error err w)"
  by (auto simp: typed_def open_response_def writeDecodeError_def todo_decode_error_def split: if_splits)

abbreviation writes_typed :: "endpoint \<Rightarrow> ('w exchange, unit) state \<Rightarrow> bool" where
  "writes_typed e \<equiv> answers (\<lambda>_. typed e)"

lemma handlers_typed:
  "writes_typed RegisterUser (Handler_RegisterUser H A r)"
  "writes_typed LoginUser (Handler_LoginUser H A r)"
  "writes_typed GetCurrentUser (Handler_GetCurrentUser H r)"
  "writes_typed ListApprovedUsers (Handler_ListApprovedUsers H D r)"
  "writes_typed CreateApprovedUser (Handler_CreateApprovedUser H D r)"
  "writes_typed BulkCreateApprovedUsers (Handler_BulkCreateApprovedUsers H D r)"
  "writes_typed DeleteApprovedUser (Handler_DeleteApprovedUser D key r)"
  "writes_typed ListTodos (Handler_ListTodos H T r)"
  "writes_typed CreateTodo (Handler_CreateTodo H T r)"
  "writes_typed GetTodo (Handler_GetTodo H T key r)"
  "writes_typed UpdateTodo (Handler_UpdateTodo H T key r)"
  "writes_typed DeleteTodo (Handler_DeleteTodo T key r)"
proof -
  have list: "JList (map (\<lambda>t. json_TodoResponse (f t)) ts) \<in> range (\<lambda>ts. JList (map json_TodoResponse ts))" for f ts
    by (rule range_eqI [of _ _ "map f ts"]) simp
  note rules = answers_rules typed_answers
  show "writes_typed RegisterUser (Handler_RegisterUser H A r)"
    by (auto simp: Handler_RegisterUser_def intro!: rules)
  show "writes_typed LoginUser (Handler_LoginUser H A r)"
    by (auto simp: Handler_LoginUser_def intro!: rules)
  show "writes_typed GetCurrentUser (Handler_GetCurrentUser H r)"
    by (auto simp: Handler_GetCurrentUser_def intro!: rules)
  show "writes_typed ListApprovedUsers (Handler_ListApprovedUsers H D r)"
    by (auto simp: Handler_ListApprovedUsers_def intro!: rules)
  show "writes_typed CreateApprovedUser (Handler_CreateApprovedUser H D r)"
    by (auto simp: Handler_CreateApprovedUser_def intro!: rules)
  show "writes_typed BulkCreateApprovedUsers (Handler_BulkCreateApprovedUsers H D r)"
    by (auto simp: Handler_BulkCreateApprovedUsers_def intro!: rules)
  show "writes_typed DeleteApprovedUser (Handler_DeleteApprovedUser D key r)"
    by (auto simp: Handler_DeleteApprovedUser_def intro!: rules)
  show "writes_typed ListTodos (Handler_ListTodos H T r)"
    by (auto simp: Handler_ListTodos_def list intro!: rules)
  show "writes_typed CreateTodo (Handler_CreateTodo H T r)"
    by (auto simp: Handler_CreateTodo_def respond_todo_def intro!: rules)
  show "writes_typed GetTodo (Handler_GetTodo H T key r)"
    by (auto simp: Handler_GetTodo_def respond_todo_def intro!: rules)
  show "writes_typed UpdateTodo (Handler_UpdateTodo H T key r)"
    by (auto simp: Handler_UpdateTodo_def respond_todo_def intro!: rules)
  show "writes_typed DeleteTodo (Handler_DeleteTodo T key r)"
    by (auto simp: Handler_DeleteTodo_def intro!: rules)
qed

lemma operation_typed: "writes_typed e (si_operation (apiServer E C) e key r)"
  by (cases e; simp only: si_operation_def apiServer_def ServerInterface.select_convs Let_def
      endpoint.case handlers_typed)

text \<open>Which of its fields the client fills, by status.\<close>

definition client_fields :: "'u client_libs \<Rightarrow> http_response \<Rightarrow> endpoint \<Rightarrow> go_error + (nat \<times> bool) list" where
  "client_fields L rsp e =
     (case e of
        RegisterUser \<Rightarrow> map_sum id (\<lambda>a. [(201, RegisterUser_JSON201 a \<noteq> None), (400, RegisterUser_JSON400 a \<noteq> None),
          (404, RegisterUser_JSON404 a \<noteq> None), (409, RegisterUser_JSON409 a \<noteq> None),
          (500, RegisterUser_JSON500 a \<noteq> None)]) (ParseRegisterUserResponse L rsp)
      | LoginUser \<Rightarrow> map_sum id (\<lambda>a. [(200, LoginUser_JSON200 a \<noteq> None), (400, LoginUser_JSON400 a \<noteq> None),
          (401, LoginUser_JSON401 a \<noteq> None), (500, LoginUser_JSON500 a \<noteq> None)]) (ParseLoginUserResponse L rsp)
      | ListTodos \<Rightarrow> map_sum id (\<lambda>a. [(200, ListTodos_JSON200 a \<noteq> None), (401, ListTodos_JSON401 a \<noteq> None),
          (500, ListTodos_JSON500 a \<noteq> None)]) (ParseListTodosResponse L rsp)
      | CreateTodo \<Rightarrow> map_sum id (\<lambda>a. [(201, CreateTodo_JSON201 a \<noteq> None), (400, CreateTodo_JSON400 a \<noteq> None),
          (401, CreateTodo_JSON401 a \<noteq> None), (500, CreateTodo_JSON500 a \<noteq> None)]) (ParseCreateTodoResponse L rsp)
      | GetTodo \<Rightarrow> map_sum id (\<lambda>a. [(200, GetTodo_JSON200 a \<noteq> None), (400, GetTodo_JSON400 a \<noteq> None),
          (401, GetTodo_JSON401 a \<noteq> None), (404, GetTodo_JSON404 a \<noteq> None), (500, GetTodo_JSON500 a \<noteq> None)])
          (ParseGetTodoResponse L rsp)
      | UpdateTodo \<Rightarrow> map_sum id (\<lambda>a. [(200, UpdateTodo_JSON200 a \<noteq> None), (400, UpdateTodo_JSON400 a \<noteq> None),
          (401, UpdateTodo_JSON401 a \<noteq> None), (404, UpdateTodo_JSON404 a \<noteq> None),
          (500, UpdateTodo_JSON500 a \<noteq> None)]) (ParseUpdateTodoResponse L rsp)
      | DeleteTodo \<Rightarrow> map_sum id (\<lambda>a. [(400, DeleteTodo_JSON400 a \<noteq> None), (401, DeleteTodo_JSON401 a \<noteq> None),
          (404, DeleteTodo_JSON404 a \<noteq> None), (500, DeleteTodo_JSON500 a \<noteq> None)]) (ParseDeleteTodoResponse L rsp)
      | GetCurrentUser \<Rightarrow> map_sum id (\<lambda>a. [(200, GetCurrentUser_JSON200 a \<noteq> None),
          (401, GetCurrentUser_JSON401 a \<noteq> None)]) (ParseGetCurrentUserResponse L rsp)
      | ListApprovedUsers \<Rightarrow> map_sum id (\<lambda>a. [(200, ListApprovedUsers_JSON200 a \<noteq> None),
          (401, ListApprovedUsers_JSON401 a \<noteq> None), (403, ListApprovedUsers_JSON403 a \<noteq> None),
          (500, ListApprovedUsers_JSON500 a \<noteq> None)]) (ParseListApprovedUsersResponse L rsp)
      | CreateApprovedUser \<Rightarrow> map_sum id (\<lambda>a. [(201, CreateApprovedUser_JSON201 a \<noteq> None),
          (400, CreateApprovedUser_JSON400 a \<noteq> None), (401, CreateApprovedUser_JSON401 a \<noteq> None),
          (403, CreateApprovedUser_JSON403 a \<noteq> None), (409, CreateApprovedUser_JSON409 a \<noteq> None),
          (500, CreateApprovedUser_JSON500 a \<noteq> None)]) (ParseCreateApprovedUserResponse L rsp)
      | BulkCreateApprovedUsers \<Rightarrow> map_sum id (\<lambda>a. [(201, BulkCreateApprovedUsers_JSON201 a \<noteq> None),
          (400, BulkCreateApprovedUsers_JSON400 a \<noteq> None), (401, BulkCreateApprovedUsers_JSON401 a \<noteq> None),
          (403, BulkCreateApprovedUsers_JSON403 a \<noteq> None), (500, BulkCreateApprovedUsers_JSON500 a \<noteq> None)])
          (ParseBulkCreateApprovedUsersResponse L rsp)
      | DeleteApprovedUser \<Rightarrow> map_sum id (\<lambda>a. [(400, DeleteApprovedUser_JSON400 a \<noteq> None),
          (401, DeleteApprovedUser_JSON401 a \<noteq> None), (403, DeleteApprovedUser_JSON403 a \<noteq> None),
          (404, DeleteApprovedUser_JSON404 a \<noteq> None), (500, DeleteApprovedUser_JSON500 a \<noteq> None)])
          (ParseDeleteApprovedUserResponse L rsp))"

lemmas parser_defs = ParseListApprovedUsersResponse_def ParseCreateApprovedUserResponse_def
  ParseBulkCreateApprovedUsersResponse_def ParseDeleteApprovedUserResponse_def ParseLoginUserResponse_def
  ParseRegisterUserResponse_def ParseGetCurrentUserResponse_def ParseListTodosResponse_def
  ParseCreateTodoResponse_def ParseDeleteTodoResponse_def ParseGetTodoResponse_def ParseUpdateTodoResponse_def

lemma unmarshal_elems_eq:
  "(\<And>x. x \<in> set xs \<Longrightarrow> dec (f x) zero = Some (g x)) \<Longrightarrow> unmarshal_elems dec zero (map f xs) [] = Some (map g xs)"
  by (induction xs) simp_all

lemma read_lists:
  assumes "reads_times J fmt"
  shows "encodable (JList (map json_TodoResponse ts)) \<Longrightarrow>
      read_list (fields_TodoResponse J) zero_TodoResponse (as_text fmt (JList (map json_TodoResponse ts))) = Some ts"
    and "encodable (json_ptr json_ApprovedUserResponse p) \<Longrightarrow>
      read_ApprovedUserResponse J (as_text fmt (json_ptr json_ApprovedUserResponse p)) =
        Some (case p of None \<Rightarrow> zero_ApprovedUserResponse | Some x \<Rightarrow> x)"
    and "encodable (JList (map (json_ptr json_ApprovedUserResponse) ps)) \<Longrightarrow>
      read_list (fields_ApprovedUserResponse J) zero_ApprovedUserResponse
        (as_text fmt (JList (map (json_ptr json_ApprovedUserResponse) ps))) =
      Some (map (\<lambda>p. case p of None \<Rightarrow> zero_ApprovedUserResponse | Some x \<Rightarrow> x) ps)"
proof -
  show "read_list (fields_TodoResponse J) zero_TodoResponse (as_text fmt (JList (map json_TodoResponse ts))) = Some ts"
    if "encodable (JList (map json_TodoResponse ts))"
    using that read_responses(2) [OF assms]
    by (auto simp: read_list_def read_TodoResponse_def intro!: unmarshal_elems_map)
  have one: "read_ApprovedUserResponse J (as_text fmt (json_ptr json_ApprovedUserResponse p)) =
      Some (case p of None \<Rightarrow> zero_ApprovedUserResponse | Some x \<Rightarrow> x)"
    if "encodable (json_ptr json_ApprovedUserResponse p)" for p
    using that read_responses(3) [OF assms]
    by (cases p) (simp_all add: json_ptr_def read_ApprovedUserResponse_def read_struct_def)
  then show "encodable (json_ptr json_ApprovedUserResponse p) \<Longrightarrow>
      read_ApprovedUserResponse J (as_text fmt (json_ptr json_ApprovedUserResponse p)) =
        Some (case p of None \<Rightarrow> zero_ApprovedUserResponse | Some x \<Rightarrow> x)" .
  show "read_list (fields_ApprovedUserResponse J) zero_ApprovedUserResponse
        (as_text fmt (JList (map (json_ptr json_ApprovedUserResponse) ps))) =
      Some (map (\<lambda>p. case p of None \<Rightarrow> zero_ApprovedUserResponse | Some x \<Rightarrow> x) ps)"
    if "encodable (JList (map (json_ptr json_ApprovedUserResponse) ps))"
    using that one by (auto simp: read_list_def read_ApprovedUserResponse_def comp_def intro!: unmarshal_elems_eq)
qed

lemma json_content_type:
  assumes "map_of (hr_Header rsp) ''Content-Type'' = Some ''application/json''"
  shows "contains ''json'' (response_header rsp ''Content-Type'')"
proof -
  have "contains ''json'' ''application/json''" by code_simp
  with assms show ?thesis by (simp add: response_header_def content_type_key)
qed

text \<open>The fields filled are those of the status.\<close>

definition knows_status :: "'u client_libs \<Rightarrow> http_response \<Rightarrow> endpoint \<Rightarrow> bool" where
  "knows_status L rsp e \<longleftrightarrow> (\<exists>fs. client_fields L rsp e = Inr fs \<and> (hr_StatusCode rsp \<in> fst ` set fs \<union> {204, 413}) \<and>
     (\<forall>(code, filled) \<in> set fs. filled \<longleftrightarrow> code = hr_StatusCode rsp))"

lemmas parsing_defs = knows_status_def client_fields_def parser_defs parse_response_def json_case_def no_content_def
  takes_id_def

lemma knows_errors:
  assumes "delivered w rsp" and "json_text L fmt" and "reads_times (client_json L) fmt"
    and "hr_StatusCode rsp \<in> answer_codes e \<union> (if takes_id e then {400} else {})" and "400 \<le> hr_StatusCode rsp"
    and "res_Body w = [ChunkJSON (JObj [(''detail'', JStr msg)])]"
    and "map_of (res_Header w) ''Content-Type'' = Some ''application/json''"
  shows "knows_status L rsp e"
proof -
  have body: "hr_Body rsp = Some [ChunkJSON (JObj [(''detail'', JStr msg)])]"
    "json_Parse L [ChunkJSON (JObj [(''detail'', JStr msg)])] = Some (as_text fmt (JObj [(''detail'', JStr msg)]))"
    and ct: "contains ''json'' (response_header rsp ''Content-Type'')"
    using assms(1,2,6,7) by (auto simp: delivered_def json_text_def json_content_type)
  note read = read_responses(5) [OF assms(3), of msg]
  show ?thesis
    using assms(4,5) body(1)
    by (cases e) (auto simp: parsing_defs body(2) ct read simp del: as_text.simps split: if_splits)
qed

lemma knows_successes:
  assumes "delivered w rsp" and "json_text L fmt" and "reads_times (client_json L) fmt"
    and "hr_StatusCode rsp \<in> answer_codes e \<union> (if takes_id e then {400} else {})" and "hr_StatusCode rsp < 400"
    and "hr_StatusCode rsp \<noteq> 204" and "res_Body w = [ChunkJSON v]" and "encodable v" and "v \<in> success_bodies e"
    and "map_of (res_Header w) ''Content-Type'' = Some ''application/json''"
  shows "knows_status L rsp e"
proof -
  have body: "hr_Body rsp = Some [ChunkJSON v]" "json_Parse L [ChunkJSON v] = Some (as_text fmt v)"
    and ct: "contains ''json'' (response_header rsp ''Content-Type'')"
    using assms(1,2,7,8,10) by (auto simp: delivered_def json_text_def json_content_type)
  note read = read_responses(1-4) [OF assms(3)] read_lists [OF assms(3)]
  show ?thesis
    using assms(4-6,8,9) body(1)
    by (cases e) (auto simp: parsing_defs body(2) ct read simp del: as_text.simps encodable_list encodable_responses
      split: if_splits)
qed



end
