(* ===== verification/Client_Server.thy ===== *)
theory Client_Server
  imports Client_Correct Auth_Correct
begin

text \<open>
  The client and the server together: a call of the client is a request served, over a transport that
  loses nothing.
\<close>

section \<open>The transport\<close>

text \<open>
  How \<open>net/http\<close> carries a request: the path of its URL, the address the server sees, the length of
  a body, the status line.
\<close>

record 'u net =
  net_Path :: "'u \<Rightarrow> string"
  net_Peer :: string
  net_Length :: "chunk list \<Rightarrow> nat"
  net_StatusLine :: "nat \<Rightarrow> string"

definition as_request :: "'u net \<Rightarrow> 'u client_libs \<Rightarrow> 'u http_request \<Rightarrow> request" where
  "as_request N L hq =
     \<lparr>req_Method = hq_Method hq, req_Path = net_Path N (hq_URL hq), req_Header = hq_Header hq,
      req_RemoteAddr = net_Peer N,
      req_Body = \<lparr>body_Need = net_Length N (hq_Body hq), body_Value = json_Parse L (hq_Body hq)\<rparr>,
      req_Params = [], ctx_User = None, ctx_RequestID = None, ctx_ClientIP = None\<rparr>"

definition as_http_response :: "'u net \<Rightarrow> response \<Rightarrow> http_response" where
  "as_http_response N w =
     (let code = (case res_Status w of None \<Rightarrow> 200 | Some code \<Rightarrow> code)
      in \<lparr>hr_StatusCode = code, hr_Status = net_StatusLine N code, hr_Header = res_Header w,
          hr_Body = Some (res_Body w)\<rparr>)"

definition over_server :: "'u net \<Rightarrow> 'u client_libs \<Rightarrow> ('ip, 'l) env \<Rightarrow> 'ip config \<Rightarrow> ('u, 'l app) doer" where
  "over_server N L E C hq = do {
     w \<leftarrow> serve E C (as_request N L hq);
     State_Monad.return (Inr (as_http_response N w))
   }"

text \<open>An editor that adds the credentials, as a user of the client writes it.\<close>

definition bearer :: "string \<Rightarrow> ('u, 'w) editor" where
  "bearer token req = State_Monad.return (Inr (request_header_Add ''Authorization'' (''Bearer '' @ token) req))"

lemma delivered_response: "delivered w (as_http_response N w)"
  by (simp add: delivered_def as_http_response_def Let_def)

section \<open>Through the middleware\<close>

text \<open>
  Middleware that always hands a request other than a preflight on.
\<close>

definition forwards :: "'l app middleware \<Rightarrow> bool" where
  "forwards m \<longleftrightarrow> (\<forall>next r x Q. logless Q \<longrightarrow> req_Method r \<noteq> ''OPTIONS'' \<longrightarrow> open_response (ex_Response x) \<longrightarrow>
     (\<forall>r1 x1. same_request r r1 \<longrightarrow> app_auth (ex_World x1) = app_auth (ex_World x) \<longrightarrow>
        open_response (ex_Response x1) \<longrightarrow> wp (next r1) Q x1) \<longrightarrow>
     wp (m next r) Q x)"

lemma forwardsD:
  assumes "forwards m" and "req_Method r \<noteq> ''OPTIONS''" and "open_response (ex_Response x)"
    and "\<And>r1 x1. same_request r r1 \<Longrightarrow> app_auth (ex_World x1) = app_auth (ex_World x) \<Longrightarrow>
      open_response (ex_Response x1) \<Longrightarrow> wp (next r1) Q x1"
    and "logless Q"
  shows "wp (m next r) Q x"
  using assms unfolding forwards_def by blast

lemma forwards_chain: "(\<And>m. m \<in> set ms \<Longrightarrow> forwards m) \<Longrightarrow> forwards (chain ms)"
proof (induction ms)
  case Nil
  show ?case unfolding forwards_def chain_simps by auto
next
  case (Cons m ms)
  then have m: "forwards m" and ms: "forwards (chain ms)" by simp_all
  show ?case
    unfolding forwards_def chain_simps
  proof (intro allI impI)
    fix "next" :: "'a app handler" and r and x :: "'a app exchange" and Q
    assume Q: "logless Q" and r: "req_Method r \<noteq> ''OPTIONS''" and x: "open_response (ex_Response x)"
      and step: "\<forall>r1 x1. same_request r r1 \<longrightarrow> app_auth (ex_World x1) = app_auth (ex_World x) \<longrightarrow>
        open_response (ex_Response x1) \<longrightarrow> wp (next r1) Q x1"
    show "wp (m (chain ms next) r) Q x"
    proof (rule forwardsD [OF m r x], goal_cases)
      case (1 r1 x1)
      with r have "req_Method r1 \<noteq> ''OPTIONS''" by (simp add: same_request_def)
      from forwardsD [OF ms this 1(3)] 1 Q step same_request_trans show ?case by auto
    qed (rule Q)
  qed
qed

lemma server_forwards:
  "forwards (requestIDMiddleware E)" "forwards (realIPMiddleware E C)" "forwards SecurityHeaders"
  "forwards (corsMiddleware K)" "forwards loggerMiddleware"
  unfolding forwards_def requestIDMiddleware_def realIPMiddleware_def SecurityHeaders_def corsMiddleware_def
  by (auto simp: wp_simps Let_def wp_loggerMiddleware)

text \<open>The router sends a request to an operation.\<close>

definition server_paths :: "('ip, 'l) env \<Rightarrow> 'ip config \<Rightarrow> (string \<times> string) list" where
  "server_paths E C = map (\<lambda>(m, p, h). (m, p)) (server_routes E C)"

definition serves :: "('ip, 'l) env \<Rightarrow> 'ip config \<Rightarrow> string \<Rightarrow> string \<Rightarrow> nat \<Rightarrow> (string \<times> string) list \<Rightarrow> bool" where
  "serves E C method path i params \<longleftrightarrow>
     (\<exists>k ps. Suc k = length (server_routes E C) \<and> env_route E (server_paths E C) method path = Routed k ps) \<and>
     env_route E api_paths method path = Routed i params"

text \<open>
  A request that is routed to an operation and accepted by the validator is handed to the guarded
  operation, or refused by the rate limiter.
\<close>

definition limited :: "response \<Rightarrow> bool" where
  "limited w \<longleftrightarrow> res_Status w = Some 429 \<and> (\<exists>c. res_Body w = [c])"

lemma server_route:
  fixes E :: "('ip, 'l) env"
  assumes r: "req_Method r \<noteq> ''OPTIONS''" "serves E C (req_Method r) (req_Path r) i params"
    and entry: "i < length api_routes" "api_routes ! i = (g, m, p, e)"
    and valid: "\<And>r1. same_request r r1 \<Longrightarrow> env_OapiValidate E r1 = None"
    and x: "open_response (ex_Response x)"
    and refused: "\<And>x1. app_auth (ex_World x1) = app_auth (ex_World x) \<Longrightarrow> limited (ex_Response x1) \<Longrightarrow> Q () x1"
    and operation: "\<And>r1 x1. same_request r r1 \<Longrightarrow> req_Params r1 = params \<Longrightarrow>
      app_auth (ex_World x1) = app_auth (ex_World x) \<Longrightarrow> open_response (ex_Response x1) \<Longrightarrow>
      wp (guard_middleware E C g (endpoint_handler E C e) r1) Q x1"
    and logless: "logless Q"
  shows "wp (server E C r) Q x"
proof -
  have paths: "map (\<lambda>(m, p, h). (m, p)) (map (\<lambda>(g, m, p, e). (m, ''/api/v1'' @ p,
      guard_middleware E C g (endpoint_handler E C e))) api_routes) = api_paths"
    by (simp add: api_paths_def comp_def case_prod_beta')
  have inner: "wp (dispatch E (map (\<lambda>(g, m, p, e). (m, ''/api/v1'' @ p,
      guard_middleware E C g (endpoint_handler E C e))) api_routes) r1) Q x1"
    if "same_request r r1" "app_auth (ex_World x1) = app_auth (ex_World x)" "open_response (ex_Response x1)" for r1 x1
  proof -
    have "env_route E api_paths (req_Method r1) (req_Path r1) = Routed i params"
      using r(2) that(1) by (simp add: serves_def same_request_def)
    moreover have "wp (guard_middleware E C g (endpoint_handler E C e) (r1\<lparr>req_Params := params\<rparr>)) Q x1"
      by (rule operation) (use that in simp_all)
    ultimately show ?thesis
      using entry unfolding dispatch_def paths by simp
  qed
  have group: "wp (api_group E C r1) Q x1"
    if r1: "same_request r r1" and x1: "app_auth (ex_World x1) = app_auth (ex_World x)" "open_response (ex_Response x1)"
    for r1 x1
  proof -
    let ?next = "oapiMiddleware E (dispatch E (map (\<lambda>(g, m, p, e). (m, ''/api/v1'' @ p,
      guard_middleware E C g (endpoint_handler E C e))) api_routes))"
    have oapi: "wp (?next r1) Q x2"
      if "app_auth (ex_World x2) = app_auth (ex_World x)" "open_response (ex_Response x2)" for x2
      using inner [OF r1 that] valid [OF r1] by (simp add: oapiMiddleware_def split: sum.split)
    show ?thesis
    proof (cases "rl_Requests (cfg_rate C) \<le> 0")
      case True
      with oapi [OF x1] show ?thesis by (simp add: api_group_def rateLimitMiddleware_def)
    next
      case False
      have stop: "limited (write_chunk ch (WriteHeader 429 (header_Set a b (header_Set c d w))))"
        if "open_response w" for ch a b c d w
        using that by (simp add: limited_def open_response_def)
      have "wp (RateLimit (\<lambda>ip. on_limits (admit (env_limiter E) (limit_args (cfg_rate C)) ip)) ?next r1) Q x1"
        unfolding RateLimit_def wp_bind wp_call_service wp_on_limits
        by (rule wpI) (use x1 refused oapi stop in \<open>auto simp: wp_simps\<close>)
      with False show ?thesis by (simp add: api_group_def rateLimitMiddleware_def)
    qed
  qed
  show ?thesis
    unfolding server_def
  proof (rule forwardsD [OF forwards_chain r(1) x], goal_cases)
    case (2 r1 x1)
    obtain k ps where k: "Suc k = length (server_routes E C)"
      and "env_route E (server_paths E C) (req_Method r1) (req_Path r1) = Routed k ps"
      using r(2) 2(1) by (auto simp: serves_def same_request_def)
    moreover have "wp (api_group E C (r1\<lparr>req_Params := ps\<rparr>)) Q x1"
      by (rule group) (use 2 in simp_all)
    moreover have "server_routes E C ! k = (''*'', ''/api/v1/*'', api_group E C)"
      using k by (simp add: server_routes_def nth_append)
    ultimately show ?case
      by (simp add: dispatch_def server_paths_def)
  qed (use server_forwards logless in auto)
qed

section \<open>Through the guard\<close>

text \<open>A token that is valid now and names an active account.\<close>

definition live :: "('ip, 'l) env \<Rightarrow> 'ip config \<Rightarrow> 'l app \<Rightarrow> string \<Rightarrow> UserRow \<Rightarrow> bool" where
  "live E C w tok u \<longleftrightarrow> token_user_id (env_libs E) (cfg_service C) (app_now E w) tok = Inr (UserRow_ID u) \<and>
     u \<in> v_users (auth_view_of (app_db w)) \<and> UserRow_IsActive u"

lemma auth_guard:
  fixes x :: "'l app exchange"
  assumes inv: "db_inv (app_db (ex_World x))" and up: "server_up (env_pg E)"
    and live: "live E C (ex_World x) tok u" and tok: "extractBearerToken r = tok" "tok \<noteq> ''''"
    and pass: "\<And>user w'. User_ID user = UserRow_ID u \<Longrightarrow> db_inv (app_db w') \<Longrightarrow>
      tables (app_db w') = tables (app_db (ex_World x)) \<Longrightarrow>
      wp (h (r\<lparr>ctx_User := Some user\<rparr>)) Q (x\<lparr>ex_World := w'\<rparr>)"
  shows "wp (guard_middleware E C Authenticated h r) Q x"
proof -
  let ?m = "Service_GetUserFromToken (env_libs E) (Repository (env_pg E)) (cfg_service C) tok"
  let ?w = "ex_World x"
  have "wp ?m (\<lambda>res s. \<exists>user. res = Inr user \<and> User_ID user = UserRow_ID u \<and> db_inv (as_repo s) \<and>
      tables (as_repo s) = tables (app_db ?w)) (app_auth ?w)"
  proof (rule wpI)
    fix res s
    assume run: "run_state ?m (app_auth ?w) = (res, s)"
    have "reads_only (app_db ?w) (as_repo s)"
      using io_run [OF io_auth_service(2) run] by (simp add: at_repo_def)
    then have "tables (as_repo s) = tables (app_db ?w)" by (simp add: reads_only_tables)
    moreover from this inv have "db_inv (as_repo s)" using tables_views(3) by blast
    moreover have "\<exists>user. res = Inr user \<and> User_ID user = UserRow_ID u"
      using live_token [OF inv up _ _ _ run, of u] live by (auto simp: live_def app_now_def simp del: auth_view_simps)
    ultimately show "\<exists>user. res = Inr user \<and> User_ID user = UserRow_ID u \<and> db_inv (as_repo s) \<and>
      tables (as_repo s) = tables (app_db ?w)" by blast
  qed
  then have "wp (auth_GetUserFromToken (auth_service E C) tok) (\<lambda>res w'. \<exists>user. res = Inr (Some user) \<and>
      User_ID user = UserRow_ID u \<and> db_inv (app_db w') \<and> tables (app_db w') = tables (app_db ?w)) ?w"
    unfolding auth_service_def Let_def AuthService.select_convs wp_on_auth wp_tryE
    by (rule wp_mono) (auto simp: wp_simps)
  then show ?thesis
    unfolding guard_middleware.simps RequireAuth_def Let_def tok if_not_P [OF tok(2)] wp_bind wp_call_service
    by (rule wp_mono) (auto simp: pass)
qed

lemma list_todos_wp:
  fixes x :: "'l app exchange"
  assumes inv: "db_inv (app_db (ex_World x))" and up: "server_up (env_pg E)"
    and user: "ctx_User r = Some user" and x: "open_response (ex_Response x)"
    and answer: "\<And>rows w'. tables (app_db w') = tables (app_db (ex_World x)) \<Longrightarrow> distinct rows \<Longrightarrow>
      set rows = {t \<in> tv_todos (todo_view_of (app_db (ex_World x))). TodoRow_UserID t = User_ID user} \<Longrightarrow>
      sorted (rev (map TodoRow_CreatedAt rows)) \<Longrightarrow>
      Q () (x\<lparr>ex_World := w', ex_Response := RespondJSON 200
        (JList (map (\<lambda>t. json_TodoResponse (toTodoResponse (env_http E) (rowToDomain t))) rows)) (ex_Response x)\<rparr>)"
  shows "wp (endpoint_handler E C ListTodos r) Q x"
proof -
  have list: "endpoint_handler E C ListTodos r = Handler_ListTodos (env_http E) (todo_service E) r"
    by (simp add: endpoint_handler_cases takes_id_def si_operation_def apiServer_def Let_def)
  have "wp (Todo_ListByUserID (TodoRepository (env_pg E)) (User_ID user)) (\<lambda>res d.
      tables d = tables (app_db (ex_World x)) \<and> (\<exists>rows. res = Inr (map rowToDomain rows) \<and> distinct rows \<and>
        set rows = {t \<in> tv_todos (todo_view_of (app_db (ex_World x))). TodoRow_UserID t = User_ID user} \<and>
        sorted (rev (map TodoRow_CreatedAt rows)))) (app_db (ex_World x))"
  proof (rule wpI)
    fix res d
    assume run: "run_state (Todo_ListByUserID (TodoRepository (env_pg E)) (User_ID user)) (app_db (ex_World x)) = (res, d)"
    have "reads_only (app_db (ex_World x)) d"
      using io_run [OF io_todo_service(1) run] by simp
    moreover note wpD [OF todo_repo.ListByUserID_wp [OF inv] run]
    ultimately show "tables d = tables (app_db (ex_World x)) \<and> (\<exists>rows. res = Inr (map rowToDomain rows) \<and> distinct rows \<and>
        set rows = {t \<in> tv_todos (todo_view_of (app_db (ex_World x))). TodoRow_UserID t = User_ID user} \<and>
        sorted (rev (map TodoRow_CreatedAt rows)))"
      using up by (auto simp: reads_only_tables reads_def split: sum.splits simp del: todo_view_simps)
  qed
  then show ?thesis
    unfolding list Handler_ListTodos_def UserFromContext_def user option.case wp_bind wp_call_service wiring_defs wp_on_db
    by (rule wp_mono) (auto simp: wp_simps comp_def x simp del: todo_view_simps intro!: answer)
qed

section \<open>A client's own todos\<close>

definition with_slash :: "string \<Rightarrow> string" where
  "with_slash srv = (if srv \<noteq> '''' \<and> List.last srv = CHR ''/'' then srv else srv @ ''/'')"

lemma with_options:
  "NewClientWithResponses L D srv [WithHTTPClient d, WithRequestEditorFn ed] = Inr (client_interface L
     \<lparr>Client_Server = with_slash srv, Client_Client = Some d, Client_RequestEditors = [ed]\<rparr>)"
  by (simp add: NewClientWithResponses_def NewClient_def WithHTTPClient_def WithRequestEditorFn_def Let_def with_slash_def)

lemma client_call_bearer:
  "client_call \<lparr>Client_Server = srv, Client_Client = Some d, Client_RequestEditors = [bearer tok]\<rparr> (Inr req) [] =
     d (request_header_Add ''Authorization'' (''Bearer '' @ tok) req)"
  by (rule state.expand) (simp add: client_call_def applyEditors_def bearer_def tryE_def fun_eq_iff)

lemma bearer_header:
  assumes "hq_Header req = []" and "CHR '' '' \<notin> set tok"
  shows "extractBearerToken (as_request N L (request_header_Add ''Authorization'' (''Bearer '' @ tok) req)) = tok"
proof (rule extractBearerToken_reads [where scheme = "''Bearer''"])
  show "header_Get (as_request N L (request_header_Add ''Authorization'' (''Bearer '' @ tok) req)) ''Authorization'' =
    ''Bearer'' @ CHR '' '' # tok"
    using assms(1) by (simp add: header_Get_def as_request_def request_header_Add_def)
  show "map lower_char ''Bearer'' = ''bearer''" by code_simp
qed (rule assms(2))

lemma list_request:
  assumes "NewListTodosRequest L srv = Inr req"
  shows "hq_Method req = ''GET'' \<and> hq_Header req = []"
  using assms by (auto simp: NewListTodosRequest_def build_request_def http_NewRequest_def dest!: on_ok_InrD)

text \<open>What the server answers to the listing, and what the client makes of it.\<close>

abbreviation todo_answers :: "('ip, 'l) env \<Rightarrow> TodoRow list \<Rightarrow> api_TodoResponse list" where
  "todo_answers E rows \<equiv> map (\<lambda>t. toTodoResponse (env_http E) (rowToDomain t)) rows"

definition own_rows :: "'l app \<Rightarrow> uuid \<Rightarrow> TodoRow list \<Rightarrow> bool" where
  "own_rows w uid rows \<longleftrightarrow> distinct rows \<and> sorted (rev (map TodoRow_CreatedAt rows)) \<and>
     set rows = {t \<in> tv_todos (todo_view_of (app_db w)). TodoRow_UserID t = uid}"

lemma listing_wp:
  fixes E :: "('ip, 'l) env"
  assumes inv: "db_inv (app_db w)" and up: "server_up (env_pg E)" and live: "live E C w tok u"
    and r: "req_Method r = ''GET''" "req_Path r = ''/api/v1/todos''" "extractBearerToken r = tok" "tok \<noteq> ''''"
    and route: "serves E C ''GET'' ''/api/v1/todos'' 2 []"
    and valid: "\<And>r. req_Method r = ''GET'' \<Longrightarrow> req_Path r = ''/api/v1/todos'' \<Longrightarrow> env_OapiValidate E r = None"
  shows "wp (serve E C r) (\<lambda>res w'. tables (app_db w') = tables (app_db w) \<and> (limited res \<or>
    (\<exists>rows w0. own_rows w (UserRow_ID u) rows \<and> open_response w0 \<and>
       res = RespondJSON 200 (JList (map json_TodoResponse (todo_answers E rows))) w0))) w"
  unfolding wp_serve
proof (rule server_route [where i = 2 and params = "[]" and g = Authenticated and m = "''GET''" and
      p = "''/todos''" and e = ListTodos], goal_cases)
  case (7 x1)
  then show ?case by simp
next
  case (8 r1 x1)
  then have app: "app_auth (ex_World x1) = app_auth w" by simp
  show ?case
  proof (rule auth_guard [OF _ up, of x1 C tok u])
    show "db_inv (app_db (ex_World x1))" using inv app by simp
    show "live E C (ex_World x1) tok u" using live app by (simp add: live_def app_now_def)
    show "extractBearerToken r1 = tok" using r(3) same_request_token [OF 8(1)] by simp
    fix user :: User and w' :: "'l app"
    assume user: "User_ID user = UserRow_ID u" and w': "db_inv (app_db w')"
      "tables (app_db w') = tables (app_db (ex_World x1))"
    note same = tables_views [OF w'(2)]
    show "wp (endpoint_handler E C ListTodos (r1\<lparr>ctx_User := Some user\<rparr>)) (\<lambda>_ x. tables (app_db (ex_World x)) = tables (app_db w) \<and>
       (limited (ex_Response x) \<or> (\<exists>rows w0. own_rows w (UserRow_ID u) rows \<and> open_response w0 \<and>
       ex_Response x = RespondJSON 200 (JList (map json_TodoResponse (todo_answers E rows))) w0))) (x1\<lparr>ex_World := w'\<rparr>)"
      by (rule list_todos_wp [OF _ up]) (use 8 w' user app same in
        \<open>auto simp: own_rows_def comp_def simp del: todo_view_simps\<close>)
  qed (rule r(4))
qed (use r route valid in \<open>auto simp: api_routes_def same_request_def open_response_def no_response_def logless_def\<close>)

lemma listing_answers:
  assumes "json_text L fmt" and "reads_times (client_json L) fmt"
  shows "limited res \<Longrightarrow> \<exists>a. ParseListTodosResponse L (as_http_response N res) = Inr a \<and> StatusCode a = 429 \<and>
      ListTodos_JSON200 a = None"
    and "open_response w0 \<Longrightarrow> encodable (JList (map json_TodoResponse ts)) \<Longrightarrow>
      \<exists>a. ParseListTodosResponse L (as_http_response N (RespondJSON 200 (JList (map json_TodoResponse ts)) w0)) = Inr a \<and>
        StatusCode a = 200 \<and> ListTodos_JSON200 a = Some ts"
proof -
  show "\<exists>a. ParseListTodosResponse L (as_http_response N res) = Inr a \<and> StatusCode a = 429 \<and> ListTodos_JSON200 a = None"
    if "limited res"
    using that by (auto simp: limited_def ParseListTodosResponse_def parse_response_def as_http_response_def json_case_def
        StatusCode_def)
  let ?v = "JList (map json_TodoResponse ts)"
  assume w0: "open_response w0" and enc: "encodable ?v"
  let ?rsp = "as_http_response N (RespondJSON 200 ?v w0)"
  have rsp: "hr_StatusCode ?rsp = 200" "hr_Body ?rsp = Some [ChunkJSON ?v]"
    "map_of (hr_Header ?rsp) ''Content-Type'' = Some ''application/json''"
    using w0 enc header_Set_same [of "''Content-Type''" "''application/json''" w0]
    by (auto simp: as_http_response_def open_response_def content_type_key)
  have parse: "json_Parse L [ChunkJSON ?v] = Some (as_text fmt ?v)"
    using assms(1) enc unfolding json_text_def by blast
  show "\<exists>a. ParseListTodosResponse L ?rsp = Inr a \<and> StatusCode a = 200 \<and> ListTodos_JSON200 a = Some ts"
    by (simp add: ParseListTodosResponse_def parse_response_def rsp(1,2) parse json_case_def json_content_type [OF rsp(3)]
        read_lists(1) [OF assms(2) enc] StatusCode_def del: as_text.simps)
qed


lemma demo_page_routes: "page_routes (env_spec demo_env) (cfg_swagger demo_config) = []"
  by (simp add: page_routes_def mountSwagger_def demo_env_def demo_config_def)

lemma demo_server_paths:
  "server_paths demo_env demo_config = [(''GET'', ''/''), (''GET'', ''/health''), (''*'', ''/api/v1/*'')]"
  by (simp add: server_paths_def server_routes_def demo_page_routes)

definition demo_net :: "string net" where
  "demo_net = \<lparr>net_Path = drop (length ''http://h''), net_Peer = ''10.0.0.7:4711'', net_Length = length, net_StatusLine = (\<lambda>_. '''')\<rparr>"

definition demo_owner :: UserRow where
  "demo_owner = \<lparr>UserRow_ID = 5, UserRow_ApprovedUserID = 1, UserRow_Email = ''ann@x.org'',
     UserRow_PasswordHash = ''#secret-1'', UserRow_IsActive = True, UserRow_CreatedAt = 0, UserRow_UpdatedAt = 0\<rparr>"


end
