(* ===== verification/Todo_Http.thy ===== *)
theory Todo_Http
  imports Server Demo_Server
begin

text \<open>
  The interface between the handlers of the todos and their service. The contract of the service follows
  from that of the repository; the handlers are verified against it, and the model's service provides it.
\<close>

section \<open>The contract of the service\<close>

definition todo_input :: "uuid \<Rightarrow> string \<Rightarrow> string option \<Rightarrow> go_time option \<Rightarrow> TodoCreateInput" where
  "todo_input uid title description due =
     \<lparr>tciUserID = uid, tciTitle = title, tciDescription = description, tciIsCompleted = False, tciDueDate = due\<rparr>"

definition todo_change ::
    "uuid \<Rightarrow> string option \<Rightarrow> string option \<Rightarrow> bool option \<Rightarrow> go_time option \<Rightarrow> TodoUpdateInput" where
  "todo_change key title description completed due =
     \<lparr>tuiID = key, tuiTitle = title, tuiDescription = description, tuiIsCompleted = completed, tuiDueDate = due\<rparr>"

locale todo_contract =
  fixes T :: "'w TodoService"
    and inv :: "'w \<Rightarrow> bool"
    and view :: "'w \<Rightarrow> todo_view"
    and up :: bool
  assumes todos_id: "inv w \<Longrightarrow> inj_on TodoRow_ID (tv_todos (view w))"
    and ListByUserID: "inv w \<Longrightarrow> wp (todo_ListByUserID T uid) (\<lambda>r w'. inv w' \<and> view w' = view w \<and>
      reads up (\<lambda>ts. \<exists>rows. ts = map rowToDomain rows \<and> distinct rows \<and>
        set rows = {t \<in> tv_todos (view w). TodoRow_UserID t = uid} \<and>
        sorted (rev (map TodoRow_CreatedAt rows))) r) w"
    and GetByID: "inv w \<Longrightarrow> wp (todo_GetByID T key uid) (\<lambda>r w'. inv w' \<and> own_todo_answer up (view w) key uid
      (\<lambda>t. r = Inr (Some (rowToDomain t)) \<and> view w' = view w) r (view w')) w"
    and Create: "inv w \<Longrightarrow> wp (todo_Create T uid title description due) (\<lambda>r w'. inv w' \<and>
      (if title = '''' then r = Inl ErrInvalidTodoParams \<and> view w' = view w
       else \<exists>rr. r = todo_mapped rr \<and> writes up (\<lambda>row. todo_created (todo_input uid title description due) (Some row))
         (todo_refused (todo_input uid title description due)) (view w) rr (view w'))) w"
    and Update: "inv w \<Longrightarrow> wp (todo_Update T key uid title' description completed due) (\<lambda>r w'. inv w' \<and>
      (if title' = Some '''' then r = Inl ErrInvalidTodoParams \<and> view w' = view w
       else own_todo_answer up (view w) key uid (\<lambda>t. \<exists>rr. r = todo_mapped rr \<and>
         writes up (todo_updated (todo_change key title' description completed due))
           (update_refused (todo_change key title' description completed due)) (view w) rr (view w')) r (view w'))) w"
    and Delete: "inv w \<Longrightarrow> wp (todo_Delete T key uid) (\<lambda>r w'. inv w' \<and> own_todo_answer up (view w) key uid
      (\<lambda>t. writes up (\<lambda>_ v v'. v' = without_todo key v) (\<lambda>v e. False) (view w) r (view w')) r (view w')) w"

text \<open>\<open>todo.NewService\<close>: the service over a repository.\<close>

definition todo_NewService :: "'s TodoRepository \<Rightarrow> 's TodoService" where
  "todo_NewService R =
     \<lparr>todo_ListByUserID = Todo_ListByUserID R, todo_GetByID = Todo_GetByID R, todo_Create = Todo_Create R,
      todo_Update = Todo_Update R, todo_Delete = Todo_Delete R\<rparr>"

sublocale todo_repository \<subseteq> service: todo_contract "todo_NewService R" inv view up
  by unfold_locales
    (simp_all only: todo_NewService_def TodoService.select_convs todo_input_def todo_change_def todos_id
      ListByUserID_wp GetByID_wp Create_wp [unfolded Let_def] Update_wp [unfolded Let_def] Delete_wp)

text \<open>The service of the server runs it on the database within the state of the server.\<close>

lemma todo_service_lifts:
  "todo_ListByUserID (todo_service E) uid = on_db (todo_ListByUserID (todo_NewService (TodoRepository (env_pg E))) uid)"
  "todo_GetByID (todo_service E) key uid = on_db (todo_GetByID (todo_NewService (TodoRepository (env_pg E))) key uid)"
  "todo_Create (todo_service E) uid title description due =
     on_db (todo_Create (todo_NewService (TodoRepository (env_pg E))) uid title description due)"
  "todo_Update (todo_service E) key uid title' description completed due =
     on_db (todo_Update (todo_NewService (TodoRepository (env_pg E))) key uid title' description completed due)"
  "todo_Delete (todo_service E) key uid = on_db (todo_Delete (todo_NewService (TodoRepository (env_pg E))) key uid)"
  by (simp_all add: todo_service_def todo_NewService_def Let_def)

lemma app_db_update: "app_db (w\<lparr>app_auth := (app_auth w)\<lparr>as_repo := d\<rparr>\<rparr>) = d"
  by simp

interpretation todos: todo_contract "todo_service E" "\<lambda>w. db_inv (app_db w)" "\<lambda>w. todo_view_of (app_db w)"
    "server_up (env_pg E)" for E :: "('ip, 'l) env"
proof unfold_locales
  show "inj_on TodoRow_ID (tv_todos (todo_view_of (app_db w)))" if "db_inv (app_db w)" for w :: "'l app"
    using that by (rule todo_repo.todos_id)
qed (simp_all only: todo_service_lifts wp_on_db app_db_update
    todo_repo.service.ListByUserID todo_repo.service.GetByID todo_repo.service.Create
    todo_repo.service.Update todo_repo.service.Delete)

section \<open>The handlers\<close>

context todo_contract
begin

text \<open>Each handler leaves one of the answers its service allows, and the data as the service does.\<close>

lemma list_handler:
  assumes "inv (ex_World x)" and "ctx_User r = Some user"
  shows "wp (Handler_ListTodos H T r) (\<lambda>_ x'. inv (ex_World x') \<and> view (ex_World x') = view (ex_World x) \<and>
    ((\<exists>rows. distinct rows \<and> set rows = {t \<in> tv_todos (view (ex_World x)). TodoRow_UserID t = User_ID user} \<and>
        sorted (rev (map TodoRow_CreatedAt rows)) \<and> ex_Response x' = RespondJSON 200
          (JList (map (\<lambda>t. json_TodoResponse (toTodoResponse H (rowToDomain t))) rows)) (ex_Response x)) \<or>
     (\<not> up \<and> ex_Response x' = RespondError 500 ''internal server error'' (ex_Response x)))) x"
  unfolding Handler_ListTodos_def UserFromContext_def assms(2) option.case wp_bind wp_call_service
  by (rule wp_mono [OF ListByUserID [OF assms(1)]]) (auto simp: wp_simps reads_def comp_def split: sum.splits)

lemma get_handler:
  assumes "inv (ex_World x)" and "ctx_User r = Some user"
  shows "wp (Handler_GetTodo H T key r) (\<lambda>_ x'. inv (ex_World x') \<and> view (ex_World x') = view (ex_World x) \<and>
    ((\<exists>t. todo_at (view (ex_World x)) key t \<and> TodoRow_UserID t = User_ID user \<and>
        ex_Response x' = RespondJSON 200 (json_TodoResponse (toTodoResponse H (rowToDomain t))) (ex_Response x)) \<or>
     ((\<exists>t. todo_at (view (ex_World x)) key t \<and> TodoRow_UserID t \<noteq> User_ID user) \<or>
        (up \<longrightarrow> (\<forall>t. \<not> todo_at (view (ex_World x)) key t))) \<and>
       ex_Response x' = RespondError 404 ''todo not found'' (ex_Response x))) x"
  unfolding Handler_GetTodo_def UserFromContext_def assms(2) option.case wp_bind wp_call_service
  by (rule wp_mono [OF GetByID [OF assms(1)]])
    (auto simp: wp_simps own_todo_answer_def respond_todo_def)

lemma create_handler:
  assumes "inv (ex_World x)" and "ctx_User r = Some user"
    and "DecodeJSON 1048576 (unmarshal_CreateTodoRequest (hl_json H)) r = Inr req" and "ctr_Title req \<noteq> ''''"
  shows "wp (Handler_CreateTodo H T r) (\<lambda>_ x'. inv (ex_World x') \<and>
    ((\<exists>t. todo_created (todo_input (User_ID user) (ctr_Title req) (ctr_Description req) (ctr_DueDate req)) (Some t)
          (view (ex_World x)) (view (ex_World x')) \<and>
        ex_Response x' = RespondJSON 201 (json_TodoResponse (toTodoResponse H (rowToDomain t))) (ex_Response x)) \<or>
     ex_Response x' = RespondError 500 ''internal server error'' (ex_Response x) \<or>
     ex_Response x' = RespondError 400 ''invalid todo parameters'' (ex_Response x))) x"
  unfolding Handler_CreateTodo_def UserFromContext_def assms(2) option.case assms(3) sum.case wp_bind wp_call_service
proof (rule wp_mono [OF Create [OF assms(1)]], goal_cases)
  case (1 res w')
  with assms(4) obtain rr where "inv w'" "res = todo_mapped rr"
    "writes up (\<lambda>row. todo_created (todo_input (User_ID user) (ctr_Title req) (ctr_Description req) (ctr_DueDate req)) (Some row))
      (todo_refused (todo_input (User_ID user) (ctr_Title req) (ctr_Description req) (ctr_DueDate req)))
      (view (ex_World x)) rr (view w')" by auto
  then show ?case by (cases rr) (auto simp: wp_simps respond_todo_def simp del: writes_simps(2))
qed

lemma update_handler:
  assumes "inv (ex_World x)" and "ctx_User r = Some user" and up
    and "DecodeJSON 1048576 (unmarshal_UpdateTodoRequest (hl_json H)) r = Inr req" and "utr_Title req \<noteq> Some ''''"
  shows "wp (Handler_UpdateTodo H T key r) (\<lambda>_ x'. inv (ex_World x') \<and>
    ((\<exists>t. todo_updated (todo_change key (utr_Title req) (utr_Description req) (utr_IsCompleted req) (utr_DueDate req)) t
          (view (ex_World x)) (view (ex_World x')) \<and>
        ex_Response x' = RespondJSON 200 (json_TodoResponse (toTodoResponse H (rowToDomain t))) (ex_Response x)) \<or>
     ((\<forall>t. todo_at (view (ex_World x)) key t \<longrightarrow> TodoRow_UserID t \<noteq> User_ID user) \<and>
        view (ex_World x') = view (ex_World x) \<and>
        ex_Response x' = RespondError 404 ''todo not found'' (ex_Response x)))) x"
  unfolding Handler_UpdateTodo_def UserFromContext_def assms(2) option.case assms(4) sum.case wp_bind wp_call_service
proof (rule wp_mono [OF Update [OF assms(1)]], goal_cases)
  case (1 res w')
  have one: "t' = t" if "todo_at (view (ex_World x)) key t" "todo_at (view (ex_World x)) key t'" for t t'
    using inj_onD [OF todos_id [OF assms(1)]] that by (auto simp: todo_at_def)
  from 1 assms(3,5) consider (own) t rr where "todo_at (view (ex_World x)) key t" "res = todo_mapped rr"
      "writes up (todo_updated (todo_change key (utr_Title req) (utr_Description req) (utr_IsCompleted req) (utr_DueDate req)))
        (update_refused (todo_change key (utr_Title req) (utr_Description req) (utr_IsCompleted req) (utr_DueDate req)))
        (view (ex_World x)) rr (view w')"
    | (other) t where "todo_at (view (ex_World x)) key t" "TodoRow_UserID t \<noteq> User_ID user" "res = Inl ErrTodoNotOwned"
      "view w' = view (ex_World x)"
    | (none) "res = Inl ErrTodoNotFound" "\<forall>t. \<not> todo_at (view (ex_World x)) key t" "view w' = view (ex_World x)"
    by (auto simp: own_todo_answer_def)
  then show ?case
  proof cases
    case own
    then show ?thesis
      using 1 assms(3)
      by (cases rr) (auto simp: wp_simps respond_todo_def update_refused_def todo_at_def todo_change_def)
  next
    case other
    with 1 one show ?thesis by (auto simp: wp_simps)
  qed (use 1 in \<open>auto simp: wp_simps\<close>)
qed

lemma delete_handler:
  assumes "inv (ex_World x)" and "ctx_User r = Some user" and up
  shows "wp (Handler_DeleteTodo T key r) (\<lambda>_ x'. inv (ex_World x') \<and>
    ((\<exists>t. todo_at (view (ex_World x)) key t \<and> TodoRow_UserID t = User_ID user) \<and>
        view (ex_World x') = without_todo key (view (ex_World x)) \<and> ex_Response x' = WriteHeader 204 (ex_Response x) \<or>
     view (ex_World x') = view (ex_World x) \<and>
        ex_Response x' = RespondError 404 ''todo not found'' (ex_Response x))) x"
  unfolding Handler_DeleteTodo_def UserFromContext_def assms(2) option.case wp_bind wp_call_service
  by (rule wp_mono [OF Delete [OF assms(1)]])
    (use assms(3) in \<open>auto simp: wp_simps own_todo_answer_def split: sum.splits\<close>)

end

section \<open>A todo over HTTP\<close>

lemma endpoint_todos:
  "endpoint_handler E C CreateTodo r = Handler_CreateTodo (env_http E) (todo_service E) r"
  "endpoint_handler E C ListTodos r = Handler_ListTodos (env_http E) (todo_service E) r"
  "env_BindUUID E (URLParam r ''id'') = Inr key \<Longrightarrow>
   endpoint_handler E C GetTodo r = Handler_GetTodo (env_http E) (todo_service E) key r"
  by (simp_all add: endpoint_handler_cases takes_id_def si_operation_def apiServer_def Let_def)

text \<open>What a reader gets of a todo that is there: the todo, when it is theirs.\<close>

lemma read_back:
  fixes x :: "'l app exchange"
  assumes inv: "db_inv (app_db (ex_World x))" and mem: "t \<in> tv_todos (todo_view_of (app_db (ex_World x)))"
    and up: "server_up (env_pg E)" and bind: "env_BindUUID E (URLParam r ''id'') = Inr (TodoRow_ID t)"
    and reader: "ctx_User r = Some reader" and run: "run_state (endpoint_handler E C GetTodo r) x = (u, x')"
  shows "ex_Response x' = (if User_ID reader = TodoRow_UserID t
    then RespondJSON 200 (json_TodoResponse (toTodoResponse (env_http E) (rowToDomain t))) (ex_Response x)
    else RespondError 404 ''todo not found'' (ex_Response x))"
proof -
  let ?v = "todo_view_of (app_db (ex_World x))"
  have same: "t' = t" if "todo_at ?v (TodoRow_ID t) t'" for t'
    using inj_onD [OF todos.todos_id [OF inv]] that mem by (auto simp: todo_at_def simp del: todo_view_simps)
  have here: "todo_at ?v (TodoRow_ID t) t" using mem by (simp add: todo_at_def del: todo_view_simps)
  then have "\<not> (\<forall>t'. \<not> todo_at ?v (TodoRow_ID t) t')" by blast
  with wpD [OF todos.get_handler [OF inv reader] run [unfolded endpoint_todos(3) [OF bind]]]
  show ?thesis
    using here up by (auto simp del: todo_view_simps dest!: same)
qed

lemma listed_back:
  fixes x :: "'l app exchange"
  assumes inv: "db_inv (app_db (ex_World x))" and mem: "t \<in> tv_todos (todo_view_of (app_db (ex_World x)))"
    and up: "server_up (env_pg E)"
    and reader: "ctx_User r = Some reader" and run: "run_state (endpoint_handler E C ListTodos r) x = (u, x')"
  shows "\<exists>ts. ex_Response x' = RespondJSON 200 (JList (map json_TodoResponse ts)) (ex_Response x) \<and>
    (User_ID reader = TodoRow_UserID t \<longrightarrow> toTodoResponse (env_http E) (rowToDomain t) \<in> set ts)"
proof -
  let ?resp = "\<lambda>t. toTodoResponse (env_http E) (rowToDomain t)"
  from wpD [OF todos.list_handler [OF inv reader] run [unfolded endpoint_todos(2)]] up
  obtain rows where "set rows = {t \<in> tv_todos (todo_view_of (app_db (ex_World x))). TodoRow_UserID t = User_ID reader}"
    and "ex_Response x' = RespondJSON 200 (JList (map (\<lambda>t. json_TodoResponse (?resp t)) rows)) (ex_Response x)"
    by (auto simp del: todo_view_simps)
  then show ?thesis
    using mem by (intro exI [of _ "map ?resp rows"]) (auto simp: comp_def simp del: todo_view_simps)
qed

text \<open>
  C16. A todo that was created is the one that is read. When the creation is answered with 201, its body is
  the todo asked for, under a fresh identifier; reading under the identifier of that body then answers its
  owner 200 with the same body, and any other user 404; and it is in the listing of its owner.
\<close>

theorem created_todo_is_read:
  fixes x :: "'l app exchange"
  assumes "db_inv (app_db (ex_World x))" and "server_up (env_pg E)"
    and "open_response (ex_Response x)" and "ctx_User r = Some user"
    and "DecodeJSON 1048576 (unmarshal_CreateTodoRequest (hl_json (env_http E))) r = Inr req" and "ctr_Title req \<noteq> ''''"
    and "run_state (endpoint_handler E C CreateTodo r) x = (u, x1)" and "res_Status (ex_Response x1) = Some 201"
    and "\<And>k. env_BindUUID E (hl_uuid_String (env_http E) k) = Inr k"
  shows "\<exists>t. ex_Response x1 = RespondJSON 201 (json_TodoResponse t) (ex_Response x) \<and>
    tdr_Title t = ctr_Title req \<and> tdr_Description t = ctr_Description req \<and> tdr_DueDate t = ctr_DueDate req \<and>
    \<not> tdr_IsCompleted t \<and> tdr_UserId t = hl_uuid_String (env_http E) (User_ID user) \<and>
    (\<forall>r2 reader w0 u2 x2. ctx_User r2 = Some reader \<longrightarrow> URLParam r2 ''id'' = tdr_Id t \<longrightarrow>
       run_state (endpoint_handler E C GetTodo r2) (x1\<lparr>ex_Response := w0\<rparr>) = (u2, x2) \<longrightarrow>
       ex_Response x2 =
         (if User_ID reader = User_ID user then RespondJSON 200 (json_TodoResponse t) w0
          else RespondError 404 ''todo not found'' w0)) \<and>
    (\<forall>r2 reader w0 u2 x2. ctx_User r2 = Some reader \<longrightarrow>
       run_state (endpoint_handler E C ListTodos r2) (x1\<lparr>ex_Response := w0\<rparr>) = (u2, x2) \<longrightarrow>
       (\<exists>ts. ex_Response x2 = RespondJSON 200 (JList (map json_TodoResponse ts)) w0 \<and>
          (User_ID reader = User_ID user \<longrightarrow> t \<in> set ts)))"
proof -
  let ?v = "\<lambda>x :: 'l app exchange. todo_view_of (app_db (ex_World x))"
  let ?inp = "todo_input (User_ID user) (ctr_Title req) (ctr_Description req) (ctr_DueDate req)"
  let ?resp = "\<lambda>t. toTodoResponse (env_http E) (rowToDomain t)"
  have status: "res_Status (ex_Response x) = None" using assms(3) by (simp add: open_response_def)
  from wpD [OF todos.create_handler [OF assms(1,4,5,6)] assms(7) [unfolded endpoint_todos(1)]] assms(8) status
  obtain t where inv: "db_inv (app_db (ex_World x1))" and t: "todo_created ?inp (Some t) (?v x) (?v x1)"
    and res: "ex_Response x1 = RespondJSON 201 (json_TodoResponse (?resp t)) (ex_Response x)"
    by (auto simp del: todo_view_simps)
  from t have owner: "TodoRow_UserID t = User_ID user" and mem: "t \<in> tv_todos (?v x1)"
    by (auto simp: todo_created_def todo_input_def simp del: todo_view_simps)
  have reads: "ex_Response x2 = (if User_ID reader = User_ID user then RespondJSON 200 (json_TodoResponse (?resp t)) w0
      else RespondError 404 ''todo not found'' w0)"
    if "ctx_User r2 = Some reader" and key: "URLParam r2 ''id'' = tdr_Id (?resp t)"
      and "run_state (endpoint_handler E C GetTodo r2) (x1\<lparr>ex_Response := w0\<rparr>) = (u2, x2)"
    for r2 reader w0 u2 x2
  proof -
    have "env_BindUUID E (URLParam r2 ''id'') = Inr (TodoRow_ID t)"
      unfolding key using assms(9) by (simp add: toTodoResponse_def rowToDomain_def)
    from read_back [OF _ _ assms(2) this that(1,3)] inv mem show ?thesis by (simp add: owner del: todo_view_simps)
  qed
  have lists: "\<exists>ts. ex_Response x2 = RespondJSON 200 (JList (map json_TodoResponse ts)) w0 \<and>
      (User_ID reader = User_ID user \<longrightarrow> ?resp t \<in> set ts)"
    if "ctx_User r2 = Some reader"
      and "run_state (endpoint_handler E C ListTodos r2) (x1\<lparr>ex_Response := w0\<rparr>) = (u2, x2)"
    for r2 reader w0 u2 x2
    using listed_back [OF _ _ assms(2) that, of t] inv mem by (simp add: owner del: todo_view_simps)
  have fields: "tdr_Title (?resp t) = ctr_Title req" "tdr_Description (?resp t) = ctr_Description req"
    "tdr_DueDate (?resp t) = ctr_DueDate req" "\<not> tdr_IsCompleted (?resp t)"
    "tdr_UserId (?resp t) = hl_uuid_String (env_http E) (User_ID user)"
    using t by (auto simp: todo_created_def todo_input_def toTodoResponse_def rowToDomain_def simp del: todo_view_simps)
  show ?thesis
    by (rule exI [of _ "?resp t"]) (use res fields reads lists in blast)
qed

text \<open>The owner of the one todo, and a request to make another.\<close>

definition demo_user :: User where
  "demo_user = \<lparr>User_ID = 5, User_ApprovedUserID = 3, User_HashedPassword = '''', User_IsActive = True,
     User_CreatedAt = 0, User_UpdatedAt = 0, User_ApprovedUser = None, User_Roles = []\<rparr>"

definition demo_post :: request where
  "demo_post = (demo_request ''POST'' ''/api/v1/todos'' '''' (Some (JObj [(''title'', JStr ''Read'')])))
     \<lparr>ctx_User := Some demo_user\<rparr>"

theorem created_todo_is_read_witness:
  "\<exists>x1 t. run_state (endpoint_handler demo_env demo_config CreateTodo demo_post)
       \<lparr>ex_World = demo_app, ex_Response = no_response, ex_Log = []\<rparr> = ((), x1) \<and>
     tdr_Title t = ''Read'' \<and>
     (\<forall>x2. run_state (endpoint_handler demo_env demo_config GetTodo
          (demo_post\<lparr>req_Params := [(''id'', tdr_Id t)]\<rparr>)) (x1\<lparr>ex_Response := no_response\<rparr>) = ((), x2) \<longrightarrow>
        ex_Response x2 = RespondJSON 200 (json_TodoResponse t) no_response)"
proof -
  let ?x = "\<lparr>ex_World = demo_app, ex_Response = no_response, ex_Log = []\<rparr>"
  let ?req = "\<lparr>ctr_Description = None, ctr_DueDate = None, ctr_Title = ''Read''\<rparr>"
  let ?run = "run_state (endpoint_handler demo_env demo_config CreateTodo demo_post) ?x"
  obtain x1 where run: "?run = ((), x1)" by (rule run_unit)
  have decode: "DecodeJSON 1048576 (unmarshal_CreateTodoRequest (hl_json (env_http demo_env))) demo_post = Inr ?req"
  proof -
    have "unmarshal_CreateTodoRequest (hl_json (env_http demo_env)) (JObj [(''title'', JStr ''Read'')]) = Some ?req"
      by code_simp
    then show ?thesis by (simp add: DecodeJSON_def demo_post_def demo_request_def)
  qed
  have user: "ctx_User demo_post = Some demo_user" by (simp add: demo_post_def)
  have "case fst (run_state (Todo_Create (TodoRepository demo_pg) 5 ''Read'' None None) demo_db) of
      Inr (Some t) \<Rightarrow> True | _ \<Rightarrow> False" by code_simp
  then obtain t d where create: "run_state (Todo_Create (TodoRepository demo_pg) 5 ''Read'' None None) demo_db = (Inr (Some t), d)"
    by (cases "run_state (Todo_Create (TodoRepository demo_pg) 5 ''Read'' None None) demo_db")
      (auto split: sum.splits option.splits)
  have demo: "app_db demo_app = demo_db" "env_pg demo_env = demo_pg" "User_ID demo_user = 5"
    by (simp_all add: demo_app_def demo_state_def demo_env_def demo_user_def)
  have "wp (endpoint_handler demo_env demo_config CreateTodo demo_post) (\<lambda>_ x. res_Status (ex_Response x) = Some 201) ?x"
    by (simp add: endpoint_todos(1) Handler_CreateTodo_def UserFromContext_def user decode wp_bind wp_call_service
        wiring_defs wp_on_db demo wp_run [OF create] wp_respond respond_todo_def no_response_def)
  from wpD [OF this run] have created: "res_Status (ex_Response x1) = Some 201" .
  have inv: "db_inv (app_db (ex_World ?x))" by simp
  have up: "server_up (env_pg demo_env)" by (simp add: demo_env_def)
  have title: "ctr_Title ?req \<noteq> ''''" by simp
  have bind: "env_BindUUID demo_env (hl_uuid_String (env_http demo_env) k) = Inr k" for k
    using demo_uuid_roundtrip by (simp add: demo_env_def demo_http_def uuid_roundtrip_def)
  from created_todo_is_read [OF inv up open_no_response user decode title run created bind]
  obtain t where t: "tdr_Title t = ''Read''" and read: "\<And>r2 w0 u2 x2. ctx_User r2 = Some demo_user \<Longrightarrow> URLParam r2 ''id'' = tdr_Id t \<Longrightarrow>
      run_state (endpoint_handler demo_env demo_config GetTodo r2) (x1\<lparr>ex_Response := w0\<rparr>) = (u2, x2) \<Longrightarrow>
      ex_Response x2 = RespondJSON 200 (json_TodoResponse t) w0"
    by (elim exE conjE) (rule that, simp, simp)
  have "ctx_User (demo_post\<lparr>req_Params := [(''id'', tdr_Id t)]\<rparr>) = Some demo_user"
    and "URLParam (demo_post\<lparr>req_Params := [(''id'', tdr_Id t)]\<rparr>) ''id'' = tdr_Id t"
    by (simp_all add: user URLParam_def)
  from read [OF this] run t show ?thesis by (intro exI conjI allI impI)
qed

end
