(* ===== verification/Log_Correct.thy ===== *)
theory Log_Correct
  imports Server Demo_Server
begin

text \<open>
  What the server logs of a request: the two entries of the middleware around at most one error, the
  status they report, and which failures are logged with their cause.
\<close>

section \<open>The status the wrapper notes\<close>

text \<open>
  It is the one sent, unless a value could not be encoded after the status was sent: then the client has
  that status and the wrapper 500.
\<close>

definition noted :: "response \<Rightarrow> bool" where
  "noted w \<longleftrightarrow> res_Status w = Some (res_Wrapped w) \<or>
     (res_Status w \<noteq> None \<and> res_Wrapped w = 500 \<and>
      res_Body w = [ChunkText (''failed to encode response'' @ [CHR 0x0A])])"

lemma noted_writes:
  "open_response w \<Longrightarrow> noted (WriteHeader c w)"
  "open_response w \<Longrightarrow> noted (RespondJSON c v w)"
  "open_response w \<Longrightarrow> noted (RespondError c msg w)"
  "open_response w \<Longrightarrow> noted (http_Error msg c w)"
  "open_response w \<Longrightarrow> noted (write_chunk ch w)"
  "open_response w \<Longrightarrow> noted (writeDecodeError err w)"
  by (simp_all add: noted_def open_response_def RespondError_def RespondJSON_def http_Error_def
      writeDecodeError_def Let_def)

section \<open>The errors of the operations\<close>

definition error_entry :: "zap_entry list \<Rightarrow> bool" where
  "error_entry l \<longleftrightarrow> (\<exists>msg err. l = [Error msg [ErrorField err]])"

text \<open>An operation of the accounts logs an error, and the cause of every 500; one of the todos nothing.\<close>

fun logs_errors :: "endpoint \<Rightarrow> bool" where
  "logs_errors RegisterUser = True"
| "logs_errors LoginUser = True"
| "logs_errors ListApprovedUsers = True"
| "logs_errors CreateApprovedUser = True"
| "logs_errors BulkCreateApprovedUsers = True"
| "logs_errors DeleteApprovedUser = True"
| "logs_errors _ = False"

definition operation_log :: "bool \<Rightarrow> zap_entry list \<Rightarrow> response \<Rightarrow> bool" where
  "operation_log logs l w \<longleftrightarrow> noted w \<and>
     (if logs then l = [] \<and> res_Status w \<noteq> Some 500 \<or> error_entry l \<and> (\<exists>c. res_Status w = Some c \<and> 400 \<le> c)
      else l = [])"

lemma operation_log_respond:
  "open_response w \<Longrightarrow> (logs \<longrightarrow> c \<noteq> 500) \<Longrightarrow> operation_log logs [] (RespondJSON c v w)"
  "open_response w \<Longrightarrow> (logs \<longrightarrow> c \<noteq> 500) \<Longrightarrow> operation_log logs [] (RespondError c msg w)"
  "open_response w \<Longrightarrow> (logs \<longrightarrow> c \<noteq> 500) \<Longrightarrow> operation_log logs [] (WriteHeader c w)"
  "open_response w \<Longrightarrow> operation_log logs [] (writeDecodeError err w)"
  "open_response w \<Longrightarrow> 400 \<le> c \<Longrightarrow>
     operation_log True [Error m [ErrorField err']] (RespondError c msg w)"
  by (simp_all add: operation_log_def noted_writes error_entry_def)
    (simp_all add: open_response_def writeDecodeError_def)

lemma auth_operation_log:
  "answers (operation_log True) (Handler_RegisterUser H A r)"
  "answers (operation_log True) (Handler_LoginUser H A r)"
  "answers (operation_log False) (Handler_GetCurrentUser H r)"
  "answers (operation_log True) (Handler_ListApprovedUsers H D r)"
  "answers (operation_log True) (Handler_CreateApprovedUser H D r)"
  "answers (operation_log True) (Handler_BulkCreateApprovedUsers H D r)"
  "answers (operation_log True) (Handler_DeleteApprovedUser D key r)"
  by (auto simp: Handler_RegisterUser_def intro!: answers_rules operation_log_respond)[1]
    (auto simp: Handler_LoginUser_def intro!: answers_rules operation_log_respond,
     auto simp: Handler_GetCurrentUser_def intro!: answers_rules operation_log_respond,
     auto simp: Handler_ListApprovedUsers_def intro!: answers_rules operation_log_respond,
     auto simp: Handler_CreateApprovedUser_def intro!: answers_rules operation_log_respond,
     auto simp: Handler_BulkCreateApprovedUsers_def intro!: answers_rules operation_log_respond,
     auto simp: Handler_DeleteApprovedUser_def intro!: answers_rules operation_log_respond)

lemma todo_responses_log:
  "answers (operation_log False) (respond_todo H code p)"
  "open_response w \<Longrightarrow> operation_log False [] (todo_decode_error err w)"
  by (auto simp: respond_todo_def todo_decode_error_def intro!: answers_rules operation_log_respond)

lemma todo_operation_log:
  "answers (operation_log False) (Handler_ListTodos H T r)"
  "answers (operation_log False) (Handler_CreateTodo H T r)"
  "answers (operation_log False) (Handler_GetTodo H T key r)"
  "answers (operation_log False) (Handler_UpdateTodo H T key r)"
  "answers (operation_log False) (Handler_DeleteTodo T key r)"
  by (auto simp: Handler_ListTodos_def Handler_CreateTodo_def Handler_GetTodo_def
      Handler_UpdateTodo_def Handler_DeleteTodo_def
      intro!: answers_rules operation_log_respond todo_responses_log)

lemma si_operation_log: "answers (operation_log (logs_errors e)) (si_operation (apiServer E C) e key r)"
  by (cases e; simp only: si_operation_def apiServer_def ServerInterface.select_convs Let_def
      endpoint.case logs_errors.simps auth_operation_log todo_operation_log)

lemma endpoint_log: "answers (operation_log (logs_errors e)) (endpoint_handler E C e r)"
  unfolding endpoint_handler_cases
  by (auto intro!: answers_rules operation_log_respond si_operation_log simp: openAPIValidationErrorHandler_def)

section \<open>The whole server\<close>

definition request_logged :: "zap_entry list \<Rightarrow> response \<Rightarrow> bool" where
  "request_logged l w \<longleftrightarrow> noted w \<and> (l = [] \<or> error_entry l \<and> (\<exists>c. res_Status w = Some c \<and> 400 \<le> c))"

lemma operation_request_logged: "operation_log logs l w \<Longrightarrow> request_logged l w"
  by (auto simp: operation_log_def request_logged_def split: if_splits)

lemma request_logged_writes:
  "open_response w \<Longrightarrow> request_logged [] (WriteHeader c w)"
  "open_response w \<Longrightarrow> request_logged [] (RespondJSON c v w)"
  "open_response w \<Longrightarrow> request_logged [] (RespondError c msg w)"
  "open_response w \<Longrightarrow> request_logged [] (http_Error msg c w)"
  "open_response w \<Longrightarrow> request_logged [] (write_chunk ch w)"
  by (simp_all add: request_logged_def noted_writes)

lemmas request_logged_rules = answers_rules request_logged_writes

lemma guard_log:
  assumes "\<And>r. answers request_logged (h r)"
  shows "answers request_logged (guard_middleware E C g h r)"
  using assms by (cases g) (auto simp: RequireAdmin_def RequireAuth_def Let_def intro!: request_logged_rules)

text \<open>The router's own answers note their status too.\<close>

definition router_notes :: "('ip, 'l) env \<Rightarrow> bool" where
  "router_notes E \<longleftrightarrow> (\<forall>w. open_response w \<longrightarrow> noted (env_NotFound E w) \<and> noted (env_MethodNotAllowed E w))"

lemma dispatch_log:
  assumes "router_notes E" and "\<And>m p h r. (m, p, h) \<in> set table \<Longrightarrow> answers request_logged (h r)"
  shows "answers request_logged (dispatch E table r)"
proof -
  have "answers request_logged (snd (snd (table ! i)) r')" if "i < length table" for i r'
    using assms(2) nth_mem [OF that] by (metis prod.collapse)
  then show ?thesis
    using assms(1) unfolding dispatch_def
    by (auto intro!: request_logged_rules simp: request_logged_def router_notes_def split: routed.split)
qed

lemma answers_unit: "answers P m \<Longrightarrow> answers P (State_Monad.bind (State_Monad.return ()) (\<lambda>_. m))"
  by (simp add: answers_def)

lemma answers_if_bind:
  "answers P (State_Monad.bind m k) \<Longrightarrow> answers P (State_Monad.bind m' k) \<Longrightarrow>
   answers P (State_Monad.bind (if b then m else m') k)"
  by simp

lemma answers_headers:
  assumes "answers P m"
  shows "answers P (State_Monad.bind (respond (header_Set k v)) (\<lambda>_. m))"
    and "answers P (State_Monad.bind (respond (cors_headers K origin valid)) (\<lambda>_. m))"
  by (rule answers_set [OF assms], simp)+

lemma answers_status_chunk:
  "answers request_logged (State_Monad.bind (respond (WriteHeader c)) (\<lambda>_. respond (write_chunk ch)))"
  by (rule answersI) (auto simp: request_logged_def noted_def open_response_def)

lemma middleware_log:
  assumes "\<And>r. answers request_logged (next r)"
  shows "answers request_logged (SecurityHeaders next r)"
    and "answers request_logged (corsMiddleware K next r)"
    and "answers request_logged (oapiMiddleware E next r)"
    and "answers request_logged (rateLimitMiddleware E R next r)"
  by (auto simp: SecurityHeaders_def corsMiddleware_def oapiMiddleware_def rateLimitMiddleware_def RateLimit_def
      openAPIValidationErrorHandler_def Let_def split: option.split sum.split
      intro!: request_logged_rules assms answers_headers answers_status_chunk answers_unit answers_if_bind)

lemma pages_log:
  "answers request_logged (rootHandler r)"
  "answers request_logged (healthHandlerWithDB check r)"
  "(m, p, h) \<in> set (page_routes L enabled) \<Longrightarrow> answers request_logged (h r)"
  by (auto simp: rootHandler_def healthHandlerWithDB_def page_routes_def mountSwagger_def mountOpenAPISpec_def
      openapi_page_def swagger_page_def Let_def split: option.splits sum.splits if_splits
      intro!: request_logged_rules answers_headers answers_status_chunk)

lemma server_body_log:
  fixes E :: "('ip, 'l) env" and C :: "'ip config"
  assumes "router_notes E"
  shows "answers request_logged
    (chain [SecurityHeaders, corsMiddleware (cfg_cors C)] (dispatch E (server_routes E C)) r)"
proof -
  have endpoint: "answers request_logged (endpoint_handler E C e r)" for e r
    by (rule answers_mono [OF endpoint_log operation_request_logged])
  have "answers request_logged (api_group E C r)" for r
    unfolding api_group_def chain_simps
    by (intro middleware_log dispatch_log [OF assms]) (auto intro!: guard_log endpoint)
  then have "answers request_logged (h r)" if "(m, p, h) \<in> set (server_routes E C)" for m p h r
    using that by (auto simp: server_routes_def intro: pages_log)
  then show ?thesis
    unfolding chain_simps by (intro middleware_log dispatch_log [OF assms])
qed

definition request_fields :: "request \<Rightarrow> field list" where
  "request_fields r = [StringField ''method'' (req_Method r), StringField ''path'' (req_Path r)]"

lemma answers_wp:
  assumes "answers P m" and "open_response (ex_Response x)"
    and "\<And>l x'. ex_Log x' = ex_Log x @ l \<Longrightarrow> P l (ex_Response x') \<Longrightarrow> Q () x'"
  shows "wp m Q x"
  by (rule wpI) (use assms in \<open>auto elim: answersD\<close>)

lemma server_log_wp:
  fixes E :: "('ip, 'l) env"
  assumes "router_notes E"
  shows "wp (server E C r) (\<lambda>_ x. \<exists>l. ex_Log x =
      Debug ''request started'' (request_fields r) # l @
      [Debug ''request completed'' (request_fields r @ [IntField ''status'' (int (res_Wrapped (ex_Response x)))])] \<and>
    request_logged l (ex_Response x)) \<lparr>ex_World = w, ex_Response = no_response, ex_Log = []\<rparr>"
proof -
  let ?body = "chain [SecurityHeaders, corsMiddleware (cfg_cors C)] (dispatch E (server_routes E C))"
  have server: "server E C = requestIDMiddleware E (realIPMiddleware E C (loggerMiddleware ?body))"
    by (simp add: server_def)
  have logger: "wp (loggerMiddleware ?body r') (\<lambda>_ x. \<exists>l. ex_Log x =
      Debug ''request started'' (request_fields r) # l @
      [Debug ''request completed'' (request_fields r @ [IntField ''status'' (int (res_Wrapped (ex_Response x)))])] \<and>
      request_logged l (ex_Response x)) x"
    if "req_Method r' = req_Method r" "req_Path r' = req_Path r" "open_response (ex_Response x)" "ex_Log x = []"
    for r' and x :: "'l app exchange"
    unfolding loggerMiddleware_def Let_def WithTraceContext_def no_span_def
    by (simp only: span.select_convs not_False_eq_True if_True append_Nil wp_bind wp_log_entry wp_respond)
      (rule answers_wp [OF server_body_log [OF assms]],
        use that in \<open>auto simp: wp_simps request_fields_def\<close>)
  show ?thesis
    unfolding server requestIDMiddleware_def realIPMiddleware_def Let_def
    by (simp only: wp_bind wp_call_service wp_respond wp_next_request)
      (rule logger, simp_all add: open_no_response [simplified])
qed

text \<open>
  C27. Of a request the server logs that it started, then at most one error, and only with an answer of at
  least 400, then that it is completed, with a status. That status is the one the client got, unless a
  value could not be encoded: then the client got the announced status and the log says 500.
\<close>

theorem request_log_complete:
  assumes "router_notes E" and "run_state (serve E C r) w = (res, w')"
  shows "\<exists>l. request_log E C r w =
      Debug ''request started'' (request_fields r) # l @
      [Debug ''request completed'' (request_fields r @ [IntField ''status'' (int (res_Wrapped res))])] \<and>
    request_logged l res"
proof -
  obtain x where run: "run_state (server E C r) \<lparr>ex_World = w, ex_Response = no_response, ex_Log = []\<rparr> = ((), x)"
    by (rule run_unit)
  have "res = ex_Response x" "request_log E C r w = ex_Log x"
    using assms(2) run by (simp_all add: serve_def request_log_def)
  with wpD [OF server_log_wp [OF assms(1)] run] show ?thesis by (simp only:)
qed

theorem request_log_complete_witness:
  "\<exists>l res. request_log demo_env demo_config (demo_request ''GET'' ''/health'' '''' None) demo_app =
      Debug ''request started'' [StringField ''method'' ''GET'', StringField ''path'' ''/health''] # l @
      [Debug ''request completed'' [StringField ''method'' ''GET'', StringField ''path'' ''/health'',
        IntField ''status'' (int (res_Wrapped res))]] \<and> noted res"
proof -
  have "router_notes demo_env"
    by (auto simp: router_notes_def demo_env_def noted_writes)
  from request_log_complete [OF this surjective_pairing, of demo_config "demo_request ''GET'' ''/health'' '''' None" demo_app]
  show ?thesis
    by (simp add: request_fields_def demo_request_def request_logged_def) blast
qed

text \<open>
  Whatever the services answer, an operation on accounts that fails with 500 logs its cause, once; an
  operation on todos logs nothing, so that the cause of its 500 is lost.
\<close>

theorem failure_causes:
  assumes "open_response (ex_Response x)" and "run_state (endpoint_handler E C e r) x = (u, x')"
  shows "\<exists>l. ex_Log x' = ex_Log x @ l \<and>
    (logs_errors e \<and> res_Status (ex_Response x') = Some 500 \<longrightarrow> (\<exists>msg err. l = [Error msg [ErrorField err]])) \<and>
    (\<not> logs_errors e \<longrightarrow> l = [])"
proof -
  from endpoint_log assms obtain l where "ex_Log x' = ex_Log x @ l" "operation_log (logs_errors e) l (ex_Response x')"
    by (rule answersD)
  then show ?thesis by (intro exI [of _ l]) (auto simp: operation_log_def error_entry_def split: if_splits)
qed

theorem failure_causes_witness:
  "\<exists>x'. run_state (endpoint_handler demo_env demo_config ListTodos (demo_request ''GET'' ''/api/v1/todos'' '''' None))
       \<lparr>ex_World = demo_app, ex_Response = no_response, ex_Log = []\<rparr> = ((), x') \<and> ex_Log x' = []"
proof -
  obtain x' where run: "run_state (endpoint_handler demo_env demo_config ListTodos
      (demo_request ''GET'' ''/api/v1/todos'' '''' None)) \<lparr>ex_World = demo_app, ex_Response = no_response, ex_Log = []\<rparr> = ((), x')"
    by (rule run_unit)
  from failure_causes [OF open_no_response run] have "ex_Log x' = []" by (elim exE conjE) simp
  with run show ?thesis by (intro exI conjI)
qed

end
