(* ===== verification/Otel_Correct.thy ===== *)
theory Otel_Correct
  imports Otel
begin

text \<open>What the setup of tracing promises: the bounds of the sampling and of the export, the globals.\<close>

definition same_globals :: "('r, 'x) telemetry \<Rightarrow> ('r, 'x) telemetry \<Rightarrow> bool" where
  "same_globals s s' \<longleftrightarrow> tm_Provider s' = tm_Provider s \<and> tm_Propagators s' = tm_Propagators s"

text \<open>A ratio between 0 and 1, or not a number: that passes both comparisons.\<close>

definition clamped :: "float64 \<Rightarrow> bool" where
  "clamped x \<longleftrightarrow> \<not> float_less x float_0 \<and> \<not> float_less float_1 x"

lemma clamped_consts [simp]: "clamped float_0" "clamped float_1" "clamped float_tenth"
  by (simp_all add: clamped_def)

lemma getSamplingRatio_clamped: "clamped (getSamplingRatio L Getenv)"
  by (auto simp: getSamplingRatio_def Let_def split: option.split) (simp_all add: clamped_def)

lemma getSamplingRatio_NaN:
  "getSamplingRatio L Getenv = NaN \<Longrightarrow> Sscanf_float L (Getenv ''OTEL_TRACE_SAMPLING_RATIO'') = Some NaN"
  by (auto simp: getSamplingRatio_def Let_def split: option.splits if_splits)

lemma wp_tm [wp_simps]:
  "wp (tm_log e) Q s \<longleftrightarrow> Q () (s\<lparr>tm_Log := tm_Log s @ [e]\<rparr>)"
  "wp (SetTracerProvider p) Q s \<longleftrightarrow> Q () (s\<lparr>tm_Provider := Some p\<rparr>)"
  "wp (SetTextMapPropagator ps) Q s \<longleftrightarrow> Q () (s\<lparr>tm_Propagators := ps\<rparr>)"
  by (simp_all add: tm_log_def SetTracerProvider_def SetTextMapPropagator_def wp_def)

text \<open>An export is given two seconds at least, and the configured time when that is longer.\<close>

definition timely :: "go_duration \<Rightarrow> exporter_option list \<Rightarrow> bool" where
  "timely t options \<longleftrightarrow> WithTimeout (max t (2 * Second)) \<in> set options"

lemma exporter_options_wp:
  "wp (exporter_options Getenv insecure t) (\<lambda>options s'. timely t options \<and> same_globals s s') s"
  by (auto simp: exporter_options_def Let_def wp_simps timely_def same_globals_def max_def)

lemma make_resource_wp: "wp (make_resource L Getenv n) (\<lambda>r. same_globals s) s"
  by (auto simp: make_resource_def wp_simps same_globals_def split: sum.split)

text \<open>
  C39. Tracing is set up whole or not at all: the globals of the package are set exactly when there is an
  exporter. Then every export has between two seconds and the configured time, whichever is longer, and
  the sampling ratio is at least 0 and at most 1, or not a number, which only the environment can make it.
\<close>

theorem Setup_safe:
  assumes "run_state (Setup L Getenv n insecure t) s = (r, s')"
  shows "case r of
      Inr (Batching b) \<Rightarrow> tm_Provider s' = Some (Batching b) \<and> tm_Propagators s' = [TraceContext, Baggage] \<and>
        clamped (bp_ParentBasedRatio b) \<and>
        (bp_ParentBasedRatio b = NaN \<longrightarrow> Sscanf_float L (Getenv ''OTEL_TRACE_SAMPLING_RATIO'') = Some NaN) \<and>
        (\<exists>options. otlptracehttp_New L options = Inr (bp_Exporter b) \<and> timely t options)
    | _ \<Rightarrow> same_globals s s'"
proof -
  have trans: "same_globals s s2" if "same_globals s s1" "same_globals s1 s2" for s1 s2
    using that by (simp add: same_globals_def)
  have "wp (Setup L Getenv n insecure t) (\<lambda>r s'. case r of
      Inr (Batching b) \<Rightarrow> tm_Provider s' = Some (Batching b) \<and> tm_Propagators s' = [TraceContext, Baggage] \<and>
        clamped (bp_ParentBasedRatio b) \<and>
        (bp_ParentBasedRatio b = NaN \<longrightarrow> Sscanf_float L (Getenv ''OTEL_TRACE_SAMPLING_RATIO'') = Some NaN) \<and>
        (\<exists>options. otlptracehttp_New L options = Inr (bp_Exporter b) \<and> timely t options)
    | _ \<Rightarrow> same_globals s s') s"
    unfolding Setup_def wp_tryE
  proof (rule wp_mono [OF make_resource_wp], goal_cases)
    case (1 res s1)
    then show ?case
    proof (cases res)
      case (Inr x)
      show ?thesis
        unfolding Inr sum.case wp_bind
        by (rule wp_mono [OF exporter_options_wp])
          (use 1 in \<open>auto simp: wp_simps Let_def getSamplingRatio_clamped getSamplingRatio_NaN same_globals_def split: sum.split\<close>)
    qed simp
  qed
  from wpD [OF this assms] show ?thesis .
qed

theorem Setup_safe_witness:
  "\<exists>b s'. run_state (Setup \<lparr>resource_New = Inr, otlptracehttp_New = Inr, Sscanf_float = (\<lambda>_. Some (Finite 3 0))\<rparr>
       (\<lambda>k. if k = ''OTEL_TRACE_SAMPLING_RATIO'' then ''3'' else '''') ''api'' True Second)
       \<lparr>tm_Log = [], tm_Provider = None, tm_Propagators = []\<rparr> = (Inr (Batching b), s') \<and>
     tm_Provider s' = Some (Batching b) \<and> clamped (bp_ParentBasedRatio b)"
proof -
  let ?run = "run_state (Setup \<lparr>resource_New = Inr, otlptracehttp_New = Inr, Sscanf_float = (\<lambda>_. Some (Finite 3 0))\<rparr>
       (\<lambda>k. if k = ''OTEL_TRACE_SAMPLING_RATIO'' then ''3'' else '''') ''api'' True Second)
       \<lparr>tm_Log = [], tm_Provider = None, tm_Propagators = []\<rparr>"
  have "case fst ?run of Inr (Batching b) \<Rightarrow> True | _ \<Rightarrow> False" by code_simp
  then obtain b s' where run: "?run = (Inr (Batching b), s')"
    by (cases ?run; cases "fst ?run") (auto split: provider.splits)
  from Setup_safe [OF run] have "tm_Provider s' = Some (Batching b) \<and> clamped (bp_ParentBasedRatio b)" by simp
  with run show ?thesis by (intro exI conjI) (assumption | elim conjE)+
qed

end
