(* ===== verification/Lifecycle.thy ===== *)
theory Lifecycle
  imports Startup
begin

text \<open>
  The life of the listening process, \<open>startHTTPServer\<close> of \<open>cmd/api/main.go\<close>: its two servers, the
  goroutines that run them, the channels \<open>serverErrors\<close> and \<open>shutdown\<close>, the \<open>select\<close>, the graceful
  shutdown with its deadline. A relation steps the main goroutine, the two others, the signals, the
  clock and the requests in any order; a request is served in one step.

  \<open>http.Server\<close> is modelled from its documentation: \<open>ListenAndServe\<close> blocks until the server fails or is
  shut down, and then answers \<open>ErrServerClosed\<close>; \<open>Shutdown\<close> stops the listening at once, then waits for
  the requests in flight, and fails when its context ends first or a listener could not be closed.
\<close>

section \<open>The servers\<close>

record http_Server =
  hs_Addr :: string
  hs_ReadTimeout :: go_duration
  hs_ReadHeaderTimeout :: go_duration
  hs_WriteTimeout :: go_duration
  hs_IdleTimeout :: go_duration

definition listen_addr :: "string \<Rightarrow> int \<Rightarrow> string" where
  "listen_addr host port = host @ '':'' @ Itoa port"

definition api_server :: "('ip, 'f) Config \<Rightarrow> http_Server" where
  "api_server cfg =
     \<lparr>hs_Addr = listen_addr (srv_Host (Config_Server cfg)) (srv_Port (Config_Server cfg)),
      hs_ReadTimeout = srv_ReadTimeout (Config_Server cfg), hs_ReadHeaderTimeout = 0,
      hs_WriteTimeout = srv_WriteTimeout (Config_Server cfg), hs_IdleTimeout = srv_IdleTimeout (Config_Server cfg)\<rparr>"

definition metrics_server :: "('ip, 'f) Config \<Rightarrow> http_Server" where
  "metrics_server cfg =
     \<lparr>hs_Addr = listen_addr (srv_Host (Config_Server cfg)) (srv_MetricsPort (Config_Server cfg)),
      hs_ReadTimeout = 0, hs_ReadHeaderTimeout = 5 * Second, hs_WriteTimeout = 0, hs_IdleTimeout = 0\<rparr>"

text \<open>A goroutine: before its first entry in the log, calling \<open>ListenAndServe\<close>, in it, after it, gone.\<close>

datatype goroutine = Starting | Calling | Serving | Ended serve_error | Finished

record running =
  rn_Goroutine :: goroutine
  rn_InShutdown :: bool

text \<open>\<open>ListenAndServe\<close>.\<close>

inductive listen_and_serve :: "running \<Rightarrow> running \<Rightarrow> bool" where
  listens: "rn_Goroutine l = Calling \<Longrightarrow> \<not> rn_InShutdown l \<Longrightarrow>
    listen_and_serve l (l\<lparr>rn_Goroutine := Serving\<rparr>)"
| cannot_listen: "rn_Goroutine l = Calling \<Longrightarrow> listen_and_serve l (l\<lparr>rn_Goroutine := Ended (ServeFailed e)\<rparr>)"
| fails: "rn_Goroutine l = Serving \<Longrightarrow> \<not> rn_InShutdown l \<Longrightarrow>
    listen_and_serve l (l\<lparr>rn_Goroutine := Ended (ServeFailed e)\<rparr>)"
| closed: "rn_Goroutine l \<in> {Calling, Serving} \<Longrightarrow> rn_InShutdown l \<Longrightarrow>
    listen_and_serve l (l\<lparr>rn_Goroutine := Ended ErrServerClosed\<rparr>)"

section \<open>The state\<close>

datatype os_signal = Interrupt | SIGTERM

definition signal_String :: "os_signal \<Rightarrow> string" where
  "signal_String sig = (case sig of Interrupt \<Rightarrow> ''interrupt'' | SIGTERM \<Rightarrow> ''terminated'')"

text \<open>
  Where the main goroutine is: in the \<open>select\<close>, before and in each call of \<open>Shutdown\<close>, or back with its error.
\<close>

datatype main_pc =
    Selecting
  | BeforeMetricsShutdown
  | InMetricsShutdown
  | BeforeServerShutdown
  | InServerShutdown
  | Returned "startup_error option"

record 'l lifecycle =
  lc_main :: main_pc
  lc_server :: running
  lc_metrics :: running
  lc_serverErrors :: "serve_error list"
  lc_shutdown :: "os_signal list"
  lc_expired :: bool
  lc_app :: "'l app"
  lc_accepted :: "request list"
  lc_inflight :: "request list"
  lc_answered :: "(request \<times> response) list"
  lc_scrapes :: nat
  lc_log :: "zap_entry list"

definition listening :: "'l app \<Rightarrow> 'l lifecycle" where
  "listening w =
     \<lparr>lc_main = Selecting, lc_server = \<lparr>rn_Goroutine = Starting, rn_InShutdown = False\<rparr>,
      lc_metrics = \<lparr>rn_Goroutine = Starting, rn_InShutdown = False\<rparr>, lc_serverErrors = [], lc_shutdown = [],
      lc_expired = False, lc_app = w, lc_accepted = [], lc_inflight = [], lc_answered = [], lc_scrapes = 0,
      lc_log = []\<rparr>"

section \<open>The log\<close>

definition log_server_starting :: "('ip, 'f) Config \<Rightarrow> zap_entry" where
  "log_server_starting cfg = Info ''HTTP server starting''
     [StringField ''addr'' (hs_Addr (api_server cfg)), IntField ''port'' (srv_Port (Config_Server cfg))]"

definition log_metrics_starting :: "('ip, 'f) Config \<Rightarrow> zap_entry" where
  "log_metrics_starting cfg = Info ''metrics server starting''
     [StringField ''addr'' (hs_Addr (metrics_server cfg)), StringField ''path'' ''/metrics'']"

definition log_metrics_failed :: "string \<Rightarrow> zap_entry" where
  "log_metrics_failed err = Error ''metrics server failed'' [ErrorField (ErrText err)]"

definition log_signal :: "os_signal \<Rightarrow> zap_entry" where
  "log_signal sig = Info ''shutdown signal received'' [StringField ''signal'' (signal_String sig)]"

definition log_metrics_shutdown_failed :: "string \<Rightarrow> zap_entry" where
  "log_metrics_shutdown_failed err = Warn ''metrics server shutdown failed'' [ErrorField (ErrText err)]"

definition log_stopped :: zap_entry where
  "log_stopped = Info ''HTTP server stopped'' []"

section \<open>The steps\<close>

text \<open>
  A channel has room for one value: a second signal is dropped, as \<open>signal.Notify\<close> does, and the server's
  goroutine waits until it can send. When both channels have a value, \<open>select\<close> takes either.
\<close>

inductive lifecycle_step ::
    "('ip, 'l) env \<Rightarrow> ('ip, 'f) Config \<Rightarrow> 'ip config \<Rightarrow> 'l lifecycle \<Rightarrow> 'l lifecycle \<Rightarrow> bool"
  for E :: "('ip, 'l) env" and cfg :: "('ip, 'f) Config" and C :: "'ip config" where
  server_starting: "rn_Goroutine (lc_server s) = Starting \<Longrightarrow>
    lifecycle_step E cfg C s (s\<lparr>lc_server := (lc_server s)\<lparr>rn_Goroutine := Calling\<rparr>,
      lc_log := lc_log s @ [log_server_starting cfg]\<rparr>)"
| server_serves: "listen_and_serve (lc_server s) l \<Longrightarrow> lifecycle_step E cfg C s (s\<lparr>lc_server := l\<rparr>)"
| server_sends: "rn_Goroutine (lc_server s) = Ended e \<Longrightarrow> lc_serverErrors s = [] \<Longrightarrow>
    lifecycle_step E cfg C s (s\<lparr>lc_server := (lc_server s)\<lparr>rn_Goroutine := Finished\<rparr>, lc_serverErrors := [e]\<rparr>)"
| metrics_starting: "rn_Goroutine (lc_metrics s) = Starting \<Longrightarrow>
    lifecycle_step E cfg C s (s\<lparr>lc_metrics := (lc_metrics s)\<lparr>rn_Goroutine := Calling\<rparr>,
      lc_log := lc_log s @ [log_metrics_starting cfg]\<rparr>)"
| metrics_serves: "listen_and_serve (lc_metrics s) l \<Longrightarrow> lifecycle_step E cfg C s (s\<lparr>lc_metrics := l\<rparr>)"
| metrics_ends: "rn_Goroutine (lc_metrics s) = Ended e \<Longrightarrow>
    lifecycle_step E cfg C s (s\<lparr>lc_metrics := (lc_metrics s)\<lparr>rn_Goroutine := Finished\<rparr>,
      lc_log := lc_log s @ (case e of ErrServerClosed \<Rightarrow> [] | ServeFailed err \<Rightarrow> [log_metrics_failed err])\<rparr>)"
| accepts: "rn_Goroutine (lc_server s) = Serving \<Longrightarrow> \<not> rn_InShutdown (lc_server s) \<Longrightarrow>
    lifecycle_step E cfg C s (s\<lparr>lc_accepted := lc_accepted s @ [r], lc_inflight := lc_inflight s @ [r]\<rparr>)"
| answers: "r \<in> set (lc_inflight s) \<Longrightarrow> run_state (serve E C r) (lc_app s) = (res, w) \<Longrightarrow>
    lifecycle_step E cfg C s (s\<lparr>lc_app := w, lc_inflight := remove1 r (lc_inflight s),
      lc_answered := lc_answered s @ [(r, res)]\<rparr>)"
| sweeps: "0 < lim_pending (app_limits (lc_app s)) \<Longrightarrow>
    run_state (on_limits (sweep (env_limiter E) (limit_args (cfg_rate C)))) (lc_app s) = ((), w) \<Longrightarrow>
    lifecycle_step E cfg C s (s\<lparr>lc_app := w\<rparr>)"
| scrapes: "rn_Goroutine (lc_metrics s) = Serving \<Longrightarrow> \<not> rn_InShutdown (lc_metrics s) \<Longrightarrow>
    lifecycle_step E cfg C s (s\<lparr>lc_scrapes := Suc (lc_scrapes s)\<rparr>)"
| scraped: "0 < lc_scrapes s \<Longrightarrow> lifecycle_step E cfg C s (s\<lparr>lc_scrapes := lc_scrapes s - 1\<rparr>)"
| signal: "lc_shutdown s = [] \<Longrightarrow> lifecycle_step E cfg C s (s\<lparr>lc_shutdown := [sig]\<rparr>)"
| select_error: "lc_main s = Selecting \<Longrightarrow> lc_serverErrors s = [err] \<Longrightarrow>
    lifecycle_step E cfg C s (s\<lparr>lc_main := Returned (Some (ServerError err)), lc_serverErrors := []\<rparr>)"
| select_signal: "lc_main s = Selecting \<Longrightarrow> lc_shutdown s = [sig] \<Longrightarrow>
    lifecycle_step E cfg C s (s\<lparr>lc_main := BeforeMetricsShutdown, lc_shutdown := [],
      lc_log := lc_log s @ [log_signal sig]\<rparr>)"
| deadline: "lc_main s \<in> {BeforeMetricsShutdown, InMetricsShutdown, BeforeServerShutdown, InServerShutdown} \<Longrightarrow>
    lifecycle_step E cfg C s (s\<lparr>lc_expired := True\<rparr>)"
| shuts_metrics: "lc_main s = BeforeMetricsShutdown \<Longrightarrow>
    lifecycle_step E cfg C s (s\<lparr>lc_main := InMetricsShutdown, lc_metrics := (lc_metrics s)\<lparr>rn_InShutdown := True\<rparr>\<rparr>)"
| metrics_shut: "lc_main s = InMetricsShutdown \<Longrightarrow> lc_scrapes s = 0 \<Longrightarrow>
    lifecycle_step E cfg C s (s\<lparr>lc_main := BeforeServerShutdown\<rparr>)"
| metrics_not_shut: "lc_main s = InMetricsShutdown \<Longrightarrow> lc_expired s \<or> lc_scrapes s = 0 \<Longrightarrow>
    lifecycle_step E cfg C s (s\<lparr>lc_main := BeforeServerShutdown,
      lc_log := lc_log s @ [log_metrics_shutdown_failed err]\<rparr>)"
| shuts_server: "lc_main s = BeforeServerShutdown \<Longrightarrow>
    lifecycle_step E cfg C s (s\<lparr>lc_main := InServerShutdown, lc_server := (lc_server s)\<lparr>rn_InShutdown := True\<rparr>\<rparr>)"
| server_shut: "lc_main s = InServerShutdown \<Longrightarrow> lc_inflight s = [] \<Longrightarrow>
    lifecycle_step E cfg C s (s\<lparr>lc_main := Returned None, lc_log := lc_log s @ [log_stopped]\<rparr>)"
| server_not_shut: "lc_main s = InServerShutdown \<Longrightarrow> lc_expired s \<or> lc_inflight s = [] \<Longrightarrow>
    lifecycle_step E cfg C s (s\<lparr>lc_main := Returned (Some (GracefulShutdownError err))\<rparr>)"

definition lives :: "('ip, 'l) env \<Rightarrow> ('ip, 'f) Config \<Rightarrow> 'ip config \<Rightarrow> 'l app \<Rightarrow> 'l lifecycle \<Rightarrow> bool" where
  "lives E cfg C w s \<longleftrightarrow> (lifecycle_step E cfg C)\<^sup>*\<^sup>* (listening w) s"

text \<open>\<open>startHTTPServer\<close> in the run of the process, for the end that a schedule of the steps brings about.\<close>

definition startHTTPServer ::
    "(('ip, 'f) Config \<Rightarrow> 'ip config \<Rightarrow> 'l app \<Rightarrow> 'l lifecycle) \<Rightarrow>
     ('ip, 'f) Config \<Rightarrow> 'ip config \<Rightarrow> 'l app \<Rightarrow> (('r, 'x) process_state, startup_error + unit) state" where
  "startHTTPServer ending cfg C w = State (\<lambda>s.
     let l = ending cfg C w
     in (case lc_main l of Returned (Some err) \<Rightarrow> Inl err | _ \<Rightarrow> Inr (),
         s\<lparr>ps_db := app_db (lc_app l),
           ps_telemetry := (ps_telemetry s)\<lparr>tm_Log := tm_Log (ps_telemetry s) @ lc_log l\<rparr>\<rparr>))"

end
