(* ===== verification/Lifecycle_Correct.thy ===== *)
theory Lifecycle_Correct
  imports Lifecycle Startup_Correct Server_Correct "HOL-Library.Multiset"
begin

text \<open>
  What holds of the listening process in every state it reaches, whatever the order of its steps: the
  channels, the shutdown, the requests, the data; that a shutdown ends; what the exit code tells.
\<close>

section \<open>Invariants\<close>

text \<open>Which server has been told to shut down, by where the main goroutine is, and what it returned.\<close>

definition shutdown_inv :: "'l lifecycle \<Rightarrow> bool" where
  "shutdown_inv s \<longleftrightarrow>
     (case lc_main s of
        Selecting \<Rightarrow> \<not> rn_InShutdown (lc_server s) \<and> \<not> rn_InShutdown (lc_metrics s) \<and> \<not> lc_expired s
      | BeforeMetricsShutdown \<Rightarrow> \<not> rn_InShutdown (lc_server s) \<and> \<not> rn_InShutdown (lc_metrics s)
      | InMetricsShutdown \<Rightarrow> \<not> rn_InShutdown (lc_server s) \<and> rn_InShutdown (lc_metrics s)
      | BeforeServerShutdown \<Rightarrow> \<not> rn_InShutdown (lc_server s) \<and> rn_InShutdown (lc_metrics s)
      | InServerShutdown \<Rightarrow> rn_InShutdown (lc_server s) \<and> rn_InShutdown (lc_metrics s)
      | Returned None \<Rightarrow> rn_InShutdown (lc_server s) \<and> rn_InShutdown (lc_metrics s) \<and> lc_inflight s = [] \<and>
          log_stopped \<in> set (lc_log s)
      | Returned (Some (GracefulShutdownError err)) \<Rightarrow> rn_InShutdown (lc_server s) \<and> rn_InShutdown (lc_metrics s)
      | Returned (Some (ServerError err)) \<Rightarrow> err \<noteq> ErrServerClosed \<and>
          \<not> rn_InShutdown (lc_server s) \<and> \<not> rn_InShutdown (lc_metrics s)
      | Returned (Some err) \<Rightarrow> False)"

text \<open>The channels hold one value at most; what the server's goroutine sends is never waited for.\<close>

definition channel_inv :: "'l lifecycle \<Rightarrow> bool" where
  "channel_inv s \<longleftrightarrow> length (lc_serverErrors s) \<le> 1 \<and> length (lc_shutdown s) \<le> 1 \<and>
     (rn_Goroutine (lc_server s) \<noteq> Finished \<longrightarrow> lc_serverErrors s = []) \<and>
     (rn_Goroutine (lc_server s) = Ended ErrServerClosed \<or> ErrServerClosed \<in> set (lc_serverErrors s) \<longrightarrow>
        rn_InShutdown (lc_server s))"

text \<open>Every request that was accepted is in flight or answered, once.\<close>

definition requests_inv :: "'l lifecycle \<Rightarrow> bool" where
  "requests_inv s \<longleftrightarrow> mset (lc_accepted s) = mset (lc_inflight s) + mset (map fst (lc_answered s))"

definition signalled :: "'l lifecycle \<Rightarrow> bool" where
  "signalled s \<longleftrightarrow> (\<exists>sig. log_signal sig \<in> set (lc_log s))"

definition signal_inv :: "'l lifecycle \<Rightarrow> bool" where
  "signal_inv s \<longleftrightarrow> (case lc_main s of
      Selecting \<Rightarrow> True
    | Returned (Some (ServerError err)) \<Rightarrow> True
    | _ \<Rightarrow> signalled s)"

lemmas lifecycle_invs = shutdown_inv_def channel_inv_def requests_inv_def signal_inv_def

lemma listening_inv:
  "shutdown_inv (listening w)" "channel_inv (listening w)" "requests_inv (listening w)" "signal_inv (listening w)"
  by (simp_all add: lifecycle_invs listening_def)

inductive_cases listen_and_serveE: "listen_and_serve l l'"

lemma listen_and_serve_frame:
  assumes "listen_and_serve l l'"
  shows "rn_InShutdown l' = rn_InShutdown l" "rn_Goroutine l \<noteq> Finished" "rn_Goroutine l' \<noteq> Finished"
    "rn_Goroutine l' = Ended ErrServerClosed \<Longrightarrow> rn_InShutdown l"
  using assms by (auto elim: listen_and_serveE)

lemma step_shutdown_inv: "lifecycle_step E cfg C s s' \<Longrightarrow> channel_inv s \<Longrightarrow> shutdown_inv s \<Longrightarrow> shutdown_inv s'"
  by (induction rule: lifecycle_step.induct)
    (auto simp: shutdown_inv_def channel_inv_def listen_and_serve_frame split: main_pc.splits option.splits startup_error.splits)

lemma step_channel_inv: "lifecycle_step E cfg C s s' \<Longrightarrow> shutdown_inv s \<Longrightarrow> channel_inv s \<Longrightarrow> channel_inv s'"
  by (induction rule: lifecycle_step.induct)
    (auto simp: shutdown_inv_def channel_inv_def listen_and_serve_frame dest: listen_and_serve_frame)

lemma step_requests_inv: "lifecycle_step E cfg C s s' \<Longrightarrow> requests_inv s \<Longrightarrow> requests_inv s'"
  by (induction rule: lifecycle_step.induct) (auto simp: requests_inv_def)

lemma step_log: "lifecycle_step E cfg C s s' \<Longrightarrow> set (lc_log s) \<subseteq> set (lc_log s')"
  by (induction rule: lifecycle_step.induct) auto

lemma step_signal_inv: "lifecycle_step E cfg C s s' \<Longrightarrow> signal_inv s \<Longrightarrow> signal_inv s'"
  by (induction rule: lifecycle_step.induct)
    (auto simp: signal_inv_def signalled_def split: main_pc.splits option.splits startup_error.splits)

lemma step_app: "lifecycle_step E cfg C s s' \<Longrightarrow> lc_app s' = lc_app s \<or> server_step E C (lc_app s) (lc_app s')"
  by (induction rule: lifecycle_step.induct) (auto intro: server_step.intros)

lemma server_step_keeps_inv: "server_step E C w w' \<Longrightarrow> db_inv (app_db w) \<Longrightarrow> db_inv (app_db w')"
  by (cases rule: server_step.cases) (auto dest: serve_keeps_inv sweep_keeps_tables)

lemma lives_inv:
  assumes "lives E cfg C w s"
  shows "shutdown_inv s \<and> channel_inv s \<and> requests_inv s \<and> signal_inv s \<and>
    (db_inv (app_db w) \<longrightarrow> db_inv (app_db (lc_app s)))"
  using assms unfolding lives_def
proof (induction rule: rtranclp_induct)
  case base
  then show ?case by (simp add: listening_inv) (simp add: listening_def)
next
  case (step s1 s2)
  then show ?case
    using step_app [OF step.hyps(2)]
    by (auto intro: step_shutdown_inv step_channel_inv step_requests_inv step_signal_inv dest: server_step_keeps_inv)
qed

lemma lives_step: "lives E cfg C w s \<Longrightarrow> lifecycle_step E cfg C s s' \<Longrightarrow> lives E cfg C w s'"
  by (auto simp: lives_def)

lemma lives_listening: "lives E cfg C w (listening w)"
  by (simp add: lives_def)

section \<open>The end\<close>

text \<open>A run that answers a request and is then stopped by a signal.\<close>

definition one_request :: "('ip, 'f) Config \<Rightarrow> request \<Rightarrow> response \<Rightarrow> 'l app \<Rightarrow> 'l lifecycle" where
  "one_request cfg r res w =
     \<lparr>lc_main = Returned None, lc_server = \<lparr>rn_Goroutine = Serving, rn_InShutdown = True\<rparr>,
      lc_metrics = \<lparr>rn_Goroutine = Starting, rn_InShutdown = True\<rparr>, lc_serverErrors = [], lc_shutdown = [],
      lc_expired = False, lc_app = w, lc_accepted = [r], lc_inflight = [], lc_answered = [(r, res)], lc_scrapes = 0,
      lc_log = [log_server_starting cfg, log_signal SIGTERM, log_stopped]\<rparr>"

lemma one_request_lives:
  assumes "run_state (serve E C r) w = (res, w')"
  shows "lives E cfg C w (one_request cfg r res w')"
proof -
  note step = lives_step [where E = E and cfg = cfg and C = C and w = w]
  have "lives E cfg C w (listening w)" by (rule lives_listening)
  note s1 = step [OF this lifecycle_step.server_starting, simplified listening_def, simplified]
  note s2 = step [OF s1 lifecycle_step.server_serves [OF listen_and_serve.listens], simplified]
  note s3 = step [OF s2 lifecycle_step.accepts [where r = r], simplified]
  note s4 = step [OF s3 lifecycle_step.answers [where r = r and res = res and w = w'], simplified, OF assms]
  note s5 = step [OF s4 lifecycle_step.signal [where sig = SIGTERM], simplified]
  note s6 = step [OF s5 lifecycle_step.select_signal, simplified]
  note s7 = step [OF s6 lifecycle_step.shuts_metrics, simplified]
  note s8 = step [OF s7 lifecycle_step.metrics_shut, simplified]
  note s9 = step [OF s8 lifecycle_step.shuts_server, simplified]
  note s10 = step [OF s9 lifecycle_step.server_shut, simplified]
  then show ?thesis by (simp add: one_request_def)
qed

text \<open>
  \<open>startHTTPServer\<close> answers no error only after a signal, with both servers told to shut down, no
  request in flight, every accepted request answered exactly once, and the data satisfying the
  constraints of the schema.
\<close>

theorem graceful_stop:
  assumes "lives E cfg C w s" and "lc_main s = Returned None" and "db_inv (app_db w)"
  shows "signalled s \<and> rn_InShutdown (lc_server s) \<and> rn_InShutdown (lc_metrics s) \<and>
    lc_inflight s = [] \<and> mset (map fst (lc_answered s)) = mset (lc_accepted s) \<and> db_inv (app_db (lc_app s))"
  using lives_inv [OF assms(1)] assms(2,3) by (simp add: lifecycle_invs)

lemma demo_loads: obtains cfg where "Load (demo_config_libs minimal_vars) = Inr cfg"
proof -
  have "\<not> isl (Load (demo_config_libs minimal_vars))" by code_simp
  then show thesis using that by (auto simp: isl_def) (metis sum.exhaust)
qed

theorem graceful_stop_witness:
  "\<exists>cfg res w. Load (demo_config_libs minimal_vars) = Inr cfg \<and>
     run_state (serve demo_env demo_config anon_delete) demo_app = (res, w) \<and>
     signalled (one_request cfg anon_delete res w) \<and> db_inv (app_db w)"
proof -
  obtain cfg where cfg: "Load (demo_config_libs minimal_vars) = Inr cfg" by (rule demo_loads)
  obtain res w where run: "run_state (serve demo_env demo_config anon_delete) demo_app = (res, w)" by force
  have returned: "lc_main (one_request cfg anon_delete res w) = Returned None"
    and w: "lc_app (one_request cfg anon_delete res w) = w"
    by (simp_all add: one_request_def)
  note graceful_stop [OF one_request_lives [OF run, of cfg] returned demo_app_inv, unfolded w]
  with cfg run show ?thesis by (intro exI conjI) (assumption | elim conjE)+
qed

text \<open>How far the main goroutine is from its return.\<close>

fun main_rank :: "main_pc \<Rightarrow> nat" where
  "main_rank Selecting = 5"
| "main_rank BeforeMetricsShutdown = 4"
| "main_rank InMetricsShutdown = 3"
| "main_rank BeforeServerShutdown = 2"
| "main_rank InServerShutdown = 1"
| "main_rank (Returned res) = 0"

definition stopping :: "'l lifecycle \<Rightarrow> bool" where
  "stopping s \<longleftrightarrow> lc_expired s \<and>
     lc_main s \<in> {BeforeMetricsShutdown, InMetricsShutdown, BeforeServerShutdown, InServerShutdown}"

lemma step_main:
  assumes "lifecycle_step E cfg C s s'"
  shows "main_rank (lc_main s') \<le> main_rank (lc_main s)"
    and "lc_main s' \<noteq> lc_main s \<Longrightarrow> main_rank (lc_main s') < main_rank (lc_main s)"
    and "stopping s \<Longrightarrow> stopping s' \<or> (\<exists>res. lc_main s' = Returned res)"
    and "lc_main s = Returned res \<Longrightarrow> lc_main s' = Returned res"
  using assms by (induction rule: lifecycle_step.induct) (auto simp: stopping_def)

lemma steps_stopping:
  assumes "(lifecycle_step E cfg C)\<^sup>*\<^sup>* s s'" and "stopping s"
  shows "stopping s' \<or> (\<exists>res. lc_main s' = Returned res)"
  using assms by (induction rule: rtranclp_induct) (auto dest: step_main(3,4))

lemma stopping_moves:
  assumes "stopping s"
  shows "\<exists>s'. lifecycle_step E cfg C s s' \<and> lc_main s' \<noteq> lc_main s"
proof -
  have expired: "lc_expired s" using assms by (simp add: stopping_def)
  consider "lc_main s = BeforeMetricsShutdown" | "lc_main s = InMetricsShutdown"
    | "lc_main s = BeforeServerShutdown" | "lc_main s = InServerShutdown"
    using assms by (auto simp: stopping_def)
  then show ?thesis
  proof cases
    case 1
    show ?thesis by (rule exI, rule conjI, rule lifecycle_step.shuts_metrics) (simp_all add: 1)
  next
    case 2
    show ?thesis by (rule exI, rule conjI, rule lifecycle_step.metrics_not_shut) (simp_all add: 2 expired)
  next
    case 3
    show ?thesis by (rule exI, rule conjI, rule lifecycle_step.shuts_server) (simp_all add: 3)
  next
    case 4
    show ?thesis by (rule exI, rule conjI, rule lifecycle_step.server_not_shut) (simp_all add: 4 expired)
  qed
qed

text \<open>
  C25. Once its deadline has passed, a shutdown ends: the main goroutine can always take its next step,
  no other step takes that away, every step of its own brings it closer to its return, and it has at
  most four to take.
\<close>

theorem shutdown_ends:
  assumes "stopping s" and "(lifecycle_step E cfg C)\<^sup>*\<^sup>* s s1"
  shows "main_rank (lc_main s) \<le> 4 \<and>
    ((\<exists>res. lc_main s1 = Returned res) \<or> (\<exists>s2. lifecycle_step E cfg C s1 s2 \<and> lc_main s2 \<noteq> lc_main s1)) \<and>
    (\<forall>s2. lifecycle_step E cfg C s1 s2 \<longrightarrow> lc_main s2 = lc_main s1 \<or>
       main_rank (lc_main s2) < main_rank (lc_main s1))"
proof (intro conjI)
  show "main_rank (lc_main s) \<le> 4" using assms(1) by (auto simp: stopping_def)
  show "(\<exists>res. lc_main s1 = Returned res) \<or> (\<exists>s2. lifecycle_step E cfg C s1 s2 \<and> lc_main s2 \<noteq> lc_main s1)"
    using steps_stopping [OF assms(2,1)] stopping_moves by blast
  show "\<forall>s2. lifecycle_step E cfg C s1 s2 \<longrightarrow> lc_main s2 = lc_main s1 \<or>
      main_rank (lc_main s2) < main_rank (lc_main s1)"
    using step_main(2) by blast
qed

text \<open>A shutdown that waits for a request when its deadline passes.\<close>

definition hanging :: "request \<Rightarrow> 'l app \<Rightarrow> 'l lifecycle" where
  "hanging r w = (listening w)\<lparr>lc_main := InServerShutdown, lc_expired := True,
     lc_server := \<lparr>rn_Goroutine = Serving, rn_InShutdown = True\<rparr>,
     lc_metrics := \<lparr>rn_Goroutine = Serving, rn_InShutdown = True\<rparr>, lc_accepted := [r], lc_inflight := [r]\<rparr>"

theorem shutdown_ends_witness:
  "\<exists>cfg s2. Load (demo_config_libs minimal_vars) = Inr cfg \<and>
     lifecycle_step demo_env cfg demo_config (hanging anon_delete demo_app) s2 \<and> (\<exists>res. lc_main s2 = Returned res)"
proof -
  obtain cfg where cfg: "Load (demo_config_libs minimal_vars) = Inr cfg" by (rule demo_loads)
  have stop: "stopping (hanging anon_delete demo_app)" and main: "lc_main (hanging anon_delete demo_app) = InServerShutdown"
    by (simp_all add: stopping_def hanging_def)
  from shutdown_ends [OF stop rtranclp.rtrancl_refl, of demo_env cfg demo_config]
  obtain s2 where "lifecycle_step demo_env cfg demo_config (hanging anon_delete demo_app) s2"
    and "main_rank (lc_main s2) < 1" unfolding main by auto
  with cfg show ?thesis by (intro exI [of _ cfg] exI [of _ s2]) (cases "lc_main s2"; simp)
qed

section \<open>The process\<close>

text \<open>An ending for every start: a state the steps lead to, with the main goroutine returned.\<close>

definition ends_properly ::
    "('ip, 'l) env \<Rightarrow> (('ip, 'f) Config \<Rightarrow> 'ip config \<Rightarrow> 'l app \<Rightarrow> 'l lifecycle) \<Rightarrow> bool" where
  "ends_properly E ending \<longleftrightarrow> (\<forall>cfg C w. lives E cfg C w (ending cfg C w) \<and>
     (\<exists>res. lc_main (ending cfg C w) = Returned res))"

lemma startHTTPServer_serves_only:
  assumes "ends_properly E ending"
  shows "serves_only (startHTTPServer ending)"
proof -
  have "(\<exists>e. err = ServerError e) \<or> (\<exists>t. err = GracefulShutdownError t)"
    if "lc_main (ending cfg C w) = Returned (Some err)" for cfg C w err
  proof -
    have "shutdown_inv (ending cfg C w)"
      using assms lives_inv unfolding ends_properly_def by blast
    with that show ?thesis by (cases err) (simp_all add: shutdown_inv_def)
  qed
  then show ?thesis
    by (auto simp: serves_only_def startHTTPServer_def Let_def split: main_pc.splits option.splits)
qed

text \<open>
  C11. The process exits with 0 only after a graceful stop: it had loaded its configuration and filled its
  state from the database, a signal came, every accepted request was answered, the data satisfy the
  constraints of the schema, and the pool, the tracer and the logger were released in this order.
\<close>

theorem exit_zero:
  fixes s :: "('g, 'h) process_state"
  assumes "ends_properly E ending" and "db_inv (ps_db s)"
    and "run_state (api_main M E (startHTTPServer ending)) s = (0, s')"
  shows "\<exists>cfg w. Load (ml_Config M) = Inr cfg \<and> started E (ps_db s) w \<and>
    (let l = ending cfg (run_config cfg) w
     in lc_main l = Returned None \<and> signalled l \<and> lc_inflight l = [] \<and>
        mset (map fst (lc_answered l)) = mset (lc_accepted l) \<and>
        ps_db s' = app_db (lc_app l) \<and> db_inv (ps_db s')) \<and>
    (\<exists>rs \<in> {[PoolClosed, LoggerSynced], [PoolClosed, TracerShutDown, LoggerSynced]}.
       ps_Released s' = ps_Released s @ rs)"
proof -
  define good where "good s' \<longleftrightarrow> (\<exists>cfg w. Load (ml_Config M) = Inr cfg \<and> started E (ps_db s) w \<and>
    (let l = ending cfg (run_config cfg) w
     in lc_main l = Returned None \<and> signalled l \<and> lc_inflight l = [] \<and>
        mset (map fst (lc_answered l)) = mset (lc_accepted l) \<and>
        ps_db s' = app_db (lc_app l) \<and> db_inv (ps_db s')) \<and>
    (\<exists>rs \<in> {[PoolClosed, LoggerSynced], [PoolClosed, TracerShutDown, LoggerSynced]}.
       ps_Released s' = ps_Released s @ rs))" for s' :: "('g, 'h) process_state"
  have run: "wp (api_run M E (startHTTPServer ending)) (\<lambda>r s'. \<not> isl r \<longrightarrow> good s') s"
  proof (rule api_run_wp [OF assms(2)])
    fix cfg g w s1
    assume load: "Load (ml_Config M) = Inr cfg" and w: "started E (ps_db s) w" and quiet: "quiet s s1"
    let ?l = "ending cfg (run_config cfg) w"
    from assms(1) obtain res where lives: "lives E cfg (run_config cfg) w ?l" and res: "lc_main ?l = Returned res"
      unfolding ends_properly_def by blast
    have inv: "db_inv (app_db w)" using w by (simp add: started_def)
    have good_if: "good s2" if "res = None" and "rs \<in> {[], [TracerShutDown]}" and "ps_db s2 = app_db (lc_app ?l)"
      and "ps_Released s2 = ps_Released s @ PoolClosed # rs @ [LoggerSynced]" for rs s2
      using lives_inv [OF lives] inv res load w that unfolding good_def
      by (intro exI [of _ cfg] exI [of _ w]) (auto simp: lifecycle_invs Let_def)
    show "wp (startHTTPServer ending cfg (run_config cfg) w) (\<lambda>r s'. \<forall>s2 rs. rs \<in> {[], [TracerShutDown]} \<longrightarrow>
        finishing (PoolClosed # rs @ [LoggerSynced]) s' s2 \<longrightarrow> \<not> isl r \<longrightarrow> good s2) s1"
    proof (cases res)
      case None
      then show ?thesis
        using quiet
        by (auto simp: startHTTPServer_def wp_def Let_def res finishing_def quiet_def
          intro: good_if [where rs = "[]"] good_if [where rs = "[TracerShutDown]"])
    qed (simp add: startHTTPServer_def wp_def Let_def res)
  qed simp_all
  have "wp (api_main M E (startHTTPServer ending)) (\<lambda>code s'. code = 0 \<longrightarrow> good s') s"
    unfolding api_main_def wp_bind by (rule wp_mono [OF run]) (auto simp: wp_simps split: sum.splits)
  from wpD [OF this assms(3)] show ?thesis by (simp add: good_def)
qed

text \<open>A server that is stopped before it has started.\<close>

definition stopped_at_once :: "'l app \<Rightarrow> 'l lifecycle" where
  "stopped_at_once w = (listening w)\<lparr>lc_main := Returned None,
     lc_server := \<lparr>rn_Goroutine = Starting, rn_InShutdown = True\<rparr>,
     lc_metrics := \<lparr>rn_Goroutine = Starting, rn_InShutdown = True\<rparr>, lc_log := [log_signal SIGTERM, log_stopped]\<rparr>"

lemma stopped_at_once_lives: "lives E cfg C w (stopped_at_once w)"
proof -
  note step = lives_step [where E = E and cfg = cfg and C = C and w = w]
  have "lives E cfg C w (listening w)" by (rule lives_listening)
  note s1 = step [OF this lifecycle_step.signal [where sig = SIGTERM], simplified listening_def, simplified]
  note s2 = step [OF s1 lifecycle_step.select_signal, simplified]
  note s3 = step [OF s2 lifecycle_step.shuts_metrics, simplified]
  note s4 = step [OF s3 lifecycle_step.metrics_shut, simplified]
  note s5 = step [OF s4 lifecycle_step.shuts_server, simplified]
  note s6 = step [OF s5 lifecycle_step.server_shut, simplified]
  then show ?thesis by (simp add: stopped_at_once_def listening_def)
qed

theorem exit_zero_witness:
  "\<exists>s'. run_state (api_main (demo_main_libs minimal_vars) demo_env (startHTTPServer (\<lambda>cfg C. stopped_at_once)))
       (demo_process demo_db) = (0, s') \<and> db_inv (ps_db s')"
proof -
  let ?run = "run_state (api_main (demo_main_libs minimal_vars) demo_env (startHTTPServer (\<lambda>cfg C. stopped_at_once)))
       (demo_process demo_db)"
  have "fst ?run = 0" by code_simp
  then obtain s' where run: "?run = (0, s')" by (metis prod.collapse)
  have ending: "ends_properly demo_env (\<lambda>cfg C. stopped_at_once)"
    by (auto simp: ends_properly_def stopped_at_once_lives) (simp add: stopped_at_once_def)
  have "db_inv (ps_db (demo_process demo_db))" using demo_db_inv by (simp add: demo_process_def)
  from exit_zero [OF ending this run] have "db_inv (ps_db s')"
    unfolding Let_def by (elim exE conjE)
  with run show ?thesis by blast
qed

end
