(* ===== verification/Migrations.thy ===== *)
theory Migrations
  imports Queries "HOL-Library.Sublist"
begin

text \<open>
  The files of \<open>migrations/\<close>, up and down, as lists of SQL statements over a catalogue: which tables and
  indexes exist, and the rows of the tables. The server runs a file as one transaction.

  What \<open>schema_ready k\<close> says of a catalogue, that it is what the first \<open>k\<close> files leave with any data
  that satisfies the constraints, is kept by each file.
\<close>

section \<open>Catalogue and statements\<close>

record catalog =
  cat_tables :: "string list"
  cat_indexes :: "(string \<times> string) list"
  cat_db :: db

datatype sql_error =
    UndefinedTable string
  | DuplicateIndex string
  | Violation db_error

text \<open>
  A statement gets the number under which its transaction started, for \<open>NOW()\<close>, and its own number, for
  the random identifiers.
\<close>

type_synonym sql_stmt = "pg \<Rightarrow> nat \<Rightarrow> nat \<Rightarrow> catalog \<Rightarrow> sql_error + catalog"

text \<open>\<open>CREATE TABLE IF NOT EXISTS\<close>, with the tables its foreign keys refer to.\<close>

definition CREATE_TABLE :: "string \<Rightarrow> string list \<Rightarrow> sql_stmt" where
  "CREATE_TABLE t refs = (\<lambda>E s n c.
     if t \<in> set (cat_tables c) then Inr c
     else (case filter (\<lambda>u. u \<notin> set (cat_tables c)) refs of
             u # _ \<Rightarrow> Inl (UndefinedTable u)
           | [] \<Rightarrow> Inr (c\<lparr>cat_tables := cat_tables c @ [t]\<rparr>)))"

definition CREATE_INDEX :: "string \<Rightarrow> string \<Rightarrow> sql_stmt" where
  "CREATE_INDEX i t = (\<lambda>E s n c.
     if t \<notin> set (cat_tables c) then Inl (UndefinedTable t)
     else if i \<in> fst ` set (cat_indexes c) then Inl (DuplicateIndex i)
     else Inr (c\<lparr>cat_indexes := cat_indexes c @ [(i, t)]\<rparr>))"

text \<open>The rows of a dropped table, and its indexes, are gone.\<close>

definition clear_table :: "string \<Rightarrow> db \<Rightarrow> db" where
  "clear_table t d =
     (if t = ''approved_users'' then d\<lparr>tbl_approved_users := []\<rparr>
      else if t = ''users'' then d\<lparr>tbl_users := []\<rparr>
      else if t = ''roles'' then d\<lparr>tbl_roles := []\<rparr>
      else if t = ''user_roles'' then d\<lparr>tbl_user_roles := []\<rparr>
      else if t = ''todos'' then d\<lparr>tbl_todos := []\<rparr>
      else d)"

text \<open>
  \<open>CASCADE\<close> would also drop the foreign keys of tables that refer to this one; when the down migrations
  run in their order there are none left (\<open>down_keeps\<close>).
\<close>

definition DROP_TABLE_CASCADE :: "string \<Rightarrow> sql_stmt" where
  "DROP_TABLE_CASCADE t = (\<lambda>E s n c. Inr
     (if t \<in> set (cat_tables c)
      then c\<lparr>cat_tables := filter (\<lambda>u. u \<noteq> t) (cat_tables c),
             cat_indexes := filter (\<lambda>(i, u). u \<noteq> t) (cat_indexes c),
             cat_db := clear_table t (cat_db c)\<rparr>
      else c))"

text \<open>A statement on rows needs its tables; the numbering of rows starts at 0 in every statement.\<close>

definition DML :: "string list \<Rightarrow> (pg \<Rightarrow> nat \<Rightarrow> nat \<Rightarrow> db \<Rightarrow> db_error + db) \<Rightarrow> sql_stmt" where
  "DML ts f = (\<lambda>E s n c.
     case filter (\<lambda>t. t \<notin> set (cat_tables c)) ts of
       t # _ \<Rightarrow> Inl (UndefinedTable t)
     | [] \<Rightarrow> (case f E s n (cat_db c) of Inl e \<Rightarrow> Inl (Violation e) | Inr d \<Rightarrow> Inr (c\<lparr>cat_db := d\<rparr>)))"

text \<open>\<open>INSERT ... ON CONFLICT (...) DO NOTHING\<close>: row after row, those with a conflict left out.\<close>

fun insert_each :: "('r \<Rightarrow> db \<Rightarrow> bool) \<Rightarrow> ('r \<Rightarrow> db \<Rightarrow> db_error + db) \<Rightarrow> 'r list \<Rightarrow> db \<Rightarrow> db_error + db" where
  "insert_each conflict ins [] d = Inr d"
| "insert_each conflict ins (r # rs) d =
     (if conflict r d then insert_each conflict ins rs d
      else (case ins r d of Inl e \<Rightarrow> Inl e | Inr d' \<Rightarrow> insert_each conflict ins rs d'))"

text \<open>A file is one transaction: it takes effect as a whole or not at all.\<close>

fun run_stmts :: "pg \<Rightarrow> nat \<Rightarrow> nat \<Rightarrow> sql_stmt list \<Rightarrow> catalog \<Rightarrow> sql_error + catalog" where
  "run_stmts E s n [] c = Inr c"
| "run_stmts E s n (q # qs) c =
     (case q E s n c of Inl e \<Rightarrow> Inl e | Inr c' \<Rightarrow> run_stmts E s (Suc n) qs c')"

definition run_file :: "pg \<Rightarrow> sql_stmt list \<Rightarrow> catalog \<Rightarrow> sql_error + catalog" where
  "run_file E qs c =
     (let n = roundtrips (cat_db c)
      in case run_stmts E n n qs c of
           Inl e \<Rightarrow> Inl e
         | Inr c' \<Rightarrow> Inr (c'\<lparr>cat_db := (cat_db c')\<lparr>roundtrips := n + length qs\<rparr>\<rparr>))"

section \<open>The files\<close>

definition up_000001 :: "sql_stmt list" where
  "up_000001 =
     [CREATE_TABLE ''approved_users'' [],
      CREATE_INDEX ''idx_approved_users_email'' ''approved_users'',
      CREATE_INDEX ''idx_approved_users_created_by'' ''approved_users'']"

definition up_000002 :: "sql_stmt list" where
  "up_000002 =
     [CREATE_TABLE ''users'' [''approved_users''],
      CREATE_INDEX ''idx_users_email'' ''users'',
      CREATE_INDEX ''idx_users_approved_user_id'' ''users'',
      CREATE_INDEX ''idx_users_is_active'' ''users'']"

definition insert_roles :: "(string \<times> string) list \<Rightarrow> pg \<Rightarrow> nat \<Rightarrow> nat \<Rightarrow> db \<Rightarrow> db_error + db" where
  "insert_roles values E s n =
     insert_each (\<lambda>r d. dbR_Name r \<in> dbR_Name ` set (tbl_roles d)) insert_role
       (map (\<lambda>(i, name, description).
           \<lparr>dbR_ID = gen_random_uuid E n i, dbR_Name = name, dbR_Description = Some description,
            dbR_CreatedAt = Now E s\<rparr>) (List.enumerate 0 values))"

definition up_000003 :: "sql_stmt list" where
  "up_000003 =
     [CREATE_TABLE ''roles'' [],
      DML [''roles''] (insert_roles
        [(''admin'', ''Administrator with full access''), (''user'', ''Standard user with basic access'')])]"

definition up_000004 :: "sql_stmt list" where
  "up_000004 = [CREATE_TABLE ''user_roles'' [''users'', ''roles''], CREATE_INDEX ''idx_user_roles_role_id'' ''user_roles'']"

definition up_000005 :: "sql_stmt list" where
  "up_000005 =
     [CREATE_TABLE ''todos'' [''users''],
      CREATE_INDEX ''idx_todos_user_id'' ''todos'',
      CREATE_INDEX ''idx_todos_is_completed'' ''todos'',
      CREATE_INDEX ''idx_todos_due_date'' ''todos'',
      CREATE_INDEX ''idx_todos_user_is_completed'' ''todos'']"

definition seed_hash :: string where
  "seed_hash = ''$2a$04$KIXjSImZvPjCMtH8jQU5W.q8Q9C6vZJ9xVxK8yE3qL1nR5oP7mZ2G''"

definition seed_approved_users :: "pg \<Rightarrow> nat \<Rightarrow> nat \<Rightarrow> db \<Rightarrow> db_error + db" where
  "seed_approved_users E s n =
     insert_each (\<lambda>a d. dbA_ID a \<in> dbA_ID ` set (tbl_approved_users d)) (\<lambda>a. insert_approved_users [a])
       (map (\<lambda>(ident, email, name).
           \<lparr>dbA_ID = UUIDToPgtypeValue ident, dbA_Email = email, dbA_FirstName = name,
            dbA_CreatedBy = null_UUID, dbA_CreatedAt = Now E s, dbA_UpdatedAt = Now E s\<rparr>)
         [(0x30, ''admin@example.com'', ''Admin''), (0x31, ''user@example.com'', ''Test'')])"

definition seed_users :: "pg \<Rightarrow> nat \<Rightarrow> nat \<Rightarrow> db \<Rightarrow> db_error + db" where
  "seed_users E s n =
     insert_each (\<lambda>u d. dbU_Email u \<in> dbU_Email ` set (tbl_users d)) insert_user
       (map (\<lambda>(i, approved, email).
           \<lparr>dbU_ID = gen_random_uuid E n i, dbU_ApprovedUserID = UUIDToPgtypeValue approved,
            dbU_Email = email, dbU_PasswordHash = seed_hash, dbU_IsActive = True,
            dbU_CreatedAt = Now E s, dbU_UpdatedAt = Now E s\<rparr>)
         [(0, 0x30, ''admin@example.com''), (1, 0x31, ''user@example.com'')])"

definition seed_user_roles :: "string \<Rightarrow> string \<Rightarrow> pg \<Rightarrow> nat \<Rightarrow> nat \<Rightarrow> db \<Rightarrow> db_error + db" where
  "seed_user_roles email role E s n d =
     insert_each (\<lambda>_ _. False) insert_user_role
       [\<lparr>dbUR_UserID = dbU_ID u, dbUR_RoleID = dbR_ID r, dbUR_CreatedAt = Now E s\<rparr>.
          u \<leftarrow> filter (\<lambda>u. dbU_Email u = email) (tbl_users d),
          r \<leftarrow> filter (\<lambda>r. dbR_Name r = role) (tbl_roles d)] d"

definition seed_todo :: "string \<Rightarrow> string \<Rightarrow> bool \<Rightarrow> pg \<Rightarrow> nat \<Rightarrow> nat \<Rightarrow> db \<Rightarrow> db_error + db" where
  "seed_todo title description completed E s n d =
     insert_each (\<lambda>t d. dbT_ID t \<in> dbT_ID ` set (tbl_todos d)) insert_todo
       (map (\<lambda>(i, u).
           \<lparr>dbT_ID = gen_random_uuid E n i, dbT_UserID = dbU_ID u, dbT_Title = title,
            dbT_Description = Some description, dbT_IsCompleted = completed,
            dbT_DueDate = null_Timestamptz, dbT_CreatedAt = Now E s, dbT_UpdatedAt = Now E s\<rparr>)
         (List.enumerate 0 (filter (\<lambda>u. dbU_Email u = ''user@example.com'') (tbl_users d)))) d"

definition up_000006 :: "sql_stmt list" where
  "up_000006 =
     [DML [''approved_users''] seed_approved_users,
      DML [''roles''] (insert_roles
        [(''admin'', ''Administrator with full access''), (''user'', ''Regular user with limited access'')]),
      DML [''users''] seed_users,
      DML [''user_roles'', ''users'', ''roles''] (seed_user_roles ''admin@example.com'' ''admin''),
      DML [''user_roles'', ''users'', ''roles''] (seed_user_roles ''user@example.com'' ''user''),
      DML [''todos'', ''users'']
        (seed_todo ''Sample Todo 1'' ''This is a sample todo item for testing'' False),
      DML [''todos'', ''users'']
        (seed_todo ''Sample Todo 2'' ''Another sample todo for integration tests'' True)]"

text \<open>The down files.\<close>

definition down_000001 :: "sql_stmt list" where
  "down_000001 = [DROP_TABLE_CASCADE ''approved_users'']"

definition down_000002 :: "sql_stmt list" where
  "down_000002 = [DROP_TABLE_CASCADE ''users'']"

definition down_000003 :: "sql_stmt list" where
  "down_000003 = [DROP_TABLE_CASCADE ''roles'']"

definition down_000004 :: "sql_stmt list" where
  "down_000004 = [DROP_TABLE_CASCADE ''user_roles'']"

definition down_000005 :: "sql_stmt list" where
  "down_000005 = [DROP_TABLE_CASCADE ''todos'']"

definition seed_emails :: "string list" where
  "seed_emails = [''admin@example.com'', ''user@example.com'']"

definition delete_todos :: "(db_Todo \<Rightarrow> bool) \<Rightarrow> db \<Rightarrow> db" where
  "delete_todos P d = d\<lparr>tbl_todos := filter (\<lambda>t. \<not> P t) (tbl_todos d)\<rparr>"

definition delete_user_roles :: "(db_UserRole \<Rightarrow> bool) \<Rightarrow> db \<Rightarrow> db" where
  "delete_user_roles P d = d\<lparr>tbl_user_roles := filter (\<lambda>m. \<not> P m) (tbl_user_roles d)\<rparr>"

text \<open>Deleting roles cascades to the memberships.\<close>

definition delete_roles :: "(db_Role \<Rightarrow> bool) \<Rightarrow> db \<Rightarrow> db" where
  "delete_roles P d =
     (let gone = map dbR_ID (filter P (tbl_roles d))
      in d\<lparr>tbl_roles := filter (\<lambda>r. \<not> P r) (tbl_roles d),
           tbl_user_roles := filter (\<lambda>m. dbUR_RoleID m \<notin> set gone) (tbl_user_roles d)\<rparr>)"

definition down_000006 :: "sql_stmt list" where
  "down_000006 =
     [DML [''todos''] (\<lambda>E s n d. Inr (delete_todos
        (\<lambda>t. dbT_Title t \<in> set [''Sample Todo 1'', ''Sample Todo 2'']) d)),
      DML [''user_roles'', ''users''] (\<lambda>E s n d. Inr (delete_user_roles
        (\<lambda>m. dbUR_UserID m \<in> dbU_ID ` {u \<in> set (tbl_users d). dbU_Email u \<in> set seed_emails}) d)),
      DML [''users''] (\<lambda>E s n d. Inr (delete_users (\<lambda>u. dbU_Email u \<in> set seed_emails) d)),
      DML [''roles''] (\<lambda>E s n d. Inr (delete_roles (\<lambda>r. dbR_Name r \<in> set [''admin'', ''user'']) d))]"

text \<open>Version \<open>k\<close> is the \<open>k\<close>-th pair.\<close>

definition migration_files :: "(sql_stmt list \<times> sql_stmt list) list" where
  "migration_files =
     [(up_000001, down_000001), (up_000002, down_000002), (up_000003, down_000003),
      (up_000004, down_000004), (up_000005, down_000005), (up_000006, down_000006)]"

section \<open>The schema at each version\<close>

definition table_names :: "string list" where
  "table_names = [''approved_users'', ''users'', ''roles'', ''user_roles'', ''todos'']"

definition table_indexes :: "(string \<times> string) list list" where
  "table_indexes =
     [[(''idx_approved_users_email'', ''approved_users''), (''idx_approved_users_created_by'', ''approved_users'')],
      [(''idx_users_email'', ''users''), (''idx_users_approved_user_id'', ''users''),
       (''idx_users_is_active'', ''users'')],
      [],
      [(''idx_user_roles_role_id'', ''user_roles'')],
      [(''idx_todos_user_id'', ''todos''), (''idx_todos_is_completed'', ''todos''),
       (''idx_todos_due_date'', ''todos''), (''idx_todos_user_is_completed'', ''todos'')]]"

text \<open>A table that does not exist has no rows.\<close>

definition table_empty :: "string \<Rightarrow> db \<Rightarrow> bool" where
  "table_empty t d \<longleftrightarrow>
     (t = ''approved_users'' \<longrightarrow> tbl_approved_users d = []) \<and> (t = ''users'' \<longrightarrow> tbl_users d = []) \<and>
     (t = ''roles'' \<longrightarrow> tbl_roles d = []) \<and> (t = ''user_roles'' \<longrightarrow> tbl_user_roles d = []) \<and>
     (t = ''todos'' \<longrightarrow> tbl_todos d = [])"

definition schema_ready :: "nat \<Rightarrow> catalog \<Rightarrow> bool" where
  "schema_ready k c \<longleftrightarrow>
     cat_tables c = take k table_names \<and>
     cat_indexes c = concat (take k table_indexes) \<and>
     (\<forall>t \<in> set (drop k table_names). table_empty t (cat_db c)) \<and>
     db_inv (cat_db c)"

definition empty_catalog :: catalog where
  "empty_catalog = \<lparr>cat_tables = [], cat_indexes = [], cat_db = empty_db\<rparr>"

lemma schema_ready_empty: "schema_ready 0 empty_catalog"
  by (simp add: schema_ready_def empty_catalog_def table_names_def table_empty_def empty_db_def
      db_inv_empty [unfolded empty_db_def])

text \<open>Rows are only added.\<close>

definition rows_grow :: "db \<Rightarrow> db \<Rightarrow> bool" where
  "rows_grow d d' \<longleftrightarrow>
     prefix (tbl_approved_users d) (tbl_approved_users d') \<and> prefix (tbl_users d) (tbl_users d') \<and>
     prefix (tbl_roles d) (tbl_roles d') \<and> prefix (tbl_user_roles d) (tbl_user_roles d') \<and>
     prefix (tbl_todos d) (tbl_todos d')"

lemma rows_grow_refl [simp]: "rows_grow d d"
  by (simp add: rows_grow_def)

lemma rows_grow_trans: "rows_grow d d1 \<Longrightarrow> rows_grow d1 d2 \<Longrightarrow> rows_grow d d2"
  by (auto simp: rows_grow_def intro: prefix_order.trans)

lemma rows_grow_roundtrips [simp]: "rows_grow d (d'\<lparr>roundtrips := n\<rparr>) = rows_grow d d'"
  by (simp add: rows_grow_def)

text \<open>A statement on rows that keeps the constraints and only adds rows.\<close>

definition sound_insert :: "(db \<Rightarrow> db_error + db) \<Rightarrow> bool" where
  "sound_insert f \<longleftrightarrow> (\<forall>d d'. db_inv d \<longrightarrow> f d = Inr d' \<longrightarrow> db_inv d' \<and> rows_grow d d')"

lemma sound_insertD:
  "sound_insert f \<Longrightarrow> f d = Inr d' \<Longrightarrow> db_inv d \<Longrightarrow> db_inv d' \<and> rows_grow d d'"
  by (auto simp: sound_insert_def)

lemma sound_insert_each:
  assumes "\<And>r. r \<in> set rs \<Longrightarrow> sound_insert (ins r)"
  shows "sound_insert (insert_each conflict ins rs)"
  unfolding sound_insert_def
proof (intro allI impI)
  fix d d'
  assume "db_inv d" and "insert_each conflict ins rs d = Inr d'"
  with assms show "db_inv d' \<and> rows_grow d d'"
  proof (induction rs arbitrary: d)
    case (Cons r rs)
    show ?case
    proof (cases "conflict r d")
      case True
      with Cons show ?thesis by simp
    next
      case False
      with Cons.prems obtain d1 where one: "ins r d = Inr d1" and rest: "insert_each conflict ins rs d1 = Inr d'"
        by (auto split: sum.splits)
      have "db_inv d1 \<and> rows_grow d d1" using Cons.prems(1) one Cons.prems(2) by (auto dest: sound_insertD)
      with Cons.IH [OF _ _ rest] Cons.prems(1) show ?thesis by (auto intro: rows_grow_trans)
    qed
  qed simp
qed

lemma sound_inserts:
  "sound_insert (insert_approved_users as)"
  "sound_insert (insert_user u)"
  "sound_insert (insert_role r)"
  "sound_insert (insert_user_role m)"
  "sound_insert (insert_todo t)"
  unfolding sound_insert_def
  by (auto intro: db_inv_insert_approved_users db_inv_insert_user db_inv_insert_role
      db_inv_insert_user_role db_inv_insert_todo simp: rows_grow_def
      dest: insert_approved_usersD(1) insert_userD insert_user_roleD insert_todoD)
    (auto simp: insert_role_def split: if_splits)

text \<open>Every statement on rows of the up files is of this kind.\<close>

lemma sound_rows:
  "sound_insert (insert_roles values E s n)"
  "sound_insert (seed_approved_users E s n)"
  "sound_insert (seed_users E s n)"
  "sound_insert (seed_user_roles email role E s n)"
  "sound_insert (seed_todo title description completed E s n)"
proof -
  show "sound_insert (insert_roles values E s n)"
    unfolding insert_roles_def by (intro sound_insert_each sound_inserts)
  show "sound_insert (seed_approved_users E s n)"
    unfolding seed_approved_users_def by (intro sound_insert_each sound_inserts)
  show "sound_insert (seed_users E s n)"
    unfolding seed_users_def by (intro sound_insert_each sound_inserts)
  have each: "sound_insert (insert_each (\<lambda>_ _. False) insert_user_role ms)" for ms
    by (intro sound_insert_each sound_inserts)
  then show "sound_insert (seed_user_roles email role E s n)"
    unfolding sound_insert_def seed_user_roles_def by blast
  have "sound_insert (insert_each conflict insert_todo ts)" for conflict ts
    by (intro sound_insert_each sound_inserts)
  then show "sound_insert (seed_todo title description completed E s n)"
    unfolding sound_insert_def seed_todo_def by blast
qed

lemma insert_roles_frame:
  "insert_roles values E s n d = Inr d' \<Longrightarrow> \<exists>rs. d' = d\<lparr>tbl_roles := rs\<rparr>"
proof -
  have "insert_each (\<lambda>r d. dbR_Name r \<in> dbR_Name ` set (tbl_roles d)) insert_role rs d = Inr d' \<Longrightarrow>
      \<exists>rs. d' = d\<lparr>tbl_roles := rs\<rparr>" for rs
  proof (induction rs arbitrary: d)
    case Nil
    then show ?case by (auto intro!: exI [of _ "tbl_roles d"])
  next
    case (Cons r rs)
    show ?case
    proof (cases "dbR_Name r \<in> dbR_Name ` set (tbl_roles d)")
      case True
      with Cons show ?thesis by simp
    next
      case False
      with Cons.prems obtain d1 where one: "insert_role r d = Inr d1"
        and rest: "insert_each (\<lambda>r d. dbR_Name r \<in> dbR_Name ` set (tbl_roles d)) insert_role rs d1 = Inr d'"
        by (auto split: sum.splits)
      from one have "d1 = d\<lparr>tbl_roles := tbl_roles d @ [r]\<rparr>" by (simp add: insert_role_def split: if_splits)
      with Cons.IH [OF rest] show ?thesis by auto
    qed
  qed
  then show "insert_roles values E s n d = Inr d' \<Longrightarrow> \<exists>rs. d' = d\<lparr>tbl_roles := rs\<rparr>"
    unfolding insert_roles_def by blast
qed

lemma DML_Inr:
  "DML ts f E s n c = Inr c' \<longleftrightarrow>
     set ts \<subseteq> set (cat_tables c) \<and> (\<exists>d. f E s n (cat_db c) = Inr d \<and> c' = c\<lparr>cat_db := d\<rparr>)"
  by (auto simp: DML_def filter_empty_conv subset_iff split: list.splits sum.splits)

lemma run_stmts_Cons_Inr:
  "run_stmts E s n (q # qs) c = Inr c' \<longleftrightarrow> (\<exists>c1. q E s n c = Inr c1 \<and> run_stmts E s (Suc n) qs c1 = Inr c')"
  by (auto split: sum.splits)

lemma run_file_Inr:
  "run_file E qs c = Inr c' \<longleftrightarrow>
     (\<exists>c1. run_stmts E (roundtrips (cat_db c)) (roundtrips (cat_db c)) qs c = Inr c1 \<and>
        c' = c1\<lparr>cat_db := (cat_db c1)\<lparr>roundtrips := roundtrips (cat_db c) + length qs\<rparr>\<rparr>)"
  by (auto simp: run_file_def Let_def split: sum.splits)

lemmas ddl_defs = CREATE_TABLE_def CREATE_INDEX_def schema_ready_def table_names_def table_indexes_def
  table_empty_def

text \<open>The files that only create tables and indexes always succeed in their turn.\<close>

abbreviation at_version :: "nat \<Rightarrow> db \<Rightarrow> nat \<Rightarrow> catalog" where
  "at_version k d n \<equiv>
     \<lparr>cat_tables = take k table_names, cat_indexes = concat (take k table_indexes),
      cat_db = d\<lparr>roundtrips := roundtrips d + n\<rparr>\<rparr>"

lemma up_ddl_runs:
  "schema_ready 0 c \<Longrightarrow> run_file E up_000001 c = Inr (at_version 1 (cat_db c) 3)"
  "schema_ready 1 c \<Longrightarrow> run_file E up_000002 c = Inr (at_version 2 (cat_db c) 4)"
  "schema_ready 3 c \<Longrightarrow> run_file E up_000004 c = Inr (at_version 4 (cat_db c) 2)"
  "schema_ready 4 c \<Longrightarrow> run_file E up_000005 c = Inr (at_version 5 (cat_db c) 5)"
  by (simp_all add: ddl_defs run_file_def Let_def up_000001_def up_000002_def up_000004_def up_000005_def)

lemma table_empty_roundtrips [simp]: "table_empty t (d\<lparr>roundtrips := n\<rparr>) = table_empty t d"
  by (simp add: table_empty_def)

lemma at_version_ready:
  assumes "schema_ready k c"
  shows "schema_ready (Suc k) (at_version (Suc k) (cat_db c) n)"
proof -
  have "set (drop (Suc k) table_names) \<subseteq> set (drop k table_names)"
    by (rule set_drop_subset_set_drop) simp
  then show ?thesis using assms unfolding schema_ready_def by (simp add: subset_eq)
qed

lemma up_roles_run:
  assumes "schema_ready 2 c" and "run_file E up_000003 c = Inr c'"
  obtains d where "insert_roles [(''admin'', ''Administrator with full access''),
      (''user'', ''Standard user with basic access'')] E (roundtrips (cat_db c)) (Suc (roundtrips (cat_db c)))
      (cat_db c) = Inr d"
    and "c' = c\<lparr>cat_tables := cat_tables c @ [''roles''], cat_db := d\<lparr>roundtrips := roundtrips (cat_db c) + 2\<rparr>\<rparr>"
  using assms by (auto simp: ddl_defs run_file_Inr up_000003_def DML_Inr run_stmts_Cons_Inr simp del: run_stmts.simps(2))

lemma up_roles_keeps:
  assumes "schema_ready 2 c" and "run_file E up_000003 c = Inr c'"
  shows "schema_ready 3 c' \<and> rows_grow (cat_db c) (cat_db c')"
proof -
  from assms obtain d where d: "insert_roles [(''admin'', ''Administrator with full access''),
        (''user'', ''Standard user with basic access'')] E (roundtrips (cat_db c)) (Suc (roundtrips (cat_db c)))
        (cat_db c) = Inr d"
    and c': "c' = c\<lparr>cat_tables := cat_tables c @ [''roles''], cat_db := d\<lparr>roundtrips := roundtrips (cat_db c) + 2\<rparr>\<rparr>"
    by (rule up_roles_run)
  obtain rs where rs: "d = (cat_db c)\<lparr>tbl_roles := rs\<rparr>" using insert_roles_frame [OF d] by blast
  have "db_inv (cat_db c)" using assms(1) by (simp add: schema_ready_def)
  from sound_insertD [OF sound_rows(1) d this] show ?thesis
    using assms(1) by (simp add: c' rs ddl_defs)
qed

text \<open>Statements that keep the catalogue and the constraints, and only add rows.\<close>

definition sound_stmt :: "sql_stmt \<Rightarrow> bool" where
  "sound_stmt q \<longleftrightarrow> (\<forall>E s n c c'. q E s n c = Inr c' \<longrightarrow> db_inv (cat_db c) \<longrightarrow>
     cat_tables c' = cat_tables c \<and> cat_indexes c' = cat_indexes c \<and>
     db_inv (cat_db c') \<and> rows_grow (cat_db c) (cat_db c'))"

lemma sound_DML: "(\<And>E s n. sound_insert (f E s n)) \<Longrightarrow> sound_stmt (DML ts f)"
  by (fastforce simp: sound_stmt_def DML_Inr dest: sound_insertD)

lemma sound_stmts:
  "run_stmts E s n qs c = Inr c' \<Longrightarrow> \<forall>q \<in> set qs. sound_stmt q \<Longrightarrow> db_inv (cat_db c) \<Longrightarrow>
     cat_tables c' = cat_tables c \<and> cat_indexes c' = cat_indexes c \<and>
     db_inv (cat_db c') \<and> rows_grow (cat_db c) (cat_db c')"
proof (induction qs arbitrary: n c)
  case (Cons q qs)
  then obtain c1 where one: "q E s n c = Inr c1" and rest: "run_stmts E s (Suc n) qs c1 = Inr c'"
    by (auto simp: run_stmts_Cons_Inr simp del: run_stmts.simps)
  have "cat_tables c1 = cat_tables c \<and> cat_indexes c1 = cat_indexes c \<and>
      db_inv (cat_db c1) \<and> rows_grow (cat_db c) (cat_db c1)"
    using Cons.prems(2,3) one by (simp add: sound_stmt_def)
  with Cons.IH [OF rest] Cons.prems(2) show ?case by (auto intro: rows_grow_trans)
qed simp

lemma up_seed_sound: "\<forall>q \<in> set up_000006. sound_stmt q"
  by (simp add: up_000006_def sound_DML sound_rows)

lemma up_seed_keeps:
  assumes "schema_ready 5 c" and "run_file E up_000006 c = Inr c'"
  shows "schema_ready 6 c' \<and> rows_grow (cat_db c) (cat_db c')"
proof -
  from assms(2) obtain c1 where run: "run_stmts E (roundtrips (cat_db c)) (roundtrips (cat_db c)) up_000006 c = Inr c1"
    and c': "c' = c1\<lparr>cat_db := (cat_db c1)\<lparr>roundtrips := roundtrips (cat_db c) + length up_000006\<rparr>\<rparr>"
    by (auto simp: run_file_Inr)
  show ?thesis
    using sound_stmts [OF run up_seed_sound] assms(1) by (simp add: c' ddl_defs)
qed

lemma version_cases [consumes 1]:
  "k < 6 \<Longrightarrow> (k = 0 \<Longrightarrow> P) \<Longrightarrow> (k = 1 \<Longrightarrow> P) \<Longrightarrow> (k = 2 \<Longrightarrow> P) \<Longrightarrow> (k = 3 \<Longrightarrow> P) \<Longrightarrow> (k = 4 \<Longrightarrow> P) \<Longrightarrow>
   (k = 5 \<Longrightarrow> P) \<Longrightarrow> (P :: bool)" for k :: nat
  by linarith

lemma files_nth:
  "migration_files ! 0 = (up_000001, down_000001)" "migration_files ! 1 = (up_000002, down_000002)"
  "migration_files ! 2 = (up_000003, down_000003)" "migration_files ! 3 = (up_000004, down_000004)"
  "migration_files ! 4 = (up_000005, down_000005)" "migration_files ! 5 = (up_000006, down_000006)"
  by (simp_all add: migration_files_def)

lemma up_keeps:
  assumes "k < 6" and "schema_ready k c" and "run_file E (fst (migration_files ! k)) c = Inr c'"
  shows "schema_ready (Suc k) c' \<and> rows_grow (cat_db c) (cat_db c')"
  using assms(1)
proof (cases rule: version_cases)
  case 1
  with assms at_version_ready [OF assms(2), of 3] show ?thesis by (simp add: files_nth up_ddl_runs) force
next
  case 2
  with assms at_version_ready [OF assms(2), of 4] show ?thesis
    by (simp add: files_nth [unfolded One_nat_def] up_ddl_runs [unfolded One_nat_def] numeral_2_eq_2) force
next
  case 3
  with assms up_roles_keeps show ?thesis by (simp add: files_nth)
next
  case 4
  with assms at_version_ready [OF assms(2), of 2] show ?thesis by (simp add: files_nth up_ddl_runs) force
next
  case 5
  with assms at_version_ready [OF assms(2), of 5] show ?thesis by (simp add: files_nth up_ddl_runs) force
next
  case 6
  with assms up_seed_keeps show ?thesis by (simp add: files_nth)
qed

lemma db_inv_delete_todos: "db_inv d \<Longrightarrow> db_inv (delete_todos P d)"
  by (auto simp: delete_todos_def db_inv_def table_defs intro: primary_key_filter references_filter)

lemma db_inv_delete_user_roles: "db_inv d \<Longrightarrow> db_inv (delete_user_roles P d)"
  by (auto simp: delete_user_roles_def db_inv_def table_defs intro: map_filter_distinct references_filter)

lemma db_inv_delete_roles: "db_inv d \<Longrightarrow> db_inv (delete_roles P d)"
  unfolding delete_roles_def Let_def db_inv_def table_defs
  by (auto intro: primary_key_filter map_filter_distinct references_filter references_survivors)

text \<open>Each down file succeeds in its turn, and leaves the schema of the version before.\<close>

lemma down_seed_runs:
  assumes "schema_ready 6 c"
  shows "\<exists>c'. run_file E down_000006 c = Inr c' \<and> schema_ready 5 c'"
proof -
  have inv: "db_inv (delete_roles P3 (delete_users P2 (delete_user_roles P1 (delete_todos P0 (cat_db c)))))" for P0 P1 P2 P3
    using assms by (intro db_inv_delete_todos db_inv_delete_user_roles db_inv_delete_roles db_inv_delete_users)
      (simp add: schema_ready_def)
  show ?thesis
    using assms unfolding run_file_def down_000006_def by (simp add: DML_def ddl_defs inv)
qed

lemma down_drop_runs:
  "schema_ready 1 c \<Longrightarrow> \<exists>c'. run_file E down_000001 c = Inr c' \<and> schema_ready 0 c'"
  "schema_ready 2 c \<Longrightarrow> \<exists>c'. run_file E down_000002 c = Inr c' \<and> schema_ready 1 c'"
  "schema_ready 3 c \<Longrightarrow> \<exists>c'. run_file E down_000003 c = Inr c' \<and> schema_ready 2 c'"
  "schema_ready 4 c \<Longrightarrow> \<exists>c'. run_file E down_000004 c = Inr c' \<and> schema_ready 3 c'"
  "schema_ready 5 c \<Longrightarrow> \<exists>c'. run_file E down_000005 c = Inr c' \<and> schema_ready 4 c'"
  by (simp_all add: run_file_def Let_def ddl_defs DROP_TABLE_CASCADE_def clear_table_def
      down_000001_def down_000002_def down_000003_def down_000004_def down_000005_def db_inv_def constraint_defs)

lemma down_keeps:
  assumes "k < 6" and "schema_ready (Suc k) c"
  shows "\<exists>c'. run_file E (snd (migration_files ! k)) c = Inr c' \<and> schema_ready k c'"
  using assms(1)
  by (cases rule: version_cases)
    (use assms(2) in \<open>simp_all add: files_nth [unfolded One_nat_def] down_drop_runs [unfolded One_nat_def]
        down_seed_runs numeral_2_eq_2 [symmetric]\<close>)

end
