(* ===== verification/Migrate.thy ===== *)
theory Migrate
  imports Migrations Config
begin

text \<open>
  The migration command, \<open>cmd/migrate/main.go\<close>: its flags, its five commands, its messages and exit code.

  Parameters: the environment, and golang-migrate (\<open>migrate_lib\<close>): opening a migrator and its methods,
  computations over the migrated database. The package \<open>flag\<close> and \<open>strconv.ParseInt\<close> with base 0 are
  written out.
\<close>

section \<open>strconv.ParseInt(s, 0, 64)\<close>

definition digit_value :: "char \<Rightarrow> int option" where
  "digit_value c =
     (let b = int (byte (lower_char c))
      in if 0x30 \<le> b \<and> b \<le> 0x39 then Some (b - 0x30)
         else if 0x61 \<le> b \<and> b \<le> 0x7A then Some (b - 0x61 + 10)
         else None)"

text \<open>The digits; underscores are left out here and judged by \<open>underscoreOK\<close>.\<close>

fun digits_value :: "int \<Rightarrow> int \<Rightarrow> string \<Rightarrow> int option" where
  "digits_value base n [] = Some n"
| "digits_value base n (c # s) =
     (if c = CHR ''_'' then digits_value base n s
      else (case digit_value c of
              None \<Rightarrow> None
            | Some d \<Rightarrow> if base \<le> d then None else digits_value base (n * base + d) s))"

text \<open>Underscores separate digits, or the base prefix from the digits.\<close>

datatype last_seen = Nothing_yet | Digit | Underscore | Other_char

fun underscores_ok :: "bool \<Rightarrow> last_seen \<Rightarrow> string \<Rightarrow> bool" where
  "underscores_ok hex i [] \<longleftrightarrow> i \<noteq> Underscore"
| "underscores_ok hex i (c # s) \<longleftrightarrow>
     (if (0x30 \<le> byte c \<and> byte c \<le> 0x39) \<or> (hex \<and> 0x61 \<le> byte (lower_char c) \<and> byte (lower_char c) \<le> 0x66)
      then underscores_ok hex Digit s
      else if c = CHR ''_'' then i = Digit \<and> underscores_ok hex Underscore s
      else i \<noteq> Underscore \<and> underscores_ok hex Other_char s)"

definition sign_split :: "string \<Rightarrow> bool \<times> string" where
  "sign_split s =
     (case s of [] \<Rightarrow> (False, [])
      | c # t \<Rightarrow> if c = CHR ''-'' then (True, t) else if c = CHR ''+'' then (False, t) else (False, s))"

definition underscoreOK :: "string \<Rightarrow> bool" where
  "underscoreOK s =
     (let t = snd (sign_split s)
      in if 2 \<le> length t \<and> t ! 0 = CHR ''0'' \<and> lower_char (t ! 1) \<in> {CHR ''b'', CHR ''o'', CHR ''x''}
         then underscores_ok (lower_char (t ! 1) = CHR ''x'') Digit (drop 2 t)
         else underscores_ok False Nothing_yet t)"

definition ParseInt0 :: "string \<Rightarrow> int option" where
  "ParseInt0 s =
     (let (neg, t) = sign_split s;
          (base, u) =
            (if t = '''' \<or> t ! 0 \<noteq> CHR ''0'' then (10, t)
             else if 3 \<le> length t \<and> lower_char (t ! 1) = CHR ''b'' then (2, drop 2 t)
             else if 3 \<le> length t \<and> lower_char (t ! 1) = CHR ''o'' then (8, drop 2 t)
             else if 3 \<le> length t \<and> lower_char (t ! 1) = CHR ''x'' then (16, drop 2 t)
             else (8, drop 1 t))
      in if t = '''' then None
         else (case digits_value base 0 u of
                 None \<Rightarrow> None
               | Some n \<Rightarrow>
                   let i = (if neg then - n else n)
                   in if (CHR ''_'' \<in> set u \<longrightarrow> underscoreOK s) \<and> int_fits i then Some i else None))"

section \<open>The flags\<close>

record flags =
  flag_command :: string
  flag_version :: int
  flag_path :: string

definition default_flags :: flags where
  "default_flags = \<lparr>flag_command = ''up'', flag_version = 0, flag_path = ''file://migrations''\<rparr>"

datatype flag_error =
    BadFlagSyntax string
  | FlagNotDefined string
  | FlagNeedsArgument string
  | InvalidFlagValue string string

text \<open>With \<open>flag.ExitOnError\<close>, help exits with 0 and an error with 2.\<close>

datatype flag_result =
    Parsed flags "string list"
  | FlagHelp
  | FlagError flag_error

definition set_flag :: "string \<Rightarrow> string \<Rightarrow> flags \<Rightarrow> flags option" where
  "set_flag name v f =
     (if name = ''command'' then Some (f\<lparr>flag_command := v\<rparr>)
      else if name = ''version'' then map_option (\<lambda>i. f\<lparr>flag_version := i\<rparr>) (ParseInt0 v)
      else Some (f\<lparr>flag_path := v\<rparr>))"

text \<open>\<open>-name=value\<close>: the name ends before the first \<open>=\<close> that is not its first character.\<close>

fun cut_value :: "string \<Rightarrow> string \<times> string option" where
  "cut_value [] = ([], None)"
| "cut_value (c # s) =
     (if c = CHR ''='' then ([], Some s) else (case cut_value s of (n, v) \<Rightarrow> (c # n, v)))"

fun flag_Parse :: "string list \<Rightarrow> flags \<Rightarrow> flag_result" where
  "flag_Parse [] f = Parsed f []"
| "flag_Parse (s # args) f =
     (if length s < 2 \<or> s ! 0 \<noteq> CHR ''-'' then Parsed f (s # args)
      else if s = ''--'' then Parsed f args
      else
        let rest = drop (if s ! 1 = CHR ''-'' then 2 else 1) s
        in if rest = '''' \<or> rest ! 0 = CHR ''-'' \<or> rest ! 0 = CHR ''='' then FlagError (BadFlagSyntax s)
           else
             let (name, v) = cut_value rest
             in if name \<notin> {''command'', ''version'', ''path''}
                then (if name = ''help'' \<or> name = ''h'' then FlagHelp else FlagError (FlagNotDefined name))
                else
                  (case v of
                     Some x \<Rightarrow>
                       (case set_flag name x f of
                          None \<Rightarrow> FlagError (InvalidFlagValue name x)
                        | Some f' \<Rightarrow> flag_Parse args f')
                   | None \<Rightarrow>
                       (case args of
                          [] \<Rightarrow> FlagError (FlagNeedsArgument name)
                        | x # args' \<Rightarrow>
                            (case set_flag name x f of
                               None \<Rightarrow> FlagError (InvalidFlagValue name x)
                             | Some f' \<Rightarrow> flag_Parse args' f'))))"

section \<open>golang-migrate\<close>

text \<open>\<open>migrate.ErrNoChange\<close> is the only error that is compared.\<close>

datatype migrate_error = ErrNoChange | MigrateError string

definition migrate_error_text :: "migrate_error \<Rightarrow> string" where
  "migrate_error_text e = (case e of ErrNoChange \<Rightarrow> ''no change'' | MigrateError t \<Rightarrow> t)"

record 's Migrate =
  m_Up :: "('s, migrate_error + unit) state"
  m_Down :: "('s, migrate_error + unit) state"
  m_Force :: "int \<Rightarrow> ('s, migrate_error + unit) state"
  m_Version :: "('s, migrate_error + nat \<times> bool) state"
  m_Close :: "('s, migrate_error option \<times> migrate_error option) state"

record 's migrate_lib =
  migrate_New :: "string \<Rightarrow> string \<Rightarrow> ('s, migrate_error + 's Migrate) state"

section \<open>The command\<close>

text \<open>The process: the database and the lines written.\<close>

record 's process =
  pr_db :: 's
  pr_stdout :: "string list"
  pr_stderr :: "string list"

definition on_migrated :: "('s, 'a) state \<Rightarrow> ('s process, 'a) state" where
  "on_migrated = zoom pr_db (\<lambda>s p. p\<lparr>pr_db := s\<rparr>)"

definition Println :: "string \<Rightarrow> ('s process, unit) state" where
  "Println l = State (\<lambda>p. ((), p\<lparr>pr_stdout := pr_stdout p @ [l]\<rparr>))"

definition Eprintln :: "string \<Rightarrow> ('s process, unit) state" where
  "Eprintln l = State (\<lambda>p. ((), p\<lparr>pr_stderr := pr_stderr p @ [l]\<rparr>))"

datatype run_error =
    DatabaseURLRequired
  | CreateInstanceFailed migrate_error
  | UpFailed migrate_error
  | DownFailed migrate_error
  | VersionFlagRequired
  | ForceFailed migrate_error
  | GetVersionFailed migrate_error
  | UnknownCommand string

definition run_error_text :: "run_error \<Rightarrow> string" where
  "run_error_text e =
     (case e of
        DatabaseURLRequired \<Rightarrow> ''DATABASE_URL is required''
      | CreateInstanceFailed x \<Rightarrow> ''failed to create migrate instance: '' @ migrate_error_text x
      | UpFailed x \<Rightarrow> ''migration up failed: '' @ migrate_error_text x
      | DownFailed x \<Rightarrow> ''migration down failed: '' @ migrate_error_text x
      | VersionFlagRequired \<Rightarrow> ''-version flag is required for force command''
      | ForceFailed x \<Rightarrow> ''migration force failed: '' @ migrate_error_text x
      | GetVersionFailed x \<Rightarrow> ''failed to get version: '' @ migrate_error_text x
      | UnknownCommand c \<Rightarrow> ''unknown command: '' @ c)"

text \<open>\<open>err != nil && err != migrate.ErrNoChange\<close>.\<close>

definition unless_no_change :: "(migrate_error \<Rightarrow> run_error) \<Rightarrow> migrate_error + unit \<Rightarrow> run_error + unit" where
  "unless_no_change wrap r =
     (case r of Inl e \<Rightarrow> if e \<noteq> ErrNoChange then Inl (wrap e) else Inr () | Inr _ \<Rightarrow> Inr ())"

definition runUp :: "'s Migrate \<Rightarrow> ('s process, run_error + unit) state" where
  "runUp m = do {
     r \<leftarrow> on_migrated (m_Up m);
     tryE (State_Monad.return (unless_no_change UpFailed r)) (\<lambda>_. do {
       Println ''migrations applied successfully'';
       State_Monad.return (Inr ())
     })
   }"

definition runDown :: "'s Migrate \<Rightarrow> ('s process, run_error + unit) state" where
  "runDown m = do {
     r \<leftarrow> on_migrated (m_Down m);
     tryE (State_Monad.return (unless_no_change DownFailed r)) (\<lambda>_. do {
       Println ''migration down completed'';
       State_Monad.return (Inr ())
     })
   }"

definition runReset :: "'s Migrate \<Rightarrow> ('s process, run_error + unit) state" where
  "runReset m = do {
     r \<leftarrow> on_migrated (m_Down m);
     tryE (State_Monad.return (unless_no_change DownFailed r)) (\<lambda>_. do {
       r \<leftarrow> on_migrated (m_Up m);
       tryE (State_Monad.return (unless_no_change UpFailed r)) (\<lambda>_. do {
         Println ''migration reset completed'';
         State_Monad.return (Inr ())
       })
     })
   }"

definition runForce :: "'s Migrate \<Rightarrow> int \<Rightarrow> ('s process, run_error + unit) state" where
  "runForce m version =
     (if version = 0 then State_Monad.return (Inl VersionFlagRequired)
      else do {
        r \<leftarrow> on_migrated (m_Force m version);
        case r of
          Inl e \<Rightarrow> State_Monad.return (Inl (ForceFailed e))
        | Inr _ \<Rightarrow> do {
            Println (''migration forced to version '' @ Itoa version);
            State_Monad.return (Inr ())
          }
      })"

definition runVersion :: "'s Migrate \<Rightarrow> ('s process, run_error + unit) state" where
  "runVersion m = do {
     r \<leftarrow> on_migrated (m_Version m);
     case r of
       Inl e \<Rightarrow> State_Monad.return (Inl (GetVersionFailed e))
     | Inr (v, dirty) \<Rightarrow> do {
         Println (if dirty then ''version: '' @ Itoa (int v) @ '' (dirty)'' else ''version: '' @ Itoa (int v));
         State_Monad.return (Inr ())
       }
   }"

text \<open>The deferred \<open>m.Close\<close>.\<close>

definition close_text :: "migrate_error option \<Rightarrow> string" where
  "close_text e = (case e of None \<Rightarrow> ''<nil>'' | Some x \<Rightarrow> migrate_error_text x)"

definition close_migrate :: "'s Migrate \<Rightarrow> ('s process, unit) state" where
  "close_migrate m = do {
     r \<leftarrow> on_migrated (m_Close m);
     case r of (srcErr, dbErr) \<Rightarrow>
       if srcErr \<noteq> None \<or> dbErr \<noteq> None
       then Eprintln (''warning: error closing migrate: src='' @ close_text srcErr @ '', db='' @ close_text dbErr)
       else State_Monad.return ()
   }"

definition run_command :: "'s Migrate \<Rightarrow> flags \<Rightarrow> ('s process, run_error + unit) state" where
  "run_command m f =
     (if flag_command f = ''up'' then runUp m
      else if flag_command f = ''down'' then runDown m
      else if flag_command f = ''reset'' then runReset m
      else if flag_command f = ''force'' then runForce m (flag_version f)
      else if flag_command f = ''version'' then runVersion m
      else State_Monad.return (Inl (UnknownCommand (flag_command f))))"

text \<open>\<open>run\<close> after the flags are parsed.\<close>

definition run_migrate :: "'s migrate_lib \<Rightarrow> (string \<Rightarrow> string) \<Rightarrow> flags \<Rightarrow> ('s process, run_error + unit) state" where
  "run_migrate L Getenv f =
     (let dbURL = Getenv ''DATABASE_URL''
      in if dbURL = '''' then State_Monad.return (Inl DatabaseURLRequired)
         else do {
           r \<leftarrow> on_migrated (migrate_New L (flag_path f) dbURL);
           case r of
             Inl e \<Rightarrow> State_Monad.return (Inl (CreateInstanceFailed e))
           | Inr m \<Rightarrow> do {
               res \<leftarrow> run_command m f;
               close_migrate m;
               State_Monad.return res
             }
         })"

text \<open>The process with its arguments; the answer is the exit code.\<close>

definition migrate_main :: "'s migrate_lib \<Rightarrow> (string \<Rightarrow> string) \<Rightarrow> string list \<Rightarrow> ('s process, nat) state" where
  "migrate_main L Getenv args =
     (case flag_Parse args default_flags of
        FlagHelp \<Rightarrow> State_Monad.return 0
      | FlagError _ \<Rightarrow> State_Monad.return 2
      | Parsed f _ \<Rightarrow> do {
          r \<leftarrow> run_migrate L Getenv f;
          case r of
            Inl e \<Rightarrow> do { Eprintln (''error: '' @ run_error_text e); State_Monad.return 1 }
          | Inr _ \<Rightarrow> State_Monad.return 0
        })"

end
