(* ===== verification/Migrate_Correct.thy ===== *)
theory Migrate_Correct
  imports Migrate Startup_Correct
begin

text \<open>
  What the migration command does to a database, given what golang-migrate documents of \<open>Up\<close> and \<open>Down\<close>:
  the way up from any version, the way down, a reset, and the arguments the Makefile passes.
\<close>

section \<open>golang-migrate, as documented\<close>

text \<open>The database with the version table of golang-migrate.\<close>

record migrated =
  mg_catalog :: catalog
  mg_version :: "nat option"
  mg_dirty :: bool

definition applied :: "migrated \<Rightarrow> nat" where
  "applied s = (case mg_version s of None \<Rightarrow> 0 | Some k \<Rightarrow> k)"

fun run_files :: "pg \<Rightarrow> sql_stmt list list \<Rightarrow> catalog \<Rightarrow> sql_error + catalog" where
  "run_files E [] c = Inr c"
| "run_files E (f # fs) c = (case run_file E f c of Inl e \<Rightarrow> Inl e | Inr c' \<Rightarrow> run_files E fs c')"

text \<open>\<open>Up\<close> runs the pending up files in order; nothing is said of the database when it fails.\<close>

definition up_documented :: "pg \<Rightarrow> migrated Migrate \<Rightarrow> bool" where
  "up_documented E M \<longleftrightarrow> (\<forall>s r s'. run_state (m_Up M) s = (r, s') \<longrightarrow>
     (r = Inr () \<longrightarrow> applied s < length migration_files \<and>
        run_files E (drop (applied s) (map fst migration_files)) (mg_catalog s) = Inr (mg_catalog s') \<and>
        mg_version s' = Some (length migration_files)) \<and>
     (r = Inl ErrNoChange \<longrightarrow> s' = s \<and> mg_version s = Some (length migration_files)))"

text \<open>\<open>Down\<close> runs the down files of all the versions applied, the latest first.\<close>

definition down_documented :: "pg \<Rightarrow> migrated Migrate \<Rightarrow> bool" where
  "down_documented E M \<longleftrightarrow> (\<forall>s r s'. run_state (m_Down M) s = (r, s') \<longrightarrow>
     (r = Inr () \<longrightarrow> applied s \<le> length migration_files \<and>
        run_files E (rev (take (applied s) (map snd migration_files))) (mg_catalog s) = Inr (mg_catalog s') \<and>
        mg_version s' = None) \<and>
     (r = Inl ErrNoChange \<longrightarrow> s' = s \<and> mg_version s = None))"

definition documented_migrate :: "pg \<Rightarrow> migrated migrate_lib \<Rightarrow> bool" where
  "documented_migrate E L \<longleftrightarrow> (\<forall>url s r s'. run_state (migrate_New L ''file://migrations'' url) s = (r, s') \<longrightarrow>
     s' = s \<and> (\<forall>M. r = Inr M \<longrightarrow> up_documented E M \<and> down_documented E M \<and>
       (\<forall>s. snd (run_state (m_Close M) s) = s)))"

section \<open>Running the files\<close>

definition migrated_at :: "nat \<Rightarrow> migrated \<Rightarrow> bool" where
  "migrated_at k s \<longleftrightarrow> mg_version s = (if k = 0 then None else Some k) \<and> k \<le> 6 \<and> schema_ready k (mg_catalog s)"

lemma length_files [simp]: "length migration_files = 6"
  by (simp add: migration_files_def)

lemma migrated_at_applied: "migrated_at k s \<Longrightarrow> applied s = k"
  by (simp add: migrated_at_def applied_def)

lemma run_ups:
  "schema_ready k c \<Longrightarrow> k \<le> 6 \<Longrightarrow> run_files E (drop k (map fst migration_files)) c = Inr c' \<Longrightarrow>
   schema_ready 6 c' \<and> rows_grow (cat_db c) (cat_db c')"
proof (induction "6 - k" arbitrary: k c)
  case 0
  then show ?case by simp
next
  case (Suc m)
  then have k: "k < 6" by simp
  then have "drop k (map fst migration_files) = fst (migration_files ! k) # drop (Suc k) (map fst migration_files)"
    by (simp add: Cons_nth_drop_Suc [symmetric])
  with Suc.prems(3) obtain c1 where one: "run_file E (fst (migration_files ! k)) c = Inr c1"
    and rest: "run_files E (drop (Suc k) (map fst migration_files)) c1 = Inr c'"
    by (auto split: sum.splits)
  have "m = 6 - Suc k" using Suc.hyps(2) by simp
  from up_keeps [OF k Suc.prems(1) one] Suc.hyps(1) [OF this _ _ rest] k
  show ?case by (auto intro: rows_grow_trans)
qed

lemma run_downs:
  "schema_ready k c \<Longrightarrow> k \<le> 6 \<Longrightarrow>
   \<exists>c'. run_files E (rev (take k (map snd migration_files))) c = Inr c' \<and> schema_ready 0 c'"
proof (induction k arbitrary: c)
  case 0
  then show ?case by simp
next
  case (Suc k)
  then obtain c1 where one: "run_file E (snd (migration_files ! k)) c = Inr c1" and ready: "schema_ready k c1"
    using down_keeps [of k c E] by auto
  have "rev (take (Suc k) (map snd migration_files)) = snd (migration_files ! k) # rev (take k (map snd migration_files))"
    using Suc.prems(2) by (simp add: take_Suc_conv_app_nth)
  with Suc.IH [OF ready] Suc.prems(2) one show ?case by simp
qed

section \<open>What the files leave in a new database\<close>

text \<open>The rows of the seeds, but for identifiers and times the server chooses.\<close>

definition seeded :: "db \<Rightarrow> bool" where
  "seeded d \<longleftrightarrow>
     map (\<lambda>a. (dbA_ID a, dbA_Email a)) (tbl_approved_users d) =
       [(UUIDToPgtypeValue 0x30, ''admin@example.com''), (UUIDToPgtypeValue 0x31, ''user@example.com'')] \<and>
     map dbR_Name (tbl_roles d) = [''admin'', ''user''] \<and>
     map (\<lambda>u. (dbU_ApprovedUserID u, dbU_Email u, dbU_PasswordHash u, dbU_IsActive u)) (tbl_users d) =
       [(UUIDToPgtypeValue 0x30, ''admin@example.com'', seed_hash, True),
        (UUIDToPgtypeValue 0x31, ''user@example.com'', seed_hash, True)] \<and>
     map (\<lambda>m. (dbUR_UserID m, dbUR_RoleID m)) (tbl_user_roles d) =
       zip (map dbU_ID (tbl_users d)) (map dbR_ID (tbl_roles d)) \<and>
     tbl_todos d \<noteq> [] \<and> (\<forall>t \<in> set (tbl_todos d). dbT_UserID t = dbU_ID (tbl_users d ! 1))"

definition blank :: "db \<Rightarrow> bool" where
  "blank d \<longleftrightarrow> tbl_approved_users d = [] \<and> tbl_users d = [] \<and> tbl_roles d = [] \<and>
     tbl_user_roles d = [] \<and> tbl_todos d = []"

lemma schema_ready_blank: "schema_ready 0 c \<Longrightarrow> blank (cat_db c)"
  by (simp add: schema_ready_def table_names_def table_empty_def blank_def)

lemma insert_roles_new:
  "insert_roles [(''admin'', s1), (''user'', s2)] E s n d = Inr d' \<Longrightarrow> tbl_roles d = [] \<Longrightarrow>
   \<exists>rs. d' = d\<lparr>tbl_roles := rs\<rparr> \<and> map dbR_Name rs = [''admin'', ''user'']"
  by (auto simp: insert_roles_def insert_role_def split: if_splits)

lemma insert_roles_there:
  "map dbR_Name (tbl_roles d) = [''admin'', ''user''] \<Longrightarrow>
   insert_roles [(''admin'', s1), (''user'', s2)] E s n d = Inr d"
  by (auto simp: insert_roles_def map_eq_Cons_conv)

lemma seed_approved_users_new:
  "seed_approved_users E s n d = Inr d' \<Longrightarrow> tbl_approved_users d = [] \<Longrightarrow>
   \<exists>as. d' = d\<lparr>tbl_approved_users := as\<rparr> \<and> map (\<lambda>a. (dbA_ID a, dbA_Email a)) as =
     [(UUIDToPgtypeValue 0x30, ''admin@example.com''), (UUIDToPgtypeValue 0x31, ''user@example.com'')]"
  by (auto simp: seed_approved_users_def insert_approved_users_def null_UUID_def split: if_splits)

lemma seed_users_new:
  "seed_users E s n d = Inr d' \<Longrightarrow> tbl_users d = [] \<Longrightarrow>
   \<exists>us. d' = d\<lparr>tbl_users := us\<rparr> \<and>
     map (\<lambda>u. (dbU_ApprovedUserID u, dbU_Email u, dbU_PasswordHash u, dbU_IsActive u)) us =
       [(UUIDToPgtypeValue 0x30, ''admin@example.com'', seed_hash, True),
        (UUIDToPgtypeValue 0x31, ''user@example.com'', seed_hash, True)]"
  by (auto simp: seed_users_def insert_user_def split: if_splits)

text \<open>The two accounts and the two roles, where both are as the seeds leave them.\<close>

definition two_accounts :: "db \<Rightarrow> db_User \<Rightarrow> db_User \<Rightarrow> db_Role \<Rightarrow> db_Role \<Rightarrow> bool" where
  "two_accounts d u v r t \<longleftrightarrow> tbl_users d = [u, v] \<and> tbl_roles d = [r, t] \<and>
     dbU_Email u = ''admin@example.com'' \<and> dbU_Email v = ''user@example.com'' \<and>
     dbR_Name r = ''admin'' \<and> dbR_Name t = ''user''"

lemma seed_user_roles_new:
  assumes "two_accounts d u v r t"
  shows "seed_user_roles ''admin@example.com'' ''admin'' E s n d = Inr d' \<Longrightarrow> tbl_user_roles d = [] \<Longrightarrow>
      \<exists>m. d' = d\<lparr>tbl_user_roles := [m]\<rparr> \<and> dbUR_UserID m = dbU_ID u \<and> dbUR_RoleID m = dbR_ID r"
    and "seed_user_roles ''user@example.com'' ''user'' E s n d = Inr d' \<Longrightarrow>
      tbl_user_roles d = [m] \<Longrightarrow> dbUR_UserID m \<noteq> dbU_ID v \<Longrightarrow>
      \<exists>m'. d' = d\<lparr>tbl_user_roles := [m, m']\<rparr> \<and> dbUR_UserID m' = dbU_ID v \<and> dbUR_RoleID m' = dbR_ID t"
  using assms
  by (auto simp: seed_user_roles_def two_accounts_def insert_user_role_def split: if_splits)

lemma seed_todo_new:
  assumes "two_accounts d u v r t" and "seed_todo title descr completed E s n d = Inr d'"
  shows "\<exists>xs. d' = d\<lparr>tbl_todos := tbl_todos d @ xs\<rparr> \<and> (\<forall>x \<in> set xs. dbT_UserID x = dbU_ID v) \<and>
    (tbl_todos d = [] \<longrightarrow> xs \<noteq> [])"
proof -
  have "d' = d \<and> tbl_todos d \<noteq> [] \<or> (\<exists>x. d' = d\<lparr>tbl_todos := tbl_todos d @ [x]\<rparr> \<and> dbT_UserID x = dbU_ID v)"
    using assms by (auto simp: seed_todo_def two_accounts_def insert_todo_def split: if_splits)
  then show ?thesis by (elim disjE exE) (auto intro: exI [of _ "[]"])
qed

lemma up_seed_run:
  assumes "run_file E up_000006 c = Inr c'"
  obtains n d1 d2 d3 d4 d5 d6 d7 where "seed_approved_users E n n (cat_db c) = Inr d1"
    and "insert_roles [(''admin'', ''Administrator with full access''),
      (''user'', ''Regular user with limited access'')] E n (Suc n) d1 = Inr d2"
    and "seed_users E n (Suc (Suc n)) d2 = Inr d3"
    and "seed_user_roles ''admin@example.com'' ''admin'' E n (Suc (Suc (Suc n))) d3 = Inr d4"
    and "seed_user_roles ''user@example.com'' ''user'' E n (Suc (Suc (Suc (Suc n)))) d4 = Inr d5"
    and "seed_todo ''Sample Todo 1'' ''This is a sample todo item for testing'' False E n
      (Suc (Suc (Suc (Suc (Suc n))))) d5 = Inr d6"
    and "seed_todo ''Sample Todo 2'' ''Another sample todo for integration tests'' True E n
      (Suc (Suc (Suc (Suc (Suc (Suc n)))))) d6 = Inr d7"
    and "cat_db c' = d7\<lparr>roundtrips := n + 7\<rparr>"
  using assms by (auto simp: run_file_Inr up_000006_def DML_Inr run_stmts_Cons_Inr simp del: run_stmts.simps(2))

lemma up_seed_new:
  assumes "run_file E up_000006 c = Inr c'" and "db_inv (cat_db c)"
    and "map dbR_Name (tbl_roles (cat_db c)) = [''admin'', ''user'']"
    and "tbl_approved_users (cat_db c) = []" "tbl_users (cat_db c) = []" "tbl_user_roles (cat_db c) = []"
      "tbl_todos (cat_db c) = []"
  shows "seeded (cat_db c')"
proof -
  from up_seed_run [OF assms(1)] obtain n d1 d2 d3 d4 d5 d6 d7 where
    1: "seed_approved_users E n n (cat_db c) = Inr d1" and
    2: "insert_roles [(''admin'', ''Administrator with full access''),
      (''user'', ''Regular user with limited access'')] E n (Suc n) d1 = Inr d2" and
    3: "seed_users E n (Suc (Suc n)) d2 = Inr d3" and
    4: "seed_user_roles ''admin@example.com'' ''admin'' E n (Suc (Suc (Suc n))) d3 = Inr d4" and
    5: "seed_user_roles ''user@example.com'' ''user'' E n (Suc (Suc (Suc (Suc n)))) d4 = Inr d5" and
    6: "seed_todo ''Sample Todo 1'' ''This is a sample todo item for testing'' False E n
      (Suc (Suc (Suc (Suc (Suc n))))) d5 = Inr d6" and
    7: "seed_todo ''Sample Todo 2'' ''Another sample todo for integration tests'' True E n
      (Suc (Suc (Suc (Suc (Suc (Suc n)))))) d6 = Inr d7" and
    c': "cat_db c' = d7\<lparr>roundtrips := n + 7\<rparr>" .
  obtain as where d1: "d1 = (cat_db c)\<lparr>tbl_approved_users := as\<rparr>"
    and as: "map (\<lambda>a. (dbA_ID a, dbA_Email a)) as =
      [(UUIDToPgtypeValue 0x30, ''admin@example.com''), (UUIDToPgtypeValue 0x31, ''user@example.com'')]"
    using seed_approved_users_new [OF 1 assms(4)] by (elim exE conjE) (rule that)
  have "map dbR_Name (tbl_roles d1) = [''admin'', ''user'']" by (simp add: d1 assms(3))
  from trans [OF sym [OF 2] insert_roles_there [OF this]] have d2: "d2 = d1" by (rule sum.inject(2) [THEN iffD1])
  obtain us where d3: "d3 = d1\<lparr>tbl_users := us\<rparr>"
    and us: "map (\<lambda>u. (dbU_ApprovedUserID u, dbU_Email u, dbU_PasswordHash u, dbU_IsActive u)) us =
       [(UUIDToPgtypeValue 0x30, ''admin@example.com'', seed_hash, True),
        (UUIDToPgtypeValue 0x31, ''user@example.com'', seed_hash, True)]"
  proof -
    have "tbl_users d2 = []" using assms(5) by (simp add: d2 d1)
    from seed_users_new [OF 3 this] that show thesis unfolding d2 by (elim exE conjE) (rule that)
  qed
  obtain u v where uv: "us = [u, v]" "dbU_Email u = ''admin@example.com''" "dbU_Email v = ''user@example.com''"
    using us by (auto simp: map_eq_Cons_conv)
  obtain r t where rt: "tbl_roles (cat_db c) = [r, t]" "dbR_Name r = ''admin''" "dbR_Name t = ''user''"
    using assms(3) by (auto simp: map_eq_Cons_conv)
  have inv: "db_inv d3"
    using sound_insertD [OF sound_rows(2) 1] sound_insertD [OF sound_rows(3) 3] assms(2) by (simp add: d2)
  then have ne: "dbU_ID u \<noteq> dbU_ID v"
    by (auto simp: db_inv_def users_ok_def primary_key_def d3 uv)
  have two: "two_accounts d3 u v r t" by (simp add: two_accounts_def d3 d1 uv rt)
  obtain m where d4: "d4 = d3\<lparr>tbl_user_roles := [m]\<rparr>" "dbUR_UserID m = dbU_ID u" "dbUR_RoleID m = dbR_ID r"
    using seed_user_roles_new(1) [OF two 4] assms(6) by (auto simp: d3 d1)
  have two4: "two_accounts d4 u v r t" using two by (simp add: two_accounts_def d4)
  obtain m' where d5: "d5 = d4\<lparr>tbl_user_roles := [m, m']\<rparr>" "dbUR_UserID m' = dbU_ID v" "dbUR_RoleID m' = dbR_ID t"
    using seed_user_roles_new(2) [OF two4 5] ne by (auto simp: d4)
  have two5: "two_accounts d5 u v r t" using two4 by (simp add: two_accounts_def d5)
  obtain xs where d6: "d6 = d5\<lparr>tbl_todos := xs\<rparr>" "\<forall>x \<in> set xs. dbT_UserID x = dbU_ID v" "xs \<noteq> []"
    using seed_todo_new [OF two5 6] assms(7) by (auto simp: d5 d4 d3 d1)
  have two6: "two_accounts d6 u v r t" using two5 by (simp add: two_accounts_def d6)
  obtain ys where d7: "d7 = d6\<lparr>tbl_todos := xs @ ys\<rparr>" "\<forall>x \<in> set ys. dbT_UserID x = dbU_ID v"
    using seed_todo_new [OF two6 7] by (auto simp: d6)
  show ?thesis
    using as us d6(2,3) d7(2) d4(2,3) d5(2,3)
    by (auto simp: seeded_def c' d7(1) d6(1) d5(1) d4(1) d3 d1 uv rt)
qed

lemma ups_seed:
  assumes "schema_ready 0 c" and "run_files E (map fst migration_files) c = Inr c'"
  shows "seeded (cat_db c')"
proof -
  note ready = assms(1)
  have blank: "blank (cat_db c)" by (rule schema_ready_blank [OF ready])
  define c2 where "c2 = at_version 2 ((cat_db c)\<lparr>roundtrips := roundtrips (cat_db c) + 3\<rparr>) 4"
  have r1: "schema_ready 1 (at_version 1 (cat_db c) 3)" using at_version_ready [OF ready, of 3] by simp
  then have r2: "schema_ready 2 c2"
    using at_version_ready [OF r1, of 4] by (simp add: c2_def numeral_2_eq_2)
  from assms(2) obtain c3 c4 c5 where 3: "run_file E up_000003 c2 = Inr c3" and 4: "run_file E up_000004 c3 = Inr c4"
    and 5: "run_file E up_000005 c4 = Inr c5" and 6: "run_file E up_000006 c5 = Inr c'"
    using up_ddl_runs(1) [OF ready, of E] up_ddl_runs(2) [OF r1, of E]
    by (auto simp: migration_files_def c2_def split: sum.splits)
  have r3: "schema_ready 3 c3" using up_roles_keeps [OF r2 3] by simp
  have c4: "c4 = at_version 4 (cat_db c3) 2" using up_ddl_runs(3) [OF r3, of E] 4 by simp
  have r4: "schema_ready 4 c4" using at_version_ready [OF r3, of 2] by (simp add: c4)
  have c5: "c5 = at_version 5 (cat_db c4) 5" using up_ddl_runs(4) [OF r4, of E] 5 by simp
  have r5: "schema_ready 5 c5" using at_version_ready [OF r4, of 5] by (simp add: c5)
  from up_roles_run [OF r2 3] obtain d where
    d: "insert_roles [(''admin'', ''Administrator with full access''),
      (''user'', ''Standard user with basic access'')] E (roundtrips (cat_db c2)) (Suc (roundtrips (cat_db c2)))
      (cat_db c2) = Inr d"
    and c3: "c3 = c2\<lparr>cat_tables := cat_tables c2 @ [''roles''], cat_db := d\<lparr>roundtrips := roundtrips (cat_db c2) + 2\<rparr>\<rparr>"
    .
  obtain rs where rs: "d = (cat_db c2)\<lparr>tbl_roles := rs\<rparr>" "map dbR_Name rs = [''admin'', ''user'']"
    using insert_roles_new [OF d] blank by (auto simp: c2_def blank_def)
  show ?thesis
    using r5 blank by (intro up_seed_new [OF 6]) (simp_all add: schema_ready_def c5 c4 c3 rs c2_def blank_def)
qed

section \<open>The commands\<close>

lemma run_on_migrated [simp]:
  "run_state (on_migrated m) p = (case run_state m (pr_db p) of (r, s) \<Rightarrow> (r, p\<lparr>pr_db := s\<rparr>))"
  by (simp add: on_migrated_def)

lemma run_Println [simp]:
  "run_state (Println l) p = ((), p\<lparr>pr_stdout := pr_stdout p @ [l]\<rparr>)"
  "run_state (Eprintln l) p = ((), p\<lparr>pr_stderr := pr_stderr p @ [l]\<rparr>)"
  by (simp_all add: Println_def Eprintln_def)

lemma unless_no_change_simps [simp]:
  "unless_no_change wrap r = Inr u \<longleftrightarrow> r = Inl ErrNoChange \<or> r = Inr ()"
  by (cases r) (auto simp: unless_no_change_def)

text \<open>With exit code 0 the library has been opened, the command has answered without an error, and the
  migrator has been closed.\<close>

lemma migrate_main_ok:
  assumes "run_state (migrate_main L Getenv args) p = (0, p')"
    and "flag_Parse args default_flags = Parsed f rest"
  obtains M s p1 where "run_state (migrate_New L (flag_path f) (Getenv ''DATABASE_URL'')) (pr_db p) = (Inr M, s)"
    and "run_state (run_command M f) (p\<lparr>pr_db := s\<rparr>) = (Inr (), p1)"
    and "pr_db p' = snd (run_state (m_Close M) (pr_db p1))"
  using assms
  by (auto simp: migrate_main_def run_migrate_def close_migrate_def Let_def split: if_splits prod.splits sum.splits)

lemma documented_main_ok:
  assumes "run_state (migrate_main L Getenv args) p = (0, p')" and "documented_migrate E L"
    and "flag_Parse args default_flags = Parsed f rest" and "flag_path f = ''file://migrations''"
  obtains M p1 where "up_documented E M" and "down_documented E M"
    and "run_state (run_command M f) p = (Inr (), p1)" and "pr_db p' = pr_db p1"
proof -
  from assms(1,3) obtain M s p1 where
    1: "run_state (migrate_New L (flag_path f) (Getenv ''DATABASE_URL'')) (pr_db p) = (Inr M, s)" and
    2: "run_state (run_command M f) (p\<lparr>pr_db := s\<rparr>) = (Inr (), p1)" and
    3: "pr_db p' = snd (run_state (m_Close M) (pr_db p1))"
    by (rule migrate_main_ok)
  from assms(2) 1 have "s = pr_db p" "up_documented E M" "down_documented E M" "\<And>s. snd (run_state (m_Close M) s) = s"
    unfolding documented_migrate_def assms(4) by metis+
  with 2 3 that show thesis by simp
qed

lemma Up_effect:
  assumes "up_documented E M" and "run_state (m_Up M) s = (r, s')" and "r = Inl ErrNoChange \<or> r = Inr ()"
    and "migrated_at k s"
  shows "migrated_at 6 s' \<and> rows_grow (cat_db (mg_catalog s)) (cat_db (mg_catalog s')) \<and>
    (k = 0 \<longrightarrow> seeded (cat_db (mg_catalog s')))"
  using assms(3)
proof
  assume "r = Inl ErrNoChange"
  with assms(1,2) have "s' = s" "mg_version s = Some 6" unfolding up_documented_def by force+
  with assms(4) show ?thesis by (auto simp: migrated_at_def split: if_splits)
next
  assume "r = Inr ()"
  with assms(1,2) have run: "run_files E (drop (applied s) (map fst migration_files)) (mg_catalog s) = Inr (mg_catalog s')"
    and v: "mg_version s' = Some 6" unfolding up_documented_def by force+
  from assms(4) have k: "applied s = k" "schema_ready k (mg_catalog s)" "k \<le> 6"
    by (simp_all add: migrated_at_applied) (simp_all add: migrated_at_def)
  show ?thesis
    using run_ups [OF k(2,3) run [unfolded k(1)]] ups_seed [of "mg_catalog s" E "mg_catalog s'"] run k v
    by (auto simp: migrated_at_def)
qed

lemma Down_effect:
  assumes "down_documented E M" and "run_state (m_Down M) s = (r, s')" and "r = Inl ErrNoChange \<or> r = Inr ()"
    and "migrated_at k s"
  shows "migrated_at 0 s'"
  using assms(3)
proof
  assume "r = Inl ErrNoChange"
  with assms(1,2) have "s' = s" "mg_version s = None" unfolding down_documented_def by force+
  with assms(4) show ?thesis by (auto simp: migrated_at_def split: if_splits)
next
  assume "r = Inr ()"
  with assms(1,2) have run: "run_files E (rev (take (applied s) (map snd migration_files))) (mg_catalog s) = Inr (mg_catalog s')"
    and v: "mg_version s' = None" unfolding down_documented_def by force+
  from assms(4) have k: "applied s = k" "schema_ready k (mg_catalog s)" "k \<le> 6"
    by (simp_all add: migrated_at_applied) (simp_all add: migrated_at_def)
  show ?thesis using run_downs [OF k(2,3), of E] run k(1) v by (auto simp: migrated_at_def)
qed

lemma runUp_effect:
  assumes "up_documented E M" and "run_state (runUp M) p = (Inr (), p')" and "migrated_at k (pr_db p)"
  shows "migrated_at 6 (pr_db p') \<and>
    rows_grow (cat_db (mg_catalog (pr_db p))) (cat_db (mg_catalog (pr_db p'))) \<and>
    (k = 0 \<longrightarrow> seeded (cat_db (mg_catalog (pr_db p'))))"
  using assms(2) Up_effect [OF assms(1) _ _ assms(3)]
  by (auto simp: runUp_def split: prod.splits sum.splits)

lemma runDown_effect:
  assumes "down_documented E M" and "run_state (runDown M) p = (Inr (), p')" and "migrated_at k (pr_db p)"
  shows "migrated_at 0 (pr_db p')"
  using assms(2) Down_effect [OF assms(1) _ _ assms(3)]
  by (auto simp: runDown_def split: prod.splits sum.splits)

lemma runReset_effect:
  assumes "up_documented E M" and "down_documented E M" and "run_state (runReset M) p = (Inr (), p')"
    and "migrated_at k (pr_db p)"
  shows "migrated_at 6 (pr_db p') \<and> seeded (cat_db (mg_catalog (pr_db p')))"
proof -
  from assms(3) obtain r1 s1 r2 s2 where 1: "run_state (m_Down M) (pr_db p) = (r1, s1)" "r1 = Inl ErrNoChange \<or> r1 = Inr ()"
    and 2: "run_state (m_Up M) s1 = (r2, s2)" "r2 = Inl ErrNoChange \<or> r2 = Inr ()" and p': "pr_db p' = s2"
    by (auto simp: runReset_def split: prod.splits sum.splits)
  from Up_effect [OF assms(1) 2 Down_effect [OF assms(2) 1 assms(4)]] show ?thesis by (simp add: p')
qed

text \<open>What the services see of the seeds.\<close>

lemma seeded_view:
  assumes "seeded d" and "db_inv d"
  shows "''user'' \<in> RoleRow_Name ` v_roles (auth_view_of d)"
    and "\<exists>u \<in> v_users (auth_view_of d). UserRow_Email u = ''admin@example.com'' \<and> UserRow_IsActive u \<and>
      UserRow_PasswordHash u = seed_hash \<and> role_names_of (auth_view_of d) (UserRow_ID u) = {''admin''}"
proof -
  from assms(1) obtain u v where us: "tbl_users d = [u, v]" "dbU_Email u = ''admin@example.com''"
      "dbU_IsActive u" "dbU_PasswordHash u = seed_hash"
    by (auto simp: seeded_def map_eq_Cons_conv)
  from assms(1) obtain r t where rs: "tbl_roles d = [r, t]" "dbR_Name r = ''admin''" "dbR_Name t = ''user''"
    by (auto simp: seeded_def map_eq_Cons_conv)
  from assms(1) obtain m m' where ms: "tbl_user_roles d = [m, m']" "dbUR_UserID m = dbU_ID u" "dbUR_RoleID m = dbR_ID r"
      "dbUR_UserID m' = dbU_ID v" "dbUR_RoleID m' = dbR_ID t"
    by (auto simp: seeded_def us rs map_eq_Cons_conv)
  show "''user'' \<in> RoleRow_Name ` v_roles (auth_view_of d)" by (simp add: rs)
  have ne: "PgUUIDToValue (dbU_ID u) \<noteq> PgUUIDToValue (dbU_ID v)"
      "PgUUIDToValue (dbR_ID r) \<noteq> PgUUIDToValue (dbR_ID t)"
    using assms(2) us rs by (auto simp: db_inv_def users_ok_def roles_ok_def primary_key_def PgUUIDToValue_inj)
  have "{x \<in> v_roles (auth_view_of d). (PgUUIDToValue (dbU_ID u), RoleRow_ID x) \<in> v_members (auth_view_of d)} =
      {roleRowFromDB r}"
    using ne by (auto simp: rs ms)
  then have "role_names_of (auth_view_of d) (PgUUIDToValue (dbU_ID u)) = {''admin''}"
    by (simp add: role_names_of_def rs del: auth_view_simps)
  then show "\<exists>u \<in> v_users (auth_view_of d). UserRow_Email u = ''admin@example.com'' \<and> UserRow_IsActive u \<and>
      UserRow_PasswordHash u = seed_hash \<and> role_names_of (auth_view_of d) (UserRow_ID u) = {''admin''}"
    using us by (intro bexI [of _ "user_row u"]) (simp_all del: auth_view_simps(2-4))
qed

section \<open>A migrator\<close>

definition demo_Migrate :: "pg \<Rightarrow> migrated Migrate" where
  "demo_Migrate E =
     \<lparr>m_Up = State (\<lambda>s.
        if mg_version s = Some (length migration_files) then (Inl ErrNoChange, s)
        else if length migration_files \<le> applied s then (Inl (MigrateError ''no migration found for version''), s)
        else case run_files E (drop (applied s) (map fst migration_files)) (mg_catalog s) of
            Inl err \<Rightarrow> (Inl (MigrateError ''migration failed''), s)
          | Inr c \<Rightarrow> (Inr (), s\<lparr>mg_catalog := c, mg_version := Some (length migration_files)\<rparr>)),
      m_Down = State (\<lambda>s.
        if mg_version s = None then (Inl ErrNoChange, s)
        else if length migration_files < applied s then (Inl (MigrateError ''no migration found for version''), s)
        else case run_files E (rev (take (applied s) (map snd migration_files))) (mg_catalog s) of
            Inl err \<Rightarrow> (Inl (MigrateError ''migration failed''), s)
          | Inr c \<Rightarrow> (Inr (), s\<lparr>mg_catalog := c, mg_version := None\<rparr>)),
      m_Force = (\<lambda>v. State (\<lambda>s. (Inr (), s\<lparr>mg_version := (if v < 0 then None else Some (nat v))\<rparr>))),
      m_Version = State (\<lambda>s. (case mg_version s of None \<Rightarrow> Inl (MigrateError ''no migration'')
        | Some v \<Rightarrow> Inr (v, mg_dirty s), s)),
      m_Close = State_Monad.return (None, None)\<rparr>"

definition demo_migrate :: "migrated migrate_lib" where
  "demo_migrate = \<lparr>migrate_New = (\<lambda>source url. State_Monad.return (Inr (demo_Migrate demo_pg)))\<rparr>"

lemma demo_migrate_documented: "documented_migrate demo_pg demo_migrate"
  by (simp add: documented_migrate_def demo_migrate_def up_documented_def down_documented_def demo_Migrate_def
      split: sum.splits del: length_files)

definition demo_vars :: "string \<Rightarrow> string" where
  "demo_vars key = (if key = ''DATABASE_URL'' then ''postgres://app@localhost/app'' else '''')"

definition new_database :: "migrated process" where
  "new_database = \<lparr>pr_db = \<lparr>mg_catalog = empty_catalog, mg_version = None, mg_dirty = False\<rparr>,
     pr_stdout = [], pr_stderr = []\<rparr>"

lemma new_database_at [simp]: "migrated_at 0 (pr_db new_database)"
  by (simp add: migrated_at_def new_database_def schema_ready_empty)

section \<open>The promises\<close>

text \<open>
  C26. When \<open>migrate\<close> exits with 0: \<open>up\<close> has brought the schema from whatever version to the last one,
  keeping the rows there were and seeding a new database; \<open>down\<close> has dropped everything, not one
  version only; \<open>reset\<close> has left the last version with nothing but the seeds.
\<close>

theorem migrate_commands:
  assumes "run_state (migrate_main L Getenv args) p = (0, p')" and "documented_migrate E L"
    and "flag_Parse args default_flags = Parsed f rest" and "flag_path f = ''file://migrations''"
    and "migrated_at k (pr_db p)"
  shows "(flag_command f = ''up'' \<longrightarrow> migrated_at 6 (pr_db p') \<and>
       rows_grow (cat_db (mg_catalog (pr_db p))) (cat_db (mg_catalog (pr_db p'))) \<and>
       (k = 0 \<longrightarrow> seeded (cat_db (mg_catalog (pr_db p'))))) \<and>
    (flag_command f = ''down'' \<longrightarrow> migrated_at 0 (pr_db p')) \<and>
    (flag_command f = ''reset'' \<longrightarrow> migrated_at 6 (pr_db p') \<and> seeded (cat_db (mg_catalog (pr_db p'))))"
proof -
  from assms(1-4) obtain M p1 where M: "up_documented E M" "down_documented E M"
    and run: "run_state (run_command M f) p = (Inr (), p1)" and p': "pr_db p' = pr_db p1"
    by (rule documented_main_ok)
  show ?thesis
  proof (intro conjI impI)
    assume "flag_command f = ''up''"
    then have "run_state (runUp M) p = (Inr (), p1)" using run by (simp add: run_command_def)
    from runUp_effect [OF M(1) this assms(5)] show "migrated_at 6 (pr_db p')"
      and "rows_grow (cat_db (mg_catalog (pr_db p))) (cat_db (mg_catalog (pr_db p')))"
      and "k = 0 \<Longrightarrow> seeded (cat_db (mg_catalog (pr_db p')))" unfolding p' by simp_all
  next
    assume "flag_command f = ''down''"
    then have "run_state (runDown M) p = (Inr (), p1)" using run by (simp add: run_command_def)
    from runDown_effect [OF M(2) this assms(5)] show "migrated_at 0 (pr_db p')" unfolding p' .
  next
    assume "flag_command f = ''reset''"
    then have "run_state (runReset M) p = (Inr (), p1)" using run by (simp add: run_command_def)
    from runReset_effect [OF M this assms(5)] show "migrated_at 6 (pr_db p')"
      and "seeded (cat_db (mg_catalog (pr_db p')))" unfolding p' by simp_all
  qed
qed

text \<open>
  The package \<open>flag\<close> stops at the first word that is no flag, so each target of the Makefile, which
  passes its command as such a word, does what the command without arguments does: \<open>up\<close>.
\<close>

theorem make_targets_run_up:
  "migrate_main L Getenv [''up''] = migrate_main L Getenv [''-command'', ''up''] \<and>
   migrate_main L Getenv [''down''] = migrate_main L Getenv [''-command'', ''up''] \<and>
   migrate_main L Getenv [''reset''] = migrate_main L Getenv [''-command'', ''up''] \<and>
   migrate_main L Getenv [''version''] = migrate_main L Getenv [''-command'', ''up''] \<and>
   migrate_main L Getenv [''force'', ''-version'', v] = migrate_main L Getenv [''-command'', ''up'']"
proof -
  have word: "flag_Parse (w # args) default_flags = Parsed default_flags (w # args)" if "w ! 0 \<noteq> CHR ''-''" for w args
    using that by simp
  have "flag_Parse [''-command'', ''up''] default_flags = Parsed default_flags []" by code_simp
  moreover have "migrate_main L Getenv (w # args) = migrate_main L Getenv args'"
    if "w ! 0 \<noteq> CHR ''-''" "flag_Parse args' default_flags = Parsed default_flags []" for w args args'
    unfolding migrate_main_def that(2) word [OF that(1)] by simp
  ultimately show ?thesis by simp
qed

theorem migrate_commands_witness:
  "fst (run_state (migrate_main demo_migrate demo_vars []) new_database) = 0 \<and>
   seeded (cat_db (mg_catalog (pr_db (snd (run_state (migrate_main demo_migrate demo_vars []) new_database)))))"
proof -
  have zero: "fst (run_state (migrate_main demo_migrate demo_vars []) new_database) = 0" by code_simp
  then have run: "run_state (migrate_main demo_migrate demo_vars []) new_database =
      (0, snd (run_state (migrate_main demo_migrate demo_vars []) new_database))" by (metis prod.collapse)
  have parse: "flag_Parse [] default_flags = Parsed default_flags []" by simp
  have path: "flag_path default_flags = ''file://migrations''" and up: "flag_command default_flags = ''up''"
    by (simp_all add: default_flags_def)
  from migrate_commands [OF run demo_migrate_documented parse path new_database_at]
  have "seeded (cat_db (mg_catalog (pr_db (snd (run_state (migrate_main demo_migrate demo_vars []) new_database)))))"
    using up by (elim conjE) (drule (1) mp, elim conjE, drule mp, rule refl)
  with zero show ?thesis by (rule conjI)
qed

text \<open>
  C17. Migrations, then the server: a server started on a new database after \<open>migrate\<close> exited with 0, in
  its default way, can register users at once, the default role being known; and the database has an
  active account of an administrator with the password hash of the seed file.
\<close>

theorem migrated_server:
  assumes "run_state (migrate_main L Getenv args) p = (0, p')" and "documented_migrate (env_pg E) L"
    and "flag_Parse args default_flags = Parsed default_flags rest" and "migrated_at 0 (pr_db p)"
    and "run_state (run_until_listening M E) s = (Inr (C, w), s')"
    and "ps_db s = cat_db (mg_catalog (pr_db p'))" and "server_up (env_pg E)"
  shows "(\<exists>i. as_defaultUserRoleID (app_auth w) = Some i \<and>
      (\<exists>x \<in> v_roles (auth_view_of (app_db w)). RoleRow_Name x = ''user'' \<and> RoleRow_ID x = i)) \<and>
    (\<exists>u \<in> v_users (auth_view_of (app_db w)). UserRow_Email u = ''admin@example.com'' \<and> UserRow_IsActive u \<and>
      UserRow_PasswordHash u = seed_hash \<and> role_names_of (auth_view_of (app_db w)) (UserRow_ID u) = {''admin''})"
proof -
  have path: "flag_path default_flags = ''file://migrations''" and up: "flag_command default_flags = ''up''"
    by (simp_all add: default_flags_def)
  from assms(1-3) path obtain M' p1 where M: "up_documented (env_pg E) M'"
    and run: "run_state (run_command M' default_flags) p = (Inr (), p1)" and p': "pr_db p' = pr_db p1"
    by (rule documented_main_ok)
  from run have "run_state (runUp M') p = (Inr (), p1)" by (simp add: run_command_def up)
  from runUp_effect [OF M this assms(4)] have seeded: "seeded (ps_db s)" and inv: "db_inv (ps_db s)"
    unfolding assms(6) p' by (simp_all add: migrated_at_def schema_ready_def)
  from startup_state [OF assms(5) inv] have started: "started E (ps_db s) w" by blast
  then have view: "auth_view_of (app_db w) = auth_view_of (ps_db s)"
    and ok: "cache_ok (auth_view_of (ps_db s)) (as_defaultUserRoleID (app_auth w))"
    and "as_defaultUserRoleID (app_auth w) \<noteq> None"
    using seeded_view(1) [OF seeded inv] assms(7) unfolding started_def by simp_all
  then obtain i where i: "as_defaultUserRoleID (app_auth w) = Some i" by auto
  show ?thesis
    using ok seeded_view(2) [OF seeded inv] unfolding view i cache_ok_def by simp
qed

theorem migrated_server_witness:
  "\<exists>s C w s'. ps_db s = cat_db (mg_catalog (pr_db (snd (run_state (migrate_main demo_migrate demo_vars []) new_database)))) \<and>
     run_state (run_until_listening (demo_main_libs minimal_vars) demo_env) s = (Inr (C, w), s') \<and>
     as_defaultUserRoleID (app_auth w) \<noteq> None"
proof -
  let ?p = "snd (run_state (migrate_main demo_migrate demo_vars []) new_database)"
  let ?s = "demo_process (cat_db (mg_catalog (pr_db ?p)))"
  have "fst (run_state (migrate_main demo_migrate demo_vars []) new_database) = 0" by code_simp
  then have run: "run_state (migrate_main demo_migrate demo_vars []) new_database = (0, ?p)" by (metis prod.collapse)
  have "\<not> isl (fst (run_state (run_until_listening (demo_main_libs minimal_vars) demo_env) ?s))" by code_simp
  then obtain C w s' where start: "run_state (run_until_listening (demo_main_libs minimal_vars) demo_env) ?s = (Inr (C, w), s')"
    by (cases "run_state (run_until_listening (demo_main_libs minimal_vars) demo_env) ?s";
        cases "fst (run_state (run_until_listening (demo_main_libs minimal_vars) demo_env) ?s)") auto
  have pg: "env_pg demo_env = demo_pg" by (simp add: demo_env_def)
  have up: "server_up (env_pg demo_env)" by (simp add: pg)
  have documented: "documented_migrate (env_pg demo_env) demo_migrate" unfolding pg by (rule demo_migrate_documented)
  have db: "ps_db ?s = cat_db (mg_catalog (pr_db ?p))" by simp
  have parse: "flag_Parse [] default_flags = Parsed default_flags []" by simp
  from migrated_server [OF run documented parse new_database_at start db up]
  have "as_defaultUserRoleID (app_auth w) \<noteq> None" by (elim conjE exE) simp
  with db start show ?thesis by (intro exI conjI)
qed

end
