(* ===== verification/Interleaving.thy ===== *)
theory Interleaving
  imports Server
begin

text \<open>
  Calls of the services that run at the same time. The database runs one statement at a time, and every
  method of the repositories sends one statement at most, so calls interleave between the methods of
  their repositories. A call of the services here is the code of \<open>internal/auth/service.go\<close> and
  \<open>internal/todo/service.go\<close> over repositories that take turns: what a method finds is not what the
  method before it left.
\<close>

section \<open>Taking turns\<close>

text \<open>What each method of one call finds, and the steps the call has made: the state found and the state left.\<close>

record 's turns =
  tn_found :: "nat \<Rightarrow> 's"
  tn_steps :: "('s \<times> 's) list"

abbreviation tn_next :: "'s turns \<Rightarrow> 's" where
  "tn_next w \<equiv> tn_found w (length (tn_steps w))"

definition in_turn :: "('s, 'a) state \<Rightarrow> ('s turns, 'a) state" where
  "in_turn m = State (\<lambda>w. case run_state m (tn_next w) of
     (r, s) \<Rightarrow> (r, w\<lparr>tn_steps := tn_steps w @ [(tn_next w, s)]\<rparr>))"

definition shared_users :: "'s UserRepository \<Rightarrow> 's turns UserRepository" where
  "shared_users U =
     \<lparr>repo_GetUserByEmail = (\<lambda>email. in_turn (repo_GetUserByEmail U email)),
      repo_GetUserByID = (\<lambda>key. in_turn (repo_GetUserByID U key)),
      repo_CreateUser = (\<lambda>inp. in_turn (repo_CreateUser U inp)),
      repo_ApprovedUserExists = (\<lambda>key. in_turn (repo_ApprovedUserExists U key)),
      repo_GetApprovedUserByID = (\<lambda>key. in_turn (repo_GetApprovedUserByID U key)),
      repo_GetUserRoles = (\<lambda>key. in_turn (repo_GetUserRoles U key)),
      repo_GetRoleByName = (\<lambda>name. in_turn (repo_GetRoleByName U name)),
      repo_AssignRoleToUser = (\<lambda>uid rid. in_turn (repo_AssignRoleToUser U uid rid)),
      repo_ListApprovedUsers = in_turn (repo_ListApprovedUsers U),
      repo_CreateApprovedUser = (\<lambda>inp. in_turn (repo_CreateApprovedUser U inp)),
      repo_BulkCreateApprovedUsers = (\<lambda>inp. in_turn (repo_BulkCreateApprovedUsers U inp)),
      repo_DeleteApprovedUser = (\<lambda>key. in_turn (repo_DeleteApprovedUser U key)),
      repo_GetApprovedUserByEmail = (\<lambda>email. in_turn (repo_GetApprovedUserByEmail U email)),
      repo_GetUserWithRolesAndApproved = (\<lambda>key. in_turn (repo_GetUserWithRolesAndApproved U key))\<rparr>"

definition shared_todos :: "'s TodoRepository \<Rightarrow> 's turns TodoRepository" where
  "shared_todos T =
     \<lparr>trepo_GetTodoByID = (\<lambda>key. in_turn (trepo_GetTodoByID T key)),
      trepo_ListTodosByUserID = (\<lambda>uid. in_turn (trepo_ListTodosByUserID T uid)),
      trepo_CreateTodo = (\<lambda>inp. in_turn (trepo_CreateTodo T inp)),
      trepo_UpdateTodoPartial = (\<lambda>inp. in_turn (trepo_UpdateTodoPartial T inp)),
      trepo_DeleteTodo = (\<lambda>key. in_turn (trepo_DeleteTodo T key))\<rparr>"

lemma shared_simps [simp]:
  "repo_GetUserByEmail (shared_users U) email = in_turn (repo_GetUserByEmail U email)"
  "repo_CreateUser (shared_users U) uci = in_turn (repo_CreateUser U uci)"
  "repo_ApprovedUserExists (shared_users U) key = in_turn (repo_ApprovedUserExists U key)"
  "repo_GetRoleByName (shared_users U) name = in_turn (repo_GetRoleByName U name)"
  "repo_AssignRoleToUser (shared_users U) uid rid = in_turn (repo_AssignRoleToUser U uid rid)"
  "repo_ListApprovedUsers (shared_users U) = in_turn (repo_ListApprovedUsers U)"
  "repo_CreateApprovedUser (shared_users U) aci = in_turn (repo_CreateApprovedUser U aci)"
  "repo_BulkCreateApprovedUsers (shared_users U) bai = in_turn (repo_BulkCreateApprovedUsers U bai)"
  "repo_DeleteApprovedUser (shared_users U) key = in_turn (repo_DeleteApprovedUser U key)"
  "repo_GetApprovedUserByEmail (shared_users U) email = in_turn (repo_GetApprovedUserByEmail U email)"
  "repo_GetUserWithRolesAndApproved (shared_users U) key = in_turn (repo_GetUserWithRolesAndApproved U key)"
  "trepo_GetTodoByID (shared_todos T) key = in_turn (trepo_GetTodoByID T key)"
  "trepo_ListTodosByUserID (shared_todos T) uid = in_turn (trepo_ListTodosByUserID T uid)"
  "trepo_CreateTodo (shared_todos T) tci = in_turn (trepo_CreateTodo T tci)"
  "trepo_UpdateTodoPartial (shared_todos T) tui = in_turn (trepo_UpdateTodoPartial T tui)"
  "trepo_DeleteTodo (shared_todos T) key = in_turn (trepo_DeleteTodo T key)"
  by (simp_all add: shared_users_def shared_todos_def)

lemma wp_in_turn [wp_simps]:
  "wp (in_turn m) Q w \<longleftrightarrow> wp m (\<lambda>r s. Q r (w\<lparr>tn_steps := tn_steps w @ [(tn_next w, s)]\<rparr>)) (tn_next w)"
  by (simp add: in_turn_def wp_def split: prod.splits)

section \<open>Calls\<close>

datatype service_call =
    CallRegister string string string
  | CallLogin string string
  | CallGetUserFromToken string
  | CallListApprovedUsers
  | CallCreateApprovedUser string string uuid
  | CallBulkCreateApprovedUsers "string list" "string list" uuid
  | CallDeleteApprovedUser uuid
  | CallTodo uuid todo_op

datatype service_reply =
    TokenReply string
  | UserReply User
  | ApprovedReply "ApprovedUser option list"
  | TodosReply "Todo list"
  | TodoReply "Todo option"
  | DoneReply

fun reply_todos :: "service_reply \<Rightarrow> Todo set" where
  "reply_todos (TodosReply ts) = set ts"
| "reply_todos (TodoReply (Some t)) = {t}"
| "reply_todos _ = {}"

definition replied :: "('a \<Rightarrow> service_reply) \<Rightarrow> ('s, go_error + 'a) state \<Rightarrow> ('s, go_error + service_reply) state" where
  "replied f m = tryE m (\<lambda>x. State_Monad.return (Inr (f x)))"

fun todo_call :: "'s TodoRepository \<Rightarrow> uuid \<Rightarrow> todo_op \<Rightarrow> ('s, go_error + service_reply) state" where
  "todo_call T uid OpList = replied TodosReply (Todo_ListByUserID T uid)"
| "todo_call T uid (OpGet key) = replied TodoReply (Todo_GetByID T key uid)"
| "todo_call T uid (OpCreate title description due) = replied TodoReply (Todo_Create T uid title description due)"
| "todo_call T uid (OpUpdate key title description completed due) =
     replied TodoReply (Todo_Update T key uid title description completed due)"
| "todo_call T uid (OpDelete key) = replied (\<lambda>_. DoneReply) (Todo_Delete T key uid)"

fun service_answer :: "auth_libs \<Rightarrow> service \<Rightarrow> 's UserRepository \<Rightarrow> 's TodoRepository \<Rightarrow> service_call \<Rightarrow>
    ('s auth_state, go_error + service_reply) state" where
  "service_answer L svc U T (CallRegister email password approvedID) =
     replied TokenReply (Service_Register L U svc email password approvedID)"
| "service_answer L svc U T (CallLogin email password) = replied TokenReply (Service_Login L U svc email password)"
| "service_answer L svc U T (CallGetUserFromToken token) =
     replied UserReply (Service_GetUserFromToken L U svc token)"
| "service_answer L svc U T CallListApprovedUsers = replied ApprovedReply (Service_ListApprovedUsers U)"
| "service_answer L svc U T (CallCreateApprovedUser email firstName by) =
     replied (\<lambda>a. ApprovedReply [a]) (Service_CreateApprovedUser U email firstName by)"
| "service_answer L svc U T (CallBulkCreateApprovedUsers emails firstNames by) =
     replied ApprovedReply (Service_BulkCreateApprovedUsers U emails firstNames by)"
| "service_answer L svc U T (CallDeleteApprovedUser key) =
     replied (\<lambda>_. DoneReply) (Service_DeleteApprovedUser U key)"
| "service_answer L svc U T (CallTodo uid op) = on_repo (todo_call T uid op)"

section \<open>Histories\<close>

text \<open>
  The steps of all calls in the order of the database, each with the number of its call. What a step finds
  is what the step before it left, whosever that was.
\<close>

type_synonym 's history = "(nat \<times> 's \<times> 's) list"

fun chained :: "'s \<Rightarrow> 's history \<Rightarrow> bool" where
  "chained s [] \<longleftrightarrow> True"
| "chained s ((i, a, b) # h) \<longleftrightarrow> a = s \<and> chained b h"

definition steps_of :: "nat \<Rightarrow> 's history \<Rightarrow> ('s \<times> 's) list" where
  "steps_of i h = map snd (filter (\<lambda>(j, _). j = i) h)"

definition states_of :: "'s \<Rightarrow> 's history \<Rightarrow> 's set" where
  "states_of s h = insert s ((\<lambda>(i, a, b). b) ` set h)"

abbreviation last_state :: "'s \<Rightarrow> 's history \<Rightarrow> 's" where
  "last_state s h \<equiv> last (s # map (\<lambda>(i, a, b). b) h)"

text \<open>
  A call makes certain steps and answers \<open>r\<close>, finding states of \<open>S\<close>. The cached role and the readings
  of the clock are arbitrary when it starts: calls read the cache once.
\<close>

definition answers_with :: "auth_libs \<Rightarrow> service \<Rightarrow> 's UserRepository \<Rightarrow> 's TodoRepository \<Rightarrow> 's set \<Rightarrow>
    service_call \<Rightarrow> ('s \<times> 's) list \<Rightarrow> go_error + service_reply \<Rightarrow> bool" where
  "answers_with L svc U T S c l r \<longleftrightarrow> (\<exists>w w'. tn_steps (as_repo w) = [] \<and> range (tn_found (as_repo w)) \<subseteq> S \<and>
     run_state (service_answer L svc (shared_users U) (shared_todos T) c) w = (r, w') \<and>
     tn_steps (as_repo w') = l)"

text \<open>
  A history of the calls \<open>req\<close>: each has made the steps it has in the history and may have some to make.
  It has answered \<open>r\<close> when those are all it makes.
\<close>

definition concurrent :: "auth_libs \<Rightarrow> service \<Rightarrow> 's UserRepository \<Rightarrow> 's TodoRepository \<Rightarrow> (nat \<Rightarrow> service_call) \<Rightarrow>
    's \<Rightarrow> 's history \<Rightarrow> bool" where
  "concurrent L svc U T req s h \<longleftrightarrow> chained s h \<and>
     (\<forall>i. \<exists>rest r. answers_with L svc U T (states_of s h) (req i) (steps_of i h @ rest) r)"

definition answered :: "auth_libs \<Rightarrow> service \<Rightarrow> 's UserRepository \<Rightarrow> 's TodoRepository \<Rightarrow> (nat \<Rightarrow> service_call) \<Rightarrow>
    's \<Rightarrow> 's history \<Rightarrow> nat \<Rightarrow> go_error + service_reply \<Rightarrow> bool" where
  "answered L svc U T req s h i r \<longleftrightarrow> answers_with L svc U T (states_of s h) (req i) (steps_of i h) r"

lemma answers_withI:
  assumes "tn_steps (as_repo w) = []" and "\<And>n. tn_found (as_repo w) n \<in> S"
  shows "answers_with L svc U T S c
    (tn_steps (as_repo (snd (run_state (service_answer L svc (shared_users U) (shared_todos T) c) w))))
    (fst (run_state (service_answer L svc (shared_users U) (shared_todos T) c) w))"
  unfolding answers_with_def using assms by (intro exI [of _ w] exI [of _ "snd (run_state (service_answer L svc (shared_users U) (shared_todos T) c) w)"]) auto

lemma states_of_iff: "x \<in> states_of s h \<longleftrightarrow> x = s \<or> (\<exists>i a. (i, a, x) \<in> set h)"
  by (force simp: states_of_def)

lemma chained_states: "chained s h \<Longrightarrow> (i, a, b) \<in> set h \<Longrightarrow> a \<in> states_of s h \<and> b \<in> states_of s h"
proof (induction s h rule: chained.induct)
  case (2 s j c d h)
  then have "(i, a, b) \<in> set h \<Longrightarrow> a \<in> states_of d h \<and> b \<in> states_of d h" by simp
  with 2 show ?case by (auto simp: states_of_def)
qed simp

lemma last_in_states: "last_state s h \<in> states_of s h"
  using last_in_set [of "s # map (\<lambda>(i, a, b). b) h"] unfolding states_of_def by simp

lemma chained_split:
  "chained s (h @ (i, a, b) # h') \<longleftrightarrow> chained s h \<and> a = last_state s h \<and> chained b h'"
  by (induction s h rule: chained.induct) auto

lemma step_ofI: "(i, a, b) \<in> set h \<Longrightarrow> (a, b) \<in> set (steps_of i h)"
  unfolding steps_of_def by (force simp: image_iff)

lemma step_ofD: "(a, b) \<in> set (steps_of i h) \<Longrightarrow> (i, a, b) \<in> set h"
  unfolding steps_of_def by auto

text \<open>A property that every step keeps holds of every state.\<close>

lemma chained_invariant:
  assumes "chained s h" and "I s" and "\<And>i a b. (i, a, b) \<in> set h \<Longrightarrow> I a \<Longrightarrow> I b" and "x \<in> states_of s h"
  shows "I x"
  using assms
proof (induction s h rule: chained.induct)
  case (2 s j c d h)
  then have d: "I d" by auto
  have "I x" if "x \<in> states_of d h"
    by (rule "2.IH") (use 2 d that in auto)
  with "2.prems"(2,4) show ?case by (auto simp: states_of_iff)
qed (simp add: states_of_iff)

text \<open>A transitive relation that every step is in holds from each step to the steps after it.\<close>

definition all_steps :: "('s \<Rightarrow> 's \<Rightarrow> bool) \<Rightarrow> 's history \<Rightarrow> bool" where
  "all_steps R h \<longleftrightarrow> (\<forall>i a b. (i, a, b) \<in> set h \<longrightarrow> R a b)"

lemma all_steps_simps [simp]:
  "all_steps R []" "all_steps R ((i, a, b) # h) \<longleftrightarrow> R a b \<and> all_steps R h"
  "all_steps R (h @ h') \<longleftrightarrow> all_steps R h \<and> all_steps R h'"
  by (auto simp: all_steps_def)

lemma chained_last: "chained s h \<Longrightarrow> reflp R \<Longrightarrow> transp R \<Longrightarrow> all_steps R h \<Longrightarrow> R s (last_state s h)"
proof (induction s h rule: chained.induct)
  case (2 s j c d h)
  then have "R s d" and "R d (last_state d h)" by simp_all
  with "2.prems"(3) have "R s (last_state d h)" by (blast dest: transpD)
  then show ?case by simp
qed (simp add: reflp_def)

lemma chained_around:
  assumes "chained s h" and "reflp R" and "transp R" and "all_steps R h" and "(i, a, b) \<in> set h"
  shows "R s a \<and> R b (last_state s h)"
proof -
  obtain h1 h2 where h: "h = h1 @ (i, a, b) # h2" using assms(5) by (auto dest: split_list)
  with assms(1,4) have "chained s h1" "a = last_state s h1" "chained b h2" "all_steps R h1" "all_steps R h2"
    by (simp_all add: chained_split)
  moreover have "last_state s h = last_state b h2" by (simp add: h)
  ultimately show ?thesis
    using chained_last assms(2,3) by metis
qed

lemma chained_between:
  assumes "chained s h" and "reflp R" and "transp R" and "all_steps R h"
    and "(i, a, b) \<in> set h" and "(j, c, e) \<in> set h" and "i \<noteq> j"
  shows "R b c \<or> R e a"
proof -
  obtain h1 h2 where h: "h = h1 @ (i, a, b) # h2" using assms(5) by (auto dest: split_list)
  with assms(1,4) have "chained s h1" "a = last_state s h1" "chained b h2" "all_steps R h1" "all_steps R h2"
    by (simp_all add: chained_split)
  moreover have "(j, c, e) \<in> set h1 \<or> (j, c, e) \<in> set h2" using assms(6,7) h by auto
  ultimately show ?thesis
    using chained_around assms(2,3) by metis
qed

section \<open>Relations that all steps of a call are in\<close>

definition own_steps :: "('s \<Rightarrow> 's \<Rightarrow> bool) \<Rightarrow> 's turns \<Rightarrow> 's turns \<Rightarrow> bool" where
  "own_steps R w w' \<longleftrightarrow> tn_found w' = tn_found w \<and>
     (\<exists>l. tn_steps w' = tn_steps w @ l \<and> (\<forall>a b. (a, b) \<in> set l \<longrightarrow> R a b))"

lemma own_steps_rel [simp]: "reflp (own_steps R)" "transp (own_steps R)"
  by (auto simp: own_steps_def reflp_def intro!: transpI)

lemma io_in_turn [io_intros]: "state_io_rel R m \<Longrightarrow> state_io_rel (own_steps R) (in_turn m)"
  unfolding state_io_rel_def
proof
  fix w
  assume R: "\<forall>s. R s (snd (run_state m s))"
  show "own_steps R w (snd (run_state (in_turn m) w))"
    using spec [OF R, of "tn_next w"] by (auto simp: in_turn_def own_steps_def split: prod.split)
qed

lemma io_replied [io_intros]: "reflp R \<Longrightarrow> transp R \<Longrightarrow> state_io_rel R m \<Longrightarrow> state_io_rel R (replied f m)"
  unfolding replied_def by (intro io_intros)

text \<open>What a call may change: the writing methods it can reach are in the relation.\<close>

definition permitted :: "'s UserRepository \<Rightarrow> 's TodoRepository \<Rightarrow> ('s \<Rightarrow> 's \<Rightarrow> bool) \<Rightarrow> service_call \<Rightarrow> bool" where
  "permitted U T R c \<longleftrightarrow>
     (case c of
        CallRegister email password approvedID \<Rightarrow>
          (\<forall>inp. state_io_rel R (repo_CreateUser U inp)) \<and> (\<forall>uid rid. state_io_rel R (repo_AssignRoleToUser U uid rid))
      | CallCreateApprovedUser email firstName by \<Rightarrow> \<forall>inp. state_io_rel R (repo_CreateApprovedUser U inp)
      | CallBulkCreateApprovedUsers emails firstNames by \<Rightarrow> \<forall>inp. state_io_rel R (repo_BulkCreateApprovedUsers U inp)
      | CallDeleteApprovedUser key \<Rightarrow> state_io_rel R (repo_DeleteApprovedUser U key)
      | CallTodo uid (OpCreate title description due) \<Rightarrow>
          state_io_rel R (trepo_CreateTodo T \<lparr>tciUserID = uid, tciTitle = title, tciDescription = description,
            tciIsCompleted = False, tciDueDate = due\<rparr>)
      | CallTodo uid (OpUpdate key title description completed due) \<Rightarrow>
          state_io_rel R (trepo_UpdateTodoPartial T \<lparr>tuiID = key, tuiTitle = title, tuiDescription = description,
            tuiIsCompleted = completed, tuiDueDate = due\<rparr>)
      | CallTodo uid (OpDelete key) \<Rightarrow> state_io_rel R (trepo_DeleteTodo T key)
      | _ \<Rightarrow> True)"

lemma permittedI:
  assumes "\<And>inp. state_io_rel R (repo_CreateUser U inp)" "\<And>uid rid. state_io_rel R (repo_AssignRoleToUser U uid rid)"
    and "\<And>inp. state_io_rel R (repo_CreateApprovedUser U inp)" "\<And>inp. state_io_rel R (repo_BulkCreateApprovedUsers U inp)"
    and "\<And>key. c = CallDeleteApprovedUser key \<Longrightarrow> state_io_rel R (repo_DeleteApprovedUser U key)"
    and "\<And>inp. state_io_rel R (trepo_CreateTodo T inp)"
    and "\<And>uid key title description completed due. c = CallTodo uid (OpUpdate key title description completed due) \<Longrightarrow>
      state_io_rel R (trepo_UpdateTodoPartial T \<lparr>tuiID = key, tuiTitle = title, tuiDescription = description,
        tuiIsCompleted = completed, tuiDueDate = due\<rparr>)"
    and "\<And>uid key. c = CallTodo uid (OpDelete key) \<Longrightarrow> state_io_rel R (trepo_DeleteTodo T key)"
  shows "permitted U T R c"
  unfolding permitted_def by (auto intro: assms split: service_call.split todo_op.split)

locale turn_reads =
  fixes U :: "'s UserRepository" and T :: "'s TodoRepository" and R :: "'s \<Rightarrow> 's \<Rightarrow> bool"
  assumes io_reads: "state_io_rel R (repo_GetUserByEmail U email)"
    "state_io_rel R (repo_ApprovedUserExists U key)"
    "state_io_rel R (repo_GetRoleByName U name)"
    "state_io_rel R (repo_ListApprovedUsers U)"
    "state_io_rel R (repo_GetApprovedUserByEmail U email)"
    "state_io_rel R (repo_GetUserWithRolesAndApproved U key)"
    "state_io_rel R (trepo_GetTodoByID T key)"
    "state_io_rel R (trepo_ListTodosByUserID T key)"
begin

lemma call_steps:
  assumes "permitted U T R c"
  shows "state_io_rel (at_repo (own_steps R)) (service_answer L svc (shared_users U) (shared_todos T) c)"
proof -
  note defs = Service_Register_def Service_Login_def Service_GetUserFromToken_def Service_ListApprovedUsers_def
    Service_CreateApprovedUser_def Service_BulkCreateApprovedUsers_def Service_DeleteApprovedUser_def
    assignDefaultRole_def issue_token_def Todo_ListByUserID_def Todo_GetByID_def Todo_Create_def Todo_Update_def
    Todo_Delete_def
  show ?thesis
  proof (cases c)
    case (CallTodo uid op)
    with assms show ?thesis
      by (cases op; simp only: service_answer.simps todo_call.simps defs shared_simps)
        (intro io_intros lifted_rels own_steps_rel io_reads; simp add: permitted_def)+
  qed (use assms in \<open>simp only: service_answer.simps defs shared_simps,
      intro io_intros lifted_rels own_steps_rel io_reads; simp add: permitted_def\<close>)+
qed

text \<open>Hence every step of a history is in the relation that its call is permitted.\<close>

lemma history_step:
  assumes "concurrent L svc U T req s h" and "(i, a, b) \<in> set h" and "permitted U T R (req i)"
  shows "R a b"
proof -
  obtain w w' rest r where start: "tn_steps (as_repo w) = []"
    and run: "run_state (service_answer L svc (shared_users U) (shared_todos T) (req i)) w = (r, w')"
    and steps: "tn_steps (as_repo w') = steps_of i h @ rest"
    using assms(1) unfolding concurrent_def answers_with_def by meson
  have "own_steps R (as_repo w) (as_repo w')"
    using io_run [OF call_steps [OF assms(3)] run] by (simp add: at_repo_def)
  then have "\<forall>a b. (a, b) \<in> set (steps_of i h @ rest) \<longrightarrow> R a b"
    by (simp add: own_steps_def start steps)
  with step_ofI [OF assms(2)] show ?thesis by simp
qed

end

end
