(* ===== verification/Demo_Interleaving.thy ===== *)
theory Demo_Interleaving
  imports Interleaving
begin

text \<open>
  Concrete histories on the demonstration database: two registrations of one address, two updates of one
  todo, an update and a deletion of one todo. In each both calls look before either of them writes.
\<close>

text \<open>A call that finds the given states.\<close>

definition demo_call :: "service_call \<Rightarrow> db list \<Rightarrow> (go_error + service_reply) \<times> db turns auth_state" where
  "demo_call c l =
     run_state (service_answer demo_libs demo_service (shared_users (Repository demo_pg))
         (shared_todos (TodoRepository demo_pg)) c)
       \<lparr>as_repo = \<lparr>tn_found = (\<lambda>n. if n < length l then l ! n else demo_db), tn_steps = []\<rparr>,
        as_defaultUserRoleID = None, as_calls = 0\<rparr>"

definition demo_answer :: "service_call \<Rightarrow> db history \<Rightarrow> nat \<Rightarrow> go_error + service_reply" where
  "demo_answer c h i = fst (demo_call c (map fst (steps_of i h)))"

definition demo_plays :: "(nat \<Rightarrow> service_call) \<Rightarrow> db history \<Rightarrow> nat \<Rightarrow> bool" where
  "demo_plays req h i \<longleftrightarrow> tn_steps (as_repo (snd (demo_call (req i) (map fst (steps_of i h))))) = steps_of i h"

abbreviation demo_concurrent :: "(nat \<Rightarrow> service_call) \<Rightarrow> db history \<Rightarrow> bool" where
  "demo_concurrent req h \<equiv> concurrent demo_libs demo_service (Repository demo_pg) (TodoRepository demo_pg) req demo_db h"

abbreviation demo_answered :: "(nat \<Rightarrow> service_call) \<Rightarrow> db history \<Rightarrow> nat \<Rightarrow> go_error + service_reply \<Rightarrow> bool" where
  "demo_answered req h \<equiv> answered demo_libs demo_service (Repository demo_pg) (TodoRepository demo_pg) req demo_db h"

lemma demo_answered:
  assumes "chained demo_db h" and "demo_plays req h i"
  shows "demo_answered req h i (demo_answer (req i) h i)"
proof -
  let ?l = "map fst (steps_of i h)"
  let ?found = "\<lambda>n. if n < length ?l then ?l ! n else demo_db"
  let ?w = "\<lparr>as_repo = \<lparr>tn_found = ?found, tn_steps = []\<rparr>, as_defaultUserRoleID = None, as_calls = 0\<rparr>"
  have "?found n \<in> states_of demo_db h" for n
  proof (cases "n < length ?l")
    case True
    then have "?l ! n \<in> fst ` set (steps_of i h)" using nth_mem [OF True] by simp
    then obtain b where "(?l ! n, b) \<in> set (steps_of i h)" by force
    with chained_states [OF assms(1) step_ofD] True show ?thesis by simp
  qed (simp add: states_of_iff)
  then have "tn_steps (as_repo ?w) = []" and "\<And>n. tn_found (as_repo ?w) n \<in> states_of demo_db h" by simp_all
  from answers_withI [OF this, of demo_libs demo_service "Repository demo_pg" "TodoRepository demo_pg" "req i"] assms(2)
  show ?thesis
    by (simp add: answered_def demo_plays_def demo_answer_def demo_call_def)
qed

lemma demo_concurrent:
  assumes "chained demo_db h" and "demo_plays req h 0" and "demo_plays req h 1" and "fst ` set h \<subseteq> {0, 1}"
  shows "demo_concurrent req h"
  unfolding concurrent_def
proof (intro conjI allI)
  fix i
  show "\<exists>rest r. answers_with demo_libs demo_service (Repository demo_pg) (TodoRepository demo_pg)
      (states_of demo_db h) (req i) (steps_of i h @ rest) r"
  proof (cases "i \<in> {0, 1}")
    case True
    then show ?thesis
      using demo_answered [OF assms(1)] assms(2,3) unfolding answered_def by (metis append_Nil2 empty_iff insert_iff)
  next
    case False
    with assms(4) have "steps_of i h = []" by (force simp: steps_of_def filter_empty_conv)
    let ?w = "\<lparr>as_repo = \<lparr>tn_found = (\<lambda>n. demo_db), tn_steps = []\<rparr>, as_defaultUserRoleID = None, as_calls = 0\<rparr>"
    have "tn_steps (as_repo ?w) = []" and "\<And>n. tn_found (as_repo ?w) n \<in> states_of demo_db h"
      by (simp_all add: states_of_iff)
    from answers_withI [OF this] \<open>steps_of i h = []\<close> show ?thesis by (metis append_Nil)
  qed
qed (rule assms(1))

abbreviation demo_sent :: "nat \<Rightarrow> db" where
  "demo_sent n \<equiv> demo_db\<lparr>roundtrips := n\<rparr>"

section \<open>Two registrations of one address\<close>

fun demo_registrations :: "nat \<Rightarrow> service_call" where
  "demo_registrations i = CallRegister ''bob@x.org'' (if i = 0 then ''secret-1'' else ''secret-2'') ''uu''"

definition demo_with_bob :: "nat \<Rightarrow> db" where
  "demo_with_bob n = demo_db\<lparr>tbl_users := tbl_users demo_db @
     [\<lparr>dbU_ID = UUIDToPgtypeValue 96, dbU_ApprovedUserID = UUIDToPgtypeValue 2, dbU_Email = ''bob@x.org'',
       dbU_PasswordHash = ''#secret-1'', dbU_IsActive = True,
       dbU_CreatedAt = \<lparr>Timestamptz_Time = 4 * Second, Timestamptz_Valid = True\<rparr>,
       dbU_UpdatedAt = \<lparr>Timestamptz_Time = 4 * Second, Timestamptz_Valid = True\<rparr>\<rparr>], roundtrips := n\<rparr>"

definition demo_with_bobs_role :: db where
  "demo_with_bobs_role = (demo_with_bob 8)\<lparr>tbl_user_roles := tbl_user_roles demo_db @
     [\<lparr>dbUR_UserID = UUIDToPgtypeValue 96, dbUR_RoleID = UUIDToPgtypeValue 10,
       dbUR_CreatedAt = \<lparr>Timestamptz_Time = 7 * Second, Timestamptz_Valid = True\<rparr>\<rparr>]\<rparr>"

definition demo_registering :: "db history" where
  "demo_registering =
     [(0, demo_db, demo_sent 1), (1, demo_sent 1, demo_sent 2), (0, demo_sent 2, demo_sent 3),
      (1, demo_sent 3, demo_sent 4), (0, demo_sent 4, demo_with_bob 5), (1, demo_with_bob 5, demo_with_bob 6),
      (0, demo_with_bob 6, demo_with_bob 7), (0, demo_with_bob 7, demo_with_bobs_role)]"

lemma demo_registering_plays:
  "demo_plays demo_registrations demo_registering 0" "demo_plays demo_registrations demo_registering 1"
  by code_simp+

lemma demo_registering_chain: "chained demo_db demo_registering"
  by (simp add: demo_registering_def)

text \<open>Both have found the address free; the one that writes last is refused by the constraint.\<close>

lemma demo_registering_answers:
  "\<exists>t. demo_answer (demo_registrations 0) demo_registering 0 = Inr (TokenReply t)"
  "demo_answer (demo_registrations 1) demo_registering 1 = Inl (DatabaseError (UniqueViolation ''users_email_key''))"
proof -
  have "case demo_answer (demo_registrations 0) demo_registering 0 of Inr (TokenReply t) \<Rightarrow> True | _ \<Rightarrow> False"
    by code_simp
  then show "\<exists>t. demo_answer (demo_registrations 0) demo_registering 0 = Inr (TokenReply t)"
    by (auto split: sum.splits service_reply.splits)
  show "demo_answer (demo_registrations 1) demo_registering 1 = Inl (DatabaseError (UniqueViolation ''users_email_key''))"
    by code_simp
qed

section \<open>Two updates of one todo\<close>

fun demo_updates :: "nat \<Rightarrow> service_call" where
  "demo_updates i = CallTodo 5 (if i = 0 then OpUpdate 20 (Some ''Shop for two'') None None None
     else OpUpdate 20 None None (Some True) None)"

definition demo_todo :: "string \<Rightarrow> bool \<Rightarrow> int \<Rightarrow> nat \<Rightarrow> db" where
  "demo_todo title completed now n = demo_db\<lparr>tbl_todos :=
     [\<lparr>dbT_ID = UUIDToPgtypeValue 20, dbT_UserID = UUIDToPgtypeValue 5, dbT_Title = title, dbT_Description = None,
       dbT_IsCompleted = completed, dbT_DueDate = null_Timestamptz, dbT_CreatedAt = demo_ts,
       dbT_UpdatedAt = \<lparr>Timestamptz_Time = now * Second, Timestamptz_Valid = True\<rparr>\<rparr>], roundtrips := n\<rparr>"

definition demo_updating :: "db history" where
  "demo_updating =
     [(0, demo_db, demo_sent 1), (1, demo_sent 1, demo_sent 2), (0, demo_sent 2, demo_todo ''Shop for two'' False 2 3),
      (1, demo_todo ''Shop for two'' False 2 3, demo_todo ''Shop for two'' True 3 4)]"

lemma demo_updating_plays: "demo_plays demo_updates demo_updating 0" "demo_plays demo_updates demo_updating 1"
  by code_simp+

lemma demo_updating_chain: "chained demo_db demo_updating"
  by (simp add: demo_updating_def)

lemma demo_updating_answers: "\<not> isl (demo_answer (demo_updates 0) demo_updating 0)"
  "\<not> isl (demo_answer (demo_updates 1) demo_updating 1)"
  by code_simp+

section \<open>An update and a deletion\<close>

fun demo_update_delete :: "nat \<Rightarrow> service_call" where
  "demo_update_delete i = CallTodo 5 (if i = 0 then OpUpdate 20 (Some ''Shop for two'') None None None else OpDelete 20)"

definition demo_deleting :: "db history" where
  "demo_deleting =
     [(0, demo_db, demo_sent 1), (1, demo_sent 1, demo_sent 2), (1, demo_sent 2, (demo_sent 3)\<lparr>tbl_todos := []\<rparr>),
      (0, (demo_sent 3)\<lparr>tbl_todos := []\<rparr>, (demo_sent 4)\<lparr>tbl_todos := []\<rparr>)]"

lemma demo_deleting_plays: "demo_plays demo_update_delete demo_deleting 0" "demo_plays demo_update_delete demo_deleting 1"
  by code_simp+

lemma demo_deleting_chain: "chained demo_db demo_deleting"
  by (simp add: demo_deleting_def)

lemma demo_deleting_answers:
  "demo_answer (demo_update_delete 0) demo_deleting 0 = Inl ErrNoRows"
  "demo_answer (demo_update_delete 1) demo_deleting 1 = Inr DoneReply"
  by code_simp+

end
