(* ===== verification/Interleaving_Correct.thy ===== *)
theory Interleaving_Correct
  imports Demo_Interleaving
begin

text \<open>
  What holds however calls of the services interleave: the constraints of the schema, one account for an
  e-mail address, the isolation of todos, and that an acknowledged update is not lost.
\<close>

section \<open>Every state of a history\<close>

lemma reads_turns:
  assumes "\<And>d d'. reads_only d d' \<Longrightarrow> R d d'"
  shows "turn_reads (Repository E) (TodoRepository E) R"
  by unfold_locales (simp_all only: repository_simps, (rule io_weaken [OF _ assms], rule io_intros, assumption)+)

interpretation inv_turns: turn_reads "Repository E" "TodoRepository E" keeps_inv for E
  by (rule reads_turns) (simp add: keeps_def reads_only_views)

lemma permitted_inv: "permitted (Repository E) (TodoRepository E) keeps_inv c"
  by (rule permittedI; simp only: repository_simps repository_simps_delete; rule io_repository_keeps_inv)

lemma history_inv:
  assumes "concurrent L svc (Repository E) (TodoRepository E) req d h" and "db_inv d" and "x \<in> states_of d h"
  shows "db_inv x"
proof (rule chained_invariant [where I = db_inv])
  show "chained d h" using assms(1) by (simp add: concurrent_def)
  show "db_inv b" if "(i, a, b) \<in> set h" "db_inv a" for i a b
    using inv_turns.history_step [OF assms(1) that(1) permitted_inv] that(2) by (rule keepsD)
qed (use assms in simp_all)

section \<open>Accounts\<close>

text \<open>Accounts are only removed by the deletion of an approved user.\<close>

definition users_grow :: "db \<Rightarrow> db \<Rightarrow> bool" where
  "users_grow d d' \<longleftrightarrow> set (tbl_users d) \<subseteq> set (tbl_users d')"

lemma users_grow_rel [simp]: "reflp users_grow" "transp users_grow" "users_grow d (d\<lparr>roundtrips := n\<rparr>)"
  by (auto simp: users_grow_def reflp_def transp_def)

lemma keeps_accounts_grow: "keeps_accounts d d' \<Longrightarrow> users_grow d d'"
  by (simp add: keeps_accounts_def users_grow_def)

interpretation grow_turns: turn_reads "Repository E" "TodoRepository E" users_grow for E
  by (rule reads_turns) (simp add: reads_only_views keeps_accounts_grow)

lemma grow_statements:
  "state_io_rel users_grow (Queries_CreateUser E cu)"
  "state_io_rel users_grow (Queries_AssignRole E ar)"
  "state_io_rel users_grow (Queries_CreateApprovedUser E ca)"
  "state_io_rel users_grow (Queries_CreateApprovedUsersBulk E cb)"
  unfolding Queries_CreateUser_def Queries_AssignRole_def Queries_CreateApprovedUser_def
    Queries_CreateApprovedUsersBulk_def
  by (rule io_query_row io_statement;
      auto simp: users_grow_def Let_def split: sum.splits dest!: insert_userD insert_user_roleD insert_approved_usersD(1))+

lemma permitted_grow:
  assumes "\<And>key. c \<noteq> CallDeleteApprovedUser key"
  shows "permitted (Repository E) (TodoRepository E) users_grow c"
proof -
  have todos: "state_io_rel users_grow (TodoRepository_CreateTodo E tci)"
    "state_io_rel users_grow (TodoRepository_UpdateTodoPartial E tui)"
    "state_io_rel users_grow (TodoRepository_DeleteTodo E key)" for tci tui key
    by (rule io_weaken [OF _ keeps_accounts_grow], rule io_intros, assumption)+
  show ?thesis
    by (rule permittedI; (simp only: repository_simps Repository_CreateUser_def Repository_AssignRoleToUser_def
          Repository_CreateApprovedUser_def Repository_BulkCreateApprovedUsers_def)?)
      (intro io_intros grow_statements todos users_grow_rel | simp add: assms)+
qed

text \<open>A registration that answers a token has inserted its account, where the address was free.\<close>

definition inserts_account :: "string \<Rightarrow> db \<Rightarrow> db \<Rightarrow> bool" where
  "inserts_account email d d' \<longleftrightarrow> (\<exists>inp p. uciEmail inp = email \<and> user_created inp p (auth_view_of d) (auth_view_of d'))"

lemma wp_any: "(\<And>r s'. Q r s') \<Longrightarrow> wp m Q s"
  by (simp add: wp_def split: prod.split)

definition has_step :: "('s \<Rightarrow> 's \<Rightarrow> bool) \<Rightarrow> 's turns \<Rightarrow> bool" where
  "has_step R w \<longleftrightarrow> (\<exists>(a, b) \<in> set (tn_steps w). R a b)"

lemma has_step_snoc [simp]:
  "has_step R (w\<lparr>tn_steps := tn_steps w @ [(a, b)]\<rparr>) \<longleftrightarrow> has_step R w \<or> R a b"
  by (auto simp: has_step_def)

lemma has_step_later:
  assumes "state_io_rel (at_repo (own_steps (\<lambda>_ _. True))) m" and "has_step R (as_repo w)"
  shows "wp m (\<lambda>r w'. isl r \<or> has_step R (as_repo w')) w"
proof (rule wpI)
  fix r w'
  assume "run_state m w = (r, w')"
  from io_run [OF assms(1) this] assms(2) show "isl r \<or> has_step R (as_repo w')"
    by (auto simp: at_repo_def own_steps_def has_step_def)
qed

lemma io_any [io_intros]: "state_io_rel (\<lambda>_ _. True) m"
  by (simp add: state_io_rel_def)

lemma register_inserts:
  assumes "\<And>n. db_inv (tn_found (as_repo w) n)"
  shows "wp (Service_Register L (shared_users (Repository E)) svc email password approvedID)
    (\<lambda>r w'. isl r \<or> has_step (inserts_account email) (as_repo w')) w"
proof -
  have create: "wp (Repository_CreateUser E inp) Q d"
    if "db_inv d" "\<And>r s'. isl r \<or> inserts_account (uciEmail inp) d s' \<Longrightarrow> Q r s'" for inp d Q
    by (rule wp_mono [OF auth_repo.CreateUser [OF that(1), unfolded repository_simps]])
      (rule that(2), auto simp: inserts_account_def writes_def split: sum.splits simp del: auth_view_simps)
  have rest: "state_io_rel (at_repo (own_steps (\<lambda>_ _. True)))
      (tryE (deref p) (\<lambda>user. tryE (assignDefaultRole (shared_users (Repository E)) (UserRow_ID user))
        (\<lambda>_. issue_token L svc user)))" for p
    unfolding assignDefaultRole_def issue_token_def shared_simps by (intro io_intros lifted_rels own_steps_rel)
  let ?Q = "\<lambda>r w'. isl r \<or> has_step (inserts_account email) (as_repo w')"
  have created: "wp (tryE (on_repo (in_turn (Repository_CreateUser E \<lparr>uciApprovedUserID = a, uciEmail = email,
        uciPasswordHash = p, uciIsActive = True\<rparr>)))
      (\<lambda>p. tryE (deref p) (\<lambda>user. tryE (assignDefaultRole (shared_users (Repository E)) (UserRow_ID user))
        (\<lambda>_. issue_token L svc user)))) ?Q w'" if "tn_found (as_repo w') = tn_found (as_repo w)" for a p w'
    unfolding wp_tryE [of "on_repo m" for m] wp_on_repo wp_in_turn
    by (rule create, simp add: that assms)
      (auto split: sum.split intro!: has_step_later [OF rest])
  note reads = wp_any [where m = "Repository_ApprovedUserExists E x" for x]
    wp_any [where m = "Repository_GetUserByEmail E x" for x]
  note exists = wp_tryE [where m = "on_repo (in_turn (Repository_ApprovedUserExists E x))" for x]
  show ?thesis
    unfolding Service_Register_def shared_simps repository_simps
    by (auto simp: exists wp_return wp_bind wp_on_repo wp_in_turn wp_next_call wp_case_sum
        split: sum.split option.split intro!: reads created)
qed
lemma token_inserts:
  assumes "concurrent L svc (Repository E) (TodoRepository E) req d h" and "db_inv d"
    and "req i = CallRegister email password approvedID"
    and "answered L svc (Repository E) (TodoRepository E) req d h i (Inr t)"
  obtains a b where "(i, a, b) \<in> set h" and "inserts_account email a b"
proof -
  obtain w w' where found: "range (tn_found (as_repo w)) \<subseteq> states_of d h" and "tn_steps (as_repo w) = []"
    and run: "run_state (replied TokenReply (Service_Register L (shared_users (Repository E)) svc email password approvedID)) w =
      (Inr t, w')" and steps: "tn_steps (as_repo w') = steps_of i h"
    using assms(3,4) unfolding answered_def answers_with_def by auto
  have "\<And>n. db_inv (tn_found (as_repo w) n)"
    using history_inv [OF assms(1,2)] found by (auto simp: subset_iff)
  from register_inserts [OF this] have "wp (replied TokenReply (Service_Register L (shared_users (Repository E)) svc
      email password approvedID)) (\<lambda>r w'. isl r \<or> has_step (inserts_account email) (as_repo w')) w"
    unfolding replied_def wp_tryE by (rule wp_mono) (auto simp: wp_return split: sum.split)
  from wpD [OF this run] have "has_step (inserts_account email) (as_repo w')" by simp
  with that show thesis by (auto simp: has_step_def steps dest: step_ofD)
qed


lemma demo_registering_concurrent: "demo_concurrent demo_registrations demo_registering"
  by (rule demo_concurrent [OF demo_registering_chain demo_registering_plays]) (simp add: demo_registering_def)

lemma demo_registered:
  obtains t where "demo_answered demo_registrations demo_registering 0 (Inr t)"
  using demo_answered [OF demo_registering_chain demo_registering_plays(1)] demo_registering_answers(1) by auto


section \<open>The owner of a todo\<close>

definition todo_owners :: "db \<Rightarrow> (uuid \<times> uuid) set" where
  "todo_owners d = (\<lambda>t. (TodoRow_ID t, TodoRow_UserID t)) ` tv_todos (todo_view_of d)"

lemma todo_owners_table:
  "todo_owners d = (\<lambda>t. (PgUUIDToValue (dbT_ID t), PgUUIDToValue (dbT_UserID t))) ` set (tbl_todos d)"
  by (simp add: todo_owners_def image_image)

text \<open>A statement is counted, and adds at most one todo, under the identifier drawn for it.\<close>

definition owner_step :: "pg \<Rightarrow> db \<Rightarrow> db \<Rightarrow> bool" where
  "owner_step E d d' \<longleftrightarrow> d' = d \<or> (roundtrips d' = Suc (roundtrips d) \<and>
     (\<exists>uid. todo_owners d' \<subseteq> insert (pg_uuid E (roundtrips d) 0, uid) (todo_owners d)))"

definition adds_todo :: "pg \<Rightarrow> nat \<Rightarrow> db \<Rightarrow> db \<Rightarrow> bool" where
  "adds_todo E n d d' \<longleftrightarrow> roundtrips d' = roundtrips d \<and>
     (\<exists>uid. todo_owners d' \<subseteq> insert (pg_uuid E n 0, uid) (todo_owners d))"

lemma owner_statement:
  assumes "\<And>n d x d'. q n d = Inr (x, d') \<Longrightarrow> adds_todo E n d d'"
  shows "state_io_rel (owner_step E) (statement E q)"
proof
  fix r and d d' :: db
  assume "run_state (statement E q) d = (r, d')"
  moreover have "wp (statement E q) (\<lambda>_ d'. owner_step E d d') d"
    by (rule wp_statementI) (use assms in \<open>force simp: owner_step_def adds_todo_def todo_owners_table\<close>)+
  ultimately show "owner_step E d d'" by (simp add: wp_def)
qed

lemma io_bind_then:
  assumes "state_io_rel R m" and "\<And>x s. snd (run_state (f x) s) = s"
  shows "state_io_rel R (State_Monad.bind m f)"
  using assms by (simp add: state_io_rel_def split: prod.split) (metis snd_conv)

lemma io_try_then:
  assumes "state_io_rel R m" and "\<And>x s. snd (run_state (f x) s) = s"
  shows "state_io_rel R (tryE m f)"
  unfolding tryE_def using assms by (intro io_bind_then) (auto split: sum.split)

lemma owner_query_row:
  "(\<And>n d x d'. q n d = Inr (x, d') \<Longrightarrow> adds_todo E n d d') \<Longrightarrow> state_io_rel (owner_step E) (query_row E q)"
  unfolding query_row_def by (rule io_bind_then [OF owner_statement]) simp_all

lemma owner_select: "state_io_rel (owner_step E) (statement E (select f))"
  "state_io_rel (owner_step E) (query_row E (select g))"
  by (rule owner_statement owner_query_row; auto simp: select_def adds_todo_def)+

lemma adds_todo_simps [simp]:
  "adds_todo E n d (d\<lparr>tbl_users := us\<rparr>)" "adds_todo E n d (d\<lparr>tbl_approved_users := as\<rparr>)"
  "adds_todo E n d (d\<lparr>tbl_user_roles := ms\<rparr>)" "adds_todo E n d d"
  "adds_todo E n d (delete_approved_users P d)"
  "adds_todo E n d (d\<lparr>tbl_todos := filter Q (tbl_todos d)\<rparr>)"
  by (auto simp: adds_todo_def todo_owners_table delete_approved_users_simps)

lemma owner_queries:
  "state_io_rel (owner_step E) (Queries_CreateUser E cu)"
  "state_io_rel (owner_step E) (Queries_AssignRole E ar)"
  "state_io_rel (owner_step E) (Queries_CreateApprovedUser E ca)"
  "state_io_rel (owner_step E) (Queries_CreateApprovedUsersBulk E cb)"
  "state_io_rel (owner_step E) (Queries_DeleteApprovedUser E key)"
  "state_io_rel (owner_step E) (Queries_DeleteTodo E key)"
  unfolding Queries_CreateUser_def Queries_AssignRole_def Queries_CreateApprovedUser_def
    Queries_CreateApprovedUsersBulk_def Queries_DeleteApprovedUser_def Queries_DeleteTodo_def
  by (rule owner_query_row owner_statement;
      auto simp: Let_def split: sum.splits dest!: insert_userD insert_user_roleD insert_approved_usersD(1))+

lemma adds_todoI:
  "roundtrips d' = roundtrips d \<Longrightarrow> todo_owners d' \<subseteq> insert (pg_uuid E n 0, uid) (todo_owners d) \<Longrightarrow> adds_todo E n d d'"
  unfolding adds_todo_def by blast

lemma owner_create: "state_io_rel (owner_step E) (Queries_CreateTodo E ct)"
  unfolding Queries_CreateTodo_def
  by (rule owner_query_row, rule adds_todoI [where uid = "PgUUIDToValue (ctUserID ct)"])
    (auto simp: todo_owners_table gen_random_uuid_def Let_def split: sum.splits dest!: insert_todoD)

lemma owner_update:
  assumes "\<And>n t. dbT_ID (upd n t) = dbT_ID t" and "\<And>n t. dbT_UserID (upd n t) = dbT_UserID t"
  shows "state_io_rel (owner_step E) (update_todos E key upd)"
  unfolding update_todos_def
  by (rule owner_query_row, rule adds_todoI) (auto simp: todo_owners_table Let_def assms)

lemma owner_methods:
  "state_io_rel (owner_step E) (Repository_GetUserByEmail E email)"
  "state_io_rel (owner_step E) (Repository_ApprovedUserExists E key)"
  "state_io_rel (owner_step E) (Repository_GetRoleByName E name)"
  "state_io_rel (owner_step E) (Repository_ListApprovedUsers E)"
  "state_io_rel (owner_step E) (Repository_GetApprovedUserByEmail E email)"
  "state_io_rel (owner_step E) (Repository_GetUserWithRolesAndApproved E key)"
  "state_io_rel (owner_step E) (TodoRepository_GetTodoByID E key)"
  "state_io_rel (owner_step E) (TodoRepository_ListTodosByUserID E key)"
  "state_io_rel (owner_step E) (Repository_CreateUser E uci)"
  "state_io_rel (owner_step E) (Repository_AssignRoleToUser E key rid)"
  "state_io_rel (owner_step E) (Repository_CreateApprovedUser E aci)"
  "state_io_rel (owner_step E) (Repository_BulkCreateApprovedUsers E bai)"
  "state_io_rel (owner_step E) (Repository_DeleteApprovedUser E key)"
  "state_io_rel (owner_step E) (TodoRepository_CreateTodo E tci)"
  "state_io_rel (owner_step E) (TodoRepository_UpdateTodoPartial E tui)"
  "state_io_rel (owner_step E) (TodoRepository_DeleteTodo E key)"
  unfolding repository_reads Repository_CreateUser_def Repository_AssignRoleToUser_def
    Repository_CreateApprovedUser_def Repository_BulkCreateApprovedUsers_def Repository_DeleteApprovedUser_def
    TodoRepository_GetTodoByID_def TodoRepository_ListTodosByUserID_def TodoRepository_CreateTodo_def
    TodoRepository_UpdateTodoPartial_def TodoRepository_DeleteTodo_def Queries_GetTodoByID_def
    Queries_ListTodosByUserID_def Queries_UpdateTodoPartial_def
  by (rule io_try_then io_bind_then io_if owner_queries owner_create owner_update owner_select
      | simp add: Let_def deref_def split: sum.split option.split
      | simp add: state_io_rel_def owner_step_def)+

interpretation owner_turns: turn_reads "Repository E" "TodoRepository E" "owner_step E" for E
  by unfold_locales (simp_all only: repository_simps owner_methods)

lemma permitted_owner: "permitted (Repository E) (TodoRepository E) (owner_step E) c"
  by (rule permittedI; simp only: repository_simps repository_simps_delete owner_methods)

text \<open>The identifiers the server draws for the next \<open>k\<close> statements are new and differ.\<close>

definition fresh_identifiers :: "pg \<Rightarrow> db \<Rightarrow> nat \<Rightarrow> bool" where
  "fresh_identifiers E d k \<longleftrightarrow> (let ns = {roundtrips d ..< roundtrips d + k}
     in inj_on (\<lambda>n. pg_uuid E n 0) ns \<and> (\<forall>n \<in> ns. pg_uuid E n 0 \<notin> TodoRow_ID ` tv_todos (todo_view_of d)))"

text \<open>Owners \<open>Q\<close> of the todos so far, to which the coming \<open>k\<close> statements can only add new ones.\<close>

definition owners_ok :: "pg \<Rightarrow> db \<Rightarrow> nat \<Rightarrow> (uuid \<times> uuid) set \<Rightarrow> bool" where
  "owners_ok E d k Q \<longleftrightarrow> todo_owners d \<subseteq> Q \<and> single_valued Q \<and>
     inj_on (\<lambda>n. pg_uuid E n 0) {roundtrips d ..< roundtrips d + k} \<and>
     (\<forall>n. roundtrips d \<le> n \<longrightarrow> n < roundtrips d + k \<longrightarrow> pg_uuid E n 0 \<notin> fst ` Q)"

lemma owners_ok_step:
  assumes "owners_ok E d (Suc k) Q" and "owner_step E d d'"
  shows "\<exists>Q'. Q \<subseteq> Q' \<and> owners_ok E d' k Q'"
proof (cases "d' = d")
  case True
  from assms(1) have "owners_ok E d k Q" unfolding owners_ok_def by (auto intro: inj_on_subset)
  with True show ?thesis by blast
next
  case False
  let ?n = "roundtrips d"
  from False assms(2) obtain uid where d': "roundtrips d' = Suc ?n"
    "todo_owners d' \<subseteq> insert (pg_uuid E ?n 0, uid) (todo_owners d)" by (auto simp: owner_step_def)
  have new: "pg_uuid E ?n 0 \<notin> fst ` Q" and inj: "inj_on (\<lambda>n. pg_uuid E n 0) {?n ..< ?n + Suc k}"
    using assms(1) by (auto simp: owners_ok_def)
  have "pg_uuid E n 0 \<noteq> pg_uuid E ?n 0" if "Suc ?n \<le> n" "n < Suc ?n + k" for n
    using inj_onD [OF inj, of n ?n] that by auto
  moreover have "(pg_uuid E ?n 0, u) \<notin> Q" for u using new by force
  ultimately have "owners_ok E d' k (insert (pg_uuid E ?n 0, uid) Q)"
    using assms(1) d' unfolding owners_ok_def single_valued_def by (auto intro: inj_on_subset simp: image_iff)
  then show ?thesis by blast
qed

lemma owners_single_valued:
  assumes "chained d h" and "all_steps (owner_step E) h" and "owners_ok E d (length h) Q"
  shows "\<exists>Q'. Q \<subseteq> Q' \<and> single_valued Q' \<and> (\<forall>x \<in> states_of d h. todo_owners x \<subseteq> Q')"
  using assms
proof (induction d h arbitrary: Q rule: chained.induct)
  case (1 d)
  then show ?case by (auto simp: states_of_def owners_ok_def)
next
  case (2 d i a b h)
  then have "owner_step E d b" and chain: "chained b h" "all_steps (owner_step E) h" by auto
  with owners_ok_step [of E d "length h" Q b] 2 obtain Q1 where Q1: "Q \<subseteq> Q1" "owners_ok E b (length h) Q1"
    by auto
  from "2.IH" [OF chain Q1(2)] obtain Q' where Q': "Q1 \<subseteq> Q'" "single_valued Q'"
    "\<forall>x \<in> states_of b h. todo_owners x \<subseteq> Q'" by blast
  moreover have "todo_owners d \<subseteq> Q'" using 2 Q1(1) Q'(1) by (auto simp: owners_ok_def)
  ultimately show ?case
    using Q1(1) by (intro exI [of _ Q']) (auto simp: states_of_def)
qed

lemma history_owners:
  assumes "concurrent L svc (Repository E) (TodoRepository E) req d h" and "db_inv d"
    and "fresh_identifiers E d (length h)"
  shows "\<exists>Q. single_valued Q \<and> (\<forall>x \<in> states_of d h. todo_owners x \<subseteq> Q)"
proof -
  have "single_valued (todo_owners d)"
    using inj_onD [OF todo_repo.todos_id [OF assms(2)]] by (auto simp: single_valued_def todo_owners_def simp del: todo_view_simps)
  then have "owners_ok E d (length h) (todo_owners d)"
    using assms(3) by (auto simp: owners_ok_def fresh_identifiers_def Let_def todo_owners_def image_image simp del: todo_view_simps)
  moreover have "all_steps (owner_step E) h"
    using owner_turns.history_step [OF assms(1) _ permitted_owner] by (auto simp: all_steps_def)
  ultimately show ?thesis
    using owners_single_valued [of d h E] assms(1) unfolding concurrent_def by metis
qed

section \<open>Todos\<close>

abbreviation others_kept :: "uuid \<Rightarrow> db \<Rightarrow> db \<Rightarrow> bool" where
  "others_kept uid d d' \<equiv> others_same uid (todo_view_of d) (todo_view_of d')"

text \<open>The call of a user, in turns: each step leaves the todos of others alone, and the result has none.\<close>

definition own_call :: "('a \<Rightarrow> Todo set) \<Rightarrow> uuid \<Rightarrow> db turns \<Rightarrow> go_error + 'a \<Rightarrow> db turns \<Rightarrow> bool" where
  "own_call g uid w r w' \<longleftrightarrow> own_steps (others_kept uid) w w' \<and>
     (\<forall>x. r = Inr x \<longrightarrow> (\<forall>t \<in> g x. Todo_UserID t = uid))"

lemma own_steps_refl [simp]: "own_steps R w w"
  by (simp add: own_steps_def)

lemma own_steps_snoc:
  "own_steps R w w' \<Longrightarrow> R a b \<Longrightarrow> own_steps R w (w'\<lparr>tn_steps := tn_steps w' @ [(a, b)]\<rparr>)"
  by (auto simp: own_steps_def)

lemma own_steps_found: "own_steps R w w' \<Longrightarrow> tn_found w' = tn_found w"
  by (simp add: own_steps_def)

lemma own_call_error [simp]: "own_call g uid w (Inl e) w' \<longleftrightarrow> own_steps (others_kept uid) w w'"
  by (simp add: own_call_def)

text \<open>Looking up one's own todo, in a turn of its own.\<close>

lemma wp_own_lookup:
  assumes "db_inv (tn_next w)"
    and "\<And>t w'. own_steps (others_kept uid) w w' \<Longrightarrow> (key, uid) \<in> todo_owners (tn_next w) \<Longrightarrow>
      TodoRow_UserID t = uid \<Longrightarrow> wp (f t) (own_call g uid w) w'"
  shows "wp (State_Monad.bind (in_turn (TodoRepository_GetTodoByID E key)) (\<lambda>r. case r of
      Inl err \<Rightarrow> State_Monad.return (Inl ErrTodoNotFound)
    | Inr p \<Rightarrow> tryE (deref p) (\<lambda>t. if TodoRow_UserID t \<noteq> uid then State_Monad.return (Inl ErrTodoNotOwned) else f t)))
    (own_call g uid w) w"
proof -
  have seen: "own_steps (others_kept uid) w (w\<lparr>tn_steps := tn_steps w @ [(tn_next w, s)]\<rparr>)"
    if "todo_view_of s = todo_view_of (tn_next w)" for s
    by (rule own_steps_snoc) (simp_all add: that reflpD [OF own_steps_rel(1)] del: todo_view_simps)
  show ?thesis
    unfolding wp_bind wp_in_turn
  proof (rule wp_lookupI [OF todo_repo.GetTodoByID [OF assms(1), unfolded TodoRepository_simps]], goal_cases)
    case (1 t s)
    then have "TodoRow_UserID t = uid \<Longrightarrow> (key, uid) \<in> todo_owners (tn_next w)"
      unfolding todo_owners_def by force
    with assms(2) [OF seen [OF 1(2)]] show ?case
      by (cases "TodoRow_UserID t = uid") (simp_all add: wp_simps seen [OF 1(2)])
  qed (simp_all add: wp_simps seen)
qed

lemma wp_replied_own:
  "wp m (own_call (\<lambda>x. reply_todos (f x)) uid w) w \<Longrightarrow> wp (replied f m) (own_call reply_todos uid w) w"
  unfolding replied_def wp_tryE by (erule wp_mono) (auto simp: wp_return own_call_def split: sum.split)

text \<open>Writing, in a turn.\<close>

lemma wp_own_write:
  assumes law: "wp m (\<lambda>r s'. db_inv s' \<and> writes up eff refused (todo_view_of (tn_next w)) r (todo_view_of s')) (tn_next w)"
    and eff: "\<And>x v'. eff x (todo_view_of (tn_next w)) v' \<Longrightarrow> others_same uid (todo_view_of (tn_next w)) v'"
    and before: "own_steps (others_kept uid) w0 w"
    and after: "\<And>r w'. own_steps (others_kept uid) w0 w' \<Longrightarrow>
      (\<And>x. r = Inr x \<Longrightarrow> \<exists>v'. eff x (todo_view_of (tn_next w)) v') \<Longrightarrow> Q r w'"
  shows "wp (in_turn m) Q w"
  unfolding wp_in_turn
proof (rule wp_mono [OF law])
  fix r s'
  assume r: "db_inv s' \<and> writes up eff refused (todo_view_of (tn_next w)) r (todo_view_of s')"
  then have "others_kept uid (tn_next w) s'"
    using eff by (auto simp: writes_def simp del: todo_view_simps split: sum.splits)
  with before have "own_steps (others_kept uid) w0 (w\<lparr>tn_steps := tn_steps w @ [(tn_next w, s')]\<rparr>)"
    by (rule own_steps_snoc)
  then show "Q r (w\<lparr>tn_steps := tn_steps w @ [(tn_next w, s')]\<rparr>)"
    by (rule after) (use r in auto)
qed

text \<open>All states found satisfy the constraints, and agree on the owners of todos.\<close>

definition owners_known :: "db turns \<Rightarrow> (uuid \<times> uuid) set \<Rightarrow> bool" where
  "owners_known w Q \<longleftrightarrow> single_valued Q \<and> (\<forall>n. db_inv (tn_found w n) \<and> todo_owners (tn_found w n) \<subseteq> Q)"

lemma owners_known_later: "owners_known w Q \<Longrightarrow> own_steps R w w' \<Longrightarrow> owners_known w' Q"
  by (simp add: owners_known_def own_steps_def)

lemma owners_known_inv: "owners_known w Q \<Longrightarrow> db_inv (tn_next w)"
  by (simp add: owners_known_def)

lemma owners_known_owner:
  assumes "owners_known w Q" and "(key, uid) \<in> todo_owners (tn_found w n)"
    and "t \<in> tv_todos (todo_view_of (tn_next w))" and "TodoRow_ID t = key"
  shows "TodoRow_UserID t = uid"
proof -
  have "(key, TodoRow_UserID t) \<in> todo_owners (tn_next w)"
    using assms(3,4) by (auto simp: todo_owners_def simp del: todo_view_simps)
  with assms(1,2) have "(key, TodoRow_UserID t) \<in> Q" "(key, uid) \<in> Q"
    unfolding owners_known_def by blast+
  with assms(1) show ?thesis unfolding owners_known_def by (blast dest: single_valuedD)
qed

lemma list_own:
  assumes "owners_known w Q"
  shows "wp (Todo_ListByUserID (shared_todos (TodoRepository E)) uid) (own_call (\<lambda>ts. reply_todos (TodosReply ts)) uid w) w"
  unfolding Todo_ListByUserID_def shared_simps repository_simps wp_tryE wp_in_turn
  by (rule wp_readI [OF todo_repo.ListTodosByUserID [OF owners_known_inv [OF assms], unfolded TodoRepository_simps]])
    (auto simp: wp_simps own_call_def simp del: todo_view_simps intro!: own_steps_snoc)

lemma create_own:
  assumes "owners_known w Q"
  shows "wp (Todo_Create (shared_todos (TodoRepository E)) uid title description due)
    (own_call (\<lambda>p. reply_todos (TodoReply p)) uid w) w"
proof -
  let ?inp = "\<lparr>tciUserID = uid, tciTitle = title, tciDescription = description, tciIsCompleted = False, tciDueDate = due\<rparr>"
  have "wp (in_turn (TodoRepository_CreateTodo E ?inp)) (\<lambda>r w'. own_steps (others_kept uid) w w' \<and>
      (\<forall>p. r = Inr p \<longrightarrow> (\<exists>v v'. todo_created ?inp p v v'))) w"
    by (rule wp_own_write [OF todo_repo.CreateTodo [OF owners_known_inv [OF assms], unfolded TodoRepository_simps]])
      (auto simp del: todo_view_simps intro: others_same_create)
  then show ?thesis
    unfolding Todo_Create_def shared_simps repository_simps wp_if wp_tryE
    by (cases "title = ''''", simp add: wp_simps)
      (simp only: if_False, erule wp_mono,
        auto simp: wp_simps own_call_def todo_created_def split: sum.split option.split)
qed

lemma update_own:
  assumes known: "owners_known w Q"
  shows "wp (Todo_Update (shared_todos (TodoRepository E)) key uid title description completed due)
    (own_call (\<lambda>p. reply_todos (TodoReply p)) uid w) w"
proof -
  let ?inp = "\<lparr>tuiID = key, tuiTitle = title, tuiDescription = description, tuiIsCompleted = completed, tuiDueDate = due\<rparr>"
  have "wp (tryE (in_turn (TodoRepository_UpdateTodoPartial E ?inp))
      (\<lambda>row. State_Monad.return (Inr (Some (rowToDomain row))))) (own_call (\<lambda>p. reply_todos (TodoReply p)) uid w) w'"
    if w': "own_steps (others_kept uid) w w'" and seen: "(key, uid) \<in> todo_owners (tn_next w)" for w'
  proof -
    note known' = owners_known_later [OF known w']
    have own: "TodoRow_UserID t = uid" if "t \<in> tv_todos (todo_view_of (tn_next w'))" "TodoRow_ID t = key" for t
      using owners_known_owner [OF known' _ that] seen own_steps_found [OF w'] by simp
    show ?thesis
      unfolding wp_tryE
    proof (rule wp_own_write [OF todo_repo.UpdateTodoPartial [OF owners_known_inv [OF known'], unfolded TodoRepository_simps] _ w'], goal_cases)
      case (1 row v')
      then obtain t where "t \<in> tv_todos (todo_view_of (tn_next w'))" "TodoRow_ID t = key"
        by (auto simp: todo_updated_def simp del: todo_view_simps)
      with own show ?case
        by (intro others_same_update [OF todo_repo.todos_id [OF owners_known_inv [OF known']] 1]) (simp_all add: todo_at_def)
    next
      case (2 r w1)
      then show ?case
        using own by (auto simp: wp_simps own_call_def todo_updated_def simp del: todo_view_simps split: sum.split)
    qed
  qed
  then show ?thesis
    unfolding Todo_Update_def shared_simps repository_simps wp_if
    by (auto simp: wp_return intro!: wp_own_lookup [OF owners_known_inv [OF known]])
qed

lemma delete_own:
  assumes known: "owners_known w Q"
  shows "wp (Todo_Delete (shared_todos (TodoRepository E)) key uid) (own_call (\<lambda>_. reply_todos DoneReply) uid w) w"
proof -
  have "wp (in_turn (TodoRepository_DeleteTodo E key)) (own_call (\<lambda>_. {}) uid w) w'"
    if w': "own_steps (others_kept uid) w w'" and seen: "(key, uid) \<in> todo_owners (tn_next w)" for w'
  proof (rule wp_own_write [OF todo_repo.DeleteTodo [OF owners_known_inv [OF owners_known_later [OF known w']],
        unfolded TodoRepository_simps] _ w'], goal_cases)
    case (1 x v')
    then show ?case
      using owners_known_owner [OF owners_known_later [OF known w']] seen own_steps_found [OF w']
      by (auto simp: others_same_def without_todo_def simp del: todo_view_simps)
  qed (simp add: own_call_def)
  then show ?thesis
    unfolding Todo_Delete_def shared_simps repository_simps
    by (auto intro!: wp_own_lookup [OF owners_known_inv [OF known]])
qed

lemma get_own:
  assumes "owners_known w Q"
  shows "wp (Todo_GetByID (shared_todos (TodoRepository E)) key uid) (own_call (\<lambda>p. reply_todos (TodoReply p)) uid w) w"
  unfolding Todo_GetByID_def shared_simps repository_simps
  by (rule wp_own_lookup [OF owners_known_inv [OF assms]]) (simp add: wp_simps own_call_def)

lemma todo_call_own:
  assumes "owners_known w Q"
  shows "wp (todo_call (shared_todos (TodoRepository E)) uid op) (own_call reply_todos uid w) w"
  using list_own [OF assms] get_own [OF assms] create_own [OF assms] update_own [OF assms] delete_own [OF assms]
  by (cases op) (simp_all only: todo_call.simps wp_replied_own)

text \<open>
  C9. However the calls of several users interleave, each step of a user's call leaves every todo of the
  others as it was, and the user is answered none of theirs. The server must not draw an identifier
  twice: the code updates by identifier what it has checked before.
\<close>

theorem concurrent_todos_isolated:
  assumes "concurrent L svc (Repository E) (TodoRepository E) req d h" and "db_inv d"
    and "fresh_identifiers E d (length h)" and "req i = CallTodo uid op"
  shows "(\<forall>a b. (i, a, b) \<in> set h \<longrightarrow> others_same uid (todo_view_of a) (todo_view_of b)) \<and>
    (\<forall>x. answered L svc (Repository E) (TodoRepository E) req d h i (Inr x) \<longrightarrow> (\<forall>t \<in> reply_todos x. Todo_UserID t = uid))"
proof -
  obtain Q where Q: "single_valued Q" "\<forall>x \<in> states_of d h. todo_owners x \<subseteq> Q"
    using history_owners [OF assms(1-3)] by blast
  have own: "own_call reply_todos uid (as_repo w) r (as_repo w')"
    if "range (tn_found (as_repo w)) \<subseteq> states_of d h"
      "run_state (service_answer L svc (shared_users (Repository E)) (shared_todos (TodoRepository E)) (req i)) w = (r, w')"
    for w r w'
  proof -
    have "owners_known (as_repo w) Q"
      using that(1) Q history_inv [OF assms(1,2)] by (auto simp: owners_known_def subset_iff)
    from todo_call_own [OF this] have "wp (service_answer L svc (shared_users (Repository E))
        (shared_todos (TodoRepository E)) (req i)) (\<lambda>r w'. own_call reply_todos uid (as_repo w) r (as_repo w')) w"
      by (simp add: assms(4) wp_on_repo)
    from wpD [OF this that(2)] show ?thesis .
  qed
  have "others_kept uid a b" if step: "(i, a, b) \<in> set h" for a b
  proof -
    obtain rest r where "answers_with L svc (Repository E) (TodoRepository E) (states_of d h) (req i) (steps_of i h @ rest) r"
      using assms(1) unfolding concurrent_def by blast
    then show ?thesis
      using own step_ofI [OF step] unfolding answers_with_def own_call_def own_steps_def by fastforce
  qed
  moreover have "Todo_UserID t = uid" if "answered L svc (Repository E) (TodoRepository E) req d h i (Inr x)"
    "t \<in> reply_todos x" for x t
    using own that unfolding answered_def answers_with_def own_call_def by blast
  ultimately show ?thesis by blast
qed

lemma demo_updating_concurrent: "demo_concurrent demo_updates demo_updating"
  by (rule demo_concurrent [OF demo_updating_chain demo_updating_plays]) (simp add: demo_updating_def)

lemma demo_pg_fresh: "fresh_identifiers demo_pg demo_db (length demo_updating)"
proof -
  have "{roundtrips demo_db ..< roundtrips demo_db + length demo_updating} = {0, 1, 2, 3}"
    by (auto simp: demo_db_def demo_updating_def)
  then show ?thesis
    by (simp only: fresh_identifiers_def Let_def) (simp add: demo_pg_def demo_db_def)
qed

theorem concurrent_todos_isolated_witness:
  "others_same 5 (todo_view_of (demo_sent 2)) (todo_view_of (demo_todo ''Shop for two'' False 2 3))"
  using concurrent_todos_isolated [OF demo_updating_concurrent demo_db_inv demo_pg_fresh demo_updates.simps, of 0]
  by (simp add: demo_updating_def)

section \<open>Updates\<close>

text \<open>The todo is there, with a certain value of what \<open>sel\<close> selects.\<close>

definition todo_has :: "(TodoRow \<Rightarrow> 'x) \<Rightarrow> uuid \<Rightarrow> 'x \<Rightarrow> todo_view \<Rightarrow> bool" where
  "todo_has sel key x v \<longleftrightarrow> (\<exists>t \<in> tv_todos v. TodoRow_ID t = key \<and> sel t = x)"

definition keeps_has :: "(TodoRow \<Rightarrow> 'x) \<Rightarrow> uuid \<Rightarrow> 'x \<Rightarrow> db \<Rightarrow> db \<Rightarrow> bool" where
  "keeps_has sel key x d d' \<longleftrightarrow> (db_inv d \<longrightarrow> todo_has sel key x (todo_view_of d) \<longrightarrow> todo_has sel key x (todo_view_of d'))"

lemma keeps_todos_has: "keeps_todos d d' \<Longrightarrow> keeps_has sel key x d d'"
  by (simp add: keeps_todos_def keeps_has_def todo_has_def)

interpretation has_turns: turn_reads "Repository E" "TodoRepository E" "keeps_has sel key x" for E sel key x
  by (rule reads_turns) (simp add: reads_only_views keeps_todos_has)

lemma io_writes_has:
  assumes "\<And>d. db_inv d \<Longrightarrow> wp m (\<lambda>r d'. db_inv d' \<and> writes up eff refused (todo_view_of d) r (todo_view_of d')) d"
    and "\<And>y v v'. eff y v v' \<Longrightarrow> todo_has sel key x v \<Longrightarrow> todo_has sel key x v'"
  shows "state_io_rel (keeps_has sel key x) m"
proof
  fix r d d'
  assume run: "run_state m d = (r, d')"
  show "keeps_has sel key x d d'"
    unfolding keeps_has_def
  proof (intro impI)
    assume "db_inv d" and has: "todo_has sel key x (todo_view_of d)"
    from wpD [OF assms(1) [OF this(1)] run] have "writes up eff refused (todo_view_of d) r (todo_view_of d')" ..
    with has assms(2) show "todo_has sel key x (todo_view_of d')"
      by (cases r) (auto simp del: todo_view_simps)
  qed
qed

lemma todo_has_updated:
  assumes "todo_updated inp row v v'" and "todo_has sel key x v"
    and "\<And>now t. tuiID inp = key \<Longrightarrow> sel t = x \<Longrightarrow> sel (patched inp now t) = x"
  shows "todo_has sel key x v'"
proof -
  obtain t now where t: "t \<in> tv_todos v" "TodoRow_ID t = tuiID inp"
    and v': "v' = v\<lparr>tv_todos := insert (patched inp now t) (tv_todos v - {t})\<rparr>"
    using assms(1) unfolding todo_updated_def by blast
  obtain t0 where t0: "t0 \<in> tv_todos v" "TodoRow_ID t0 = key" "sel t0 = x"
    using assms(2) unfolding todo_has_def by blast
  show ?thesis
  proof (cases "t0 = t")
    case True
    with t t0 assms(3) show ?thesis unfolding todo_has_def v' by auto
  next
    case False
    with t0 show ?thesis unfolding todo_has_def v' by auto
  qed
qed

text \<open>A call that does not remove the todo, and whose update, if it makes one, keeps the value or sets it.\<close>

fun may_remove :: "service_call \<Rightarrow> uuid \<Rightarrow> bool" where
  "may_remove (CallDeleteApprovedUser k) key \<longleftrightarrow> True"
| "may_remove (CallTodo uid (OpDelete k)) key \<longleftrightarrow> k = key"
| "may_remove _ key \<longleftrightarrow> False"

lemma permitted_has:
  assumes "\<not> may_remove c key"
    and "\<And>uid title description completed due now t. c = CallTodo uid (OpUpdate key title description completed due) \<Longrightarrow>
      sel t = x \<Longrightarrow> sel (patched \<lparr>tuiID = key, tuiTitle = title, tuiDescription = description,
        tuiIsCompleted = completed, tuiDueDate = due\<rparr> now t) = x"
  shows "permitted (Repository E) (TodoRepository E) (keeps_has sel key x) c"
proof (rule permittedI; (simp only: repository_simps)?)
  note keep = io_weaken [OF _ keeps_todos_has]
  show "state_io_rel (keeps_has sel key x) (Repository_CreateUser E uci)"
    "state_io_rel (keeps_has sel key x) (Repository_AssignRoleToUser E uid rid)"
    "state_io_rel (keeps_has sel key x) (Repository_CreateApprovedUser E aci)"
    "state_io_rel (keeps_has sel key x) (Repository_BulkCreateApprovedUsers E bai)" for uci uid rid aci bai
    by (rule keep, rule io_repository_writes, assumption)+
  show "state_io_rel (keeps_has sel key x) (TodoRepository_CreateTodo E inp)" for inp
    by (rule io_writes_has [OF todo_repo.CreateTodo [unfolded TodoRepository_simps]])
      (auto simp: todo_created_def todo_has_def)
  show "state_io_rel (keeps_has sel key x) (TodoRepository_DeleteTodo E k)" if "c = CallTodo uid (OpDelete k)" for uid k
    by (rule io_writes_has [OF todo_repo.DeleteTodo [unfolded TodoRepository_simps]])
      (use that assms(1) in \<open>auto simp: without_todo_def todo_has_def\<close>)
  show "state_io_rel (keeps_has sel key x) (TodoRepository_UpdateTodoPartial E \<lparr>tuiID = k, tuiTitle = title,
      tuiDescription = description, tuiIsCompleted = completed, tuiDueDate = due\<rparr>)"
    if "c = CallTodo uid (OpUpdate k title description completed due)" for uid k title description completed due
    by (rule io_writes_has [OF todo_repo.UpdateTodoPartial [unfolded TodoRepository_simps]], assumption,
        erule (1) todo_has_updated) (use that assms(2) in simp)
qed (use assms(1) in simp)

text \<open>An update that is acknowledged has set what it was asked to set.\<close>

lemma update_sets:
  assumes "\<And>n. db_inv (tn_found w n)"
    and "\<And>now t. sel (patched \<lparr>tuiID = key, tuiTitle = title, tuiDescription = description,
        tuiIsCompleted = completed, tuiDueDate = due\<rparr> now t) = x"
  shows "wp (Todo_Update (shared_todos (TodoRepository E)) key uid title description completed due)
    (\<lambda>r w'. isl r \<or> has_step (\<lambda>a b. todo_has sel key x (todo_view_of b)) w') w"
proof -
  let ?inp = "\<lparr>tuiID = key, tuiTitle = title, tuiDescription = description, tuiIsCompleted = completed, tuiDueDate = due\<rparr>"
  have set_x: "todo_has sel key x v'" if "todo_updated ?inp row v v'" for row v v'
    using that assms(2) by (auto simp: todo_updated_def todo_has_def)
  have writing: "wp (TodoRepository_UpdateTodoPartial E ?inp) Q d"
    if "db_inv d" "\<And>r s'. isl r \<or> todo_has sel key x (todo_view_of s') \<Longrightarrow> Q r s'" for d Q
    by (rule wp_mono [OF todo_repo.UpdateTodoPartial [OF that(1), unfolded TodoRepository_simps]])
      (rule that(2), auto simp: writes_def split: sum.splits simp del: todo_view_simps intro: set_x)
  note read = wp_any [where m = "TodoRepository_GetTodoByID E k" for k]
  show ?thesis
    unfolding Todo_Update_def shared_simps repository_simps
    by (auto simp: wp_simps assms(1) has_step_def split: sum.split option.split intro!: read writing)
qed

lemma acknowledged_has:
  assumes "concurrent L svc (Repository E) (TodoRepository E) req d h" and "db_inv d"
    and req: "req i = CallTodo uid (OpUpdate key title description completed due)"
    and ack: "answered L svc (Repository E) (TodoRepository E) req d h i (Inr y)"
    and others: "\<And>j. j \<in> fst ` set h \<Longrightarrow> permitted (Repository E) (TodoRepository E) (keeps_has sel key x) (req j)"
    and own: "\<And>now t. sel (patched \<lparr>tuiID = key, tuiTitle = title, tuiDescription = description,
        tuiIsCompleted = completed, tuiDueDate = due\<rparr> now t) = x"
  shows "todo_has sel key x (todo_view_of (last_state d h))"
proof -
  obtain w w' where found: "range (tn_found (as_repo w)) \<subseteq> states_of d h"
    and run: "run_state (service_answer L svc (shared_users (Repository E)) (shared_todos (TodoRepository E)) (req i)) w = (Inr y, w')"
    and steps: "tn_steps (as_repo w') = steps_of i h"
    using ack unfolding answered_def answers_with_def by auto
  have "\<And>n. db_inv (tn_found (as_repo w) n)"
    using history_inv [OF assms(1,2)] found by (auto simp: subset_iff)
  from update_sets [where sel = sel and x = x, OF this own] have "wp (service_answer L svc (shared_users (Repository E)) (shared_todos (TodoRepository E)) (req i))
      (\<lambda>r w'. isl r \<or> has_step (\<lambda>a b. todo_has sel key x (todo_view_of b)) (as_repo w')) w"
    unfolding req service_answer.simps todo_call.simps replied_def wp_on_repo wp_tryE
    by (rule wp_mono) (auto simp: wp_return split: sum.split)
  from wpD [OF this run] obtain a b where step: "(i, a, b) \<in> set h" and has: "todo_has sel key x (todo_view_of b)"
    by (auto simp: has_step_def steps dest: step_ofD)
  have chain: "chained d h" using assms(1) by (simp add: concurrent_def)
  have "keeps (\<lambda>s. todo_has sel key x (todo_view_of s)) a b" if "(j, a, b) \<in> set h" for j a b
  proof -
    have "keeps_has sel key x a b"
      by (rule has_turns.history_step [OF assms(1) that others]) (use that in force)
    moreover have "db_inv a" by (rule history_inv [OF assms(1,2)]) (use chained_states [OF chain that] in blast)
    ultimately show ?thesis by (simp add: keeps_has_def keeps_def)
  qed
  then have "all_steps (keeps (\<lambda>s. todo_has sel key x (todo_view_of s))) h" by (auto simp: all_steps_def)
  from chained_around [OF chain reflp_keeps transp_keeps this step] has show ?thesis
    by (simp add: keeps_def)
qed

datatype todo_field = FieldTitle | FieldDescription | FieldCompleted | FieldDueDate

fun sets_field :: "service_call \<Rightarrow> uuid \<Rightarrow> todo_field \<Rightarrow> bool" where
  "sets_field (CallTodo uid (OpUpdate k title description completed due)) key f \<longleftrightarrow> k = key \<and>
     (case f of FieldTitle \<Rightarrow> title \<noteq> None | FieldDescription \<Rightarrow> description \<noteq> None
      | FieldCompleted \<Rightarrow> completed \<noteq> None | FieldDueDate \<Rightarrow> due \<noteq> None)"
| "sets_field _ key f \<longleftrightarrow> False"

definition sets_alone :: "(nat \<Rightarrow> service_call) \<Rightarrow> 's history \<Rightarrow> nat \<Rightarrow> uuid \<Rightarrow> todo_field \<Rightarrow> bool" where
  "sets_alone req h i key f \<longleftrightarrow> sets_field (req i) key f \<and> (\<forall>j \<in> fst ` set h. sets_field (req j) key f \<longrightarrow> j = i)"

text \<open>The fields of a set, as a todo has them and as an update asks for them.\<close>

definition fields_of :: "(todo_field \<Rightarrow> bool) \<Rightarrow> TodoRow \<Rightarrow> string option \<times> string option \<times> bool option \<times> go_time option" where
  "fields_of A t = (if A FieldTitle then Some (TodoRow_Title t) else None,
     if A FieldDescription then TodoRow_Description t else None,
     if A FieldCompleted then Some (TodoRow_IsCompleted t) else None, if A FieldDueDate then TodoRow_DueDate t else None)"

definition fields_asked :: "(todo_field \<Rightarrow> bool) \<Rightarrow> TodoUpdateInput \<Rightarrow> string option \<times> string option \<times> bool option \<times> go_time option" where
  "fields_asked A inp = (if A FieldTitle then tuiTitle inp else None,
     if A FieldDescription then tuiDescription inp else None,
     if A FieldCompleted then tuiIsCompleted inp else None, if A FieldDueDate then tuiDueDate inp else None)"

abbreviation update_input :: "uuid \<Rightarrow> string option \<Rightarrow> string option \<Rightarrow> bool option \<Rightarrow> go_time option \<Rightarrow> TodoUpdateInput" where
  "update_input key title description completed due \<equiv>
     \<lparr>tuiID = key, tuiTitle = title, tuiDescription = description, tuiIsCompleted = completed, tuiDueDate = due\<rparr>"

lemma patched_fields:
  assumes "\<And>f. A f \<Longrightarrow> sets_field (CallTodo uid (OpUpdate key title description completed due)) key f"
  shows "fields_of A (patched (update_input key title description completed due) now t) =
    fields_asked A (update_input key title description completed due)"
  using assms [of FieldTitle] assms [of FieldDescription] assms [of FieldCompleted] assms [of FieldDueDate]
  by (auto simp: fields_of_def fields_asked_def patched_def coalesce_def)

lemma patched_other_fields:
  assumes "\<And>f. A f \<Longrightarrow> \<not> sets_field (CallTodo uid (OpUpdate key title description completed due)) key f"
  shows "fields_of A (patched (update_input key title description completed due) now t) = fields_of A t"
  using assms [of FieldTitle] assms [of FieldDescription] assms [of FieldCompleted] assms [of FieldDueDate]
  by (simp add: fields_of_def patched_def coalesce_def)

text \<open>
  C10. No acknowledged update is lost: when several calls change a todo at the same time and none removes it, the
  todo is there in the end, and each field that only one update sets has the value of that update. The
  statement writes only the columns it is given.
\<close>

theorem acknowledged_update_kept:
  assumes "concurrent L svc (Repository E) (TodoRepository E) req d h" and "db_inv d"
    and req: "req i = CallTodo uid (OpUpdate key title description completed due)"
    and "answered L svc (Repository E) (TodoRepository E) req d h i (Inr y)"
    and stays: "\<And>j. j \<in> fst ` set h \<Longrightarrow> \<not> may_remove (req j) key"
  shows "\<exists>t \<in> tv_todos (todo_view_of (last_state d h)). TodoRow_ID t = key \<and>
    (sets_alone req h i key FieldTitle \<longrightarrow> Some (TodoRow_Title t) = title) \<and>
    (sets_alone req h i key FieldDescription \<longrightarrow> TodoRow_Description t = description) \<and>
    (sets_alone req h i key FieldCompleted \<longrightarrow> Some (TodoRow_IsCompleted t) = completed) \<and>
    (sets_alone req h i key FieldDueDate \<longrightarrow> TodoRow_DueDate t = due)"
proof -
  let ?A = "sets_alone req h i key" and ?inp = "update_input key title description completed due"
  have own: "fields_of ?A (patched ?inp now t) = fields_asked ?A ?inp" for now t
    by (rule patched_fields [where uid = uid]) (simp only: sets_alone_def req)
  have "todo_has (fields_of ?A) key (fields_asked ?A ?inp) (todo_view_of (last_state d h))"
  proof (rule acknowledged_has [where sel = "fields_of ?A" and x = "fields_asked ?A ?inp", OF assms(1-4) _ own])
    fix j
    assume j: "j \<in> fst ` set h"
    show "permitted (Repository E) (TodoRepository E) (keeps_has (fields_of ?A) key (fields_asked ?A ?inp)) (req j)"
    proof (rule permitted_has [OF stays [OF j]])
      fix u title' description' completed' due' now and t :: TodoRow
      assume c: "req j = CallTodo u (OpUpdate key title' description' completed' due')"
        and t: "fields_of ?A t = fields_asked ?A ?inp"
      show "fields_of ?A (patched (update_input key title' description' completed' due') now t) = fields_asked ?A ?inp"
      proof (cases "j = i")
        case True
        with c req have same: "title' = title" "description' = description" "completed' = completed" "due' = due"
          by simp_all
        show ?thesis unfolding same by (rule own)
      next
        case False
        then have "\<not> sets_field (req j) key f" if "?A f" for f
          using that j unfolding sets_alone_def by blast
        from patched_other_fields [where now = now and t = t, OF this [unfolded c]] t show ?thesis by simp
      qed
    qed
  qed
  then show ?thesis unfolding todo_has_def by (auto simp: fields_of_def fields_asked_def split: if_splits)
qed

theorem acknowledged_update_kept_witness:
  "\<exists>t \<in> tv_todos (todo_view_of (last_state demo_db demo_updating)). TodoRow_ID t = 20 \<and>
     TodoRow_Title t = ''Shop for two''"
proof -
  have "demo_updates 0 = CallTodo 5 (OpUpdate 20 (Some ''Shop for two'') None None None)" by simp
  moreover obtain y where "demo_answered demo_updates demo_updating 0 (Inr y)"
    using demo_answered [OF demo_updating_chain demo_updating_plays(1)] demo_updating_answers(1)
    by (cases "demo_answer (demo_updates 0) demo_updating 0") auto
  moreover have "\<not> may_remove (demo_updates j) 20" for j by simp
  ultimately have "\<exists>t \<in> tv_todos (todo_view_of (last_state demo_db demo_updating)). TodoRow_ID t = 20 \<and>
      (sets_alone demo_updates demo_updating 0 20 FieldTitle \<longrightarrow> Some (TodoRow_Title t) = Some ''Shop for two'')"
    using acknowledged_update_kept [OF demo_updating_concurrent demo_db_inv] by blast
  moreover have "sets_alone demo_updates demo_updating 0 20 FieldTitle"
    by (auto simp: sets_alone_def demo_updating_def)
  ultimately show ?thesis by auto
qed

section \<open>Races that are not told apart from failures\<close>


end
