(* ===== verification/Client_Interface.thy ===== *)
theory Client_Interface
  imports Client_Responses
begin

text \<open>
  The client that answers wrappers as one value, \<open>ClientWithResponses\<close> of \<open>internal/api/client.gen.go\<close>
  behind its interface \<open>ClientWithResponsesInterface\<close>, and the methods each wrapper has for the status and the
  content type of the answer it was read from. The bodies the methods take are named as in
  \<open>internal/api/types.gen.go\<close>.
\<close>

section \<open>The interface\<close>

type_synonym ErrorResponse = api_Error

type_synonym CreateApprovedUserJSONRequestBody = api_ApprovedUserRequest
type_synonym BulkCreateApprovedUsersJSONRequestBody = api_BulkApprovedUserRequest
type_synonym LoginUserJSONRequestBody = api_LoginRequest
type_synonym RegisterUserJSONRequestBody = api_RegisterRequest
type_synonym CreateTodoJSONRequestBody = api_CreateTodoRequest
type_synonym UpdateTodoJSONRequestBody = api_UpdateTodoRequest

record ('u, 'w) ClientWithResponsesInterface =
  cwr_ListApprovedUsersWithResponse :: "('u, 'w, ListApprovedUsersResponse) call"
  cwr_CreateApprovedUserWithBodyWithResponse ::
    "string \<Rightarrow> chunk list \<Rightarrow> ('u, 'w, CreateApprovedUserResponse) call"
  cwr_CreateApprovedUserWithResponse ::
    "CreateApprovedUserJSONRequestBody \<Rightarrow> ('u, 'w, CreateApprovedUserResponse) call"
  cwr_BulkCreateApprovedUsersWithBodyWithResponse ::
    "string \<Rightarrow> chunk list \<Rightarrow> ('u, 'w, BulkCreateApprovedUsersResponse) call"
  cwr_BulkCreateApprovedUsersWithResponse ::
    "BulkCreateApprovedUsersJSONRequestBody \<Rightarrow> ('u, 'w, BulkCreateApprovedUsersResponse) call"
  cwr_DeleteApprovedUserWithResponse :: "uuid \<Rightarrow> ('u, 'w, DeleteApprovedUserResponse) call"
  cwr_LoginUserWithBodyWithResponse ::
    "string \<Rightarrow> chunk list \<Rightarrow> ('u, 'w, LoginUserResponse) call"
  cwr_LoginUserWithResponse ::
    "LoginUserJSONRequestBody \<Rightarrow> ('u, 'w, LoginUserResponse) call"
  cwr_RegisterUserWithBodyWithResponse ::
    "string \<Rightarrow> chunk list \<Rightarrow> ('u, 'w, RegisterUserResponse) call"
  cwr_RegisterUserWithResponse ::
    "RegisterUserJSONRequestBody \<Rightarrow> ('u, 'w, RegisterUserResponse) call"
  cwr_GetCurrentUserWithResponse :: "('u, 'w, GetCurrentUserResponse) call"
  cwr_ListTodosWithResponse :: "('u, 'w, ListTodosResponse) call"
  cwr_CreateTodoWithBodyWithResponse ::
    "string \<Rightarrow> chunk list \<Rightarrow> ('u, 'w, CreateTodoResponse) call"
  cwr_CreateTodoWithResponse ::
    "CreateTodoJSONRequestBody \<Rightarrow> ('u, 'w, CreateTodoResponse) call"
  cwr_DeleteTodoWithResponse :: "uuid \<Rightarrow> ('u, 'w, DeleteTodoResponse) call"
  cwr_GetTodoWithResponse :: "uuid \<Rightarrow> ('u, 'w, GetTodoResponse) call"
  cwr_UpdateTodoWithBodyWithResponse ::
    "uuid \<Rightarrow> string \<Rightarrow> chunk list \<Rightarrow> ('u, 'w, UpdateTodoResponse) call"
  cwr_UpdateTodoWithResponse ::
    "uuid \<Rightarrow> UpdateTodoJSONRequestBody \<Rightarrow> ('u, 'w, UpdateTodoResponse) call"

definition ClientWithResponses ::
    "'u client_libs \<Rightarrow> ('u, 'w) ClientInterface \<Rightarrow> ('u, 'w) ClientWithResponsesInterface" where
  "ClientWithResponses L c =
     \<lparr>cwr_ListApprovedUsersWithResponse = ListApprovedUsersWithResponse L c,
      cwr_CreateApprovedUserWithBodyWithResponse = CreateApprovedUserWithBodyWithResponse L c,
      cwr_CreateApprovedUserWithResponse = CreateApprovedUserWithResponse L c,
      cwr_BulkCreateApprovedUsersWithBodyWithResponse = BulkCreateApprovedUsersWithBodyWithResponse L c,
      cwr_BulkCreateApprovedUsersWithResponse = BulkCreateApprovedUsersWithResponse L c,
      cwr_DeleteApprovedUserWithResponse = DeleteApprovedUserWithResponse L c,
      cwr_LoginUserWithBodyWithResponse = LoginUserWithBodyWithResponse L c,
      cwr_LoginUserWithResponse = LoginUserWithResponse L c,
      cwr_RegisterUserWithBodyWithResponse = RegisterUserWithBodyWithResponse L c,
      cwr_RegisterUserWithResponse = RegisterUserWithResponse L c,
      cwr_GetCurrentUserWithResponse = GetCurrentUserWithResponse L c,
      cwr_ListTodosWithResponse = ListTodosWithResponse L c,
      cwr_CreateTodoWithBodyWithResponse = CreateTodoWithBodyWithResponse L c,
      cwr_CreateTodoWithResponse = CreateTodoWithResponse L c,
      cwr_DeleteTodoWithResponse = DeleteTodoWithResponse L c,
      cwr_GetTodoWithResponse = GetTodoWithResponse L c,
      cwr_UpdateTodoWithBodyWithResponse = UpdateTodoWithBodyWithResponse L c,
      cwr_UpdateTodoWithResponse = UpdateTodoWithResponse L c\<rparr>"

section \<open>What the wrappers tell of the answer\<close>

definition CreateApprovedUser_Status :: "CreateApprovedUserResponse \<Rightarrow> string" where
  "CreateApprovedUser_Status r = (case ans_HTTPResponse r of Some rsp \<Rightarrow> hr_Status rsp | None \<Rightarrow> '''')"

definition CreateApprovedUser_StatusCode :: "CreateApprovedUserResponse \<Rightarrow> nat" where
  "CreateApprovedUser_StatusCode r = (case ans_HTTPResponse r of Some rsp \<Rightarrow> hr_StatusCode rsp | None \<Rightarrow> 0)"

definition CreateApprovedUser_ContentType :: "CreateApprovedUserResponse \<Rightarrow> string" where
  "CreateApprovedUser_ContentType r = (case ans_HTTPResponse r of Some rsp \<Rightarrow> response_header rsp ''Content-Type'' | None \<Rightarrow> '''')"

definition BulkCreateApprovedUsers_Status :: "BulkCreateApprovedUsersResponse \<Rightarrow> string" where
  "BulkCreateApprovedUsers_Status r = (case ans_HTTPResponse r of Some rsp \<Rightarrow> hr_Status rsp | None \<Rightarrow> '''')"

definition BulkCreateApprovedUsers_StatusCode :: "BulkCreateApprovedUsersResponse \<Rightarrow> nat" where
  "BulkCreateApprovedUsers_StatusCode r = (case ans_HTTPResponse r of Some rsp \<Rightarrow> hr_StatusCode rsp | None \<Rightarrow> 0)"

definition BulkCreateApprovedUsers_ContentType :: "BulkCreateApprovedUsersResponse \<Rightarrow> string" where
  "BulkCreateApprovedUsers_ContentType r = (case ans_HTTPResponse r of Some rsp \<Rightarrow> response_header rsp ''Content-Type'' | None \<Rightarrow> '''')"

definition DeleteApprovedUser_Status :: "DeleteApprovedUserResponse \<Rightarrow> string" where
  "DeleteApprovedUser_Status r = (case ans_HTTPResponse r of Some rsp \<Rightarrow> hr_Status rsp | None \<Rightarrow> '''')"

definition DeleteApprovedUser_StatusCode :: "DeleteApprovedUserResponse \<Rightarrow> nat" where
  "DeleteApprovedUser_StatusCode r = (case ans_HTTPResponse r of Some rsp \<Rightarrow> hr_StatusCode rsp | None \<Rightarrow> 0)"

definition DeleteApprovedUser_ContentType :: "DeleteApprovedUserResponse \<Rightarrow> string" where
  "DeleteApprovedUser_ContentType r = (case ans_HTTPResponse r of Some rsp \<Rightarrow> response_header rsp ''Content-Type'' | None \<Rightarrow> '''')"

definition LoginUser_Status :: "LoginUserResponse \<Rightarrow> string" where
  "LoginUser_Status r = (case ans_HTTPResponse r of Some rsp \<Rightarrow> hr_Status rsp | None \<Rightarrow> '''')"

definition LoginUser_StatusCode :: "LoginUserResponse \<Rightarrow> nat" where
  "LoginUser_StatusCode r = (case ans_HTTPResponse r of Some rsp \<Rightarrow> hr_StatusCode rsp | None \<Rightarrow> 0)"

definition LoginUser_ContentType :: "LoginUserResponse \<Rightarrow> string" where
  "LoginUser_ContentType r = (case ans_HTTPResponse r of Some rsp \<Rightarrow> response_header rsp ''Content-Type'' | None \<Rightarrow> '''')"

definition RegisterUser_Status :: "RegisterUserResponse \<Rightarrow> string" where
  "RegisterUser_Status r = (case ans_HTTPResponse r of Some rsp \<Rightarrow> hr_Status rsp | None \<Rightarrow> '''')"

definition RegisterUser_StatusCode :: "RegisterUserResponse \<Rightarrow> nat" where
  "RegisterUser_StatusCode r = (case ans_HTTPResponse r of Some rsp \<Rightarrow> hr_StatusCode rsp | None \<Rightarrow> 0)"

definition RegisterUser_ContentType :: "RegisterUserResponse \<Rightarrow> string" where
  "RegisterUser_ContentType r = (case ans_HTTPResponse r of Some rsp \<Rightarrow> response_header rsp ''Content-Type'' | None \<Rightarrow> '''')"

definition GetCurrentUser_Status :: "GetCurrentUserResponse \<Rightarrow> string" where
  "GetCurrentUser_Status r = (case ans_HTTPResponse r of Some rsp \<Rightarrow> hr_Status rsp | None \<Rightarrow> '''')"

definition GetCurrentUser_StatusCode :: "GetCurrentUserResponse \<Rightarrow> nat" where
  "GetCurrentUser_StatusCode r = (case ans_HTTPResponse r of Some rsp \<Rightarrow> hr_StatusCode rsp | None \<Rightarrow> 0)"

definition GetCurrentUser_ContentType :: "GetCurrentUserResponse \<Rightarrow> string" where
  "GetCurrentUser_ContentType r = (case ans_HTTPResponse r of Some rsp \<Rightarrow> response_header rsp ''Content-Type'' | None \<Rightarrow> '''')"

definition ListTodos_Status :: "ListTodosResponse \<Rightarrow> string" where
  "ListTodos_Status r = (case ans_HTTPResponse r of Some rsp \<Rightarrow> hr_Status rsp | None \<Rightarrow> '''')"

definition ListTodos_StatusCode :: "ListTodosResponse \<Rightarrow> nat" where
  "ListTodos_StatusCode r = (case ans_HTTPResponse r of Some rsp \<Rightarrow> hr_StatusCode rsp | None \<Rightarrow> 0)"

definition ListTodos_ContentType :: "ListTodosResponse \<Rightarrow> string" where
  "ListTodos_ContentType r = (case ans_HTTPResponse r of Some rsp \<Rightarrow> response_header rsp ''Content-Type'' | None \<Rightarrow> '''')"

definition CreateTodo_Status :: "CreateTodoResponse \<Rightarrow> string" where
  "CreateTodo_Status r = (case ans_HTTPResponse r of Some rsp \<Rightarrow> hr_Status rsp | None \<Rightarrow> '''')"

definition CreateTodo_StatusCode :: "CreateTodoResponse \<Rightarrow> nat" where
  "CreateTodo_StatusCode r = (case ans_HTTPResponse r of Some rsp \<Rightarrow> hr_StatusCode rsp | None \<Rightarrow> 0)"

definition CreateTodo_ContentType :: "CreateTodoResponse \<Rightarrow> string" where
  "CreateTodo_ContentType r = (case ans_HTTPResponse r of Some rsp \<Rightarrow> response_header rsp ''Content-Type'' | None \<Rightarrow> '''')"

definition DeleteTodo_Status :: "DeleteTodoResponse \<Rightarrow> string" where
  "DeleteTodo_Status r = (case ans_HTTPResponse r of Some rsp \<Rightarrow> hr_Status rsp | None \<Rightarrow> '''')"

definition DeleteTodo_StatusCode :: "DeleteTodoResponse \<Rightarrow> nat" where
  "DeleteTodo_StatusCode r = (case ans_HTTPResponse r of Some rsp \<Rightarrow> hr_StatusCode rsp | None \<Rightarrow> 0)"

definition DeleteTodo_ContentType :: "DeleteTodoResponse \<Rightarrow> string" where
  "DeleteTodo_ContentType r = (case ans_HTTPResponse r of Some rsp \<Rightarrow> response_header rsp ''Content-Type'' | None \<Rightarrow> '''')"

definition GetTodo_Status :: "GetTodoResponse \<Rightarrow> string" where
  "GetTodo_Status r = (case ans_HTTPResponse r of Some rsp \<Rightarrow> hr_Status rsp | None \<Rightarrow> '''')"

definition GetTodo_StatusCode :: "GetTodoResponse \<Rightarrow> nat" where
  "GetTodo_StatusCode r = (case ans_HTTPResponse r of Some rsp \<Rightarrow> hr_StatusCode rsp | None \<Rightarrow> 0)"

definition GetTodo_ContentType :: "GetTodoResponse \<Rightarrow> string" where
  "GetTodo_ContentType r = (case ans_HTTPResponse r of Some rsp \<Rightarrow> response_header rsp ''Content-Type'' | None \<Rightarrow> '''')"

definition UpdateTodo_Status :: "UpdateTodoResponse \<Rightarrow> string" where
  "UpdateTodo_Status r = (case ans_HTTPResponse r of Some rsp \<Rightarrow> hr_Status rsp | None \<Rightarrow> '''')"

definition UpdateTodo_StatusCode :: "UpdateTodoResponse \<Rightarrow> nat" where
  "UpdateTodo_StatusCode r = (case ans_HTTPResponse r of Some rsp \<Rightarrow> hr_StatusCode rsp | None \<Rightarrow> 0)"

definition UpdateTodo_ContentType :: "UpdateTodoResponse \<Rightarrow> string" where
  "UpdateTodo_ContentType r = (case ans_HTTPResponse r of Some rsp \<Rightarrow> response_header rsp ''Content-Type'' | None \<Rightarrow> '''')"

lemmas getter_defs = Status_def StatusCode_def ContentType_def
  CreateApprovedUser_Status_def CreateApprovedUser_StatusCode_def CreateApprovedUser_ContentType_def
  BulkCreateApprovedUsers_Status_def BulkCreateApprovedUsers_StatusCode_def BulkCreateApprovedUsers_ContentType_def
  DeleteApprovedUser_Status_def DeleteApprovedUser_StatusCode_def DeleteApprovedUser_ContentType_def
  LoginUser_Status_def LoginUser_StatusCode_def LoginUser_ContentType_def
  RegisterUser_Status_def RegisterUser_StatusCode_def RegisterUser_ContentType_def
  GetCurrentUser_Status_def GetCurrentUser_StatusCode_def GetCurrentUser_ContentType_def
  ListTodos_Status_def ListTodos_StatusCode_def ListTodos_ContentType_def
  CreateTodo_Status_def CreateTodo_StatusCode_def CreateTodo_ContentType_def
  DeleteTodo_Status_def DeleteTodo_StatusCode_def DeleteTodo_ContentType_def
  GetTodo_Status_def GetTodo_StatusCode_def GetTodo_ContentType_def
  UpdateTodo_Status_def UpdateTodo_StatusCode_def UpdateTodo_ContentType_def

text \<open>No case of a switch touches the HTTP response, so what the wrapper tells is what was received.\<close>

definition keeps_response :: "('a client_answer_scheme) answer_case list \<Rightarrow> bool" where
  "keeps_response cs \<longleftrightarrow> (\<forall>c \<in> set cs. \<forall>v r r'. ac_Put c v r = Some r' \<longrightarrow> ans_HTTPResponse r' = ans_HTTPResponse r)"

lemma keeps_response_simps [simp]:
  "keeps_response []"
  "keeps_response (c # cs) \<longleftrightarrow>
     (\<forall>v r r'. ac_Put c v r = Some r' \<longrightarrow> ans_HTTPResponse r' = ans_HTTPResponse r) \<and> keeps_response cs"
  by (auto simp: keeps_response_def)

lemma switch_keeps_response:
  "keeps_response cs \<Longrightarrow> switch_cases rsp v cs r = Inr r' \<Longrightarrow> ans_HTTPResponse r' = ans_HTTPResponse r"
  by (induction cs) (auto split: if_splits option.splits)

lemma parse_keeps_response:
  assumes "parse_response L rsp response cs = Inr a" and "keeps_response cs"
    and "\<And>bs. ans_HTTPResponse (response bs) = Some rsp"
  shows "ans_HTTPResponse a = Some rsp"
  using assms by (auto simp: parse_response_def dest: switch_keeps_response split: option.splits)

lemma parsed_response:
  "ParseListApprovedUsersResponse L rsp = Inr a0 \<Longrightarrow> ans_HTTPResponse a0 = Some rsp"
  "ParseCreateApprovedUserResponse L rsp = Inr a1 \<Longrightarrow> ans_HTTPResponse a1 = Some rsp"
  "ParseBulkCreateApprovedUsersResponse L rsp = Inr a2 \<Longrightarrow> ans_HTTPResponse a2 = Some rsp"
  "ParseDeleteApprovedUserResponse L rsp = Inr a3 \<Longrightarrow> ans_HTTPResponse a3 = Some rsp"
  "ParseLoginUserResponse L rsp = Inr a4 \<Longrightarrow> ans_HTTPResponse a4 = Some rsp"
  "ParseRegisterUserResponse L rsp = Inr a5 \<Longrightarrow> ans_HTTPResponse a5 = Some rsp"
  "ParseGetCurrentUserResponse L rsp = Inr a6 \<Longrightarrow> ans_HTTPResponse a6 = Some rsp"
  "ParseListTodosResponse L rsp = Inr a7 \<Longrightarrow> ans_HTTPResponse a7 = Some rsp"
  "ParseCreateTodoResponse L rsp = Inr a8 \<Longrightarrow> ans_HTTPResponse a8 = Some rsp"
  "ParseDeleteTodoResponse L rsp = Inr a9 \<Longrightarrow> ans_HTTPResponse a9 = Some rsp"
  "ParseGetTodoResponse L rsp = Inr a10 \<Longrightarrow> ans_HTTPResponse a10 = Some rsp"
  "ParseUpdateTodoResponse L rsp = Inr a11 \<Longrightarrow> ans_HTTPResponse a11 = Some rsp"
  unfolding ParseListApprovedUsersResponse_def ParseCreateApprovedUserResponse_def ParseBulkCreateApprovedUsersResponse_def
    ParseDeleteApprovedUserResponse_def ParseLoginUserResponse_def ParseRegisterUserResponse_def
    ParseGetCurrentUserResponse_def ParseListTodosResponse_def ParseCreateTodoResponse_def
    ParseDeleteTodoResponse_def ParseGetTodoResponse_def ParseUpdateTodoResponse_def
  by (erule parse_keeps_response; auto simp: json_case_def no_content_def split: option.splits)+

lemma with_response_answer:
  assumes "run_state (with_response m parse) w = (Inr a, w')"
  obtains rsp where "run_state m w = (Inr rsp, w')" and "parse rsp = Inr a"
  using assms by (auto simp: with_response_def tryE_def split: prod.splits sum.splits)

lemmas wrapping_defs =
  ListApprovedUsersWithResponse_def CreateApprovedUserWithResponse_def CreateApprovedUserWithBodyWithResponse_def
  BulkCreateApprovedUsersWithResponse_def BulkCreateApprovedUsersWithBodyWithResponse_def DeleteApprovedUserWithResponse_def
  LoginUserWithResponse_def LoginUserWithBodyWithResponse_def RegisterUserWithResponse_def
  RegisterUserWithBodyWithResponse_def GetCurrentUserWithResponse_def ListTodosWithResponse_def
  CreateTodoWithResponse_def CreateTodoWithBodyWithResponse_def DeleteTodoWithResponse_def
  GetTodoWithResponse_def UpdateTodoWithResponse_def UpdateTodoWithBodyWithResponse_def

text \<open>
  What a method of the client answers, the client below it received, and the three methods of the answer
  are those of the HTTP response.
\<close>

lemma wrappers_tell_answer:
  "run_state (cwr_ListApprovedUsersWithResponse (ClientWithResponses L c) eds) w = (Inr a_ListApprovedUsers, w') \<Longrightarrow>
     \<exists>rsp. run_state (ci_ListApprovedUsers c eds) w = (Inr rsp, w') \<and> Status a_ListApprovedUsers = hr_Status rsp \<and>
       StatusCode a_ListApprovedUsers = hr_StatusCode rsp \<and> ContentType a_ListApprovedUsers = response_header rsp ''Content-Type''"
  "run_state (cwr_CreateApprovedUserWithResponse (ClientWithResponses L c) b_CreateApprovedUser eds) w = (Inr a_CreateApprovedUser, w') \<Longrightarrow>
     \<exists>rsp. run_state (ci_CreateApprovedUser c b_CreateApprovedUser eds) w = (Inr rsp, w') \<and> CreateApprovedUser_Status a_CreateApprovedUser = hr_Status rsp \<and>
       CreateApprovedUser_StatusCode a_CreateApprovedUser = hr_StatusCode rsp \<and> CreateApprovedUser_ContentType a_CreateApprovedUser = response_header rsp ''Content-Type''"
  "run_state (cwr_CreateApprovedUserWithBodyWithResponse (ClientWithResponses L c) ct bs eds) w = (Inr a_CreateApprovedUser, w') \<Longrightarrow>
     \<exists>rsp. run_state (ci_CreateApprovedUserWithBody c ct bs eds) w = (Inr rsp, w') \<and> CreateApprovedUser_Status a_CreateApprovedUser = hr_Status rsp \<and>
       CreateApprovedUser_StatusCode a_CreateApprovedUser = hr_StatusCode rsp \<and> CreateApprovedUser_ContentType a_CreateApprovedUser = response_header rsp ''Content-Type''"
  "run_state (cwr_BulkCreateApprovedUsersWithResponse (ClientWithResponses L c) b_BulkCreateApprovedUsers eds) w = (Inr a_BulkCreateApprovedUsers, w') \<Longrightarrow>
     \<exists>rsp. run_state (ci_BulkCreateApprovedUsers c b_BulkCreateApprovedUsers eds) w = (Inr rsp, w') \<and> BulkCreateApprovedUsers_Status a_BulkCreateApprovedUsers = hr_Status rsp \<and>
       BulkCreateApprovedUsers_StatusCode a_BulkCreateApprovedUsers = hr_StatusCode rsp \<and> BulkCreateApprovedUsers_ContentType a_BulkCreateApprovedUsers = response_header rsp ''Content-Type''"
  "run_state (cwr_BulkCreateApprovedUsersWithBodyWithResponse (ClientWithResponses L c) ct bs eds) w = (Inr a_BulkCreateApprovedUsers, w') \<Longrightarrow>
     \<exists>rsp. run_state (ci_BulkCreateApprovedUsersWithBody c ct bs eds) w = (Inr rsp, w') \<and> BulkCreateApprovedUsers_Status a_BulkCreateApprovedUsers = hr_Status rsp \<and>
       BulkCreateApprovedUsers_StatusCode a_BulkCreateApprovedUsers = hr_StatusCode rsp \<and> BulkCreateApprovedUsers_ContentType a_BulkCreateApprovedUsers = response_header rsp ''Content-Type''"
  "run_state (cwr_DeleteApprovedUserWithResponse (ClientWithResponses L c) x eds) w = (Inr a_DeleteApprovedUser, w') \<Longrightarrow>
     \<exists>rsp. run_state (ci_DeleteApprovedUser c x eds) w = (Inr rsp, w') \<and> DeleteApprovedUser_Status a_DeleteApprovedUser = hr_Status rsp \<and>
       DeleteApprovedUser_StatusCode a_DeleteApprovedUser = hr_StatusCode rsp \<and> DeleteApprovedUser_ContentType a_DeleteApprovedUser = response_header rsp ''Content-Type''"
  "run_state (cwr_LoginUserWithResponse (ClientWithResponses L c) b_LoginUser eds) w = (Inr a_LoginUser, w') \<Longrightarrow>
     \<exists>rsp. run_state (ci_LoginUser c b_LoginUser eds) w = (Inr rsp, w') \<and> LoginUser_Status a_LoginUser = hr_Status rsp \<and>
       LoginUser_StatusCode a_LoginUser = hr_StatusCode rsp \<and> LoginUser_ContentType a_LoginUser = response_header rsp ''Content-Type''"
  "run_state (cwr_LoginUserWithBodyWithResponse (ClientWithResponses L c) ct bs eds) w = (Inr a_LoginUser, w') \<Longrightarrow>
     \<exists>rsp. run_state (ci_LoginUserWithBody c ct bs eds) w = (Inr rsp, w') \<and> LoginUser_Status a_LoginUser = hr_Status rsp \<and>
       LoginUser_StatusCode a_LoginUser = hr_StatusCode rsp \<and> LoginUser_ContentType a_LoginUser = response_header rsp ''Content-Type''"
  "run_state (cwr_RegisterUserWithResponse (ClientWithResponses L c) b_RegisterUser eds) w = (Inr a_RegisterUser, w') \<Longrightarrow>
     \<exists>rsp. run_state (ci_RegisterUser c b_RegisterUser eds) w = (Inr rsp, w') \<and> RegisterUser_Status a_RegisterUser = hr_Status rsp \<and>
       RegisterUser_StatusCode a_RegisterUser = hr_StatusCode rsp \<and> RegisterUser_ContentType a_RegisterUser = response_header rsp ''Content-Type''"
  "run_state (cwr_RegisterUserWithBodyWithResponse (ClientWithResponses L c) ct bs eds) w = (Inr a_RegisterUser, w') \<Longrightarrow>
     \<exists>rsp. run_state (ci_RegisterUserWithBody c ct bs eds) w = (Inr rsp, w') \<and> RegisterUser_Status a_RegisterUser = hr_Status rsp \<and>
       RegisterUser_StatusCode a_RegisterUser = hr_StatusCode rsp \<and> RegisterUser_ContentType a_RegisterUser = response_header rsp ''Content-Type''"
  "run_state (cwr_GetCurrentUserWithResponse (ClientWithResponses L c) eds) w = (Inr a_GetCurrentUser, w') \<Longrightarrow>
     \<exists>rsp. run_state (ci_GetCurrentUser c eds) w = (Inr rsp, w') \<and> GetCurrentUser_Status a_GetCurrentUser = hr_Status rsp \<and>
       GetCurrentUser_StatusCode a_GetCurrentUser = hr_StatusCode rsp \<and> GetCurrentUser_ContentType a_GetCurrentUser = response_header rsp ''Content-Type''"
  "run_state (cwr_ListTodosWithResponse (ClientWithResponses L c) eds) w = (Inr a_ListTodos, w') \<Longrightarrow>
     \<exists>rsp. run_state (ci_ListTodos c eds) w = (Inr rsp, w') \<and> ListTodos_Status a_ListTodos = hr_Status rsp \<and>
       ListTodos_StatusCode a_ListTodos = hr_StatusCode rsp \<and> ListTodos_ContentType a_ListTodos = response_header rsp ''Content-Type''"
  "run_state (cwr_CreateTodoWithResponse (ClientWithResponses L c) b_CreateTodo eds) w = (Inr a_CreateTodo, w') \<Longrightarrow>
     \<exists>rsp. run_state (ci_CreateTodo c b_CreateTodo eds) w = (Inr rsp, w') \<and> CreateTodo_Status a_CreateTodo = hr_Status rsp \<and>
       CreateTodo_StatusCode a_CreateTodo = hr_StatusCode rsp \<and> CreateTodo_ContentType a_CreateTodo = response_header rsp ''Content-Type''"
  "run_state (cwr_CreateTodoWithBodyWithResponse (ClientWithResponses L c) ct bs eds) w = (Inr a_CreateTodo, w') \<Longrightarrow>
     \<exists>rsp. run_state (ci_CreateTodoWithBody c ct bs eds) w = (Inr rsp, w') \<and> CreateTodo_Status a_CreateTodo = hr_Status rsp \<and>
       CreateTodo_StatusCode a_CreateTodo = hr_StatusCode rsp \<and> CreateTodo_ContentType a_CreateTodo = response_header rsp ''Content-Type''"
  "run_state (cwr_DeleteTodoWithResponse (ClientWithResponses L c) x eds) w = (Inr a_DeleteTodo, w') \<Longrightarrow>
     \<exists>rsp. run_state (ci_DeleteTodo c x eds) w = (Inr rsp, w') \<and> DeleteTodo_Status a_DeleteTodo = hr_Status rsp \<and>
       DeleteTodo_StatusCode a_DeleteTodo = hr_StatusCode rsp \<and> DeleteTodo_ContentType a_DeleteTodo = response_header rsp ''Content-Type''"
  "run_state (cwr_GetTodoWithResponse (ClientWithResponses L c) x eds) w = (Inr a_GetTodo, w') \<Longrightarrow>
     \<exists>rsp. run_state (ci_GetTodo c x eds) w = (Inr rsp, w') \<and> GetTodo_Status a_GetTodo = hr_Status rsp \<and>
       GetTodo_StatusCode a_GetTodo = hr_StatusCode rsp \<and> GetTodo_ContentType a_GetTodo = response_header rsp ''Content-Type''"
  "run_state (cwr_UpdateTodoWithResponse (ClientWithResponses L c) x b_UpdateTodo eds) w = (Inr a_UpdateTodo, w') \<Longrightarrow>
     \<exists>rsp. run_state (ci_UpdateTodo c x b_UpdateTodo eds) w = (Inr rsp, w') \<and> UpdateTodo_Status a_UpdateTodo = hr_Status rsp \<and>
       UpdateTodo_StatusCode a_UpdateTodo = hr_StatusCode rsp \<and> UpdateTodo_ContentType a_UpdateTodo = response_header rsp ''Content-Type''"
  "run_state (cwr_UpdateTodoWithBodyWithResponse (ClientWithResponses L c) x ct bs eds) w = (Inr a_UpdateTodo, w') \<Longrightarrow>
     \<exists>rsp. run_state (ci_UpdateTodoWithBody c x ct bs eds) w = (Inr rsp, w') \<and> UpdateTodo_Status a_UpdateTodo = hr_Status rsp \<and>
       UpdateTodo_StatusCode a_UpdateTodo = hr_StatusCode rsp \<and> UpdateTodo_ContentType a_UpdateTodo = response_header rsp ''Content-Type''"
  by (auto simp: ClientWithResponses_def wrapping_defs getter_defs parsed_response elim!: with_response_answer)

end
