(* ===== verification/Spec2Isabelle.thy ===== *)
theory Spec2Isabelle
  imports Auth_Correct Todo_Correct Http_Correct Server_Correct Config_Correct Startup_Correct
    Rate_Limit_Correct Client_Server Todo_Http Log_Correct Otel_Correct Lifecycle_Correct Migrate_Correct
    Interleaving_Correct Client_Interface
begin

text \<open>
  Verification of go-backend-template, a REST backend in Go (chi, sqlc over pgx, JWT): registration
  behind a list of approved users, login, token authentication, the administration of the approved
  users, todos that belong to users, the HTTP server in front of them, the process that runs it from its
  start to its exit, and the command that migrates its database.

  \<^bold>\<open>The program and its theories.\<close> Each theory opens with the files it models.

  \<^item> \<open>Prelude\<close>: Go values (identifiers, instants, errors), the state monad with error propagation,
    weakest preconditions (\<open>wp\<close>, collection \<open>wp_simps\<close>), state relations (\<open>io_intros\<close>), and the
    shapes of answer the contracts of the repositories are stated with.
  \<^item> \<open>Domain\<close>: \<open>internal/domain\<close>, \<open>internal/db/dbutil\<close>.
  \<^item> \<open>Logging\<close>, \<open>Otel\<close>: \<open>internal/logging\<close> and \<open>internal/observability\<close>: the levels and the logger,
    the setup of tracing. A log entry is a value (\<open>zap_entry\<close>) that the modelled code adds to a list.
  \<^item> \<open>Schema\<close>: the tables of \<open>migrations/*.up.sql\<close> with their constraints, as the invariant
    \<open>db_inv\<close>, and the effect of inserting and deleting rows, foreign keys included.
  \<^item> \<open>Queries\<close>: the statements of \<open>internal/db/sqlc\<close>, run against a server \<open>pg\<close> that may lose the
    request or the reply of any statement.
  \<^item> \<open>Auth_Rows\<close>, \<open>Auth_Interfaces\<close>, \<open>Auth_Service\<close>, \<open>Auth_Repository\<close>: \<open>internal/auth\<close> but its HTTP
    handlers. The locale \<open>user_repository\<close> is the contract of \<open>UserRepository\<close> over an abstract
    view (\<open>auth_view\<close>: sets of users, approved users, roles, memberships); the service is verified
    inside it and \<open>auth_repo\<close> interprets it on the repository over the database.
  \<^item> \<open>Todo_Rows\<close>, \<open>Todo_Service\<close>, \<open>Todo_Repository\<close>: \<open>internal/todo\<close> likewise, with the locale
    \<open>todo_repository\<close> and its interpretation \<open>todo_repo\<close>.
  \<^item> \<open>Http\<close>: \<open>internal/http\<close> with the request, the response writer and JSON values of the standard
    library. \<open>Api\<close>: the wire types of \<open>internal/api/types.gen.go\<close>. \<open>Api_Server\<close>: the generated stubs
    of \<open>internal/api/server.gen.go\<close>. \<open>Spec\<close>: the embedded API description with its pages. \<open>Validator\<close>: \<open>internal/validator\<close>.
  \<^item> \<open>Middleware\<close>, \<open>Rate_Limit\<close>: \<open>internal/middleware\<close>. The locale \<open>auth_provider\<close> is the contract of
    \<open>AuthProvider\<close>; the guards are verified inside it and \<open>provider\<close> interprets it, in \<open>Server\<close>, on the
    auth service over the database.
  \<^item> \<open>Auth_Handler\<close>, \<open>Todo_Handler\<close>: the handlers of \<open>internal/auth/handler.go\<close> and
    \<open>internal/todo/handler.go\<close>, over records of service operations.
  \<^item> \<open>Config\<close>: \<open>internal/config\<close>. \<open>Router\<close>: \<open>internal/router\<close> and the wiring of \<open>cmd/api/main.go\<close>; \<open>serve\<close> is
    one request through the whole server.
  \<^item> \<open>Startup\<close>: \<open>main\<close> and \<open>run\<close> of \<open>cmd/api/main.go\<close> with \<open>internal/db\<close>, from the configuration to the
    exit code, the deferred releases included; its argument \<open>listen\<close> is what happens while the server
    listens. \<open>Lifecycle\<close>: that part, \<open>startHTTPServer\<close>, as a step relation of the main goroutine, the two
    servers, the channels, the signals, the deadline and the requests in flight.
  \<^item> \<open>Migrations\<close>: the files of \<open>migrations/\<close>, up and down, as statements over a catalogue of tables and
    indexes. \<open>Migrate\<close>: \<open>cmd/migrate/main.go\<close>, its flags, commands and exit code.
  \<^item> \<open>Client\<close>, \<open>Client_Responses\<close>, \<open>Client_Interface\<close>: the generated client, \<open>internal/api/client.gen.go\<close>:
    building and sending requests, parsing responses, and the interface that answers wrappers.
  \<^item> \<open>Interleaving\<close>: calls of the two services that run at the same time. The code of the services runs
    over repositories that take turns (\<open>shared_users\<close>, \<open>shared_todos\<close>): what a method finds is not what the
    method before it left. A history (\<open>concurrent\<close>) is the steps of all calls in the order of the database.
    The locale \<open>turn_reads\<close> lifts a relation that the methods of the repositories keep to every step of
    a history; \<open>Interleaving_Correct\<close> interprets it on the model's repositories for four relations.
  \<^item> \<open>Demo\<close>, \<open>Demo_Server\<close>, \<open>Demo_Interleaving\<close>: a concrete server, database, router, packages and histories, on which the
    witnesses evaluate.

  \<^bold>\<open>The properties.\<close>

  \<^item> \<open>Auth_Correct\<close>, \<open>Todo_Correct\<close>: the operations of the two services on the model's own
    repositories: their effect on every branch, the round trip of tokens, isolation between users.
  \<^item> \<open>Server\<close>, \<open>Headers\<close>, \<open>Server_Correct\<close>: the composition. \<open>Server\<close> shows which statements an operation
    can send and that each change of data passes the guard of its route; \<open>Headers\<close> that handlers keep
    what the middleware has set; \<open>Server_Correct\<close> states access control, the isolation of todos over
    HTTP, the invariant of reachable states, the security headers and CORS.
  \<^item> \<open>Interleaving_Correct\<close>: what survives any interleaving (the constraints of the schema, one account for
    an address, the isolation of todos, acknowledged updates) and the races the program does not tell apart
    from failures.
  \<^item> \<open>Todo_Http\<close>: the handlers of the todos over any service that keeps the contract \<open>todo_contract\<close>. A
    \<open>sublocale\<close> gives it to the service over every repository that keeps \<open>todo_repository\<close>, and \<open>todos\<close>
    interprets it on the service as it is wired.
  \<^item> \<open>Http_Correct\<close>: single operations: the answers of the endpoints, bad bodies, hidden todos, bearer
    tokens, client addresses, the password policy, the route table against the generated one.
  \<^item> \<open>Rate_Limit_Correct\<close>: the limiter with its eviction of idle buckets refines one bucket per client.
  \<^item> \<open>Log_Correct\<close>: what a request leaves in the log. \<open>Otel_Correct\<close>: the bounds tracing is set up with.
  \<^item> \<open>Config_Correct\<close>, \<open>Startup_Correct\<close>: what a loaded configuration and a started server satisfy, and what
    the process releases. \<open>Lifecycle_Correct\<close>: invariants of the listening process by rule induction, that
    a shutdown ends, what the exit code tells.
  \<^item> \<open>Migrate_Correct\<close>: what each command does to the database, and that a server starts on the outcome.
  \<^item> \<open>Client_Correct\<close>: the generated client against the server: requests are read as they were meant and
    every answer but 413 is known. \<open>Client_Server\<close>: a call of the client over the server as one computation,
    and what a user's listing returns.

  \<^bold>\<open>State and effects.\<close> A Go method is a state computation over the tables (and, for the auth service,
  the cached default role and the readings of clock and random source). A returned error is \<open>Inl\<close>; a nil pointer is
  \<open>None\<close>; reading through one is \<open>NilDereference\<close>, which the properties show not to occur. A handler is
  a state computation over an \<open>exchange\<close>: the world of the services and the response writer.
  Every method of the repositories sends one statement at most, and the database runs one statement at a
  time; so calls of the services interleave between the methods, which \<open>Interleaving\<close> models. A call reads the
  cached role once, so the cache and the clock it finds are arbitrary there. Elsewhere
  a request is served in one step, between any two steps of the process; the background sweep of the
  rate limiter is a step of its own at any later time. A deferred call is \<open>defers\<close>: it runs on every
  way out of the function. The messages lost between two statements of a request are arbitrary.

  \<^bold>\<open>Parameters.\<close> Code the repository does not hold is a parameter: the packages uuid, bcrypt and jwt
  (\<open>auth_libs\<close>), what the database server decides (\<open>pg\<close>), the JSON methods of foreign types
  (\<open>json_libs\<close>), the Unicode tables and \<open>net/mail\<close>, path matching, the request validator and binding of
  identifiers (\<open>env\<close>), the token bucket and clock (\<open>limiter_libs\<close>), the environment and the parsers of
  durations, floats and networks (\<open>config_libs\<close>), URLs and their transport (\<open>client_libs\<close>, \<open>net\<close>), the
  loading of the description (\<open>spec_libs\<close>), zap, otel and pgxpool (\<open>zap_libs\<close>, \<open>otel_libs\<close>, \<open>pgxpool_libs\<close>)
  with the release of the tracer and the logger (\<open>main_libs\<close>), golang-migrate (\<open>migrate_lib\<close>). What
  a property relies on about them is stated by named predicates (\<open>token_roundtrip\<close>, \<open>token_expires\<close>,
  \<open>uuid_roundtrip\<close>, \<open>bcrypt_roundtrip\<close>, \<open>server_up\<close>, \<open>monotone_clock\<close>, \<open>fills_within\<close>, \<open>json_text\<close>,
  \<open>reads_times\<close>, \<open>reads_emails\<close>, \<open>router_notes\<close>, \<open>documented_migrate\<close>) which its witness shows to be satisfiable. Nothing is assumed
  of the server's identifiers, since a repeated one violates the primary key, but where a todo may be deleted
  and its identifier be drawn again between two statements of another call: there \<open>fresh_identifiers\<close>
  states that identifiers are not drawn twice.

  \<^bold>\<open>Bounds.\<close> Every loop of the modelled code is a recursion over its list; decoding runes recurses on
  the bytes left, and \<open>runes_of_string\<close> shows that it ends. No fuel is used. The life of the process is a
  relation, without bound; \<open>shutdown_ends\<close> bounds the main goroutine's way out by four steps. \<open>limit_args\<close>
  divides integers where the code divides \<open>float64\<close> values and truncates: the two agree for durations of
  whole seconds and counts below \<open>2^53\<close>.

  \<^bold>\<open>Not modelled.\<close> Which entries zap writes, by level and sampling. Spans: no middleware of the program
  starts one. The content of the Prometheus metrics, and the bytes of the embedded description. The
  interleaving of two requests above the services: handlers and middleware share the limiter alone. Which statement the request timeout cuts off: any may
  be lost. The state of a database after a migration that failed. Texts that are not UTF-8, which
  \<open>encoding/json\<close> would repair. Of PostgreSQL: the refusal of NUL bytes in texts and the rounding of
  instants to microseconds. The modelled code does not panic, so chi's \<open>Recoverer\<close> has no part.
\<close>

end
